(* ===== verification/Baa_Prelude.thy ===== *)
theory Baa_Prelude
  imports Main "HOL-Library.Word" "HOL-Library.Monad_Syntax"
begin

text \<open>
  The prelude of the libbaalue development: the names of the C types the sources
  use, the fact collections of the development, the generic lemmas on lists and words
  that the components share, and the parts of the C string library the sources call on
  pure data (decimal printing and the conversions of the \<open>printf\<close> family).

  The data model is LP64, little endian: \<open>int\<close> has 32 bits, \<open>long\<close>, \<open>size_t\<close> and
  pointers have 64.
\<close>

unbundle bit_operations_syntax

section \<open>C types\<close>

type_synonym byte = "8 word"
type_synonym c_int = "32 word"
type_synonym c_uint = "32 word"
type_synonym c_long = "64 word"
type_synonym c_ulong = "64 word"

named_theorems world_simps "projections of the process state after an operation"
named_theorems quiet_intros "operations that only write diagnostics"
named_theorems step_defs "definitions of the small C operations, for unfolding"

section \<open>Lists\<close>

lemma take_append_replicate:
  "n \<le> length xs \<Longrightarrow> take n (xs @ ys) = take n xs"
  by simp

text \<open>Overwriting a stretch of a list in place: what a bounded C write does to a buffer.\<close>

definition overwrite :: "nat \<Rightarrow> 'a list \<Rightarrow> 'a list \<Rightarrow> 'a list" where
  "overwrite off xs buf = take off buf @ xs @ drop (off + length xs) buf"

lemma length_overwrite [simp]:
  "off + length xs \<le> length buf \<Longrightarrow> length (overwrite off xs buf) = length buf"
  by (simp add: overwrite_def)

lemma nth_overwrite:
  assumes "off + length xs \<le> length buf" "i < length buf"
  shows "overwrite off xs buf ! i =
    (if off \<le> i \<and> i < off + length xs then xs ! (i - off) else buf ! i)"
proof -
  have "length (take off buf) = off" using assms(1) by simp
  then show ?thesis
    using assms by (auto simp: overwrite_def nth_append not_less)
qed

lemma take_overwrite_below: "n \<le> off \<Longrightarrow> off \<le> length buf \<Longrightarrow> take n (overwrite off xs buf) = take n buf"
  by (simp add: overwrite_def min_def)

lemma take_overwrite_upto:
  "off \<le> length buf \<Longrightarrow> take (off + length xs) (overwrite off xs buf) = take off buf @ xs"
  by (simp add: overwrite_def)

lemma overwrite_Nil [simp]: "off \<le> length buf \<Longrightarrow> overwrite off [] buf = buf"
  by (simp add: overwrite_def)

lemma overwrite_append:
  assumes "off + length xs + length ys \<le> length buf"
  shows "overwrite (off + length xs) ys (overwrite off xs buf) = overwrite off (xs @ ys) buf"
  using assms by (cases xs) (auto simp: overwrite_def min_def ac_simps)

lemma drop_overwrite_above:
  "off + length xs \<le> n \<Longrightarrow> off + length xs \<le> length buf \<Longrightarrow>
   drop n (overwrite off xs buf) = drop n buf"
  by (simp add: overwrite_def min_def)

section \<open>Words\<close>

text \<open>The two's complement value and sign extension, by cases on the sign.\<close>

lemma sint_cases:
  "sint (x :: 'a::len word) =
    (if uint x < 2 ^ (LENGTH('a) - 1) then uint x else uint x - 2 ^ LENGTH('a))"
proof -
  let ?n = "LENGTH('a) - 1"
  have n: "(2::int) ^ LENGTH('a) = 2 * 2 ^ ?n" by (metis len_gt_0 power_eq_if less_irrefl)
  have u: "0 \<le> uint x" "uint x < 2 * 2 ^ ?n" using uint_bounded[of x] n by auto
  have s: "sint x = (uint x + 2 ^ ?n) mod (2 * 2 ^ ?n) - 2 ^ ?n"
    using n by (simp add: sint_uint signed_take_bit_eq_take_bit_shift take_bit_eq_mod)
  show ?thesis
  proof (cases "uint x < 2 ^ ?n")
    case True
    then have "(uint x + 2 ^ ?n) mod (2 * 2 ^ ?n) = uint x + 2 ^ ?n"
      using u by (intro mod_pos_pos_trivial) auto
    then show ?thesis using True s by simp
  next
    case False
    have "(uint x + 2 ^ ?n) mod (2 * 2 ^ ?n) = (uint x + 2 ^ ?n - 2 * 2 ^ ?n) mod (2 * 2 ^ ?n)"
      by (metis minus_mod_self2)
    also have "\<dots> = uint x + 2 ^ ?n - 2 * 2 ^ ?n"
      using False u by (intro mod_pos_pos_trivial) auto
    finally show ?thesis using False s n by simp
  qed
qed



lemma scast_cases:
  "(scast (x :: 'a::len word) :: 'b::len word) =
    (if uint x < 2 ^ (LENGTH('a) - 1) then ucast x else ucast x - word_of_int (2 ^ LENGTH('a)))"
proof -
  have s: "scast x = (word_of_int (sint x) :: 'b word)" by simp
  have u: "ucast x = (word_of_int (uint x) :: 'b word)" by simp
  show ?thesis unfolding s sint_cases unfolding u by (simp del: word_of_int_uint)
qed

lemma drop_take_nth4: "p + 4 \<le> length xs \<Longrightarrow> take 4 (drop p xs) = [xs ! p, xs ! (p + 1), xs ! (p + 2), xs ! (p + 3)]"
  by (rule nth_equalityI) (auto simp: less_Suc_eq numeral_eq_Suc)

lemma drop_take_nth2: "p + 2 \<le> length xs \<Longrightarrow> take 2 (drop p xs) = [xs ! p, xs ! (p + 1)]"
  by (rule nth_equalityI) (auto simp: less_Suc_eq numeral_eq_Suc)

lemma drop_take_nth1: "p < length xs \<Longrightarrow> take 1 (drop p xs) = [xs ! p]"
  by (rule nth_equalityI) (auto simp: less_Suc_eq)

section \<open>C strings in a buffer\<close>

text \<open>
  A C string is the stretch of a buffer before its first NUL character; a HOL string
  that stands for the content of a C string has none.
\<close>

definition NUL :: char where
  "NUL = CHR 0x00"

definition no_nul :: "string \<Rightarrow> bool" where
  "no_nul s \<longleftrightarrow> NUL \<notin> set s"

definition c_str :: "char list \<Rightarrow> string" where
  "c_str buf = takeWhile (\<lambda>c. c \<noteq> NUL) buf"

lemma no_nul_simps [simp]:
  "no_nul []" "no_nul (c # s) \<longleftrightarrow> c \<noteq> NUL \<and> no_nul s"
  "no_nul (s @ t) \<longleftrightarrow> no_nul s \<and> no_nul t"
  by (auto simp: no_nul_def)

lemma no_nul_take [simp]: "no_nul s \<Longrightarrow> no_nul (take n s)"
  by (auto simp: no_nul_def dest: in_set_takeD)

lemma no_nul_drop [simp]: "no_nul s \<Longrightarrow> no_nul (drop n s)"
  by (auto simp: no_nul_def dest: in_set_dropD)

lemma no_nul_c_str [simp]: "no_nul (c_str buf)"
  by (auto simp: no_nul_def c_str_def dest: set_takeWhileD)

lemma c_str_append_NUL [simp]: "no_nul s \<Longrightarrow> c_str (s @ NUL # rest) = s"
  by (simp add: c_str_def no_nul_def takeWhile_append)

lemma c_str_no_nul [simp]: "no_nul s \<Longrightarrow> c_str s = s"
  by (auto simp: c_str_def no_nul_def takeWhile_eq_all_conv)

lemma c_str_append: "no_nul s \<Longrightarrow> c_str (s @ t) = s @ c_str t"
  by (simp add: c_str_def no_nul_def takeWhile_append)

lemma c_str_Nil [simp]: "c_str [] = []" and c_str_NUL [simp]: "c_str (NUL # r) = []"
  by (simp_all add: c_str_def)

lemma length_c_str_le: "length (c_str buf) \<le> length buf"
  by (simp add: c_str_def length_takeWhile_le)

lemma length_c_str_less: "NUL \<in> set buf \<Longrightarrow> length (c_str buf) < length buf"
  unfolding c_str_def by (induction buf) auto

lemma length_c_str_index: "i < length buf \<Longrightarrow> buf ! i = NUL \<Longrightarrow> length (c_str buf) \<le> i"
proof (rule ccontr)
  assume i: "i < length buf" "buf ! i = NUL" and "\<not> length (c_str buf) \<le> i"
  then have "i < length (c_str buf)" by simp
  then have "c_str buf ! i = buf ! i" and "c_str buf ! i \<in> set (c_str buf)"
    by (simp add: c_str_def takeWhile_nth, rule nth_mem)
  moreover have "NUL \<notin> set (c_str buf)"
    using no_nul_c_str[of buf] by (simp add: no_nul_def)
  ultimately have "buf ! i \<noteq> NUL" by metis
  with i show False by simp
qed

section \<open>Decimal numbers and formatted output\<close>

definition digit_char :: "nat \<Rightarrow> char" where
  "digit_char d = char_of (48 + d)"

lemma digit_char_eval [simp]:
  "digit_char 0 = CHR ''0''" "digit_char 1 = CHR ''1''" "digit_char (Suc 0) = CHR ''1''"
  "digit_char 2 = CHR ''2''" "digit_char 3 = CHR ''3''" "digit_char 4 = CHR ''4''"
  "digit_char 5 = CHR ''5''" "digit_char 6 = CHR ''6''" "digit_char 7 = CHR ''7''"
  "digit_char 8 = CHR ''8''" "digit_char 9 = CHR ''9''"
  by code_simp+

fun show_nat :: "nat \<Rightarrow> string" where
  "show_nat n = (if n < 10 then [digit_char n] else show_nat (n div 10) @ [digit_char (n mod 10)])"

declare show_nat.simps [simp del]

definition show_int :: "int \<Rightarrow> string" where
  "show_int i = (if i < 0 then CHR ''-'' # show_nat (nat (- i)) else show_nat (nat i))"

definition digit_val :: "char \<Rightarrow> nat" where
  "digit_val c = of_char c - 48"

text \<open>Reading a decimal number back: the inverse the round trip below is stated with.\<close>

fun read_nat :: "nat \<Rightarrow> string \<Rightarrow> nat" where
  "read_nat acc [] = acc"
| "read_nat acc (c # s) = read_nat (10 * acc + digit_val c) s"

lemma digit_val_char [simp]: "d < 10 \<Longrightarrow> digit_val (digit_char d) = d"
  by (simp add: digit_val_def digit_char_def)

lemma read_nat_append: "read_nat acc (s @ t) = read_nat (read_nat acc s) t"
  by (induction s arbitrary: acc) auto

lemma read_show_nat: "read_nat 0 (show_nat n) = n"
proof (induction n rule: show_nat.induct)
  case (1 n)
  show ?case
  proof (cases "n < 10")
    case True
    then show ?thesis by (subst show_nat.simps) simp
  next
    case False
    with "1.IH" have "read_nat 0 (show_nat (n div 10)) = n div 10" by simp
    with False show ?thesis by (subst show_nat.simps) (simp add: read_nat_append)
  qed
qed

lemma show_nat_inj: "show_nat m = show_nat n \<longleftrightarrow> m = n"
  by (metis read_show_nat)

lemma digit_char_neq:
  "d < 10 \<Longrightarrow> digit_char d \<noteq> NUL" "d < 10 \<Longrightarrow> digit_char d \<noteq> CHR ''-''"
proof -
  have v: "of_char (digit_char d) = 48 + d" if "d < 10" for d
    using that by (simp add: digit_char_def)
  show "d < 10 \<Longrightarrow> digit_char d \<noteq> NUL"
    using v[of d] by (auto simp: NUL_def)
  show "d < 10 \<Longrightarrow> digit_char d \<noteq> CHR ''-''"
    using v[of d] by auto
qed

lemma set_show_nat: "set (show_nat n) \<subseteq> digit_char ` {..<10}"
proof (induction n rule: show_nat.induct)
  case (1 n)
  then show ?case by (subst show_nat.simps) auto
qed

lemma no_nul_show_nat [simp]: "no_nul (show_nat n)"
  using set_show_nat[of n] digit_char_neq by (fastforce simp: no_nul_def)

lemma no_nul_show_int [simp]: "no_nul (show_int i)"
  by (simp add: show_int_def NUL_def)

lemma show_nat_ne_Nil [simp]: "show_nat n \<noteq> []"
  by (subst show_nat.simps) simp

lemma show_int_inj: "show_int i = show_int j \<longleftrightarrow> i = j"
proof
  assume eq: "show_int i = show_int j"
  have hd: "hd (show_nat n) \<noteq> CHR ''-''" for n
    using set_show_nat[of n] digit_char_neq(2) hd_in_set[OF show_nat_ne_Nil[of n]] by fastforce
  have "i < 0 \<longleftrightarrow> j < 0"
    using eq hd by (auto simp: show_int_def split: if_splits) (metis list.sel(1))+
  with eq show "i = j"
    by (auto simp: show_int_def show_nat_inj split: if_splits)
qed simp

definition hex_char :: "nat \<Rightarrow> char" where
  "hex_char d = (if d < 10 then digit_char d else char_of (87 + d))"

fun show_hex :: "nat \<Rightarrow> string" where
  "show_hex n = (if n < 16 then [hex_char n] else show_hex (n div 16) @ [hex_char (n mod 16)])"

declare show_hex.simps [simp del]

text \<open>The unsigned hexadecimal digits of an \<open>int\<close>, at least \<open>k\<close> of them.\<close>

definition show_uhex :: "nat \<Rightarrow> int \<Rightarrow> string" where
  "show_uhex k i = (let s = show_hex (nat (i mod 2 ^ 32)) in replicate (k - length s) (CHR ''0'') @ s)"

text \<open>
  The variable arguments of a message, and the text \<open>vsnprintf\<close> makes of a format:
  \<open>%s\<close>, \<open>%d\<close>, \<open>%u\<close>, \<open>%c\<close>, \<open>%x\<close> and \<open>%.2x\<close>, with \<open>l\<close> as a length modifier. A conversion whose
  argument is missing or of the wrong kind prints nothing here, and neither does an
  incomplete \<open>%\<close> at the end of the format.
\<close>

datatype farg = FInt int | FStr string | FChr char

fun fmt_text :: "string \<Rightarrow> farg list \<Rightarrow> string" where
  "fmt_text [] args = []"
| "fmt_text [c] args = (if c = CHR ''%'' then [] else [c])"
| "fmt_text (c # d # f) args =
    (if c \<noteq> CHR ''%'' then c # fmt_text (d # f) args
     else if d = CHR ''l'' then fmt_text (c # f) args
     else if d = CHR ''s'' then
       (case args of FStr s # as \<Rightarrow> s @ fmt_text f as | _ # as \<Rightarrow> fmt_text f as | [] \<Rightarrow> fmt_text f [])
     else if d = CHR ''d'' \<or> d = CHR ''u'' then
       (case args of FInt i # as \<Rightarrow> show_int i @ fmt_text f as | _ # as \<Rightarrow> fmt_text f as | [] \<Rightarrow> fmt_text f [])
     else if d = CHR ''c'' then
       (case args of FChr x # as \<Rightarrow> x # fmt_text f as | _ # as \<Rightarrow> fmt_text f as | [] \<Rightarrow> fmt_text f [])
     else if d = CHR ''x'' then
       (case args of FInt i # as \<Rightarrow> show_uhex 1 i @ fmt_text f as | _ # as \<Rightarrow> fmt_text f as | [] \<Rightarrow> fmt_text f [])
     else if d = CHR ''.'' \<and> take 2 f = ''2x'' then
       (case args of FInt i # as \<Rightarrow> show_uhex 2 i @ fmt_text (drop 2 f) as
        | _ # as \<Rightarrow> fmt_text (drop 2 f) as | [] \<Rightarrow> fmt_text (drop 2 f) [])
     else c # d # fmt_text f args)"

end
