(* ===== verification/Baa_OS.thy ===== *)
theory Baa_OS
  imports Baa_Prelude
begin

text \<open>
  The interface to the operating system and the C library. libbaalue is a layer of
  functions around system calls, so the state of the model is the state of one process:
  the calls it has made with what each returned (the trace), \<open>errno\<close>, and the static
  variables of the library. What the system answers is a parameter of the model: a
  function \<open>w_os\<close> that gives the reply to the n-th call. Nothing is assumed about it here;
  a theorem that relies on documented behaviour of a call states it as a hypothesis.

  Undefined behaviour of C (a write outside a buffer, a read of a missing variable
  argument) does not stop the model: it sets the sticky \<open>w_fault\<close> flag, after which
  nothing the model computes is claimed of the code. The safety theorems show that the
  flag is not set.
\<close>

section \<open>Constants of the C library\<close>

abbreviation (input) ENOENT :: int where "ENOENT \<equiv> 2"
abbreviation (input) EINTR :: int where "EINTR \<equiv> 4"
abbreviation (input) EAGAIN :: int where "EAGAIN \<equiv> 11"
abbreviation (input) EACCES :: int where "EACCES \<equiv> 13"
abbreviation (input) EEXIST :: int where "EEXIST \<equiv> 17"
abbreviation (input) EINVAL :: int where "EINVAL \<equiv> 22"

abbreviation (input) LOG_ERR :: int where "LOG_ERR \<equiv> 3"
abbreviation (input) LOG_INFO :: int where "LOG_INFO \<equiv> 6"
abbreviation (input) LOG_DEBUG :: int where "LOG_DEBUG \<equiv> 7"
abbreviation (input) LOG_DAEMON :: int where "LOG_DAEMON \<equiv> 24"
abbreviation (input) LOG_PID_CONS :: int where "LOG_PID_CONS \<equiv> 3"

abbreviation (input) EXIT_FAILURE :: int where "EXIT_FAILURE \<equiv> 1"
abbreviation (input) EXIT_SUCCESS :: int where "EXIT_SUCCESS \<equiv> 0"

abbreviation (input) SCHED_OTHER :: int where "SCHED_OTHER \<equiv> 0"
abbreviation (input) SCHED_FIFO :: int where "SCHED_FIFO \<equiv> 1"
abbreviation (input) SCHED_RR :: int where "SCHED_RR \<equiv> 2"
abbreviation (input) SCHED_BATCH :: int where "SCHED_BATCH \<equiv> 3"
abbreviation (input) SCHED_IDLE :: int where "SCHED_IDLE \<equiv> 5"

section \<open>Data exchanged with the system\<close>

record timespec =
  tv_sec :: int
  tv_nsec :: int

datatype sockaddr = NoAddr | UnixAddr string | InetAddr string | CanAddr int

record passwd =
  pw_name :: string
  pw_uid :: c_uint
  pw_gid :: c_uint
  pw_gecos :: string
  pw_dir :: string

record group_entry =
  gr_name :: string
  gr_gid :: c_uint

record addrinfo =
  ai_family :: int
  ai_socktype :: int
  ai_protocol :: int
  ai_addr :: sockaddr

record utsname =
  sysname :: string
  release :: string
  version :: string
  machine :: string

section \<open>Calls and replies\<close>

datatype sighandler = SIG_DFL | SIG_IGN | SIG_ERR | Handler string

datatype log_call =
    Syslog int string
  | Fputs_stderr string
  | Fflush_stdout
  | Fflush_all
  | Openlog string int int

datatype mem_call =
    Malloc nat
  | Realloc int nat
  | Free int

datatype file_call =
    Open string int int
  | Close int
  | Read int nat
  | Write int string
  | Ftruncate int nat
  | Unlink string
  | Unlink_null
  | Fcntl_getfd int
  | Fcntl_setfd int int
  | Fcntl_setlk int
  | Shm_open "string option" int int
  | Shm_unlink string
  | Mmap int nat
  | Fopen string
  | Fscanf_d
  | Fclose
  | Printf string
  | Chmod string int
  | Chown string int c_uint

datatype proc_call =
    Fork
  | Exit_now int
  | Setsid
  | Chdir string
  | Sysconf_open_max
  | Getpid
  | Gettid
  | Sigaction int sighandler int
  | Alarm nat
  | Uname
  | Sleep nat
  | System string
  | Sem_open string int int int
  | Sem_unlink string
  | Sem_close
  | Capng_clear
  | Capng_update int
  | Capng_print
  | Capng_apply
  | Getenv string
  | Atexit
  | Sigmask_block_all
  | Sigwait
  | Strsignal int
  | Ctime int

datatype sched_call =
    Sched_setaffinity c_int "nat list"
  | Sched_setscheduler c_int c_int c_int
  | Sched_getaffinity c_int
  | Sched_getscheduler c_int
  | Sched_getparam c_int
  | Sched_rr_get_interval c_int
  | Sched_priority_min int
  | Sched_priority_max int
  | Get_nprocs_conf
  | Get_nprocs
  | Clock_gettime
  | Clock_nanosleep timespec
  | Clock_nanosleep_rel timespec
  | Clock_getres int
  | Pthread_create nat
  | Pthread_join nat
  | Pthread_detach
  | Thread_create string
  | Thread_join string
  | Mutex_lock
  | Mutex_unlock
  | Cond_wait
  | Cond_broadcast

datatype sockopt =
    Timeval int int int
  | Reuseaddr int
  | Can_err_filter c_uint
  | Can_filter "(c_uint \<times> c_uint) list"

datatype sock_call =
    Socket int int int
  | Bind int sockaddr
  | Connect int sockaddr
  | Listen int int
  | Accept int
  | Setsockopt int sockopt
  | Getsockname int
  | Sendto int "byte list" sockaddr
  | Send int "byte list"
  | Recvfrom int nat
  | Recv int nat
  | Getaddrinfo "string option" string int int
  | Freeaddrinfo
  | Ioctl_ifindex int string
  | Ioctl_stamp int
  | Time

datatype db_call =
    Getpwuid c_uint
  | Getpwnam string
  | Getgrgid c_uint
  | Getgrnam string

datatype call =
    Log log_call
  | Mem mem_call
  | File file_call
  | Proc proc_call
  | Sched sched_call
  | Sock sock_call
  | Db db_call

text \<open>
  One reply type for all calls: the returned number (for a call that returns a pointer,
  0 is \<open>NULL\<close>), \<open>errno\<close> after the call, and what the call writes through its pointer
  arguments.
\<close>

record reply =
  rv :: int
  rerr :: int
  rbytes :: "byte list"
  rstr :: string
  rfrom :: sockaddr
  rtime :: timespec
  rpasswd :: "passwd option"
  rgroup :: "group_entry option"
  raddrs :: "addrinfo list"
  ruts :: utsname
  rcpus :: "nat list"
  rprio :: int
  rhandler :: sighandler

definition reply_of :: "int \<Rightarrow> reply" where
  "reply_of n = \<lparr>rv = n, rerr = 0, rbytes = [], rstr = [], rfrom = NoAddr,
     rtime = \<lparr>tv_sec = 0, tv_nsec = 0\<rparr>, rpasswd = None, rgroup = None, raddrs = [],
     ruts = \<lparr>sysname = [], release = [], version = [], machine = []\<rparr>, rcpus = [], rprio = 0,
     rhandler = SIG_DFL\<rparr>"

definition fail_reply :: "int \<Rightarrow> reply" where
  "fail_reply e = (reply_of (-1))\<lparr>rerr := e\<rparr>"

definition bytes_reply :: "byte list \<Rightarrow> reply" where
  "bytes_reply bs = (reply_of (int (length bs)))\<lparr>rbytes := bs\<rparr>"

lemma reply_of_simps [simp]:
  "rv (reply_of n) = n" "rerr (reply_of n) = 0" "rbytes (reply_of n) = []"
  "rstr (reply_of n) = []" "rfrom (reply_of n) = NoAddr" "raddrs (reply_of n) = []"
  "rpasswd (reply_of n) = None" "rgroup (reply_of n) = None"
  "rv (fail_reply e) = -1" "rerr (fail_reply e) = e" "rbytes (fail_reply e) = []"
  "rv (bytes_reply bs) = int (length bs)" "rbytes (bytes_reply bs) = bs"
  "rerr (bytes_reply bs) = 0"
  by (simp_all add: reply_of_def fail_reply_def bytes_reply_def)

section \<open>The process state\<close>

datatype cfault = OutOfBounds | MissingVarArg

type_synonym event = "call \<times> reply"

record world =
  w_os :: "nat \<Rightarrow> call \<Rightarrow> reply"
  w_strerror :: "int \<Rightarrow> string"
  w_unspec :: "nat \<Rightarrow> c_ulong"
  w_trace :: "event list"
  w_errno :: int
  w_use_syslog :: bool
  w_fault :: "cfault option"

definition sys :: "call \<Rightarrow> world \<Rightarrow> reply \<times> world" where
  "sys c w =
    (let r = w_os w (length (w_trace w)) c
     in (r, w\<lparr>w_trace := w_trace w @ [(c, r)], w_errno := rerr r\<rparr>))"

text \<open>A value the C standard leaves unspecified (an uninitialised variable, the upper
  half of the slot of a variable argument): some value that the state determines.\<close>

definition unspec :: "world \<Rightarrow> c_ulong" where
  "unspec w = w_unspec w (length (w_trace w))"

definition fault :: "cfault \<Rightarrow> world \<Rightarrow> world" where
  "fault f w = w\<lparr>w_fault := (case w_fault w of None \<Rightarrow> Some f | Some g \<Rightarrow> Some g)\<rparr>"

definition init_world :: "(nat \<Rightarrow> call \<Rightarrow> reply) \<Rightarrow> world" where
  "init_world os = \<lparr>w_os = os, w_strerror = (\<lambda>_. ''error''), w_unspec = (\<lambda>_. 0), w_trace = [],
     w_errno = 0, w_use_syslog = False, w_fault = None\<rparr>"

lemma init_world_simps [simp]:
  "w_os (init_world os) = os" "w_trace (init_world os) = []" "w_fault (init_world os) = None"
  "w_use_syslog (init_world os) = False" "w_errno (init_world os) = 0"
  by (simp_all add: init_world_def)

fun is_log :: "call \<Rightarrow> bool" where
  "is_log (Log l) = True"
| "is_log c = False"

text \<open>The trace without the diagnostics: the calls that matter to the environment.\<close>

definition io :: "world \<Rightarrow> event list" where
  "io w = filter (\<lambda>e. \<not> is_log (fst e)) (w_trace w)"

text \<open>What a call answers at this point of the run.\<close>

definition answer :: "world \<Rightarrow> call \<Rightarrow> reply" where
  "answer w c = w_os w (length (w_trace w)) c"

lemma io_init [simp]: "io (init_world os) = []"
  by (simp add: io_def)

lemma sys_simps [world_simps]:
  "fst (sys c w) = answer w c"
  "w_os (snd (sys c w)) = w_os w"
  "w_strerror (snd (sys c w)) = w_strerror w"
  "w_unspec (snd (sys c w)) = w_unspec w"
  "w_use_syslog (snd (sys c w)) = w_use_syslog w"
  "w_fault (snd (sys c w)) = w_fault w"
  "w_trace (snd (sys c w)) = w_trace w @ [(c, answer w c)]"
  "w_errno (snd (sys c w)) = rerr (answer w c)"
  "\<not> is_log c \<Longrightarrow> io (snd (sys c w)) = io w @ [(c, answer w c)]"
  by (simp_all add: sys_def answer_def Let_def io_def)

lemma fault_simps [world_simps]:
  "w_os (fault f w) = w_os w" "w_trace (fault f w) = w_trace w" "io (fault f w) = io w"
  "w_fault (fault f w) \<noteq> None" "w_errno (fault f w) = w_errno w"
  by (auto simp: fault_def io_def split: option.splits)

section \<open>Memory accesses of the C library\<close>

definition poke :: "nat \<Rightarrow> 'a list \<Rightarrow> 'a list \<Rightarrow> world \<Rightarrow> 'a list \<times> world" where
  "poke off xs buf w =
    (if off + length xs \<le> length buf then (overwrite off xs buf, w) else (buf, fault OutOfBounds w))"

definition c_strlen :: "char list \<Rightarrow> world \<Rightarrow> nat \<times> world" where
  "c_strlen buf w = (length (c_str buf), if NUL \<in> set buf then w else fault OutOfBounds w)"

definition c_snprintf :: "nat \<Rightarrow> nat \<Rightarrow> string \<Rightarrow> char list \<Rightarrow> world \<Rightarrow> char list \<times> world" where
  "c_snprintf off n text buf w =
    (if n = 0 then (buf, w) else poke off (take (n - 1) text @ [NUL]) buf w)"

definition c_strcat :: "string \<Rightarrow> char list \<Rightarrow> world \<Rightarrow> char list \<times> world" where
  "c_strcat s buf w = (let (n, w) = c_strlen buf w in poke n (s @ [NUL]) buf w)"

definition strncpy_chars :: "nat \<Rightarrow> string \<Rightarrow> char list" where
  "strncpy_chars n src = take n (src @ replicate n NUL)"

definition c_strncpy :: "string \<Rightarrow> nat \<Rightarrow> char list \<Rightarrow> world \<Rightarrow> char list \<times> world" where
  "c_strncpy src n buf w = poke 0 (strncpy_chars n src) buf w"

text \<open>Subtraction of \<open>size_t\<close> values wraps around.\<close>

definition size_sub :: "nat \<Rightarrow> nat \<Rightarrow> nat" where
  "size_sub a b = nat ((int a - int b) mod 2 ^ 64)"

text \<open>The content of an uninitialised character array.\<close>

definition uninit_chars :: "nat \<Rightarrow> world \<Rightarrow> char list" where
  "uninit_chars n w = replicate n (char_of (unat (unspec w)))"

lemma length_uninit_chars [simp]: "length (uninit_chars n w) = n"
  by (simp add: uninit_chars_def)

lemma size_sub_le: "b \<le> a \<Longrightarrow> a < 2 ^ 64 \<Longrightarrow> size_sub a b = a - b"
  by (simp add: size_sub_def)

lemma size_sub_wrap: "size_sub 0 1 = 2 ^ 64 - 1"
  by (simp add: size_sub_def)

lemma c_snprintf_fits:
  assumes "0 < n" "off + n \<le> length buf"
  shows "c_snprintf off n text buf w = (overwrite off (take (n - 1) text @ [NUL]) buf, w)"
  using assms by (auto simp: c_snprintf_def poke_def min_def)

lemma length_strncpy_chars [simp]: "length (strncpy_chars n src) = n"
  by (simp add: strncpy_chars_def)

lemma strncpy_chars_fits: "length src \<le> n \<Longrightarrow> strncpy_chars n src = src @ replicate (n - length src) NUL"
  by (simp add: strncpy_chars_def)

lemma c_str_strncpy: "no_nul src \<Longrightarrow> length src < n \<Longrightarrow> c_str (strncpy_chars n src @ rest) = src"
proof -
  assume "no_nul src" "length src < n"
  then obtain k where "n - length src = Suc k" by (metis Suc_diff_Suc)
  with \<open>no_nul src\<close> \<open>length src < n\<close> show ?thesis by (simp add: strncpy_chars_fits)
qed

lemma poke_fits: "off + length xs \<le> length buf \<Longrightarrow> poke off xs buf w = (overwrite off xs buf, w)"
  by (simp add: poke_def)

lemma length_poke [simp]: "length (fst (poke off xs buf w)) = length buf"
  by (simp add: poke_def)

lemma io_poke [simp]: "io (snd (poke off xs buf w)) = io w"
  by (simp add: poke_def fault_simps)

lemma io_buffer_ops [simp]:
  "io (snd (c_snprintf off n body buf w)) = io w" "io (snd (c_strncpy src n buf w)) = io w"
  by (simp_all add: c_snprintf_def c_strncpy_def)

section \<open>Diagnostics are quiet\<close>

text \<open>
  A state is a quiet successor of another when only diagnostics happened in between: the
  trace grew by log calls, and no static variable and no fault flag changed.
\<close>

definition quiet :: "world \<Rightarrow> world \<Rightarrow> bool" where
  "quiet w w' \<longleftrightarrow>
    (\<exists>l. w_trace w' = w_trace w @ l \<and> (\<forall>e \<in> set l. is_log (fst e))) \<and>
    w_os w' = w_os w \<and> w_strerror w' = w_strerror w \<and> w_unspec w' = w_unspec w \<and>
    w_use_syslog w' = w_use_syslog w \<and> w_fault w' = w_fault w"

lemma quiet_refl [quiet_intros]: "quiet w w"
  by (simp add: quiet_def)

lemma quiet_trans: "quiet u v \<Longrightarrow> quiet v w \<Longrightarrow> quiet u w"
  by (fastforce simp: quiet_def)

lemma quiet_log: "quiet w (snd (sys (Log l) w))"
  by (simp add: quiet_def sys_def Let_def)

lemma quiet_log_trans [quiet_intros]: "quiet w v \<Longrightarrow> quiet w (snd (sys (Log l) v))"
  by (blast intro: quiet_trans quiet_log)

lemma quiet_io: "quiet w w' \<Longrightarrow> io w' = io w"
  by (auto simp: quiet_def io_def)

lemma quiet_fields:
  assumes "quiet w w'"
  shows "w_os w' = w_os w" "w_fault w' = w_fault w" "w_use_syslog w' = w_use_syslog w"
    "w_strerror w' = w_strerror w" "w_unspec w' = w_unspec w"
  using assms by (auto simp: quiet_def)

text \<open>
  The interface of a diagnostic routine: whatever message it is given, it is quiet. The
  facts a caller needs follow once and for all.
\<close>

locale diagnostic =
  fixes msg :: "string \<Rightarrow> farg list \<Rightarrow> world \<Rightarrow> world"
  assumes msg_quiet: "quiet w (msg fmt args w)"
begin

lemma msg_io [simp, world_simps]: "io (msg fmt args w) = io w"
  using msg_quiet by (rule quiet_io)

lemma msg_os [simp, world_simps]: "w_os (msg fmt args w) = w_os w"
  using msg_quiet by (rule quiet_fields)

lemma msg_fault [simp, world_simps]: "w_fault (msg fmt args w) = w_fault w"
  using msg_quiet by (rule quiet_fields)

lemma msg_use_syslog [simp, world_simps]: "w_use_syslog (msg fmt args w) = w_use_syslog w"
  using msg_quiet by (rule quiet_fields)

lemma msg_unspec [simp, world_simps]: "w_unspec (msg fmt args w) = w_unspec w"
  using msg_quiet by (rule quiet_fields)

lemma msg_quiet_trans [quiet_intros]: "quiet w v \<Longrightarrow> quiet w (msg fmt args v)"
  using msg_quiet by (blast intro: quiet_trans)

end

end
