(* ===== verification/Baa_Error.thy ===== *)
theory Baa_Error
  imports Baa_OS
begin

text \<open>
  The error and message functions of \<open>src/src/error.c\<close>: one formatting routine,
  \<open>error_common\<close>, behind ten entry points that differ in whether \<open>errno\<close> is appended, in
  the log level and in how they end. The format texts are the untranslated ones:
  \<open>gettext\<close> is the identity, as it is without a message catalogue.
\<close>

definition BAA_MAXLINE :: nat where
  "BAA_MAXLINE = 254"

section \<open>The formatting routine\<close>

definition error_common :: "bool \<Rightarrow> int \<Rightarrow> int \<Rightarrow> string \<Rightarrow> farg list \<Rightarrow> world \<Rightarrow> world" where
  "error_common errno_flag errno_val log_level fmt va w =
    (let buf = uninit_chars (BAA_MAXLINE + 1) w;
         errno_save = 0;
         errno_save = (if errno_val \<noteq> 0 then errno_val else errno_save);
         errno_save = (if errno_flag then w_errno w else errno_save);
         (buf, w) = c_snprintf 0 BAA_MAXLINE (fmt_text fmt va) buf w;
         (n, w) = c_strlen buf w;
         (buf, w) = (if errno_save \<noteq> 0
                     then c_snprintf n (size_sub BAA_MAXLINE n)
                            (fmt_text '': %s'' [FStr (w_strerror w errno_save)]) buf w
                     else (buf, w));
         (buf, w) = c_strcat ''\<newline>'' buf w;
         w = (if w_use_syslog w then snd (sys (Log (Syslog log_level (c_str buf))) w) else w);
         (_, w) = sys (Log Fflush_stdout) w;
         (_, w) = sys (Log (Fputs_stderr (c_str buf))) w;
         (_, w) = sys (Log Fflush_all) w
     in w)"

section \<open>The entry points\<close>

datatype ending = Exited int | Aborted

definition baa_error_exit :: "string \<Rightarrow> farg list \<Rightarrow> world \<Rightarrow> ending \<times> world" where
  "baa_error_exit fmt va w = (Exited EXIT_FAILURE, error_common True 0 LOG_ERR fmt va w)"

definition baa_info_exit :: "string \<Rightarrow> farg list \<Rightarrow> world \<Rightarrow> ending \<times> world" where
  "baa_info_exit fmt va w = (Exited EXIT_FAILURE, error_common False 0 LOG_INFO fmt va w)"

definition baa_dump_exit :: "string \<Rightarrow> farg list \<Rightarrow> world \<Rightarrow> ending \<times> world" where
  "baa_dump_exit fmt va w = (Aborted, error_common True 0 LOG_ERR fmt va w)"

definition baa_error_msg :: "string \<Rightarrow> farg list \<Rightarrow> world \<Rightarrow> world" where
  "baa_error_msg fmt va w = error_common False 0 LOG_ERR fmt va w"

definition baa_errno_msg :: "string \<Rightarrow> farg list \<Rightarrow> world \<Rightarrow> world" where
  "baa_errno_msg fmt va w = error_common True 0 LOG_ERR fmt va w"

definition baa_info_msg :: "string \<Rightarrow> farg list \<Rightarrow> world \<Rightarrow> world" where
  "baa_info_msg fmt va w = error_common False 0 LOG_INFO fmt va w"

definition baa_debug_msg :: "string \<Rightarrow> farg list \<Rightarrow> world \<Rightarrow> world" where
  "baa_debug_msg fmt va w = error_common True 0 LOG_DEBUG fmt va w"

definition baa_th_error_msg :: "int \<Rightarrow> string \<Rightarrow> farg list \<Rightarrow> world \<Rightarrow> world" where
  "baa_th_error_msg errno_val fmt va w = error_common False errno_val LOG_ERR fmt va w"

definition baa_th_dump_exit :: "int \<Rightarrow> string \<Rightarrow> farg list \<Rightarrow> world \<Rightarrow> ending \<times> world" where
  "baa_th_dump_exit errno_val fmt va w = (Aborted, error_common False errno_val LOG_ERR fmt va w)"

definition baa_th_error_exit :: "int \<Rightarrow> string \<Rightarrow> farg list \<Rightarrow> world \<Rightarrow> ending \<times> world" where
  "baa_th_error_exit errno_val fmt va w =
    (Exited EXIT_FAILURE, error_common False errno_val LOG_ERR fmt va w)"

definition baa_enable_syslog :: "bool \<Rightarrow> string option \<Rightarrow> world \<Rightarrow> world" where
  "baa_enable_syslog use_it name w =
    (if use_it then
       (let w = w\<lparr>w_use_syslog := True\<rparr>
        in case name of
             None \<Rightarrow> w
           | Some nm \<Rightarrow>
               (let (_, w) = sys (Log (Openlog nm LOG_PID_CONS LOG_DAEMON)) w
                in baa_info_msg ''syslog enabled for %s'' [FStr nm] w))
     else
       (let w = w\<lparr>w_use_syslog := False\<rparr>
        in case name of
             None \<Rightarrow> w
           | Some nm \<Rightarrow> baa_info_msg ''syslog disabled for %'' [FStr nm] w))"

section \<open>The message line stays inside its buffer\<close>

text \<open>The line the routine emits: the text, the error string if there is one, cut to the
  buffer, and a newline.\<close>

definition error_line :: "string \<Rightarrow> int \<Rightarrow> string \<Rightarrow> string" where
  "error_line body e es =
    take (BAA_MAXLINE - 1) (body @ (if e \<noteq> 0 then '': '' @ es else [])) @ ''\<newline>''"

definition errno_used :: "bool \<Rightarrow> int \<Rightarrow> world \<Rightarrow> int" where
  "errno_used errno_flag errno_val w = (if errno_flag then w_errno w else errno_val)"

lemma fmt_text_strerror [simp]: "fmt_text '': %s'' [FStr s] = '': '' @ s"
  by simp

text \<open>A bounded print into the tail of a string buffer leaves a terminated string: the old
  content followed by as much of the text as fits.\<close>

lemma snprintf_terminated:
  assumes "0 < n" "off + n \<le> length buf"
  shows "NUL \<in> set (overwrite off (take (n - 1) body @ [NUL]) buf)"
  by (simp add: overwrite_def)

lemma length_snprintf:
  assumes "0 < n" "off + n \<le> length buf"
  shows "length (overwrite off (take (n - 1) body @ [NUL]) buf) = length buf"
  using assms by (intro length_overwrite) auto

lemma length_c_str_snprintf:
  assumes "0 < n" "off + n \<le> length buf"
  shows "length (c_str (overwrite off (take (n - 1) body @ [NUL]) buf)) \<le> off + n - 1"
proof -
  let ?b = "overwrite off (take (n - 1) body @ [NUL]) buf"
  let ?i = "off + length (take (n - 1) body)"
  have len: "length (take (n - 1) body @ [NUL]) \<le> n" using assms(1) by simp
  have "?i < length buf" and "length ?b = length buf" using assms len by auto
  moreover have "?b ! ?i = NUL"
    using assms len by (subst nth_overwrite) (auto simp: nth_append)
  ultimately have "length (c_str ?b) \<le> ?i" by (metis length_c_str_index)
  also have "\<dots> \<le> off + n - 1" using assms(1) by simp
  finally show ?thesis .
qed

lemma c_str_overwrite_text:
  assumes "no_nul body" "off \<le> length buf" "no_nul (take off buf)"
  shows "c_str (overwrite off (body @ [NUL]) buf) = take off buf @ body"
  using assms by (simp add: overwrite_def c_str_append)

definition message_buffer :: "string \<Rightarrow> int \<Rightarrow> string \<Rightarrow> char list \<Rightarrow> char list" where
  "message_buffer body e es buf =
    (let b = overwrite 0 (take (BAA_MAXLINE - 1) body @ [NUL]) buf;
         n = length (c_str b);
         b = (if e \<noteq> 0 then overwrite n (take (BAA_MAXLINE - n - 1) ('': '' @ es) @ [NUL]) b else b)
     in overwrite (length (c_str b)) (''\<newline>'' @ [NUL]) b)"

lemma message_steps:
  assumes buf: "length buf = BAA_MAXLINE + 1"
    and b: "b = overwrite 0 (take (BAA_MAXLINE - 1) body @ [NUL]) buf" and n: "n = length (c_str b)"
    and c: "c = (if e \<noteq> 0
      then overwrite n (take (BAA_MAXLINE - n - 1) ('': '' @ es) @ [NUL]) b else b)"
  shows "NUL \<in> set b" "n < BAA_MAXLINE" "length b = BAA_MAXLINE + 1" "NUL \<in> set c"
    "length c = BAA_MAXLINE + 1" "length (c_str c) < BAA_MAXLINE"
proof -
  have M: "0 < BAA_MAXLINE" by (simp add: BAA_MAXLINE_def)
  have fits: "0 + BAA_MAXLINE \<le> length buf" using buf by simp
  show nb: "NUL \<in> set b" using snprintf_terminated[OF M fits] b by simp
  show lb: "length b = BAA_MAXLINE + 1" using buf b M by simp
  show nM: "n < BAA_MAXLINE"
    using length_c_str_snprintf[OF M fits, of body] M b n by simp
  have fits2: "n + (BAA_MAXLINE - n) \<le> length b" and pos: "0 < BAA_MAXLINE - n" using nM lb by auto
  show "NUL \<in> set c" using nb snprintf_terminated[OF pos fits2] c by simp
  show "length c = BAA_MAXLINE + 1" using c lb length_snprintf[OF pos fits2, of "'': '' @ es"] by simp
  show "length (c_str c) < BAA_MAXLINE"
    using length_c_str_snprintf[OF pos fits2, of "'': '' @ es"] nM n c
    by (cases "e = 0") auto
qed

lemma error_common_eq:
  "error_common errno_flag errno_val level fmt va w =
    (let e = errno_used errno_flag errno_val w;
         line = c_str (message_buffer (fmt_text fmt va) e (w_strerror w e) (uninit_chars (BAA_MAXLINE + 1) w));
         w = (if w_use_syslog w then snd (sys (Log (Syslog level line)) w) else w);
         w = snd (sys (Log Fflush_stdout) w);
         w = snd (sys (Log (Fputs_stderr line)) w)
     in snd (sys (Log Fflush_all) w))"
proof -
  define buf where "buf = uninit_chars (BAA_MAXLINE + 1) w"
  define body where "body = fmt_text fmt va"
  define e where "e = errno_used errno_flag errno_val w"
  define b where "b = overwrite 0 (take (BAA_MAXLINE - 1) body @ [NUL]) buf"
  define n where "n = length (c_str b)"
  define c where "c = (if e \<noteq> 0
    then overwrite n (take (BAA_MAXLINE - n - 1) ('': '' @ w_strerror w e) @ [NUL]) b else b)"
  have buf: "length buf = BAA_MAXLINE + 1" by (simp add: buf_def)
  note steps = message_steps[OF buf b_def n_def c_def]
  have e: "(if errno_flag then w_errno w else if errno_val \<noteq> 0 then errno_val else 0) = e"
    by (simp add: e_def errno_used_def)
  have s1: "c_snprintf 0 BAA_MAXLINE body buf w = (b, w)"
    using buf by (simp add: c_snprintf_fits b_def BAA_MAXLINE_def)
  have s2: "c_strlen b w = (n, w)" using steps(1) by (simp add: c_strlen_def n_def)
  have sz: "size_sub BAA_MAXLINE n = BAA_MAXLINE - n"
    using steps(2) by (simp add: size_sub_le BAA_MAXLINE_def)
  have s3: "(if e \<noteq> 0 then c_snprintf n (size_sub BAA_MAXLINE n)
      (fmt_text '': %s'' [FStr (w_strerror w e)]) b w else (b, w)) = (c, w)"
    using steps(2,3) unfolding sz fmt_text_strerror c_def by (simp add: c_snprintf_fits)
  have s4: "c_strcat ''\<newline>'' c w = (overwrite (length (c_str c)) (''\<newline>'' @ [NUL]) c, w)"
    using steps(4-6) by (simp add: c_strcat_def c_strlen_def poke_def)
  have m: "message_buffer body e (w_strerror w e) buf = overwrite (length (c_str c)) (''\<newline>'' @ [NUL]) c"
    by (simp add: message_buffer_def Let_def b_def n_def c_def)
  show ?thesis
    unfolding error_common_def Let_def e body_def[symmetric] buf_def[symmetric] e_def[symmetric]
      s1 split_conv s2 s3 s4 m
    by (simp add: split_def)
qed

lemma error_common_quiet: "quiet w (error_common errno_flag errno_val level fmt va w)"
  unfolding error_common_eq Let_def by (auto intro!: quiet_intros)

lemma message_buffer_line:
  assumes "length buf = BAA_MAXLINE + 1" "no_nul body" "no_nul es"
  shows "c_str (message_buffer body e es buf) = error_line body e es"
proof -
  define b where "b = overwrite 0 (take (BAA_MAXLINE - 1) body @ [NUL]) buf"
  define n where "n = length (c_str b)"
  define c where "c = (if e \<noteq> 0
    then overwrite n (take (BAA_MAXLINE - n - 1) ('': '' @ es) @ [NUL]) b else b)"
  note steps = message_steps[OF assms(1) b_def n_def c_def]
  have sep: "no_nul '': ''" by (simp add: NUL_def)
  have cb: "c_str b = take (BAA_MAXLINE - 1) body"
    using assms(2) by (simp add: b_def c_str_overwrite_text)
  have tb: "take n b = take (BAA_MAXLINE - 1) body"
    using cb n_def by (metis c_str_def takeWhile_eq_take)
  have cc: "c_str c = take (BAA_MAXLINE - 1) (body @ (if e \<noteq> 0 then '': '' @ es else []))"
  proof (cases "e = 0")
    case True then show ?thesis by (simp add: c_def cb)
  next
    case False
    have "c_str c = take n b @ take (BAA_MAXLINE - n - 1) ('': '' @ es)"
      using False steps(2,3) tb assms(2,3) sep unfolding c_def
      by (simp add: c_str_overwrite_text del: take_append append_Cons append_Nil)
    then show ?thesis
      using False tb n_def cb by (auto simp: min_def)
  qed
  have tc: "take (length (c_str c)) c = c_str c" by (metis c_str_def takeWhile_eq_take)
  have "c_str (overwrite (length (c_str c)) (''\<newline>'' @ [NUL]) c) = c_str c @ ''\<newline>''"
    using steps(5,6) tc by (subst c_str_overwrite_text) (simp_all add: NUL_def)
  then show ?thesis
    unfolding message_buffer_def Let_def error_line_def b_def[symmetric] n_def[symmetric]
      c_def[symmetric] cc[symmetric] by simp
qed

section \<open>The entry points are diagnostics\<close>

interpretation error_msg: diagnostic baa_error_msg
  by unfold_locales (simp add: baa_error_msg_def error_common_quiet)

interpretation errno_msg: diagnostic baa_errno_msg
  by unfold_locales (simp add: baa_errno_msg_def error_common_quiet)

interpretation info_msg: diagnostic baa_info_msg
  by unfold_locales (simp add: baa_info_msg_def error_common_quiet)

interpretation debug_msg: diagnostic baa_debug_msg
  by unfold_locales (simp add: baa_debug_msg_def error_common_quiet)

interpretation th_error_msg: diagnostic "baa_th_error_msg e" for e
  by unfold_locales (simp add: baa_th_error_msg_def error_common_quiet)

lemmas msg_defs = baa_error_msg_def baa_errno_msg_def baa_info_msg_def baa_debug_msg_def
  baa_th_error_msg_def baa_error_exit_def baa_info_exit_def baa_dump_exit_def
  baa_th_error_exit_def baa_th_dump_exit_def

section \<open>Properties\<close>


text \<open>
  C30. The message routine writes exactly one line: when the texts are C strings, the line that
  goes to stderr, and to syslog first when that is enabled, is the formatted text with the
  error string appended (of \<open>errno\<close> when the flag is set, of the given error number
  otherwise, none when that is 0), cut at 253 characters, and a newline.
\<close>
theorem error_common_line:
  assumes "no_nul (fmt_text fmt va)"
    and "no_nul (w_strerror w (errno_used errno_flag errno_val w))"
  shows "map fst (w_trace (error_common errno_flag errno_val level fmt va w)) =
    map fst (w_trace w) @
    (let e = errno_used errno_flag errno_val w;
         line = error_line (fmt_text fmt va) e (w_strerror w e)
     in (if w_use_syslog w then [Log (Syslog level line)] else []) @
        [Log Fflush_stdout, Log (Fputs_stderr line), Log Fflush_all])"
proof -
  let ?e = "errno_used errno_flag errno_val w"
  have line: "c_str (message_buffer (fmt_text fmt va) ?e (w_strerror w ?e) (uninit_chars (BAA_MAXLINE + 1) w)) =
      error_line (fmt_text fmt va) ?e (w_strerror w ?e)"
    using assms by (simp add: message_buffer_line)
  show ?thesis
    unfolding error_common_eq Let_def line by (simp add: world_simps)
qed

theorem error_common_line_witness:
  "map fst (w_trace (error_common True 0 LOG_ERR ''fd %d'' [FInt 7] ((init_world (\<lambda>_ _. reply_of 0))\<lparr>w_errno := 2\<rparr>))) =
    [Log Fflush_stdout, Log (Fputs_stderr ''fd 7: error\<newline>''), Log Fflush_all]"
  by (subst error_common_line)
    (simp_all add: init_world_def show_int_def show_nat.simps NUL_def errno_used_def error_line_def BAA_MAXLINE_def)

end
