(* ===== verification/Baa_Wrapper.thy ===== *)
theory Baa_Wrapper
  imports Baa_Error
begin

text \<open>
  The wrapper of \<open>src/src/wrapper.c\<close> and the retry interface. Several places of the library
  repeat a system call for as long as it is interrupted by a signal. Such a loop need not
  end, so it is an option-valued function in which \<open>None\<close> is "does not return". What all
  of them promise, once, is the interface \<open>eintr_retry\<close> below.
\<close>

section \<open>Retrying an interrupted call\<close>

definition interrupted :: "reply \<Rightarrow> bool" where
  "interrupted r \<longleftrightarrow> rv r = -1 \<and> rerr r = EINTR"

text \<open>The state after the same call was made \<open>n\<close> times.\<close>

fun after_calls :: "call \<Rightarrow> nat \<Rightarrow> world \<Rightarrow> world" where
  "after_calls c 0 w = w"
| "after_calls c (Suc n) w = after_calls c n (snd (sys c w))"

text \<open>The first \<open>n\<close> attempts are interrupted and the next one is not.\<close>

definition interrupted_times :: "call \<Rightarrow> nat \<Rightarrow> world \<Rightarrow> bool" where
  "interrupted_times c n w \<longleftrightarrow>
    (\<forall>i<n. interrupted (answer (after_calls c i w) c)) \<and> \<not> interrupted (answer (after_calls c n w) c)"

lemma after_calls_fields [simp]:
  "w_os (after_calls c n w) = w_os w" "w_fault (after_calls c n w) = w_fault w"
  by (induction n arbitrary: w) (simp_all add: sys_simps)

lemma length_after_calls [simp]: "length (w_trace (after_calls c n w)) = length (w_trace w) + n"
  by (induction n arbitrary: w) (simp_all add: sys_simps)

lemma answer_after_calls: "answer (after_calls c n w) d = w_os w (length (w_trace w) + n) d"
  by (simp add: answer_def)

lemma map_fst_after_calls: "map fst (w_trace (after_calls c n w)) = map fst (w_trace w) @ replicate n c"
  by (induction n arbitrary: w) (simp_all add: sys_simps replicate_append_same[symmetric])

lemma io_after_calls:
  "\<not> is_log c \<Longrightarrow> map fst (io (after_calls c n w)) = map fst (io w) @ replicate n c"
  by (induction n arbitrary: w) (simp_all add: sys_simps replicate_append_same[symmetric])

lemma interrupted_times_0: "interrupted_times c 0 w \<longleftrightarrow> \<not> interrupted (answer w c)"
  by (simp add: interrupted_times_def)

lemma interrupted_times_Suc:
  "interrupted_times c (Suc n) w \<longleftrightarrow> interrupted (answer w c) \<and> interrupted_times c n (snd (sys c w))"
  by (auto simp: interrupted_times_def less_Suc_eq_0_disj all_conj_distrib)

lemma interrupted_times_unique:
  "interrupted_times c n w \<Longrightarrow> interrupted_times c m w \<Longrightarrow> n = m"
  by (metis interrupted_times_def linorder_neqE_nat)

lemma interrupted_times_exists:
  assumes "\<not> interrupted (w_os w (length (w_trace w) + k) c)"
  shows "\<exists>n \<le> k. interrupted_times c n w"
proof -
  define n where "n = (LEAST n. \<not> interrupted (w_os w (length (w_trace w) + n) c))"
  have "\<not> interrupted (w_os w (length (w_trace w) + n) c)" and "n \<le> k"
    using assms unfolding n_def by (metis (mono_tags) LeastI, simp add: Least_le)
  moreover have "\<forall>i<n. interrupted (w_os w (length (w_trace w) + i) c)"
    unfolding n_def using not_less_Least by blast
  ultimately show ?thesis by (auto simp: interrupted_times_def answer_after_calls)
qed

locale eintr_retry =
  fixes c :: call and attempt :: "world \<Rightarrow> 'a option" and finish :: "reply \<Rightarrow> world \<Rightarrow> 'a option"
  assumes attempt_unfold: "attempt w =
    (if interrupted (answer w c) then attempt (snd (sys c w)) else finish (answer w c) (snd (sys c w)))"
begin

lemma retry_result:
  "interrupted_times c n w \<Longrightarrow>
   attempt w = finish (answer (after_calls c n w) c) (after_calls c (Suc n) w)"
proof (induction n arbitrary: w)
  case 0
  then show ?case by (subst attempt_unfold) (simp add: interrupted_times_0)
next
  case (Suc n)
  then have "attempt w = attempt (snd (sys c w))"
    by (subst attempt_unfold) (simp add: interrupted_times_Suc)
  with Suc show ?case by (simp add: interrupted_times_Suc)
qed

lemma retry_returns:
  assumes "\<not> interrupted (w_os w (length (w_trace w) + k) c)"
  shows "\<exists>n \<le> k. interrupted_times c n w \<and>
    attempt w = finish (answer (after_calls c n w) c) (after_calls c (Suc n) w)"
  using interrupted_times_exists[OF assms] retry_result by blast

end

section \<open>Closing a descriptor\<close>

partial_function (option) baa_wrap_close :: "int \<Rightarrow> world \<Rightarrow> world option" where
  "baa_wrap_close fd w =
    (let r = answer w (File (Close fd)); w = snd (sys (File (Close fd)) w)
     in if rv r = -1 then
          (if w_errno w = EINTR then baa_wrap_close fd w
           else Some (baa_errno_msg ''FATAL: could not close fd %d'' [FInt fd] w))
        else Some w)"

definition close_finish :: "int \<Rightarrow> reply \<Rightarrow> world \<Rightarrow> world option" where
  "close_finish fd r w =
    (if rv r = -1 then Some (baa_errno_msg ''FATAL: could not close fd %d'' [FInt fd] w) else Some w)"

interpretation close_retry: eintr_retry "File (Close fd)" "baa_wrap_close fd" "close_finish fd" for fd
  by unfold_locales
    (subst baa_wrap_close.simps, auto simp: interrupted_def close_finish_def sys_simps Let_def)

text \<open>
  C31. Closing a descriptor: if some attempt is not interrupted, the wrapper returns after the first
  such attempt; it has made exactly that many \<open>close\<close> calls on the descriptor and no other
  call but diagnostics, and those only when the last attempt failed.
\<close>
theorem wrap_close_returns:
  assumes "\<not> interrupted (w_os w (length (w_trace w) + k) (File (Close fd)))"
  shows "\<exists>n \<le> k. \<exists>w'. interrupted_times (File (Close fd)) n w \<and> baa_wrap_close fd w = Some w' \<and>
    map fst (io w') = map fst (io w) @ replicate (Suc n) (File (Close fd)) \<and> w_fault w' = w_fault w"
proof -
  let ?c = "File (Close fd)"
  obtain n where n: "n \<le> k" "interrupted_times ?c n w"
    and res: "baa_wrap_close fd w = close_finish fd (answer (after_calls ?c n w) ?c) (after_calls ?c (Suc n) w)"
    using close_retry.retry_returns[OF assms] by blast
  have io: "map fst (io (after_calls ?c m w)) = map fst (io w) @ replicate m ?c" for m
    by (simp add: io_after_calls)
  have fin: "\<exists>w'. close_finish fd r v = Some w' \<and> io w' = io v \<and> w_fault w' = w_fault v" for r v
    by (simp add: close_finish_def)
  obtain w' where "close_finish fd (answer (after_calls ?c n w) ?c) (after_calls ?c (Suc n) w) = Some w'"
    and "io w' = io (after_calls ?c (Suc n) w)" and "w_fault w' = w_fault w"
    using fin[of "answer (after_calls ?c n w) ?c" "after_calls ?c (Suc n) w"]
    by (auto simp del: after_calls.simps)
  with n res io[of "Suc n"] show ?thesis by auto
qed

theorem wrap_close_returns_witness:
  "let w = init_world (\<lambda>n _. if n = 0 then fail_reply EINTR else reply_of 0)
   in \<exists>n \<le> 1. \<exists>w'. interrupted_times (File (Close 3)) n w \<and> baa_wrap_close 3 w = Some w' \<and>
     map fst (io w') = replicate (Suc n) (File (Close 3)) \<and> w_fault w' = None"
  using wrap_close_returns[of "init_world (\<lambda>n _. if n = 0 then fail_reply EINTR else reply_of 0)" 1 3]
  by (simp add: interrupted_def Let_def)

end
