(* ===== verification/Baa_Shmem.thy ===== *)
theory Baa_Shmem
  imports Baa_Wrapper
begin

text \<open>
  Shared memory segments, \<open>src/src/sh_mem.c\<close>. A \<open>goto\<close> that repeats an interrupted call is an
  option-valued recursion; what follows a stage of the function is kept as a continuation on
  the value \<open>Inr\<close> of that stage, and \<open>Inl\<close> is a \<open>return\<close>.
\<close>

section \<open>Flags\<close>

abbreviation (input) O_RDONLY :: int where "O_RDONLY \<equiv> 0"
abbreviation (input) O_RDWR :: int where "O_RDWR \<equiv> 0x2"
abbreviation (input) O_CREAT :: int where "O_CREAT \<equiv> 0x40"
abbreviation (input) O_EXCL :: int where "O_EXCL \<equiv> 0x80"
abbreviation (input) O_TRUNC :: int where "O_TRUNC \<equiv> 0x200"
abbreviation (input) O_CLOEXEC :: int where "O_CLOEXEC \<equiv> 0x80000"
abbreviation (input) S_IRUSR :: int where "S_IRUSR \<equiv> 0x100"
abbreviation (input) S_IWUSR :: int where "S_IWUSR \<equiv> 0x80"
abbreviation (input) S_IRGRP :: int where "S_IRGRP \<equiv> 0x20"
abbreviation (input) S_IWGRP :: int where "S_IWGRP \<equiv> 0x10"
abbreviation (input) S_IROTH :: int where "S_IROTH \<equiv> 0x4"

text \<open>How \<open>%s\<close> prints a pointer that may be \<open>NULL\<close>.\<close>

definition str_arg :: "string option \<Rightarrow> farg" where
  "str_arg s = FStr (case s of None \<Rightarrow> ''(null)'' | Some t \<Rightarrow> t)"

section \<open>The handle\<close>

partial_function (option) shmem_open_cmd :: "string option \<Rightarrow> int \<Rightarrow> int \<Rightarrow> world \<Rightarrow> ((int + int) \<times> world) option" where
  "shmem_open_cmd name access_mode user_mode w =
    (let c = File (Shm_open name access_mode user_mode);
         fd = rv (answer w c);
         w = snd (sys c w)
     in if fd = -1 \<and> w_errno w = EINTR then shmem_open_cmd name access_mode user_mode w
        else if w_errno w = EEXIST
        then Some (Inl EEXIST, baa_errno_msg ''shared memory segmente %s already exist'' [str_arg name] w)
        else Some (Inl (-1), baa_errno_msg ''could not open %s'' [str_arg name] w))"

partial_function (option) shmem_ftruncate_cmd :: "string option \<Rightarrow> int \<Rightarrow> nat \<Rightarrow> world \<Rightarrow> ((int + int) \<times> world) option" where
  "shmem_ftruncate_cmd name fd sz w =
    (let c = File (Ftruncate fd sz);
         ret = rv (answer w c);
         w = snd (sys c w)
     in if ret = -1 \<and> w_errno w = EINTR then shmem_ftruncate_cmd name fd sz w
        else Some (Inl (-1), baa_errno_msg ''could not truncate shmem segment %s'' [str_arg name] w))"

definition shmem_mmap :: "string option \<Rightarrow> int \<Rightarrow> nat \<Rightarrow> world \<Rightarrow> int \<times> int \<times> world" where
  "shmem_mmap name fd sz w =
    (let (r, w) = sys (File (Mmap fd sz)) w
     in if rv r = -1
        then (let w = baa_errno_msg ''could not truncate shmem segment %s'' [str_arg name] w;
                  (_, w) = sys (File (Close fd)) w
              in (-1, rv r, w))
        else (fd, rv r, w))"

definition shmem_handle :: "string option \<Rightarrow> nat \<Rightarrow> int \<Rightarrow> int \<Rightarrow> int \<Rightarrow> world \<Rightarrow> (int \<times> int \<times> world) option" where
  "shmem_handle name sz access_mode user_mode mmap_seg w =
    (let w = (if name = None then baa_info_msg ''name for shared memory segment is NULL'' [] w else w)
     in case shmem_open_cmd name access_mode user_mode w of
          None \<Rightarrow> None
        | Some (Inl ret, w) \<Rightarrow> Some (ret, mmap_seg, w)
        | Some (Inr fd, w) \<Rightarrow>
            (case shmem_ftruncate_cmd name fd sz w of
               None \<Rightarrow> None
             | Some (Inl ret, w) \<Rightarrow> Some (ret, mmap_seg, w)
             | Some (Inr _, w) \<Rightarrow> Some (shmem_mmap name fd sz w)))"

definition baa_shmem_server :: "string option \<Rightarrow> nat \<Rightarrow> int \<Rightarrow> world \<Rightarrow> (int \<times> int \<times> world) option" where
  "baa_shmem_server name sz mmap_seg w =
    shmem_handle name sz (O_RDWR OR O_CREAT OR O_EXCL OR O_CLOEXEC)
      (S_IWUSR OR S_IRUSR OR S_IRGRP OR S_IWGRP OR S_IROTH) mmap_seg w"

definition baa_shmem_client :: "string option \<Rightarrow> nat \<Rightarrow> int \<Rightarrow> world \<Rightarrow> (int \<times> int \<times> world) option" where
  "baa_shmem_client name sz mmap_seg w =
    shmem_handle name sz (O_RDWR OR O_CLOEXEC)
      (S_IWUSR OR S_IRUSR OR S_IRGRP OR S_IWGRP OR S_IROTH) mmap_seg w"

definition baa_unlink_mmap_seg :: "string \<Rightarrow> world \<Rightarrow> world" where
  "baa_unlink_mmap_seg name w =
    (let (r, w) = sys (File (Shm_unlink name)) w
     in if rv r = -1 then baa_errno_msg ''could not unlink %'' [FStr name] w else w)"

section \<open>Properties\<close>

definition shmem_open_finish :: "string option \<Rightarrow> reply \<Rightarrow> world \<Rightarrow> ((int + int) \<times> world) option" where
  "shmem_open_finish name r w =
    (if rerr r = EEXIST
     then Some (Inl EEXIST, baa_errno_msg ''shared memory segmente %s already exist'' [str_arg name] w)
     else Some (Inl (-1), baa_errno_msg ''could not open %s'' [str_arg name] w))"

interpretation shm_open_retry: eintr_retry "File (Shm_open name am um)" "shmem_open_cmd name am um"
  "shmem_open_finish name" for name am um
  by unfold_locales
    (subst shmem_open_cmd.simps, simp add: interrupted_def shmem_open_finish_def sys_simps Let_def)

lemma open_finish_result:
  "\<exists>ret w'. shmem_open_finish name r w = Some (Inl ret, w') \<and> ret \<in> {-1, EEXIST} \<and> io w' = io w"
  by (simp add: shmem_open_finish_def)

text \<open>
  C35. A shared memory handle is never obtained. Whatever the system answers, once an attempt to open the
  segment is not interrupted the function returns -1 or \<open>EEXIST\<close>, also when the segment was
  opened: the branch meant for failures is the alternative of "interrupted", so the
  descriptor is neither returned nor closed, the segment is never given a size or mapped,
  and the caller's pointer is not set.
\<close>
theorem shmem_never_succeeds:
  assumes "\<not> interrupted (w_os w (length (w_trace w) + k) (File (Shm_open (Some name) access_mode user_mode)))"
  shows "\<exists>n \<le> k. \<exists>ret w'. shmem_handle (Some name) sz access_mode user_mode seg w = Some (ret, seg, w') \<and>
    ret \<in> {-1, EEXIST} \<and>
    map fst (io w') = map fst (io w) @ replicate (Suc n) (File (Shm_open (Some name) access_mode user_mode))"
proof -
  let ?c = "File (Shm_open (Some name) access_mode user_mode)"
  obtain n where n: "n \<le> k"
    "shmem_open_cmd (Some name) access_mode user_mode w =
      shmem_open_finish (Some name) (answer (after_calls ?c n w) ?c) (after_calls ?c (Suc n) w)"
    using shm_open_retry.retry_returns[OF assms] by blast
  obtain ret w' where "shmem_open_finish (Some name) (answer (after_calls ?c n w) ?c) (after_calls ?c (Suc n) w) =
      Some (Inl ret, w')" "ret \<in> {-1, EEXIST}" "io w' = io (after_calls ?c (Suc n) w)"
    using open_finish_result by blast
  with n show ?thesis
    using io_after_calls[of ?c "Suc n" w]
    by (intro exI[of _ n]) (auto simp: shmem_handle_def simp del: after_calls.simps replicate.simps)
qed

theorem shmem_never_succeeds_witness:
  "\<exists>n \<le> 0. \<exists>ret w'. shmem_handle (Some ''/seg'') 4096 2 436 7 (init_world (\<lambda>_ _. reply_of 5)) = Some (ret, 7, w') \<and>
    ret \<in> {-1, EEXIST} \<and> map fst (io w') = replicate (Suc n) (File (Shm_open (Some ''/seg'') 2 436))"
  using shmem_never_succeeds[of "init_world (\<lambda>_ _. reply_of 5)" 0 "''/seg''" 2 436 4096 7]
  by (simp add: interrupted_def)

end
