(* ===== verification/Baa_Helper.thy ===== *)
theory Baa_Helper
  imports Baa_Shmem
begin

text \<open>
  The helper functions of \<open>src/src/helper.c\<close>: program name, signals, reading a line, daemons,
  pid files, named semaphores, kernel and clock information, capabilities and letter case.
  \<open>PACKAGE_VERSION\<close> and \<open>PACKAGE_STRING\<close> come from the build system and are arguments. Loops
  that repeat an interrupted call are option-valued.
\<close>

section \<open>Version and package\<close>

definition rule_line :: string where
  "rule_line = ''------------------------------------- ''"

definition baa_show_version_info :: "string \<Rightarrow> world \<Rightarrow> world" where
  "baa_show_version_info PACKAGE_VERSION w =
    (let w = baa_info_msg ''Show content of version realted info: '' [] w;
         w = baa_info_msg rule_line [] w;
         w = baa_info_msg ''Package version: %s                   '' [FStr PACKAGE_VERSION] w;
         (r, w) = sys (Proc Uname) w;
         w = (if rv r = 0 then
                (let w = baa_info_msg rule_line [] w;
                     w = baa_info_msg ''System name: %s                       '' [FStr (sysname (ruts r))] w;
                     w = baa_info_msg ''Kernel release: %s                    '' [FStr (release (ruts r))] w;
                     w = baa_info_msg ''Version: %s                           '' [FStr (version (ruts r))] w;
                     w = baa_info_msg ''------------------------------------ '' [] w
                 in baa_info_msg ''Architecture: %s                      '' [FStr (machine (ruts r))] w)
              else w)
     in baa_info_msg rule_line [] w)"

definition baa_show_package_name :: "string \<Rightarrow> world \<Rightarrow> world" where
  "baa_show_package_name PACKAGE_STRING w =
    (let w = baa_info_msg ''Show content of package realted info: '' [] w;
         w = baa_info_msg rule_line [] w;
         w = baa_info_msg ''Package name is %s                    '' [FStr PACKAGE_STRING] w
     in baa_info_msg rule_line [] w)"

section \<open>Program name\<close>

text \<open>\<open>strrchr\<close> and the increment: what follows the last slash.\<close>

definition after_last_slash :: "string \<Rightarrow> string" where
  "after_last_slash s = rev (takeWhile (\<lambda>c. c \<noteq> CHR ''/'') (rev s))"

definition baa_set_program_name :: "string option \<Rightarrow> world \<Rightarrow> (ending + char list) \<times> world" where
  "baa_set_program_name kdo_arg w =
    (let kdo_arg = (case kdo_arg of None \<Rightarrow> ''dummy'' | Some s \<Rightarrow> s);
         whoami = after_last_slash kdo_arg;
         len = length whoami + 1;
         (r, w) = sys (Mem (Malloc len)) w
     in if rv r = 0
        then (let (e, w) = baa_error_exit ''malloc in %s'' [FStr ''baa_set_program_name''] w in (Inl e, w))
        else (let tmp_str = replicate len NUL;
                  (tmp_str, w) = c_strcat whoami tmp_str w
              in (Inr tmp_str, w)))"

section \<open>Signals\<close>

abbreviation (input) SIGHUP :: int where "SIGHUP \<equiv> 1"
abbreviation (input) SIGALRM :: int where "SIGALRM \<equiv> 14"
abbreviation (input) SA_RESTART :: int where "SA_RESTART \<equiv> 0x10000000"

definition baa_signal :: "int \<Rightarrow> sighandler \<Rightarrow> world \<Rightarrow> sighandler \<times> world" where
  "baa_signal signo func w =
    (let sa_flags = (if signo = SIGALRM then 0 else 0 OR SA_RESTART);
         (r, w) = sys (Proc (Sigaction signo func sa_flags)) w
     in if rv r < 0 then (SIG_ERR, baa_errno_msg ''baa_signal -> sigaction()'' [] w)
        else (rhandler r, w))"

section \<open>Reading a line\<close>

abbreviation (input) BAA_FILE_EMPTY :: int where "BAA_FILE_EMPTY \<equiv> -2"

definition byte_char :: "byte \<Rightarrow> char" where
  "byte_char b = char_of (unat b)"

definition newline :: char where
  "newline = CHR 0x0A"

text \<open>The body of the loop at \<open>read_cmd\<close>; \<open>tmp_buf\<close> is \<open>buf + count\<close> throughout.\<close>

partial_function (option) read_cmd ::
  "int \<Rightarrow> nat \<Rightarrow> char list \<Rightarrow> nat \<Rightarrow> char \<Rightarrow> world \<Rightarrow> ((int \<times> char list) \<times> world) option" where
  "read_cmd fd n_bytes buf count ch w =
    (let r = answer w (File (Read fd 1)); w = snd (sys (File (Read fd 1)) w);
         n = rv r
     in if n = -1 then
          (if w_errno w = EINTR then read_cmd fd n_bytes buf count ch w
           else Some ((-1, buf), baa_errno_msg ''read_line() -> read'' [] w))
        else
          (let ch = (case take (nat n) (rbytes r) of [] \<Rightarrow> ch | b # _ \<Rightarrow> byte_char b)
           in if n = 0 \<and> count = 0 then Some ((BAA_FILE_EMPTY, buf), w)
              else
                (let stored = count < size_sub n_bytes 1;
                     (buf, w) = (if stored then poke count [ch] buf w else (buf, w));
                     count = (if stored then count + 1 else count)
                 in if ch \<noteq> newline \<and> n \<noteq> 0 then read_cmd fd n_bytes buf count ch w
                    else (let (buf, w) = poke count [NUL] buf w in Some ((int count, buf), w)))))"

definition baa_read_line :: "int \<Rightarrow> char list \<Rightarrow> nat \<Rightarrow> world \<Rightarrow> ((int \<times> char list) \<times> world) option" where
  "baa_read_line fd buf n_bytes w = read_cmd fd n_bytes buf 0 NUL w"

section \<open>Descriptors and daemons\<close>

abbreviation (input) FD_CLOEXEC :: int where "FD_CLOEXEC \<equiv> 1"

definition baa_set_cloexec :: "int \<Rightarrow> world \<Rightarrow> int \<times> world" where
  "baa_set_cloexec fd w =
    (let (err, w) = sys (File (Fcntl_getfd fd)) w
     in if rv err = -1 then (-1, baa_errno_msg ''fcntl() at line %d'' [FInt 153] w)
        else
          (let new = rv err OR FD_CLOEXEC;
               (err, w) = sys (File (Fcntl_setfd fd new)) w
           in if rv err = -1 then (-1, baa_errno_msg ''fcntl() at line %d'' [FInt 161] w) else (0, w)))"

fun close_all :: "nat list \<Rightarrow> world \<Rightarrow> world" where
  "close_all [] w = w"
| "close_all (i # is) w = close_all is (snd (sys (File (Close (int i))) w))"

definition baa_become_daemon :: "world \<Rightarrow> (ending + int) \<times> world" where
  "baa_become_daemon w =
    (let (pid, w) = sys (Proc Fork) w
     in if rv pid = -1 then (Inr (-1), baa_errno_msg ''fork() at line %d'' [FInt 175] w)
        else if rv pid \<noteq> 0 then (Inl (Exited EXIT_SUCCESS), snd (sys (Proc (Exit_now EXIT_SUCCESS)) w))
        else
          (let (r, w) = sys (Proc Setsid) w;
               w = (if rv r = -1 then baa_errno_msg ''setsid() at line %d'' [FInt 182] w else w);
               (_, w) = baa_signal SIGHUP SIG_IGN w;
               (pid, w) = sys (Proc Fork) w
           in if rv pid = -1 then (Inr (-1), baa_errno_msg ''fork() at line %d'' [FInt 188] w)
              else if rv pid \<noteq> 0 then (Inl (Exited EXIT_SUCCESS), snd (sys (Proc (Exit_now EXIT_SUCCESS)) w))
              else
                (let (r, w) = sys (Proc (Chdir ''/'')) w
                 in if rv r = -1 then (Inr (-1), baa_errno_msg ''chdir() at line %d'' [FInt 195] w)
                    else
                      (let (m, w) = sys (Proc Sysconf_open_max) w;
                           max_fd = (if rv m = -1 then 64 else rv m);
                           w = close_all [0..<nat max_fd] w;
                           (fd0, w) = sys (File (Open ''/dev/null'' O_RDONLY 0)) w;
                           (fd1, w) = sys (File (Open ''/dev/null'' O_RDWR 0)) w;
                           (fd2, w) = sys (File (Open ''/dev/null'' O_RDWR 0)) w;
                           w = (if rv fd0 \<noteq> 0 \<or> rv fd1 \<noteq> 1 \<or> rv fd2 \<noteq> 2
                                then baa_errno_msg ''open() at line %d'' [FInt 212] w else w)
                       in (Inr 0, w)))))"

definition baa_lock_region :: "int \<Rightarrow> world \<Rightarrow> int \<times> world" where
  "baa_lock_region fd w = (let (r, w) = sys (File (Fcntl_setlk fd)) w in (rv r, w))"

section \<open>Pid files\<close>

text \<open>The label \<open>error\<close>: what was allocated is freed, what was opened is closed.\<close>

definition pid_error :: "bool \<Rightarrow> int \<Rightarrow> int \<Rightarrow> world \<Rightarrow> (string option \<times> world) option" where
  "pid_error allocated ptr fd w =
    (let w = (if allocated then snd (sys (Mem (Free ptr)) w) else w);
         w = (if fd \<noteq> -1 then snd (sys (File (Close fd)) w) else w)
     in Some (None, w))"

text \<open>The code jumps back to the test of \<open>fd\<close>, not to the call of \<open>open\<close>.\<close>

partial_function (option) pid_open_cmd :: "int \<Rightarrow> string \<Rightarrow> world \<Rightarrow> ((string option + int) \<times> world) option" where
  "pid_open_cmd fd str w =
    (if fd = -1 then
       (if w_errno w = EINTR then pid_open_cmd fd str w
        else Some (Inl None, baa_errno_msg ''could not open %s'' [FStr str] w))
     else Some (Inr fd, w))"

partial_function (option) pid_ftruncate_cmd :: "int \<Rightarrow> string \<Rightarrow> world \<Rightarrow> (bool \<times> world) option" where
  "pid_ftruncate_cmd fd str w =
    (let ret = rv (answer w (File (Ftruncate fd 0))); w = snd (sys (File (Ftruncate fd 0)) w)
     in if ret = -1 then
          (if w_errno w = EINTR then pid_ftruncate_cmd fd str w
           else Some (False, baa_errno_msg ''could not truncate pid file %s'' [FStr str] w))
        else Some (True, w))"

definition pid_write :: "string \<Rightarrow> int \<Rightarrow> int \<Rightarrow> world \<Rightarrow> (string option \<times> world) option" where
  "pid_write pid_file ptr fd w =
    (let str = replicate BAA_MAXLINE NUL;
         (pid, w) = sys (Proc Getpid) w;
         line = fmt_text ''%ld\<newline>'' [FInt (rv pid)];
         n = length line;
         (str, w) = c_snprintf 0 BAA_MAXLINE line str w;
         (r, w) = sys (File (Write fd (take n str))) w
     in if rv r \<noteq> int n
        then pid_error True ptr fd
               (baa_errno_msg ''could not write %s to file %s'' [FStr (c_str str), FStr pid_file] w)
        else
          (case baa_wrap_close fd w of None \<Rightarrow> None | Some w \<Rightarrow> Some (Some pid_file, w)))"

definition pid_fill :: "string \<Rightarrow> nat \<Rightarrow> int \<Rightarrow> world \<Rightarrow> (string option \<times> world) option" where
  "pid_fill str n fd w =
    (let (m, w) = sys (Mem (Malloc (n + 1))) w;
         ptr = rv m
     in if ptr = 0 then pid_error False ptr fd (baa_error_msg ''pid_file == NULL %s'' [FStr str] w)
        else
          (let pid_file = replicate (n + 1) NUL;
               (pid_file, w) = c_strncpy str n pid_file w;
               (l, w) = baa_lock_region fd w
           in if l = -1 then
                pid_error True ptr fd
                  (if w_errno w = EAGAIN \<or> w_errno w = EACCES
                   then baa_error_msg ''pid file %s already in-use'' [FStr str] w
                   else baa_error_msg ''could not lock region in pid file: %s'' [FStr str] w)
              else
                (case pid_ftruncate_cmd fd str w of
                   None \<Rightarrow> None
                 | Some (ok, w) \<Rightarrow>
                     if ok then pid_write (c_str pid_file) ptr fd w else pid_error True ptr fd w)))"

definition baa_create_file_with_pid :: "string option \<Rightarrow> string option \<Rightarrow> world \<Rightarrow> (string option \<times> world) option" where
  "baa_create_file_with_pid name dir w =
    (case (name, dir) of
       (Some nm, Some d) \<Rightarrow>
         (let str = replicate BAA_MAXLINE NUL;
              path = fmt_text ''%s/%s.pid'' [FStr d, FStr nm];
              n = length path;
              (str, w) = c_snprintf 0 BAA_MAXLINE path str w;
              str = c_str str;
              (r, w) = sys (File (Unlink str)) w
          in if rv r = -1 \<and> w_errno w \<noteq> ENOENT
             then Some (None, baa_errno_msg ''could not unlink %s'' [FStr str] w)
             else
               (let (r, w) = sys (File (Open str (O_RDWR OR O_CREAT OR O_TRUNC OR O_EXCL OR O_CLOEXEC)
                                          (S_IWUSR OR S_IRUSR))) w
                in case pid_open_cmd (rv r) str w of
                     None \<Rightarrow> None
                   | Some (Inl ret, w) \<Rightarrow> Some (ret, w)
                   | Some (Inr fd, w) \<Rightarrow> pid_fill str n fd w))
     | _ \<Rightarrow> Some (None, w))"

section \<open>Named semaphores\<close>

definition baa_create_psem :: "string \<Rightarrow> world \<Rightarrow> int \<times> int \<times> world" where
  "baa_create_psem name w =
    (let (r, w) = sys (Proc (Sem_open name (O_CREAT OR O_EXCL OR O_CLOEXEC)
                        (S_IWUSR OR S_IRUSR OR S_IRGRP OR S_IWGRP OR S_IROTH) 1)) w
     in if rv r = 0 then
          (if w_errno w = EEXIST
           then (EEXIST, rv r, baa_errno_msg ''named semaphore %s already exist'' [FStr name] w)
           else (-1, rv r, w))
        else (0, rv r, w))"

definition baa_open_psem :: "string \<Rightarrow> world \<Rightarrow> int \<times> int \<times> world" where
  "baa_open_psem name w =
    (let (r, w) = sys (Proc (Sem_open name 0 0 0)) w
     in if rv r = 0 then (1, rv r, baa_errno_msg ''could not open named semaphore %s'' [FStr name] w)
        else (0, rv r, w))"

definition baa_unlink_psem :: "string \<Rightarrow> world \<Rightarrow> world" where
  "baa_unlink_psem name w =
    (let (r, w) = sys (Proc (Sem_unlink name)) w
     in if rv r = -1 then baa_errno_msg ''could not unlink named semaphore %s'' [FStr name] w else w)"

definition baa_close_psem :: "world \<Rightarrow> world" where
  "baa_close_psem w =
    (let (r, w) = sys (Proc Sem_close) w
     in if rv r = -1 then baa_errno_msg ''could not close named semaphore'' [] w else w)"

section \<open>Kernel, clock and capabilities\<close>

fun strstr_found :: "string \<Rightarrow> string \<Rightarrow> bool" where
  "strstr_found [] pat = (pat = [])"
| "strstr_found (c # s) pat = (take (length pat) (c # s) = pat \<or> strstr_found s pat)"

text \<open>When \<open>uname\<close> fails, the function goes on with the uninitialised structure.\<close>

definition baa_check_for_rtpreempt :: "world \<Rightarrow> bool \<times> world" where
  "baa_check_for_rtpreempt w =
    (let (r, w) = sys (Proc Uname) w;
         u_version = (if rv r = -1 then c_str (uninit_chars 65 w) else version (ruts r));
         w = (if rv r = -1 then baa_errno_msg ''uname at line %d'' [FInt 364] w else w)
     in if \<not> strstr_found u_version ''PREEMPT'' then (False, baa_error_msg ''NO preempt kernel'' [] w)
        else
          (let (fd, w) = sys (File (Fopen ''/sys/kernel/realtime'')) w
           in if rv fd \<noteq> 0 then
                (let (k, w) = sys (File Fscanf_d) w;
                     w = (if rv k = 1 \<and> rprio k = 1
                          then baa_errno_msg ''kernel is a RT-PREEMPT kernel'' [] w
                          else baa_errno_msg ''kernel is a PREEMPT kernel'' [] w)
                 in (True, snd (sys (File Fclose) w)))
              else (True, baa_info_msg ''kernel is a PREEMPT kernel'' [] w)))"

definition baa_show_clock_resolution :: "int \<Rightarrow> world \<Rightarrow> world" where
  "baa_show_clock_resolution clock_type w =
    (let (r, w) = sys (Sched (Clock_getres clock_type)) w
     in if rv r = 0 then baa_info_msg ''clock resoultion is %lu nsec'' [FInt (tv_nsec (rtime r))] w
        else baa_errno_msg ''could not get clock resolution'' [] w)"

definition baa_drop_capability :: "int \<Rightarrow> world \<Rightarrow> int \<times> world" where
  "baa_drop_capability hold_capability w =
    (let (_, w) = sys (Proc Capng_clear) w;
         (r, w) = sys (Proc (Capng_update hold_capability)) w
     in if rv r \<noteq> 0 then
          (let (t, w) = sys (Proc Capng_print) w
           in (-1, baa_error_msg ''can't set capability -> %s'' [FStr (rstr t)] w))
        else (let (_, w) = sys (Proc Capng_apply) w in (0, w)))"

section \<open>Letter case\<close>

definition c_tolower :: "char \<Rightarrow> char" where
  "c_tolower c = (let n = of_char c :: nat in if 65 \<le> n \<and> n \<le> 90 then char_of (n + 32) else c)"

definition c_toupper :: "char \<Rightarrow> char" where
  "c_toupper c = (let n = of_char c :: nat in if 97 \<le> n \<and> n \<le> 122 then char_of (n - 32) else c)"

text \<open>In place on the characters of a buffer before its first NUL.\<close>

fun baa_strlwr :: "char list \<Rightarrow> char list" where
  "baa_strlwr [] = []"
| "baa_strlwr (c # s) = (if c = NUL then c # s else c_tolower c # baa_strlwr s)"

fun baa_strupr :: "char list \<Rightarrow> char list" where
  "baa_strupr [] = []"
| "baa_strupr (c # s) = (if c = NUL then c # s else c_toupper c # baa_strupr s)"

section \<open>Properties of the line reader\<close>

definition char_byte :: "char \<Rightarrow> byte" where
  "char_byte c = of_nat (of_char c)"

lemma byte_char_byte [simp]: "byte_char (char_byte c) = c"
proof -
  have "(of_char c :: nat) < 256" by simp
  then have "unat (of_nat (of_char c :: nat) :: byte) = of_char c" by (simp add: unat_of_nat)
  then show ?thesis by (simp add: byte_char_def char_byte_def)
qed

text \<open>The descriptor delivers the given characters one by one and then reports the end of the
  file; no read is interrupted.\<close>

definition file_reads :: "int \<Rightarrow> string \<Rightarrow> world \<Rightarrow> bool" where
  "file_reads fd data w \<longleftrightarrow>
    (\<forall>i<length data. rv (w_os w (length (w_trace w) + i) (File (Read fd 1))) = 1 \<and>
      rbytes (w_os w (length (w_trace w) + i) (File (Read fd 1))) = [char_byte (data ! i)]) \<and>
    rv (w_os w (length (w_trace w) + length data) (File (Read fd 1))) = 0"

lemma file_reads_Cons:
  assumes "file_reads fd (c # data) w"
  shows "rv (answer w (File (Read fd 1))) = 1" "rbytes (answer w (File (Read fd 1))) = [char_byte c]"
    "w_os v = w_os w \<Longrightarrow> length (w_trace v) = Suc (length (w_trace w)) \<Longrightarrow> file_reads fd data v"
proof -
  show "rv (answer w (File (Read fd 1))) = 1" "rbytes (answer w (File (Read fd 1))) = [char_byte c]"
    using assms by (auto simp: file_reads_def answer_def dest: spec[of _ 0])
  assume "w_os v = w_os w" "length (w_trace v) = Suc (length (w_trace w))"
  then show "file_reads fd data v"
    using assms by (auto simp: file_reads_def dest: spec[of _ "Suc _"])
qed

text \<open>One character: it is stored when there is room, and the loop goes on unless it is a
  newline.\<close>

definition store_char :: "nat \<Rightarrow> nat \<Rightarrow> char \<Rightarrow> char list \<Rightarrow> char list" where
  "store_char n_bytes count c buf = (if count < n_bytes - 1 then overwrite count [c] buf else buf)"

lemma read_cmd_char:
  assumes "rv (answer w (File (Read fd 1))) = 1" "rbytes (answer w (File (Read fd 1))) = [char_byte c]"
    and "0 < n_bytes" "n_bytes \<le> length buf" "n_bytes < 2 ^ 64" "count < n_bytes"
  shows "read_cmd fd n_bytes buf count ch w =
    (let w = snd (sys (File (Read fd 1)) w); b = store_char n_bytes count c buf;
         k = (if count < n_bytes - 1 then count + 1 else count)
     in if c \<noteq> newline then read_cmd fd n_bytes b k c w
        else Some ((int k, overwrite k [NUL] b), w))"
proof -
  have sz: "size_sub n_bytes (Suc 0) = n_bytes - 1" using assms(3,5) size_sub_le[of 1 n_bytes] by simp
  have b: "length (store_char n_bytes count c buf) = length buf"
    using assms(4) by (simp add: store_char_def)
  show ?thesis
    using assms(1-4,6) b
    by (subst read_cmd.simps) (auto simp: Let_def sz poke_def store_char_def)
qed

text \<open>The line the reader leaves in the buffer: as many characters as fit, and a NUL.\<close>

definition line_buffer :: "nat \<Rightarrow> string \<Rightarrow> char list \<Rightarrow> char list" where
  "line_buffer n_bytes cs buf = overwrite 0 (take (n_bytes - 1) cs @ [NUL]) buf"

lemma line_buffer_end:
  assumes "n_bytes \<le> length buf" "0 < n_bytes"
  shows "overwrite (min (length cs) (n_bytes - 1)) [NUL] (overwrite 0 (take (n_bytes - 1) cs) buf) = line_buffer n_bytes cs buf"
  using assms overwrite_append[of 0 "take (n_bytes - 1) cs" "[NUL]" buf]
  by (simp add: line_buffer_def)

lemma store_char_snoc:
  assumes "n_bytes \<le> length buf" "0 < n_bytes"
  shows "store_char n_bytes (min (length done) (n_bytes - 1)) c (overwrite 0 (take (n_bytes - 1) done) buf) =
    overwrite 0 (take (n_bytes - 1) (done @ [c])) buf"
proof (cases "length done < n_bytes - 1")
  case True
  then show ?thesis
    using assms overwrite_append[of 0 "done" "[c]" buf] by (simp add: store_char_def min_def)
next
  case False
  then show ?thesis by (simp add: store_char_def min_def)
qed

lemma read_cmd_line:
  assumes "file_reads fd (pre @ newline # rest) w" "newline \<notin> set pre"
    and "0 < n_bytes" "n_bytes \<le> length buf" "n_bytes < 2 ^ 64"
  shows "\<exists>w'. read_cmd fd n_bytes (overwrite 0 (take (n_bytes - 1) done) buf) (min (length done) (n_bytes - 1)) ch w =
      Some ((int (min (length done + length pre + 1) (n_bytes - 1)), line_buffer n_bytes (done @ pre @ [newline]) buf), w') \<and>
    w_fault w' = w_fault w \<and> map fst (io w') = map fst (io w) @ replicate (length pre + 1) (File (Read fd 1))"
  using assms(1,2)
proof (induction pre arbitrary: "done" ch w)
  case Nil
  let ?b = "overwrite 0 (take (n_bytes - 1) done) buf" and ?k = "min (length done) (n_bytes - 1)"
  have len: "length ?b = length buf" using assms(3,4) by (intro length_overwrite) simp
  have k: "(if ?k < n_bytes - 1 then ?k + 1 else ?k) = min (length done + 1) (n_bytes - 1)" by auto
  have "overwrite (min (length done + 1) (n_bytes - 1)) [NUL] (overwrite 0 (take (n_bytes - 1) (done @ [newline])) buf) =
      line_buffer n_bytes (done @ [newline]) buf"
    using line_buffer_end[OF assms(4,3), of "done @ [newline]"] by simp
  then have "read_cmd fd n_bytes ?b ?k ch w = Some ((int (min (length done + 1) (n_bytes - 1)),
      line_buffer n_bytes (done @ [newline]) buf), snd (sys (File (Read fd 1)) w))"
    using read_cmd_char[OF file_reads_Cons(1,2)[OF Nil(1)[simplified]], of n_bytes ?b ?k ch] assms(3-5) len
    by (simp only: Let_def k store_char_snoc[OF assms(4,3)]) auto
  then show ?case by (simp add: sys_simps)
next
  case (Cons c pre)
  let ?b = "overwrite 0 (take (n_bytes - 1) done) buf" and ?k = "min (length done) (n_bytes - 1)"
  let ?w = "snd (sys (File (Read fd 1)) w)"
  note hd = file_reads_Cons[OF Cons.prems(1)[simplified]]
  have len: "length ?b = length buf" using assms(3,4) by (intro length_overwrite) simp
  have k: "(if ?k < n_bytes - 1 then ?k + 1 else ?k) = min (length (done @ [c])) (n_bytes - 1)" by auto
  have fr: "file_reads fd (pre @ newline # rest) ?w" by (rule hd(3)) (simp_all add: sys_simps)
  have "read_cmd fd n_bytes ?b ?k ch w =
      read_cmd fd n_bytes (overwrite 0 (take (n_bytes - 1) (done @ [c])) buf) (min (length (done @ [c])) (n_bytes - 1)) c ?w"
    using read_cmd_char[OF hd(1,2), of n_bytes ?b ?k ch] assms(3-5) len Cons.prems(2)
    by (simp only: Let_def k store_char_snoc[OF assms(4,3)]) auto
  then show ?case
    using Cons.IH[OF fr, of "done @ [c]" c] Cons.prems(2) by (auto simp: sys_simps)
qed

text \<open>
  C25. Reading a line: for a descriptor whose next characters are a line and its newline, the reader
  stores the line with the newline, cut to the size of the buffer, and a NUL; it returns the
  number of characters stored, never writes outside the given size, and consumes the whole
  line, one read per character, also when the line does not fit. At the end of the file it
  reports an empty file.
\<close>
theorem read_line_result:
  assumes "0 < n_bytes" "n_bytes \<le> length buf" "n_bytes < 2 ^ 64" "newline \<notin> set pre"
  shows "(file_reads fd (pre @ newline # rest) w \<longrightarrow>
      (\<exists>w'. baa_read_line fd buf n_bytes w =
          Some ((int (min (length pre + 1) (n_bytes - 1)), line_buffer n_bytes (pre @ [newline]) buf), w') \<and>
        w_fault w' = w_fault w \<and>
        map fst (io w') = map fst (io w) @ replicate (length pre + 1) (File (Read fd 1)))) \<and>
    (file_reads fd [] w \<longrightarrow> (\<exists>w'. baa_read_line fd buf n_bytes w = Some ((BAA_FILE_EMPTY, buf), w')))"
proof (intro conjI impI)
  assume "file_reads fd (pre @ newline # rest) w"
  from read_cmd_line[OF this assms(4,1-3), of "[]" NUL]
  show "\<exists>w'. baa_read_line fd buf n_bytes w =
          Some ((int (min (length pre + 1) (n_bytes - 1)), line_buffer n_bytes (pre @ [newline]) buf), w') \<and>
        w_fault w' = w_fault w \<and>
        map fst (io w') = map fst (io w) @ replicate (length pre + 1) (File (Read fd 1))"
    by (simp add: baa_read_line_def)
next
  assume "file_reads fd [] w"
  then show "\<exists>w'. baa_read_line fd buf n_bytes w = Some ((BAA_FILE_EMPTY, buf), w')"
    unfolding baa_read_line_def by (subst read_cmd.simps) (simp add: file_reads_def answer_def Let_def)
qed

definition two_lines :: "nat \<Rightarrow> call \<Rightarrow> reply" where
  "two_lines n c = (if n < 6 then bytes_reply [char_byte (''ab\<newline>cd\<newline>'' ! n)] else reply_of 0)"

lemma two_lines_reads: "file_reads 3 (''ab'' @ newline # ''cd\<newline>'') (init_world two_lines)"
  by (simp add: file_reads_def two_lines_def newline_def)

theorem read_line_result_witness:
  "\<exists>w'. baa_read_line 3 (replicate 4 (CHR ''x'')) 4 (init_world two_lines) = Some ((3, ''ab\<newline>'' @ [NUL]), w')"
  using read_line_result[of 4 "replicate 4 (CHR ''x'')" "''ab''" 3 "''cd\<newline>''" "init_world two_lines"] two_lines_reads
  by (auto simp: newline_def line_buffer_def overwrite_def)

text \<open>
  A last line without a newline gets its last character twice. When the file ends, the variable still
  holds the character read before, and it is stored again: for a file with one character
  and enough room, the reader returns 2 and the buffer holds the character twice.
\<close>
theorem read_line_eof_duplicates:
  assumes "file_reads fd [c] w" "c \<noteq> newline" "2 < n_bytes" "n_bytes \<le> length buf" "n_bytes < 2 ^ 64"
  shows "\<exists>w'. baa_read_line fd buf n_bytes w = Some ((2, overwrite 0 [c, c, NUL] buf), w')"
proof -
  let ?w = "snd (sys (File (Read fd 1)) w)"
  note hd = file_reads_Cons[OF assms(1)]
  have eof: "file_reads fd [] ?w" by (rule hd(3)) (simp_all add: sys_simps)
  have sz: "size_sub n_bytes (Suc 0) = n_bytes - 1" using assms(3,5) size_sub_le[of 1 n_bytes] by simp
  have first: "read_cmd fd n_bytes buf 0 NUL w = read_cmd fd n_bytes (overwrite 0 [c] buf) 1 c ?w"
    using read_cmd_char[OF hd(1,2), of n_bytes buf 0 NUL] assms(2-5)
    by (simp add: Let_def store_char_def)
  have rest: "overwrite 2 [NUL] (overwrite 1 [c] (overwrite 0 [c] buf)) = overwrite 0 [c, c, NUL] buf"
    using overwrite_append[of 0 "[c]" "[c]" buf] overwrite_append[of 0 "[c, c]" "[NUL]" buf] assms(3,4)
    by (simp add: numeral_2_eq_2)
  have "\<exists>w'. read_cmd fd n_bytes (overwrite 0 [c] buf) 1 c ?w = Some ((2, overwrite 0 [c, c, NUL] buf), w')"
    using eof assms(3,4) rest
    by (subst read_cmd.simps) (simp add: file_reads_def answer_def Let_def sz poke_def numeral_2_eq_2)
  then show ?thesis using first by (simp add: baa_read_line_def)
qed

theorem read_line_eof_duplicates_witness:
  "\<exists>w'. baa_read_line 3 (replicate 4 NUL) 4 (init_world (\<lambda>n _. if n = 0 then bytes_reply [char_byte (CHR ''q'')] else reply_of 0)) =
    Some ((2, ''qq'' @ [NUL, NUL]), w')"
  using read_line_eof_duplicates[of 3 "CHR ''q''"
      "init_world (\<lambda>n _. if n = 0 then bytes_reply [char_byte (CHR ''q'')] else reply_of 0)" 4 "replicate 4 NUL"]
  by (simp add: file_reads_def newline_def overwrite_def)

section \<open>Properties of pid files\<close>

lemma pid_open_hangs_aux: "pid_open_cmd fd str w = Some r \<Longrightarrow> \<not> (fd = -1 \<and> w_errno w = EINTR)"
  by (rule pid_open_cmd.raw_induct[where P = "\<lambda>fd str w r. \<not> (fd = -1 \<and> w_errno w = EINTR)"])
    (auto split: if_splits)

lemma pid_open_hangs: "w_errno w = EINTR \<Longrightarrow> pid_open_cmd (-1) str w = None"
  using pid_open_hangs_aux[of "-1" str w] by (cases "pid_open_cmd (-1) str w") auto

lemma pid_open_cases:
  "pid_open_cmd fd str w =
    (if fd \<noteq> -1 then Some (Inr fd, w)
     else if w_errno w = EINTR then None
     else Some (Inl None, baa_errno_msg ''could not open %s'' [FStr str] w))"
proof (cases "fd = -1 \<and> w_errno w = EINTR")
  case True
  then show ?thesis by (simp add: pid_open_hangs)
next
  case False
  then show ?thesis by (subst pid_open_cmd.simps) auto
qed

text \<open>What a stage adds to the calls: it allocates nothing, and it leaves nothing behind.\<close>

fun acquires :: "call \<Rightarrow> bool" where
  "acquires (File (Open p f m)) = True"
| "acquires (Mem (Malloc n)) = True"
| "acquires c = False"

definition adds :: "(event list \<Rightarrow> bool) \<Rightarrow> world \<Rightarrow> world \<Rightarrow> bool" where
  "adds P w w' \<longleftrightarrow> (\<exists>new. io w' = io w @ new \<and> (\<forall>e \<in> set new. \<not> acquires (fst e)) \<and> P new)"

definition released_by :: "int \<Rightarrow> int \<Rightarrow> bool \<Rightarrow> event list \<Rightarrow> bool" where
  "released_by fd ptr failed new \<longleftrightarrow>
    File (Close fd) \<in> fst ` set new \<and> (failed \<longrightarrow> Mem (Free ptr) \<in> fst ` set new)"

lemma adds_trans: "adds (\<lambda>_. True) u v \<Longrightarrow> adds (released_by fd ptr b) v w \<Longrightarrow> adds (released_by fd ptr b) u w"
  unfolding adds_def released_by_def by (elim exE conjE) (rule_tac x="new @ newa" in exI, auto)

lemma adds_True_trans: "adds (\<lambda>_. True) u v \<Longrightarrow> adds (\<lambda>_. True) v w \<Longrightarrow> adds (\<lambda>_. True) u w"
  unfolding adds_def by (elim exE conjE) (rule_tac x="new @ newa" in exI, auto)

lemma adds_refl: "io w' = io w \<Longrightarrow> adds (\<lambda>_. True) w w'"
  by (simp add: adds_def)

lemma adds_sys: "\<not> is_log c \<Longrightarrow> \<not> acquires c \<Longrightarrow> adds (\<lambda>_. True) w (snd (sys c w))"
  by (auto simp: adds_def sys_simps)

lemma pid_error_releases:
  "fd \<noteq> -1 \<Longrightarrow> \<exists>w'. pid_error True ptr fd w = Some (None, w') \<and> adds (released_by fd ptr True) w w'"
  by (simp add: pid_error_def Let_def adds_def released_by_def sys_simps)

lemma wrap_close_adds: "baa_wrap_close fd w = Some w' \<Longrightarrow> adds (released_by fd ptr False) w w'"
proof (rule baa_wrap_close.raw_induct[where P = "\<lambda>fd w w'. adds (released_by fd ptr False) w w'"])
  fix f fd w v
  assume 1: "\<And>fd w w'. f fd w = Some w' \<Longrightarrow> adds (released_by fd ptr False) w w'"
    "(let r = answer w (File (Close fd)); w = snd (sys (File (Close fd)) w)
      in if rv r = -1 then (if w_errno w = EINTR then f fd w
           else Some (baa_errno_msg ''FATAL: could not close fd %d'' [FInt fd] w)) else Some w) = Some v"
  let ?w = "snd (sys (File (Close fd)) w)"
  show "adds (released_by fd ptr False) w v"
  proof (cases "interrupted (answer w (File (Close fd)))")
    case True
    then have "adds (released_by fd ptr False) ?w v"
      using 1 by (simp add: interrupted_def Let_def sys_simps)
    then show ?thesis using adds_trans adds_sys[of "File (Close fd)" w] by simp
  next
    case False
    then have "io v = io ?w" using 1(2) by (auto simp: interrupted_def Let_def sys_simps split: if_splits)
    then show ?thesis by (simp add: adds_def released_by_def sys_simps)
  qed
qed

lemma ftruncate_adds: "pid_ftruncate_cmd fd str w = Some y \<Longrightarrow> adds (\<lambda>_. True) w (snd y)"
proof (rule pid_ftruncate_cmd.raw_induct[where P = "\<lambda>fd str w y. adds (\<lambda>_. True) w (snd y)"])
  fix f fd str w and y :: "bool \<times> world"
  assume 1: "\<And>fd str w y. f fd str w = Some y \<Longrightarrow> adds (\<lambda>_. True) w (snd y)"
    "(let ret = rv (answer w (File (Ftruncate fd 0))); w = snd (sys (File (Ftruncate fd 0)) w)
      in if ret = -1 then (if w_errno w = EINTR then f fd str w
           else Some (False, baa_errno_msg ''could not truncate pid file %s'' [FStr str] w)) else Some (True, w)) = Some y"
  let ?w = "snd (sys (File (Ftruncate fd 0)) w)"
  have one: "adds (\<lambda>_. True) w ?w" by (simp add: adds_sys)
  show "adds (\<lambda>_. True) w (snd y)"
  proof (cases "interrupted (answer w (File (Ftruncate fd 0)))")
    case True
    then have "adds (\<lambda>_. True) ?w (snd y)" using 1 by (simp add: interrupted_def Let_def sys_simps)
    with one show ?thesis by (rule adds_True_trans)
  next
    case False
    then have "io (snd y) = io ?w" using 1(2) by (auto simp: interrupted_def Let_def sys_simps split: if_splits)
    with one show ?thesis by (simp add: adds_def)
  qed
qed

lemma pid_write_releases:
  assumes "pid_write pid_file ptr fd w = Some (res, w')" "fd \<noteq> -1"
  shows "adds (released_by fd ptr (res = None)) w w'"
proof -
  let ?w1 = "snd (sys (Proc Getpid) w)"
  let ?line = "fmt_text ''%ld\<newline>'' [FInt (rv (answer w (Proc Getpid)))]"
  let ?s = "c_snprintf 0 BAA_MAXLINE ?line (replicate BAA_MAXLINE NUL) ?w1"
  let ?c = "File (Write fd (take (length ?line) (fst ?s)))"
  let ?w3 = "snd (sys ?c (snd ?s))"
  let ?msg = "baa_errno_msg ''could not write %s to file %s'' [FStr (c_str (fst ?s)), FStr pid_file] ?w3"
  have "io (snd ?s) = io ?w1" by simp
  then have a: "adds (\<lambda>_. True) w ?w3"
    using adds_True_trans[OF adds_sys[of "Proc Getpid" w] adds_True_trans[OF adds_refl adds_sys[of ?c "snd ?s"]]] by simp
  show ?thesis
  proof (cases "rv (answer (snd ?s) ?c) = int (length ?line)")
    case True
    then have "\<exists>v. baa_wrap_close fd ?w3 = Some v \<and> res = Some pid_file \<and> w' = v"
      using assms(1) by (simp add: pid_write_def split_def Let_def sys_simps split: option.splits)
    then show ?thesis using wrap_close_adds[of fd ?w3 w' ptr] adds_trans[OF a] by auto
  next
    case False
    then have "pid_error True ptr fd ?msg = Some (res, w')"
      using assms(1) by (simp add: pid_write_def split_def Let_def sys_simps)
    then have "res = None" "adds (released_by fd ptr True) ?msg w'"
      using pid_error_releases[OF assms(2), of ptr ?msg] by auto
    moreover have "adds (\<lambda>_. True) w ?msg" using a by (simp add: adds_def)
    ultimately show ?thesis using adds_trans by simp
  qed
qed

lemma lock_region_eq:
  "baa_lock_region fd w = (rv (answer w (File (Fcntl_setlk fd))), snd (sys (File (Fcntl_setlk fd)) w))"
  by (simp add: baa_lock_region_def split_def Let_def sys_simps)

lemma pid_fill_releases:
  assumes "pid_fill str n fd w = Some (res, w')" "fd \<noteq> -1"
  shows "\<exists>r. adds (released_by fd (rv r) (res = None \<and> rv r \<noteq> 0)) (snd (sys (Mem (Malloc (n + 1))) w)) w' \<and>
    r = answer w (Mem (Malloc (n + 1)))"
proof -
  let ?m = "Mem (Malloc (n + 1))" let ?w1 = "snd (sys ?m w)" and ?ptr = "rv (answer w ?m)"
  let ?p = "c_strncpy str n (replicate (n + 1) NUL) ?w1"
  let ?w3 = "snd (sys (File (Fcntl_setlk fd)) (snd ?p))"
  have "io (snd ?p) = io ?w1" by simp
  then have a: "adds (\<lambda>_. True) ?w1 ?w3"
    using adds_True_trans[OF adds_refl adds_sys[of "File (Fcntl_setlk fd)" "snd ?p"]] by simp
  consider (nomem) "?ptr = 0" | (lock) "?ptr \<noteq> 0" "rv (answer (snd ?p) (File (Fcntl_setlk fd))) = -1"
    | (go) "?ptr \<noteq> 0" "rv (answer (snd ?p) (File (Fcntl_setlk fd))) \<noteq> -1" by blast
  then have "adds (released_by fd ?ptr (res = None \<and> ?ptr \<noteq> 0)) ?w1 w'"
  proof cases
    case nomem
    then show ?thesis
      using assms by (auto simp: pid_fill_def split_def Let_def sys_simps pid_error_def adds_def released_by_def)
  next
    case lock
    define v where "v = (if w_errno ?w3 = EAGAIN \<or> w_errno ?w3 = EACCES
      then baa_error_msg ''pid file %s already in-use'' [FStr str] ?w3
      else baa_error_msg ''could not lock region in pid file: %s'' [FStr str] ?w3)"
    have "pid_error True ?ptr fd v = Some (res, w')"
      using assms(1) lock by (auto simp: pid_fill_def lock_region_eq split_def Let_def sys_simps v_def split: if_splits)
    moreover have "adds (\<lambda>_. True) ?w1 v" using a by (simp add: adds_def v_def)
    ultimately show ?thesis
      using pid_error_releases[OF assms(2), of ?ptr v] adds_trans[of ?w1 v fd ?ptr True w'] lock(1) by auto
  next
    case go
    then obtain ok v where tr: "pid_ftruncate_cmd fd str ?w3 = Some (ok, v)"
      "(if ok then pid_write (c_str (fst ?p)) ?ptr fd v else pid_error True ?ptr fd v) = Some (res, w')"
      using assms(1) by (auto simp: pid_fill_def lock_region_eq split_def Let_def sys_simps split: option.splits if_splits)
    have "adds (released_by fd ?ptr (res = None)) v w'"
      using tr(2) pid_write_releases[OF _ assms(2)] pid_error_releases[OF assms(2), of ?ptr v] by (auto split: if_splits)
    moreover have "adds (\<lambda>_. True) ?w1 v" using adds_True_trans[OF a] ftruncate_adds[OF tr(1)] by simp
    ultimately show ?thesis using adds_trans go(1) by simp
  qed
  then show ?thesis by blast
qed

text \<open>
  C24. Creating a pid file leaves no descriptor behind: whenever the function returns, every file it
  opened has been closed, and when it returns \<open>NULL\<close>, the memory it allocated has been freed.
\<close>
theorem pid_file_resources:
  assumes "baa_create_file_with_pid name dir w = Some (res, w')"
  shows "\<exists>new. io w' = io w @ new \<and>
    (\<forall>p f m r. (File (Open p f m), r) \<in> set new \<and> rv r \<noteq> -1 \<longrightarrow> File (Close (rv r)) \<in> fst ` set new) \<and>
    (\<forall>k r. (Mem (Malloc k), r) \<in> set new \<and> rv r \<noteq> 0 \<and> res = None \<longrightarrow> Mem (Free (rv r)) \<in> fst ` set new)"
proof (cases "\<exists>nm d. name = Some nm \<and> dir = Some d")
  case False
  then have "w' = w" using assms by (auto simp: baa_create_file_with_pid_def split: option.splits)
  then show ?thesis by simp
next
  case True
  then obtain nm d where nd: "name = Some nm" "dir = Some d" by blast
  let ?path = "fmt_text ''%s/%s.pid'' [FStr d, FStr nm]"
  let ?s = "c_snprintf 0 BAA_MAXLINE ?path (replicate BAA_MAXLINE NUL) w"
  let ?str = "c_str (fst ?s)"
  let ?u = "File (Unlink ?str)" let ?w1 = "snd (sys ?u (snd ?s))"
  let ?o = "File (Open ?str (O_RDWR OR O_CREAT OR O_TRUNC OR O_EXCL OR O_CLOEXEC) (S_IWUSR OR S_IRUSR))"
  let ?w2 = "snd (sys ?o ?w1)" and ?fd = "rv (answer ?w1 ?o)" and ?m = "Mem (Malloc (length ?path + 1))"
  consider (a) "io w' = io ?w1"
    | (b) "?fd = -1" "io w' = io ?w2" | (c) "?fd \<noteq> -1" "pid_fill ?str (length ?path) ?fd ?w2 = Some (res, w')"
    using assms unfolding nd baa_create_file_with_pid_def
    by (auto simp: split_def Let_def sys_simps pid_open_cases split: if_splits)
  then show ?thesis
  proof cases
    case c
    obtain new where "io w' = io (snd (sys ?m ?w2)) @ new" "\<forall>e \<in> set new. \<not> acquires (fst e)"
      "released_by ?fd (rv (answer ?w2 ?m)) (res = None \<and> rv (answer ?w2 ?m) \<noteq> 0) new"
      using pid_fill_releases[OF c(2,1)] unfolding adds_def by blast
    then show ?thesis
      by (intro exI[of _ "[(?u, answer (snd ?s) ?u), (?o, answer ?w1 ?o), (?m, answer ?w2 ?m)] @ new"])
        (auto simp: sys_simps released_by_def)
  qed (auto simp: sys_simps)
qed

definition pid_env :: "nat \<Rightarrow> call \<Rightarrow> reply" where
  "pid_env n c =
    (case c of File (Open p f m) \<Rightarrow> reply_of 7 | Mem (Malloc k) \<Rightarrow> reply_of 4096 | Proc Getpid \<Rightarrow> reply_of 42
     | File (Fcntl_setlk fd) \<Rightarrow> fail_reply EAGAIN | _ \<Rightarrow> reply_of 0)"

theorem pid_file_resources_witness:
  "\<exists>w'. baa_create_file_with_pid (Some ''d'') (Some ''/run'') (init_world pid_env) = Some (None, w') \<and>
    (\<exists>new. io w' = new \<and> (\<forall>p f m r. (File (Open p f m), r) \<in> set new \<and> rv r \<noteq> -1 \<longrightarrow> File (Close (rv r)) \<in> fst ` set new))"
proof -
  have "\<exists>w'. baa_create_file_with_pid (Some ''d'') (Some ''/run'') (init_world pid_env) = Some (None, w')"
    by (simp add: baa_create_file_with_pid_def split_def Let_def sys_simps answer_def pid_env_def pid_open_cases
        pid_fill_def pid_error_def lock_region_eq c_snprintf_def poke_def c_strncpy_def BAA_MAXLINE_def)
  then obtain w' where "baa_create_file_with_pid (Some ''d'') (Some ''/run'') (init_world pid_env) = Some (None, w')" ..
  with pid_file_resources[OF this] show ?thesis by auto
qed

text \<open>
  An interrupted open makes the function loop for ever. The jump after an interrupted \<open>open\<close> goes
  back to the test of its result and not to the call, so nothing changes any more: the
  function does not return.
\<close>
theorem pid_file_open_hangs:
  assumes "rv (w_os w (length (w_trace w)) (File (Unlink path))) = 0"
    and "interrupted (w_os w (Suc (length (w_trace w))) (File (Open path (O_RDWR OR O_CREAT OR O_TRUNC OR O_EXCL OR O_CLOEXEC) (S_IWUSR OR S_IRUSR))))"
    and "path = dir @ ''/'' @ name @ ''.pid''" "no_nul path" "length path < BAA_MAXLINE"
  shows "baa_create_file_with_pid (Some name) (Some dir) w = None"
proof -
  have f: "dir @ CHR ''/'' # name @ ''.pid'' = path" using assms(3) by simp
  have s: "c_snprintf 0 BAA_MAXLINE path (replicate BAA_MAXLINE NUL) w = (overwrite 0 (path @ [NUL]) (replicate BAA_MAXLINE NUL), w)"
    using assms(5) by (simp add: c_snprintf_def poke_def)
  have p: "c_str (overwrite 0 (path @ [NUL]) (replicate BAA_MAXLINE NUL)) = path"
    using assms(4) by (simp add: c_str_overwrite_text)
  show ?thesis
    using assms(1,2)
    by (simp add: baa_create_file_with_pid_def f s p Let_def split_def sys_simps answer_def interrupted_def pid_open_cases)
qed

theorem pid_file_open_hangs_witness:
  "baa_create_file_with_pid (Some ''d'') (Some ''/run'')
    (init_world (\<lambda>n _. if n = 1 then fail_reply EINTR else reply_of 0)) = None"
  by (rule pid_file_open_hangs[where path = "''/run/d.pid''"])
    (simp_all add: interrupted_def NUL_def BAA_MAXLINE_def)

section \<open>Names and letter case\<close>

text \<open>The program name is what follows the last slash; memory for it is exactly as large as
  needed.\<close>

lemma program_name_result:
  assumes "rv (answer w (Mem (Malloc (length (after_last_slash s) + 1)))) \<noteq> 0" "no_nul s"
  shows "\<exists>w'. baa_set_program_name (Some s) w = (Inr (after_last_slash s @ [NUL]), w') \<and> w_fault w' = w_fault w"
proof -
  let ?n = "after_last_slash s"
  have "c_strcat ?n (replicate (length ?n + 1) NUL) v = (?n @ [NUL], v)" for v
    by (simp add: c_strcat_def c_strlen_def poke_def overwrite_def)
  with assms(1) show ?thesis
    by (simp add: baa_set_program_name_def split_def Let_def sys_simps)
qed

lemma case_chars:
  "c_tolower (c_tolower c) = c_tolower c" "c_tolower (c_toupper c) = c_tolower c"
  "c_toupper (c_toupper c) = c_toupper c" "c_toupper (c_tolower c) = c_toupper c"
  "c_tolower c = NUL \<longleftrightarrow> c = NUL" "c_toupper c = NUL \<longleftrightarrow> c = NUL"
proof -
  show "c_tolower (c_tolower c) = c_tolower c" "c_tolower (c_toupper c) = c_tolower c"
    "c_toupper (c_toupper c) = c_toupper c" "c_toupper (c_tolower c) = c_toupper c"
    by (auto simp: c_tolower_def c_toupper_def Let_def)
  have small: "(n::nat) mod 256 \<noteq> 0" if "0 < n" "n < 256" for n using that by simp
  show "c_tolower c = NUL \<longleftrightarrow> c = NUL" "c_toupper c = NUL \<longleftrightarrow> c = NUL"
    using small[of "of_char c + 32"] small[of "of_char c - 32"]
    by (auto simp: c_tolower_def c_toupper_def Let_def NUL_def char_of_eq_iff take_bit_eq_mod simp flip: mod_eq_0_iff_dvd)
qed

text \<open>Converting the case touches only the characters of the string, keeps its length, and a
  second conversion makes the first one irrelevant.\<close>

lemma case_conversions:
  "length (baa_strlwr s) = length s" "length (baa_strupr s) = length s"
  "baa_strlwr (baa_strupr s) = baa_strlwr s" "baa_strupr (baa_strlwr s) = baa_strupr s"
  "baa_strlwr (baa_strlwr s) = baa_strlwr s" "baa_strupr (baa_strupr s) = baa_strupr s"
  by (induction s) (simp_all add: case_chars)

end
