(* ===== verification/Baa_Descriptors.thy ===== *)
theory Baa_Descriptors
  imports Baa_Error "HOL-Library.Multiset"
begin

text \<open>
  Accounting of socket descriptors along a trace, for the components that open them
  (\<open>src/src/network.c\<close>, \<open>src/src/can_lin.c\<close>): the multisets of descriptors that a list of
  events opened and closed, what it means that a function hands out exactly the descriptor it
  returns, and the interface of a loop that tries candidates until one of them works.
\<close>

fun opened :: "event list \<Rightarrow> int multiset" where
  "opened [] = {#}"
| "opened ((Sock (Socket d t p), r) # es) = (if rv r = -1 then {#} else {#rv r#}) + opened es"
| "opened (e # es) = opened es"

fun closed :: "event list \<Rightarrow> int multiset" where
  "closed [] = {#}"
| "closed ((File (Close fd), r) # es) = {#fd#} + closed es"
| "closed (e # es) = closed es"

lemma opened_append [simp]: "opened (xs @ ys) = opened xs + opened ys"
  by (induction xs rule: opened.induct) (simp_all add: ac_simps)

lemma closed_append [simp]: "closed (xs @ ys) = closed xs + closed ys"
  by (induction xs rule: closed.induct) (simp_all add: ac_simps)

text \<open>The events opened what they closed and, unless the result is -1, the result.\<close>

definition hands_out :: "int \<Rightarrow> event list \<Rightarrow> bool" where
  "hands_out ret new \<longleftrightarrow> opened new = closed new + (if ret = -1 then {#} else {#ret#})"

lemma hands_out_append: "hands_out (-1) xs \<Longrightarrow> hands_out ret ys \<Longrightarrow> hands_out ret (xs @ ys)"
  by (auto simp: hands_out_def)

lemma hands_out_append_last: "hands_out ret xs \<Longrightarrow> opened ys = {#} \<Longrightarrow> closed ys = {#} \<Longrightarrow> hands_out ret (xs @ ys)"
  by (auto simp: hands_out_def)

text \<open>
  The interface of a loop over candidates. One round either leaves no descriptor behind and
  goes on with the rest, or ends the loop with a result that accounts for what is open.
  Then the whole loop accounts for every descriptor.
\<close>

locale fd_loop =
  fixes lp :: "'a list \<Rightarrow> world \<Rightarrow> 'r \<times> world" and fd_of :: "'r \<Rightarrow> int"
  assumes lp_Nil: "fd_of (fst (lp [] w)) = -1 \<and> snd (lp [] w) = w"
    and lp_Cons: "\<exists>v new. io v = io w @ new \<and>
      (hands_out (-1) new \<and> lp (a # as) w = lp as v \<or> (\<exists>r. lp (a # as) w = (r, v) \<and> hands_out (fd_of r) new))"
begin

lemma lp_hands_out: "\<exists>new. io (snd (lp as w)) = io w @ new \<and> hands_out (fd_of (fst (lp as w))) new"
proof (induction "as" arbitrary: w)
  case Nil
  then show ?case using lp_Nil[of w] by (auto simp: hands_out_def)
next
  case (Cons a "as")
  obtain v new where v: "io v = io w @ new"
    "hands_out (-1) new \<and> lp (a # as) w = lp as v \<or> (\<exists>r. lp (a # as) w = (r, v) \<and> hands_out (fd_of r) new)"
    using lp_Cons by blast
  then show ?case
  proof (elim disjE exE conjE)
    assume "hands_out (-1) new" "lp (a # as) w = lp as v"
    with Cons.IH[of v] v(1) show ?thesis by (auto intro: hands_out_append)
  qed auto
qed

end

end
