(* ===== verification/Baa_Network.thy ===== *)
theory Baa_Network
  imports Baa_Helper Baa_Descriptors
begin

text \<open>
  Sockets, \<open>src/src/network.c\<close>: unix domain and internet sockets with their timeouts, and the
  daytime server. A C string argument that may be \<open>NULL\<close> is an option, an out parameter is
  part of the result.
\<close>

section \<open>Constants\<close>

abbreviation (input) AF_UNSPEC :: int where "AF_UNSPEC \<equiv> 0"
abbreviation (input) AF_UNIX :: int where "AF_UNIX \<equiv> 1"
abbreviation (input) SOCK_STREAM :: int where "SOCK_STREAM \<equiv> 1"
abbreviation (input) SOCK_DGRAM :: int where "SOCK_DGRAM \<equiv> 2"
abbreviation (input) SO_RCVTIMEO :: int where "SO_RCVTIMEO \<equiv> 20"
abbreviation (input) SO_SNDTIMEO :: int where "SO_SNDTIMEO \<equiv> 21"
abbreviation (input) AI_PASSIVE :: int where "AI_PASSIVE \<equiv> 1"

text \<open>The constants of \<open>enum baa_bitpositions\<close>: bit \<open>k\<close> of 32.\<close>

definition BAA_BIT :: "nat \<Rightarrow> c_uint" where "BAA_BIT k = push_bit k 1"

definition USE_PID :: byte where "USE_PID = ucast (BAA_BIT 0)"
definition USE_BIND :: byte where "USE_BIND = ucast (BAA_BIT 1)"
definition USE_CONNECT :: byte where "USE_CONNECT = ucast (BAA_BIT 2)"
definition USE_LISTEN :: byte where "USE_LISTEN = ucast (BAA_BIT 3)"

lemma use_flags: "USE_PID = 0x01" "USE_BIND = 0x02" "USE_CONNECT = 0x04" "USE_LISTEN = 0x08"
  by (simp_all add: USE_PID_def USE_BIND_def USE_CONNECT_def USE_LISTEN_def BAA_BIT_def)

lemmas use_defs = use_flags

definition BACKLOG :: int where "BACKLOG = 10"

definition UDS_NAME_ADD :: string where "UDS_NAME_ADD = ''socket''"

definition CONNECT_TIMEOUT :: nat where "CONNECT_TIMEOUT = 5"
definition RECV_TIMEOUT :: int where "RECV_TIMEOUT = 5"
definition SEND_TIMEOUT :: int where "SEND_TIMEOUT = 5"

text \<open>The size of \<open>sun_path\<close>.\<close>

abbreviation (input) SUN_PATH_SIZE :: nat where "SUN_PATH_SIZE \<equiv> 108"

section \<open>Timeouts\<close>

definition set_timeout :: "int \<Rightarrow> int \<Rightarrow> int \<Rightarrow> world \<Rightarrow> int \<times> world" where
  "set_timeout sfd optval nsec w =
    (let (r, w) = sys (Sock (Setsockopt sfd (Timeval optval nsec 0))) w
     in if rv r = -1 then (-1, baa_errno_msg ''could not set timeout'' [] w) else (0, w))"

definition set_snd_timeout :: "int \<Rightarrow> world \<Rightarrow> int \<times> world" where
  "set_snd_timeout sfd w = set_timeout sfd SO_SNDTIMEO SEND_TIMEOUT w"

definition set_rcv_timeout :: "int \<Rightarrow> world \<Rightarrow> int \<times> world" where
  "set_rcv_timeout sfd w = set_timeout sfd SO_RCVTIMEO RECV_TIMEOUT w"

definition handle_alarm :: sighandler where
  "handle_alarm = Handler ''handle_alarm''"

section \<open>Unix domain sockets\<close>

definition uds_name :: "string \<Rightarrow> string option \<Rightarrow> byte \<Rightarrow> world \<Rightarrow> string \<times> world" where
  "uds_name name dir flags w =
    (case dir of
       None \<Rightarrow>
         if flags AND USE_PID \<noteq> 0
         then (let (pid, w) = sys (Proc Getpid) w in (fmt_text ''%s.%ld'' [FStr name, FInt (rv pid)], w))
         else (fmt_text ''%s.%s'' [FStr name, FStr UDS_NAME_ADD], w)
     | Some d \<Rightarrow>
         if flags AND USE_PID \<noteq> 0
         then (let (pid, w) = sys (Proc Getpid) w in (fmt_text ''%s/%s.%ld'' [FStr d, FStr name, FInt (rv pid)], w))
         else (fmt_text ''%s/%s.%s'' [FStr d, FStr name, FStr UDS_NAME_ADD], w))"

definition uds_bind :: "byte \<Rightarrow> int \<Rightarrow> sockaddr \<Rightarrow> world \<Rightarrow> bool \<times> world" where
  "uds_bind flags sfd addr w =
    (if flags AND USE_BIND \<noteq> 0 then
       (let (r, w) = sys (Sock (Bind sfd addr)) w
        in if rv r < 0 then (False, baa_errno_msg ''could not bind socket'' [] w) else (True, w))
     else (True, w))"

definition uds_connect :: "byte \<Rightarrow> int \<Rightarrow> sockaddr \<Rightarrow> world \<Rightarrow> bool \<times> world" where
  "uds_connect flags sfd addr w =
    (if flags AND USE_CONNECT \<noteq> 0 then
       (let nsec = CONNECT_TIMEOUT;
            (old_handler, w) = baa_signal SIGALRM handle_alarm w;
            (r, w) = sys (Proc (Alarm nsec)) w;
            w = (if rv r \<noteq> 0 then baa_info_msg ''could not set alarm timer (%d sec)'' [FInt (int nsec)] w else w);
            (r, w) = sys (Sock (Connect sfd addr)) w
        in if rv r < 0 then (False, baa_errno_msg ''could not connect socket'' [] w)
           else
             (let (_, w) = sys (Proc (Alarm 0)) w;
                  (_, w) = baa_signal SIGALRM old_handler w
              in (True, w)))
     else (True, w))"

definition uds_socket :: "string option \<Rightarrow> string option \<Rightarrow> int \<Rightarrow> byte \<Rightarrow> world \<Rightarrow> (int \<times> string option) \<times> world" where
  "uds_socket name dir type flags w =
    (case name of
       None \<Rightarrow> ((-1, None), w)
     | Some nm \<Rightarrow>
         (let (path, w) = uds_name nm dir flags w;
              n = length path;
              (str, w) = c_snprintf 0 BAA_MAXLINE path (replicate BAA_MAXLINE NUL) w;
              str = c_str str;
              (r, w) = sys (File (Unlink str)) w
          in if rv r = -1 \<and> w_errno w \<noteq> ENOENT
             then ((-1, None), baa_errno_msg ''couln't unlink %s'' [FStr str] w)
             else if length str > SUN_PATH_SIZE - 1
             then ((-1, None),
                   baa_error_msg ''strlen(str) > (sizeof(add.sun_path) -1)  in %s'' [FStr ''uds_socket''] w)
             else
               (let (s, w) = sys (Sock (Socket AF_UNIX type 0)) w;
                    sfd = rv s
                in if sfd = -1
                   then ((-1, None), baa_errno_msg ''could not open socket in %s'' [FStr ''uds_socket''] w)
                   else
                     (let (sun_path, w) = c_strncpy str (SUN_PATH_SIZE - 1) (replicate SUN_PATH_SIZE NUL) w;
                          addr = UnixAddr (c_str sun_path);
                          (bound, w) = uds_bind flags sfd addr w
                      in if \<not> bound then ((-1, None), w)
                         else
                           (let (connected, w) = uds_connect flags sfd addr w
                            in if \<not> connected then ((-1, None), w)
                               else
                                 (let (_, w) = set_snd_timeout sfd w;
                                      (_, w) = set_rcv_timeout sfd w;
                                      (m, w) = sys (Mem (Malloc (n + 1))) w
                                  in if rv m = 0 then ((-1, None), baa_errno_msg ''sfd_f == NULL %s'' [FStr str] w)
                                     else (let (sfd_f, w) = c_strncpy str n (replicate (n + 1) NUL) w
                                           in ((sfd, Some (c_str sfd_f)), w))))))))"

definition baa_uds_dgram_server :: "string option \<Rightarrow> string option \<Rightarrow> world \<Rightarrow> (int \<times> string option) \<times> world" where
  "baa_uds_dgram_server name dir w = uds_socket name dir SOCK_DGRAM USE_BIND w"

definition listen_on :: "string \<Rightarrow> int \<Rightarrow> world \<Rightarrow> int \<times> world" where
  "listen_on fn sfd w =
    (if sfd = -1 then (-1, w)
     else
       (let (r, w) = sys (Sock (Listen sfd BACKLOG)) w
        in if rv r = -1 then (-1, baa_errno_msg ''listen in %s'' [FStr fn] w) else (sfd, w)))"

definition baa_uds_stream_server :: "string option \<Rightarrow> string option \<Rightarrow> world \<Rightarrow> (int \<times> string option) \<times> world" where
  "baa_uds_stream_server name dir w =
    (let ((sfd, socket_f), w) = uds_socket name dir SOCK_STREAM USE_BIND w;
         (ret, w) = listen_on ''baa_uds_stream_server'' sfd w
     in ((ret, socket_f), w))"

definition baa_uds_dgram_client :: "string option \<Rightarrow> string option \<Rightarrow> world \<Rightarrow> (int \<times> string option) \<times> world" where
  "baa_uds_dgram_client name dir w = uds_socket name dir SOCK_DGRAM (USE_PID OR USE_BIND) w"

definition baa_uds_stream_client :: "string option \<Rightarrow> string option \<Rightarrow> world \<Rightarrow> (int \<times> string option) \<times> world" where
  "baa_uds_stream_client name dir w = uds_socket name dir SOCK_DGRAM (USE_PID OR USE_CONNECT) w"

definition baa_unlink_uds :: "int \<Rightarrow> world \<Rightarrow> int \<times> world" where
  "baa_unlink_uds sfd w =
    (let (r, w) = sys (Sock (Getsockname sfd)) w
     in if rv r = -1
        then (-1, baa_errno_msg ''could not get sun_path in %s'' [FStr ''baa_unlink_uds''] w)
        else
          (let sun_path = (case rfrom r of UnixAddr p \<Rightarrow> p | _ \<Rightarrow> c_str (uninit_chars SUN_PATH_SIZE w));
               (u, w) = sys (File (Unlink sun_path)) w
           in if rv u = -1 then
                (if w_errno w = ENOENT then (0, baa_info_msg ''no such file %s'' [FStr sun_path] w)
                 else (-1, baa_errno_msg ''could not unlink %s in %s'' [FStr sun_path, FStr ''baa_unlink_uds''] w))
              else (0, w)))"

definition baa_create_uds_name_string :: "string option \<Rightarrow> string option \<Rightarrow> world \<Rightarrow> string option \<times> world" where
  "baa_create_uds_name_string file dir w =
    (case (file, dir) of
       (Some f, Some d) \<Rightarrow>
         (let path = fmt_text ''%s/%s'' [FStr d, FStr f];
              n = length path;
              (tmp_str, w) = c_snprintf 0 BAA_MAXLINE path (replicate BAA_MAXLINE NUL) w;
              tmp_str = c_str tmp_str
          in if length tmp_str > SUN_PATH_SIZE
             then (None, baa_error_msg ''strlen(tmp_str) > sizeof(add.sun_path) in %s''
                           [FStr ''baa_create_uds_name_string''] w)
             else
               (let (m, w) = sys (Mem (Malloc (n + 1))) w
                in if rv m = 0 then (None, baa_errno_msg ''str == NULL %s'' [FStr tmp_str] w)
                   else (let (str, w) = c_strncpy tmp_str n (replicate (n + 1) NUL) w in (Some (c_str str), w))))
     | _ \<Rightarrow> (None, w))"

section \<open>Internet sockets\<close>

text \<open>The loops walk over the list of addresses with \<open>rp\<close>, but use the head \<open>result\<close> in every
  round.\<close>

fun connect_loop :: "addrinfo \<Rightarrow> addrinfo list \<Rightarrow> world \<Rightarrow> int \<times> world" where
  "connect_loop result [] w = (-1, w)"
| "connect_loop result (rp # rps) w =
    (let (s, w) = sys (Sock (Socket (ai_family result) (ai_socktype result) (ai_protocol result))) w;
         sfd = rv s
     in if sfd = -1 then connect_loop result rps w
        else
          (let (_, w) = set_rcv_timeout sfd w;
               (_, w) = set_snd_timeout sfd w;
               (r, w) = sys (Sock (Connect sfd (ai_addr result))) w
           in if rv r = 0 then (sfd, w)
              else (let (_, w) = sys (File (Close sfd)) w in connect_loop result rps w)))"

definition connect_inet_socket :: "string option \<Rightarrow> string \<Rightarrow> int \<Rightarrow> world \<Rightarrow> int \<times> world" where
  "connect_inet_socket host service type w =
    (let (g, w) = sys (Sock (Getaddrinfo host service type 0)) w
     in if rv g \<noteq> 0
        then (-1, baa_info_msg ''getaddrinfo in %s with %s'' [FStr ''connect_inet_socket'', FStr (rstr g)] w)
        else
          (let nsec = CONNECT_TIMEOUT;
               (old_handler, w) = baa_signal SIGALRM handle_alarm w;
               (r, w) = sys (Proc (Alarm nsec)) w;
               w = (if rv r \<noteq> 0 then baa_info_msg ''could not set alarm timer (%d sec)'' [FInt (int nsec)] w else w);
               (sfd, w) = connect_loop (hd (raddrs g)) (raddrs g) w;
               (_, w) = sys (Proc (Alarm 0)) w;
               (_, w) = baa_signal SIGALRM old_handler w;
               (_, w) = sys (Sock Freeaddrinfo) w
           in (sfd, w)))"

definition baa_inet_dgram_client :: "string option \<Rightarrow> string \<Rightarrow> world \<Rightarrow> int \<times> world" where
  "baa_inet_dgram_client host service w = connect_inet_socket host service SOCK_DGRAM w"

definition baa_inet_stream_client :: "string option \<Rightarrow> string \<Rightarrow> world \<Rightarrow> int \<times> world" where
  "baa_inet_stream_client host service w = connect_inet_socket host service SOCK_STREAM w"

text \<open>The result of the bind loop: a descriptor or -1, and whether the function has already
  returned (and freed the list) inside the loop.\<close>

fun bind_loop :: "byte \<Rightarrow> addrinfo \<Rightarrow> addrinfo list \<Rightarrow> world \<Rightarrow> (int \<times> bool) \<times> world" where
  "bind_loop flags result [] w = ((-1, False), w)"
| "bind_loop flags result (rp # rps) w =
    (let (s, w) = sys (Sock (Socket (ai_family result) (ai_socktype result) (ai_protocol result))) w;
         sfd = rv s
     in if sfd = -1 then bind_loop flags result rps w
        else
          (let listening = flags AND USE_LISTEN \<noteq> 0;
               (ok, w) = (if listening
                          then (let (r, w) = sys (Sock (Setsockopt sfd (Reuseaddr 1))) w in (rv r \<noteq> -1, w))
                          else (True, w))
           in if \<not> ok then
                (let w = baa_errno_msg ''setsockopt in %s'' [FStr ''bind_inet_socket''] w;
                     (_, w) = sys (Sock Freeaddrinfo) w;
                     (_, w) = sys (File (Close sfd)) w
                 in ((-1, True), w))
              else
                (let (_, w) = set_snd_timeout sfd w;
                     (_, w) = set_rcv_timeout sfd w;
                     (r, w) = sys (Sock (Bind sfd (ai_addr result))) w
                 in if rv r = 0 then ((sfd, False), w)
                    else (let (_, w) = sys (File (Close sfd)) w in bind_loop flags result rps w))))"

definition bind_inet_socket :: "string \<Rightarrow> int \<Rightarrow> byte \<Rightarrow> world \<Rightarrow> int \<times> world" where
  "bind_inet_socket service type flags w =
    (let (g, w) = sys (Sock (Getaddrinfo None service type AI_PASSIVE)) w
     in if rv g \<noteq> 0
        then (-1, baa_info_msg ''getaddrinfo in %s with %s'' [FStr ''bind_inet_socket'', FStr (rstr g)] w)
        else
          (let ((sfd, returned), w) = bind_loop flags (hd (raddrs g)) (raddrs g) w
           in if returned then (-1, w)
              else (let (_, w) = sys (Sock Freeaddrinfo) w in (sfd, w))))"

definition baa_inet_dgram_server :: "string \<Rightarrow> world \<Rightarrow> int \<times> world" where
  "baa_inet_dgram_server service w = bind_inet_socket service SOCK_DGRAM 0 w"

definition baa_inet_stream_server :: "string \<Rightarrow> world \<Rightarrow> int \<times> world" where
  "baa_inet_stream_server service w =
    (let (sfd, w) = bind_inet_socket service SOCK_STREAM USE_LISTEN w
     in listen_on ''baa_inet_stream_server'' sfd w)"

section \<open>The daytime server\<close>

definition daytime_iteration :: "int \<Rightarrow> char list \<Rightarrow> world \<Rightarrow> char list \<times> world" where
  "daytime_iteration sfd buf w =
    (let (c, w) = sys (Sock (Accept sfd)) w;
         confd = rv c
     in if confd = -1 then (buf, w)
        else
          (let (t, w) = sys (Sock Time) w;
               (buf, w) = c_snprintf 0 BAA_MAXLINE (take 24 (rstr t) @ [CHR 0x0D, CHR 0x0A]) buf w;
               (len, w) = c_strlen buf w;
               (r, w) = sys (File (Write confd (take len buf))) w;
               w = (if rv r \<noteq> int len
                    then baa_errno_msg ''could not write %s to socket'' [FStr (c_str buf)] w else w)
           in (buf, w)))"

fun daytime_run :: "nat \<Rightarrow> int \<Rightarrow> char list \<Rightarrow> world \<Rightarrow> char list \<times> world" where
  "daytime_run 0 sfd buf w = (buf, w)"
| "daytime_run (Suc n) sfd buf w = (let (buf, w) = daytime_iteration sfd buf w in daytime_run n sfd buf w)"

definition baa_daytime_server_th :: "nat \<Rightarrow> int \<Rightarrow> world \<Rightarrow> world" where
  "baa_daytime_server_th n sfd w = snd (daytime_run n sfd (replicate BAA_MAXLINE NUL) w)"

section \<open>What the pieces add to the trace\<close>

lemma set_timeout_simps:
  "io (snd (set_timeout sfd o' n w)) = io w @ [(Sock (Setsockopt sfd (Timeval o' n 0)), answer w (Sock (Setsockopt sfd (Timeval o' n 0))))]"
  "w_os (snd (set_timeout sfd o' n w)) = w_os w" "w_fault (snd (set_timeout sfd o' n w)) = w_fault w"
  by (simp_all add: set_timeout_def split_def Let_def sys_simps)

lemmas timeout_simps [simp] =
  set_timeout_simps[of _ SO_SNDTIMEO SEND_TIMEOUT, folded set_snd_timeout_def]
  set_timeout_simps[of _ SO_RCVTIMEO RECV_TIMEOUT, folded set_rcv_timeout_def]

definition signal_call :: "int \<Rightarrow> sighandler \<Rightarrow> call" where
  "signal_call signo h = Proc (Sigaction signo h (if signo = SIGALRM then 0 else SA_RESTART))"

lemma baa_signal_simps [simp]:
  "io (snd (baa_signal s h w)) = io w @ [(signal_call s h, answer w (signal_call s h))]"
  "fst (baa_signal s h w) = (if rv (answer w (signal_call s h)) < 0 then SIG_ERR else rhandler (answer w (signal_call s h)))"
  "w_os (snd (baa_signal s h w)) = w_os w" "w_fault (snd (baa_signal s h w)) = w_fault w"
  by (simp_all add: baa_signal_def signal_call_def split_def Let_def sys_simps)

lemma opened_signal [simp]: "opened ((signal_call s h, r) # es) = opened es"
  "closed ((signal_call s h, r) # es) = closed es"
  by (simp_all add: signal_call_def)

section \<open>Descriptors of internet sockets\<close>

interpretation conn: fd_loop "connect_loop result" "\<lambda>r. r" for result
proof unfold_locales
  fix w :: world and rp rps
  let ?c = "Sock (Socket (ai_family result) (ai_socktype result) (ai_protocol result))"
  let ?fd = "rv (answer w ?c)" let ?w1 = "snd (sys ?c w)"
  let ?w3 = "snd (set_snd_timeout ?fd (snd (set_rcv_timeout ?fd ?w1)))"
  let ?k = "Sock (Connect ?fd (ai_addr result))" let ?w4 = "snd (sys ?k ?w3)"
  let ?w5 = "snd (sys (File (Close ?fd)) ?w4)"
  consider (none) "?fd = -1" | (ok) "?fd \<noteq> -1" "rv (answer ?w3 ?k) = 0" | (no) "?fd \<noteq> -1" "rv (answer ?w3 ?k) \<noteq> 0"
    by blast
  then show "\<exists>v new. io v = io w @ new \<and> (hands_out (-1) new \<and> connect_loop result (rp # rps) w = connect_loop result rps v \<or>
      (\<exists>r. connect_loop result (rp # rps) w = (r, v) \<and> hands_out r new))"
  proof cases
    case none
    then show ?thesis
      by (intro exI[of _ ?w1] exI[of _ "[(?c, answer w ?c)]"]) (simp add: split_def Let_def sys_simps hands_out_def)
  next
    case ok
    then show ?thesis
      by (intro exI[of _ ?w4]) (simp add: split_def Let_def sys_simps hands_out_def)
  next
    case no
    then show ?thesis
      by (intro exI[of _ ?w5]) (simp add: split_def Let_def sys_simps hands_out_def)
  qed
qed simp

definition reuse_step :: "byte \<Rightarrow> int \<Rightarrow> world \<Rightarrow> bool \<times> world" where
  "reuse_step flags sfd w =
    (if flags AND USE_LISTEN \<noteq> 0
     then (rv (answer w (Sock (Setsockopt sfd (Reuseaddr 1)))) \<noteq> -1, snd (sys (Sock (Setsockopt sfd (Reuseaddr 1))) w))
     else (True, w))"

lemma reuse_step_io: "\<exists>l. io (snd (reuse_step flags sfd w)) = io w @ l \<and> opened l = {#} \<and> closed l = {#}"
  by (auto simp: reuse_step_def sys_simps)

interpretation bnd: fd_loop "bind_loop flags result" fst for flags result
proof unfold_locales
  fix w :: world and rp rps
  let ?c = "Sock (Socket (ai_family result) (ai_socktype result) (ai_protocol result))"
  let ?fd = "rv (answer w ?c)" let ?w1 = "snd (sys ?c w)"
  let ?w2 = "snd (reuse_step flags ?fd ?w1)"
  let ?we = "baa_errno_msg ''setsockopt in %s'' [FStr ''bind_inet_socket''] ?w2"
  let ?wf = "snd (sys (File (Close ?fd)) (snd (sys (Sock Freeaddrinfo) ?we)))"
  let ?w3 = "snd (set_rcv_timeout ?fd (snd (set_snd_timeout ?fd ?w2)))"
  let ?k = "Sock (Bind ?fd (ai_addr result))" let ?w4 = "snd (sys ?k ?w3)"
  let ?w5 = "snd (sys (File (Close ?fd)) ?w4)"
  obtain l where l: "io ?w2 = io w @ (?c, answer w ?c) # l" "opened l = {#}" "closed l = {#}"
    using reuse_step_io[of flags ?fd ?w1] by (auto simp: sys_simps)
  have step: "bind_loop flags result (rp # rps) w =
    (if ?fd = -1 then bind_loop flags result rps ?w1
     else if \<not> fst (reuse_step flags ?fd ?w1) then ((-1, True), ?wf)
     else if rv (answer ?w3 ?k) = 0 then ((?fd, False), ?w4) else bind_loop flags result rps ?w5)"
    by (simp add: split_def Let_def sys_simps reuse_step_def)
  consider (none) "?fd = -1" | (opt) "?fd \<noteq> -1" "\<not> fst (reuse_step flags ?fd ?w1)"
    | (ok) "?fd \<noteq> -1" "fst (reuse_step flags ?fd ?w1)" "rv (answer ?w3 ?k) = 0"
    | (no) "?fd \<noteq> -1" "fst (reuse_step flags ?fd ?w1)" "rv (answer ?w3 ?k) \<noteq> 0" by blast
  then show "\<exists>v new. io v = io w @ new \<and> (hands_out (-1) new \<and> bind_loop flags result (rp # rps) w = bind_loop flags result rps v \<or>
      (\<exists>r. bind_loop flags result (rp # rps) w = (r, v) \<and> hands_out (fst r) new))"
  proof cases
    case none
    then show ?thesis unfolding step
      by (intro exI[of _ ?w1] exI[of _ "[(?c, answer w ?c)]"]) (simp add: sys_simps hands_out_def)
  next
    case opt
    then show ?thesis unfolding step using l
      by (intro exI[of _ ?wf]) (simp add: sys_simps hands_out_def)
  next
    case ok
    then show ?thesis unfolding step using l
      by (intro exI[of _ ?w4]) (simp add: sys_simps hands_out_def)
  next
    case no
    then show ?thesis unfolding step using l
      by (intro exI[of _ ?w5]) (simp add: sys_simps hands_out_def)
  qed
qed simp

lemma bind_loop_returned: "snd (fst (bind_loop flags result as w)) \<Longrightarrow> fst (fst (bind_loop flags result as w)) = -1"
  by (induction "as" arbitrary: w) (auto simp: split_def Let_def split: if_splits)

text \<open>A connection attempt after a successful lookup: the alarm and its handler around the loop.\<close>

lemma connect_inet_shape:
  fixes host service type w
  defines "g \<equiv> Sock (Getaddrinfo host service type 0)"
  defines "old \<equiv> fst (baa_signal SIGALRM handle_alarm (snd (sys g w)))"
  assumes ok: "rv (answer w g) = 0"
  shows "\<exists>r1 r2 r3 r4 r5 new. io (snd (connect_inet_socket host service type w)) = io w @
      [(g, answer w g), (signal_call SIGALRM handle_alarm, r1), (Proc (Alarm 5), r2)] @ new @
      [(Proc (Alarm 0), r3), (signal_call SIGALRM old, r4), (Sock Freeaddrinfo, r5)] \<and>
    hands_out (fst (connect_inet_socket host service type w)) new"
proof -
  let ?w1 = "snd (sys g w)" let ?r = "answer w g" let ?w2 = "snd (baa_signal SIGALRM handle_alarm ?w1)"
  let ?w3 = "snd (sys (Proc (Alarm CONNECT_TIMEOUT)) ?w2)"
  define w4 where "w4 = (if rv (answer ?w2 (Proc (Alarm CONNECT_TIMEOUT))) \<noteq> 0
    then baa_info_msg ''could not set alarm timer (%d sec)'' [FInt (int CONNECT_TIMEOUT)] ?w3 else ?w3)"
  define lp where "lp = connect_loop (hd (raddrs ?r)) (raddrs ?r) w4"
  define w6 where "w6 = snd (baa_signal SIGALRM old (snd (sys (Proc (Alarm 0)) (snd lp))))"
  have con: "connect_inet_socket host service type w = (fst lp, snd (sys (Sock Freeaddrinfo) w6))"
    using ok unfolding g_def
    by (simp add: connect_inet_socket_def split_def Let_def sys_simps w4_def lp_def w6_def g_def old_def)
  obtain new where "io (snd lp) = io w4 @ new" "hands_out (fst lp) new"
    unfolding lp_def using conn.lp_hands_out by blast
  moreover have "\<exists>r1 r2. io w4 = io w @ [(g, ?r), (signal_call SIGALRM handle_alarm, r1), (Proc (Alarm 5), r2)]"
    by (simp add: w4_def sys_simps CONNECT_TIMEOUT_def g_def)
  ultimately show ?thesis
    unfolding con by (auto simp: w6_def sys_simps simp del: baa_signal_simps(2))
qed

lemma connect_inet_accounted:
  "\<exists>new. io (snd (connect_inet_socket host service type w)) = io w @ new \<and>
    hands_out (fst (connect_inet_socket host service type w)) new"
proof (cases "rv (answer w (Sock (Getaddrinfo host service type 0))) = 0")
  case True
  from connect_inet_shape[OF this] show ?thesis by (auto simp: hands_out_def)
next
  case False
  then show ?thesis by (simp add: connect_inet_socket_def split_def Let_def sys_simps hands_out_def)
qed

lemma bind_inet_accounted:
  "\<exists>new. io (snd (bind_inet_socket service type flags w)) = io w @ new \<and>
    hands_out (fst (bind_inet_socket service type flags w)) new"
proof -
  let ?b = "Sock (Getaddrinfo None service type AI_PASSIVE)" let ?v = "snd (sys ?b w)" let ?q = "answer w ?b"
  define bl where "bl = bind_loop flags (hd (raddrs ?q)) (raddrs ?q) ?v"
  have bi: "bind_inet_socket service type flags w =
    (if rv ?q \<noteq> 0 then (-1, baa_info_msg ''getaddrinfo in %s with %s'' [FStr ''bind_inet_socket'', FStr (rstr ?q)] ?v)
     else if snd (fst bl) then (-1, snd bl) else (fst (fst bl), snd (sys (Sock Freeaddrinfo) (snd bl))))"
    by (simp add: bind_inet_socket_def split_def Let_def sys_simps bl_def)
  have ret: "snd (fst bl) \<Longrightarrow> fst (fst bl) = -1" unfolding bl_def by (rule bind_loop_returned)
  obtain new where "io (snd bl) = io ?v @ new" "hands_out (fst (fst bl)) new"
    unfolding bl_def using bnd.lp_hands_out by blast
  then show ?thesis unfolding bi using ret by (auto simp: sys_simps hands_out_def)
qed

text \<open>
  C15. The internet sockets leak no descriptor. Whatever the system answers, connecting and binding open
  exactly the descriptors they close and, unless they return -1, the one they return. A
  client that got past the name lookup always ends by switching the alarm off, installing
  the old handler again and freeing the address list, also when no connection was made.
\<close>
theorem inet_sockets_accounted:
  "(\<exists>new. io (snd (connect_inet_socket host service type w)) = io w @ new \<and>
      hands_out (fst (connect_inet_socket host service type w)) new) \<and>
   (\<exists>new. io (snd (bind_inet_socket service type flags w)) = io w @ new \<and>
      hands_out (fst (bind_inet_socket service type flags w)) new) \<and>
   (rv (answer w (Sock (Getaddrinfo host service type 0))) = 0 \<longrightarrow>
      (\<exists>calls. map fst (io (snd (connect_inet_socket host service type w))) = map fst (io w) @
         [Sock (Getaddrinfo host service type 0), signal_call SIGALRM handle_alarm, Proc (Alarm 5)] @ calls @
         [Proc (Alarm 0),
          signal_call SIGALRM (fst (baa_signal SIGALRM handle_alarm (snd (sys (Sock (Getaddrinfo host service type 0)) w)))),
          Sock Freeaddrinfo]))"
proof (intro conjI impI connect_inet_accounted bind_inet_accounted)
  assume "rv (answer w (Sock (Getaddrinfo host service type 0))) = 0"
  from connect_inet_shape[OF this]
  show "\<exists>calls. map fst (io (snd (connect_inet_socket host service type w))) = map fst (io w) @
         [Sock (Getaddrinfo host service type 0), signal_call SIGALRM handle_alarm, Proc (Alarm 5)] @ calls @
         [Proc (Alarm 0),
          signal_call SIGALRM (fst (baa_signal SIGALRM handle_alarm (snd (sys (Sock (Getaddrinfo host service type 0)) w)))),
          Sock Freeaddrinfo]"
    by (auto simp del: baa_signal_simps(2))
qed

theorem inet_sockets_accounted_witness:
  "\<exists>calls. map fst (io (snd (connect_inet_socket None ''37'' SOCK_STREAM (init_world (\<lambda>_ _. reply_of 0))))) =
    [Sock (Getaddrinfo None ''37'' SOCK_STREAM 0), signal_call SIGALRM handle_alarm, Proc (Alarm 5)] @ calls @
    [Proc (Alarm 0), signal_call SIGALRM SIG_DFL, Sock Freeaddrinfo]"
  using inet_sockets_accounted[where host = None and service = "''37''" and type = SOCK_STREAM and w = "init_world (\<lambda>_ _. reply_of 0)"]
  by (simp add: answer_def sys_simps reply_of_def)

section \<open>Unix domain sockets\<close>

text \<open>An environment in which the calls for a unix domain socket succeed.\<close>

definition uds_env :: "(nat \<Rightarrow> call \<Rightarrow> reply) \<Rightarrow> int \<Rightarrow> bool" where
  "uds_env os sfd \<longleftrightarrow> sfd \<noteq> -1 \<and>
    (\<forall>n p. rv (os n (File (Unlink p))) = 0) \<and> (\<forall>n t. rv (os n (Sock (Socket AF_UNIX t 0))) = sfd) \<and>
    (\<forall>n a. rv (os n (Sock (Bind sfd a))) = 0) \<and> (\<forall>n k. rv (os n (Mem (Malloc k))) \<noteq> 0)"

lemma snprintf_path:
  assumes "no_nul path" "length path < BAA_MAXLINE"
  shows "c_snprintf 0 BAA_MAXLINE path (replicate BAA_MAXLINE NUL) w = (overwrite 0 (path @ [NUL]) (replicate BAA_MAXLINE NUL), w)"
    "c_str (overwrite 0 (path @ [NUL]) (replicate BAA_MAXLINE NUL)) = path"
  using assms by (simp_all add: c_snprintf_def poke_def c_str_overwrite_text)

lemma strncpy_path:
  assumes "no_nul path" "length path \<le> n"
  shows "c_strncpy path n (replicate (Suc n) NUL) w = (strncpy_chars n path @ [NUL], w)"
    "c_str (strncpy_chars n path @ [NUL]) = path"
proof -
  show "c_strncpy path n (replicate (Suc n) NUL) w = (strncpy_chars n path @ [NUL], w)"
  proof -
    have "drop n (replicate (Suc n) NUL) = [NUL]" by (simp only: drop_replicate) simp
    then show ?thesis by (simp add: c_strncpy_def poke_def overwrite_def del: replicate_Suc)
  qed
  have "strncpy_chars n path @ [NUL] = path @ NUL # replicate (n - length path) NUL"
    using assms(2) by (simp add: strncpy_chars_fits replicate_append_same)
  then show "c_str (strncpy_chars n path @ [NUL]) = path" using assms(1) by simp
qed

lemma uds_env_answers:
  assumes "uds_env (w_os w) sfd"
  shows "rv (answer w (File (Unlink p))) = 0" "rv (answer w (Sock (Socket AF_UNIX t 0))) = sfd"
    "rv (answer w (Sock (Bind sfd a))) = 0" "rv (answer w (Mem (Malloc k))) \<noteq> 0" "sfd \<noteq> -1"
  using assms by (simp_all add: uds_env_def answer_def)

text \<open>The socket function for a path that fits: the steps after the socket is there.\<close>

lemma uds_socket_path:
  assumes "uds_name nm dir flags w = (path, v)" "no_nul path" "length path \<le> 107" "uds_env (w_os v) sfd"
  shows "uds_socket (Some nm) dir type flags w =
    (let w = snd (sys (Sock (Socket AF_UNIX type 0)) (snd (sys (File (Unlink path)) v)));
         (bound, w) = uds_bind flags sfd (UnixAddr path) w
     in if \<not> bound then ((-1, None), w)
        else let (connected, w) = uds_connect flags sfd (UnixAddr path) w
             in if \<not> connected then ((-1, None), w)
                else let w = snd (set_rcv_timeout sfd (snd (set_snd_timeout sfd w)))
                     in if rv (answer w (Mem (Malloc (length path + 1)))) = 0
                        then ((-1, None), baa_errno_msg ''sfd_f == NULL %s'' [FStr path] (snd (sys (Mem (Malloc (length path + 1))) w)))
                        else ((sfd, Some path), snd (sys (Mem (Malloc (length path + 1))) w)))"
proof -
  have m: "length path < BAA_MAXLINE" using assms(3) by (simp add: BAA_MAXLINE_def)
  have p: "c_strncpy path 107 (replicate 108 NUL) u = (strncpy_chars 107 path @ [NUL], u)"
    "c_str (strncpy_chars 107 path @ [NUL]) = path" for u
    using strncpy_path[OF assms(2), of 107] assms(3) by (simp_all del: replicate_Suc)
  have q: "c_strncpy path (length path) (replicate (length path + 1) NUL) u = (strncpy_chars (length path) path @ [NUL], u)"
    "c_str (strncpy_chars (length path) path @ [NUL]) = path" for u
    using strncpy_path[OF assms(2) order_refl] by (simp_all del: replicate_Suc)
  have s: "uds_env (w_os (snd (sys c v))) sfd" for c using assms(4) by (simp add: sys_simps)
  have "\<not> length path > SUN_PATH_SIZE - 1" using assms(3) by simp
  then show ?thesis
    unfolding uds_socket_def assms(1) option.case split_conv Let_def snprintf_path[OF assms(2) m]
    by (simp add: split_def Let_def p q sys_simps uds_env_answers[OF assms(4)] uds_env_answers[OF s]
        del: replicate_Suc One_nat_def add_Suc_right)
qed

lemma flag_simps:
  "USE_BIND AND USE_PID = 0" "USE_BIND AND USE_BIND \<noteq> 0" "USE_BIND AND USE_CONNECT = 0"
  "(USE_PID OR USE_CONNECT) AND USE_PID \<noteq> 0" "(USE_PID OR USE_CONNECT) AND USE_BIND = 0"
  "(USE_PID OR USE_CONNECT) AND USE_CONNECT \<noteq> 0" "USE_PID \<noteq> 0" "USE_BIND \<noteq> 0" "USE_CONNECT \<noteq> 0"
  by (simp_all add: use_defs)

lemma uds_dgram_server_bound:
  assumes "uds_env (w_os w) sfd" "path = dir @ ''/'' @ name @ ''.socket''" "no_nul path" "length path \<le> 107"
  shows "\<exists>w'. baa_uds_dgram_server (Some name) (Some dir) w = ((sfd, Some path), w') \<and> w_fault w' = w_fault w \<and> w_os w' = w_os w \<and>
    map fst (io w') = map fst (io w) @
      [File (Unlink path), Sock (Socket AF_UNIX SOCK_DGRAM 0), Sock (Bind sfd (UnixAddr path)),
       Sock (Setsockopt sfd (Timeval SO_SNDTIMEO 5 0)), Sock (Setsockopt sfd (Timeval SO_RCVTIMEO 5 0)),
       Mem (Malloc (length path + 1))]"
proof -
  have nm: "uds_name name (Some dir) USE_BIND w = (path, w)"
    using assms(2) by (simp add: uds_name_def flag_simps UDS_NAME_ADD_def)
  have env: "uds_env (w_os u) sfd \<Longrightarrow> rv (answer u (Sock (Bind sfd a))) = 0"
    "uds_env (w_os u) sfd \<Longrightarrow> rv (answer u (Mem (Malloc k))) \<noteq> 0" for u a k
    by (simp_all add: uds_env_answers)
  show ?thesis
    unfolding baa_uds_dgram_server_def uds_socket_path[OF nm assms(3,4,1)]
    using assms(1) by (simp add: split_def Let_def uds_bind_def uds_connect_def flag_simps sys_simps env
        SEND_TIMEOUT_def RECV_TIMEOUT_def)
qed

text \<open>
  A datagram server of the unix domain is bound to the name it reports: with a directory and a name
  whose path fits into an address, the function removes an old file of that path, binds a
  new socket to exactly that path, sets both timeouts, and returns the socket and the path.
  A path of 108 characters or more is refused, after the file has been removed.
\<close>
theorem uds_dgram_server_result:
  assumes "uds_env (w_os w) sfd" "path = dir @ ''/'' @ name @ ''.socket''" "no_nul path"
  shows "(length path \<le> 107 \<longrightarrow>
      (\<exists>w'. baa_uds_dgram_server (Some name) (Some dir) w = ((sfd, Some path), w') \<and> w_fault w' = w_fault w \<and>
        map fst (io w') = map fst (io w) @
          [File (Unlink path), Sock (Socket AF_UNIX SOCK_DGRAM 0), Sock (Bind sfd (UnixAddr path)),
           Sock (Setsockopt sfd (Timeval SO_SNDTIMEO 5 0)), Sock (Setsockopt sfd (Timeval SO_RCVTIMEO 5 0)),
           Mem (Malloc (length path + 1))])) \<and>
    (107 < length path \<and> length path < BAA_MAXLINE \<longrightarrow>
      (\<exists>w'. baa_uds_dgram_server (Some name) (Some dir) w = ((-1, None), w') \<and>
        map fst (io w') = map fst (io w) @ [File (Unlink path)]))"
proof (intro conjI impI; (elim conjE)?)
  assume "length path \<le> 107"
  from uds_dgram_server_bound[OF assms this]
  show "\<exists>w'. baa_uds_dgram_server (Some name) (Some dir) w = ((sfd, Some path), w') \<and> w_fault w' = w_fault w \<and>
        map fst (io w') = map fst (io w) @
          [File (Unlink path), Sock (Socket AF_UNIX SOCK_DGRAM 0), Sock (Bind sfd (UnixAddr path)),
           Sock (Setsockopt sfd (Timeval SO_SNDTIMEO 5 0)), Sock (Setsockopt sfd (Timeval SO_RCVTIMEO 5 0)),
           Mem (Malloc (length path + 1))]"
    by blast
next
  assume len: "107 < length path" "length path < BAA_MAXLINE"
  have "uds_name name (Some dir) USE_BIND w = (path, w)"
    using assms(2) by (simp add: uds_name_def flag_simps UDS_NAME_ADD_def)
  then show "\<exists>w'. baa_uds_dgram_server (Some name) (Some dir) w = ((-1, None), w') \<and>
        map fst (io w') = map fst (io w) @ [File (Unlink path)]"
    using len snprintf_path[OF assms(3) len(2)] uds_env_answers(1)[OF assms(1)]
    by (simp add: baa_uds_dgram_server_def uds_socket_def split_def Let_def sys_simps)
qed

definition uds_ok_env :: "nat \<Rightarrow> call \<Rightarrow> reply" where
  "uds_ok_env n c =
    (case c of Sock (Socket d t p) \<Rightarrow> reply_of 3 | Mem (Malloc k) \<Rightarrow> reply_of 4096 | Proc Getpid \<Rightarrow> reply_of 42 | _ \<Rightarrow> reply_of 0)"

lemma uds_ok_env_ok: "uds_env uds_ok_env 3"
  by (simp add: uds_env_def uds_ok_env_def)

theorem uds_dgram_server_result_witness:
  "\<exists>w'. baa_uds_dgram_server (Some ''srv'') (Some ''/run'') (init_world uds_ok_env) = ((3, Some ''/run/srv.socket''), w')"
  using uds_dgram_server_result[of "init_world uds_ok_env" 3 "''/run/srv.socket''" "''/run''" "''srv''"] uds_ok_env_ok
  by (auto simp: NUL_def)

lemma show_int_not_socket: "show_int i \<noteq> ''socket''"
proof
  assume eq: "show_int i = ''socket''"
  then have "\<not> i < 0" by (auto simp: show_int_def)
  with eq have "CHR ''s'' \<in> set (show_nat (nat i))" by (simp add: show_int_def)
  then obtain d where "d < 10" "CHR ''s'' = digit_char d" using set_show_nat by blast
  then have "(of_char (CHR ''s'') :: nat) = 48 + d" by (simp add: digit_char_def)
  with \<open>d < 10\<close> show False by simp
qed

text \<open>
  The stream client connects to a name that nobody serves. It forms the path with its own process id,
  removes that file, opens a datagram socket and connects it to the very path it has just
  removed, while a server listens on the path with the suffix \<open>socket\<close>. If the connection
  fails it returns -1 with the socket open, the alarm running and its handler installed.
\<close>
theorem uds_stream_client_target:
  assumes "uds_env (w_os w) sfd" "path = dir @ ''/'' @ name @ ''.'' @ show_int (rv (answer w (Proc Getpid)))"
    and "no_nul path" "length path \<le> 107"
  shows "\<exists>calls. map fst (io (snd (baa_uds_stream_client (Some name) (Some dir) w))) = map fst (io w) @
      [Proc Getpid, File (Unlink path), Sock (Socket AF_UNIX SOCK_DGRAM 0), signal_call SIGALRM handle_alarm,
       Proc (Alarm 5), Sock (Connect sfd (UnixAddr path))] @ calls \<and>
    (fst (fst (baa_uds_stream_client (Some name) (Some dir) w)) = -1 \<longrightarrow> calls = []) \<and>
    path \<noteq> dir @ ''/'' @ name @ ''.socket''"
proof -
  let ?v = "snd (sys (Proc Getpid) w)"
  have nm: "uds_name name (Some dir) (USE_PID OR USE_CONNECT) w = (path, ?v)"
    using assms(2) by (simp add: uds_name_def flag_simps split_def Let_def sys_simps)
  have env: "uds_env (w_os ?v) sfd" using assms(1) by (simp add: sys_simps)
  have mal: "uds_env (w_os u) sfd \<Longrightarrow> rv (answer u (Mem (Malloc k))) \<noteq> 0" for u k
    by (simp add: uds_env_answers)
  have ne: "path \<noteq> dir @ ''/'' @ name @ ''.socket''" using assms(2) show_int_not_socket by simp
  show ?thesis
    unfolding baa_uds_stream_client_def uds_socket_path[OF nm assms(3,4) env]
    using assms(1) ne uds_env_answers(5)[OF assms(1)]
    by (simp add: split_def Let_def uds_bind_def uds_connect_def flag_simps sys_simps mal CONNECT_TIMEOUT_def)
qed

theorem uds_stream_client_target_witness:
  "\<exists>calls. map fst (io (snd (baa_uds_stream_client (Some ''s'') (Some ''/run'') (init_world uds_ok_env)))) =
      [Proc Getpid, File (Unlink ''/run/s.42''), Sock (Socket AF_UNIX SOCK_DGRAM 0), signal_call SIGALRM handle_alarm,
       Proc (Alarm 5), Sock (Connect 3 (UnixAddr ''/run/s.42''))] @ calls"
  using uds_stream_client_target[of "init_world uds_ok_env" 3 "''/run/s.42''" "''/run''" "''s''"] uds_ok_env_ok
  by (auto simp: NUL_def answer_def uds_ok_env_def show_int_def show_nat.simps)

text \<open>Where descriptors are lost: a unix domain socket whose bind fails, and a stream server whose
  listen fails, return -1 with the socket open.\<close>

theorem uds_bind_failure_leaks:
  "let os = (\<lambda>n c. case c of Sock (Socket d t p) \<Rightarrow> reply_of 3 | Sock (Bind s a) \<Rightarrow> fail_reply EACCES | _ \<Rightarrow> reply_of 0);
       res = baa_uds_dgram_server (Some ''s'') None (init_world os)
   in fst (fst res) = -1 \<and> opened (io (snd res)) = {#3#} \<and> closed (io (snd res)) = {#}"
  by (simp add: Let_def baa_uds_dgram_server_def uds_socket_def uds_name_def flag_simps UDS_NAME_ADD_def split_def
      sys_simps answer_def uds_bind_def c_snprintf_def poke_def BAA_MAXLINE_def c_strncpy_def c_str_def overwrite_def NUL_def)

theorem listen_failure_leaks:
  "let os = (\<lambda>n c. case c of Sock (Getaddrinfo h s t f) \<Rightarrow> (reply_of 0)\<lparr>raddrs := [\<lparr>ai_family = 2, ai_socktype = 1, ai_protocol = 6, ai_addr = NoAddr\<rparr>]\<rparr>
       | Sock (Socket d t p) \<Rightarrow> reply_of 3 | Sock (Listen s b) \<Rightarrow> fail_reply EACCES | _ \<Rightarrow> reply_of 0);
       res = baa_inet_stream_server ''37'' (init_world os)
   in fst res = -1 \<and> opened (io (snd res)) = {#3#} \<and> closed (io (snd res)) = {#}"
  by (simp add: Let_def baa_inet_stream_server_def bind_inet_socket_def listen_on_def split_def
      sys_simps answer_def)

text \<open>The daytime server keeps every connection it accepts.\<close>

lemma daytime_closes_nothing:
  "\<exists>new. io (baa_daytime_server_th n sfd w) = io w @ new \<and> closed new = {#} \<and>
    w_fault (baa_daytime_server_th n sfd w) = w_fault w"
proof -
  have it: "\<exists>new. io (snd (daytime_iteration sfd buf w)) = io w @ new \<and> closed new = {#} \<and>
      w_fault (snd (daytime_iteration sfd buf w)) = w_fault w \<and> length (fst (daytime_iteration sfd buf w)) = BAA_MAXLINE"
    if "length buf = BAA_MAXLINE" for buf w
  proof -
    have f: "c_snprintf 0 BAA_MAXLINE t buf v = (overwrite 0 (take (BAA_MAXLINE - 1) t @ [NUL]) buf, v)" for t v
      using that by (intro c_snprintf_fits) (simp_all add: BAA_MAXLINE_def)
    have n: "NUL \<in> set (overwrite 0 (take (BAA_MAXLINE - 1) t @ [NUL]) buf)" for t
      using that by (intro snprintf_terminated) (simp_all add: BAA_MAXLINE_def)
    have l: "length (overwrite 0 (take (BAA_MAXLINE - 1) t @ [NUL]) buf) = BAA_MAXLINE" for t
      using that length_snprintf[of BAA_MAXLINE 0 buf t] by (simp add: BAA_MAXLINE_def)
    show ?thesis
      by (simp add: daytime_iteration_def split_def Let_def sys_simps f c_strlen_def n l that del: take_append One_nat_def)
  qed
  have "\<exists>new. io (snd (daytime_run n sfd buf w)) = io w @ new \<and> closed new = {#} \<and>
      w_fault (snd (daytime_run n sfd buf w)) = w_fault w" if "length buf = BAA_MAXLINE" for buf w
    using that
  proof (induction n arbitrary: buf w)
    case (Suc n)
    obtain new where new: "io (snd (daytime_iteration sfd buf w)) = io w @ new" "closed new = {#}"
      "w_fault (snd (daytime_iteration sfd buf w)) = w_fault w" "length (fst (daytime_iteration sfd buf w)) = BAA_MAXLINE"
      using it[OF Suc.prems] by blast
    from Suc.IH[OF new(4), of "snd (daytime_iteration sfd buf w)"] new show ?case
      by (auto simp: split_def Let_def)
  qed simp
  then show ?thesis by (simp add: baa_daytime_server_th_def)
qed

end
