(* ===== verification/Baa_Can.thy ===== *)
theory Baa_Can
  imports Baa_Network
begin

text \<open>
  CAN sockets, \<open>src/src/can_lin.c\<close>: raw and broadcast manager sockets, the error mask and the
  list of CAN id filters. The flags are those of \<open>libbaalue.h\<close>, the error classes and masks
  those of the kernel headers the source includes.
\<close>

abbreviation (input) PF_CAN :: int where "PF_CAN \<equiv> 29"
abbreviation (input) SOCK_RAW :: int where "SOCK_RAW \<equiv> 3"
abbreviation (input) CAN_RAW :: int where "CAN_RAW \<equiv> 1"
abbreviation (input) CAN_BCM :: int where "CAN_BCM \<equiv> 2"
abbreviation (input) CAN_EFF_MASK :: c_uint where "CAN_EFF_MASK \<equiv> 0x1FFFFFFF"
abbreviation (input) CAN_SFF_MASK :: c_uint where "CAN_SFF_MASK \<equiv> 0x7FF"
abbreviation (input) IFNAMSIZ :: nat where "IFNAMSIZ \<equiv> 16"

definition BIND_TO_SINGLE_CANIF :: byte where "BIND_TO_SINGLE_CANIF = 0x00"
definition BIND_TO_ANY_CANIF :: byte where "BIND_TO_ANY_CANIF = 0x01"

section \<open>Sockets\<close>

text \<open>The label \<open>error\<close>: the address is freed when there is one; the socket is not closed.\<close>

definition can_error :: "int option \<Rightarrow> world \<Rightarrow> (int \<times> int option) \<times> world" where
  "can_error s w =
    (let w = baa_error_msg ''could not init can socket'' [] w;
         w = (case s of None \<Rightarrow> w | Some ptr \<Rightarrow> snd (sys (Mem (Free ptr)) w))
     in ((-1, None), w))"

text \<open>The interface name is copied with its own length as the bound, into the 16 bytes of
  \<open>ifr_name\<close>. The second result is the interface index of the address handed out.\<close>

definition can_socket :: "string \<Rightarrow> bool \<Rightarrow> int \<Rightarrow> byte \<Rightarrow> world \<Rightarrow> (int \<times> int option) \<times> world" where
  "can_socket ifname want_addr proto flags w =
    (let fd_s = -1;
         (fd_s, w) = (if proto = CAN_RAW then (let (r, w) = sys (Sock (Socket PF_CAN SOCK_RAW proto)) w in (rv r, w)) else (fd_s, w));
         (fd_s, w) = (if proto = CAN_BCM then (let (r, w) = sys (Sock (Socket PF_CAN SOCK_DGRAM proto)) w in (rv r, w)) else (fd_s, w))
     in if fd_s = -1 then can_error None w
        else
          (let (ifr_name, w) = c_strncpy ifname (length ifname + 1) (replicate IFNAMSIZ NUL) w;
               (e, w) = sys (Sock (Ioctl_ifindex fd_s (c_str ifr_name))) w
           in if rv e = -1 then can_error None w
              else
                (let (m, w) = sys (Mem (Malloc 24)) w
                 in if rv m = 0 then can_error None w
                    else
                      (let can_ifindex = (if flags AND BIND_TO_ANY_CANIF \<noteq> 0 then 0 else rprio e);
                           err = -1;
                           (err, w) = (if proto = CAN_RAW
                             then (let (r, w) = sys (Sock (Bind fd_s (CanAddr can_ifindex))) w in (rv r, w)) else (err, w));
                           (err, w) = (if proto = CAN_BCM
                             then (let (r, w) = sys (Sock (Connect fd_s (CanAddr can_ifindex))) w in (rv r, w)) else (err, w))
                       in if err = -1 then can_error (Some (rv m)) w
                          else ((fd_s, if want_addr then Some can_ifindex else None), w)))))"

definition baa_can_raw_socket :: "string \<Rightarrow> bool \<Rightarrow> byte \<Rightarrow> world \<Rightarrow> (int \<times> int option) \<times> world" where
  "baa_can_raw_socket ifname want_addr flags w = can_socket ifname want_addr CAN_RAW flags w"

definition baa_can_bcm_socket :: "string \<Rightarrow> bool \<Rightarrow> byte \<Rightarrow> world \<Rightarrow> (int \<times> int option) \<times> world" where
  "baa_can_bcm_socket ifname want_addr flags w = can_socket ifname want_addr CAN_BCM flags w"

section \<open>Error mask\<close>

definition hw_error_mask :: c_uint where
  "hw_error_mask = 0x001 OR 0x002 OR 0x004 OR 0x008 OR 0x010 OR 0x020 OR 0x080 OR 0x040 OR 0x100"

definition baa_set_hw_error_mask :: "int \<Rightarrow> world \<Rightarrow> int \<times> world" where
  "baa_set_hw_error_mask fd_s w =
    (let (r, w) = sys (Sock (Setsockopt fd_s (Can_err_filter hw_error_mask))) w
     in if rv r = -1 then (-1, baa_errno_msg ''could not set error mask'' [] w) else (0, w))"

section \<open>Filter list\<close>

text \<open>\<open>strtok_r\<close>: the non-empty pieces between delimiters. The code passes the address of a single
  character as the string of delimiters; what follows it in memory up to a NUL counts as
  delimiters too and is the argument \<open>extra\<close>.\<close>

fun tokens :: "(char \<Rightarrow> bool) \<Rightarrow> string \<Rightarrow> string \<Rightarrow> string list" where
  "tokens d cur [] = (if cur = [] then [] else [cur])"
| "tokens d cur (c # s) = (if d c then (if cur = [] then tokens d [] s else cur # tokens d [] s) else tokens d (cur @ [c]) s)"

text \<open>\<open>strtoul\<close> with base 16: white space, a sign, an optional prefix, digits; a value that
  does not fit gives the largest \<open>unsigned long\<close>.\<close>

definition hex_val :: "char \<Rightarrow> nat option" where
  "hex_val c =
    (let n = of_char c :: nat
     in if 48 \<le> n \<and> n \<le> 57 then Some (n - 48)
        else if 97 \<le> n \<and> n \<le> 102 then Some (n - 87)
        else if 65 \<le> n \<and> n \<le> 70 then Some (n - 55) else None)"

fun hex_digits :: "nat \<Rightarrow> string \<Rightarrow> nat" where
  "hex_digits acc [] = acc"
| "hex_digits acc (c # s) = (case hex_val c of None \<Rightarrow> acc | Some d \<Rightarrow> hex_digits (16 * acc + d) s)"

definition is_space :: "char \<Rightarrow> bool" where
  "is_space c = (let n = of_char c :: nat in n = 32 \<or> 9 \<le> n \<and> n \<le> 13)"

definition skip_prefix :: "string \<Rightarrow> string" where
  "skip_prefix s = (case s of z # x # h # r \<Rightarrow>
    if z = CHR ''0'' \<and> (x = CHR ''x'' \<or> x = CHR ''X'') \<and> hex_val h \<noteq> None then h # r else s | _ \<Rightarrow> s)"

definition strtoul16 :: "string \<Rightarrow> c_ulong" where
  "strtoul16 s =
    (let s = dropWhile is_space s;
         (neg, s) = (case s of c # r \<Rightarrow> if c = CHR ''-'' then (True, r) else if c = CHR ''+'' then (False, r) else (False, s)
                     | [] \<Rightarrow> (False, s));
         v = hex_digits 0 (skip_prefix s)
     in if v \<ge> 2 ^ 64 then - 1 else if neg then - of_nat v else of_nat v)"

text \<open>\<open>filter\<close> is \<open>None\<close> or the block it points to, as a list of the elements that fit into it:
  every \<open>realloc\<close> asks for the size of one element.\<close>

fun flist_loop :: "string list \<Rightarrow> (int \<times> (c_uint \<times> c_uint) list) option \<Rightarrow> nat \<Rightarrow> world \<Rightarrow>
  ((int \<times> (c_uint \<times> c_uint) list) option \<times> nat) \<times> world" where
  "flist_loop [] flt cnt w = ((flt, cnt), w)"
| "flist_loop (token # ts) flt cnt w =
    (let (_, w) = sys (File (Printf (fmt_text ''token %s\<newline>'' [FStr token]))) w;
         (m, w) = sys (Mem (Realloc (case flt of None \<Rightarrow> 0 | Some (p, _) \<Rightarrow> p) 8)) w
     in if rv m = 0 then flist_loop ts flt cnt (baa_errno_msg ''could not realloc can_filter struct'' [] w)
        else
          (let block = (case flt of None \<Rightarrow> [(0, 0)] | Some (_, b) \<Rightarrow> b);
               (block, w) = poke cnt [(ucast (strtoul16 token) AND CAN_EFF_MASK, CAN_SFF_MASK)] block w
           in flist_loop ts (Some (rv m, block)) (cnt + 1) w))"

definition baa_set_flist :: "string \<Rightarrow> int \<Rightarrow> string option \<Rightarrow> world \<Rightarrow> int \<times> world" where
  "baa_set_flist extra sfd flist w =
    (case flist of
       None \<Rightarrow> (0, baa_info_msg ''no can id filter list -> nothing to do'' [] w)
     | Some l \<Rightarrow>
         (let ((flt, cnt), w) = flist_loop (tokens (\<lambda>c. c = CHR '','' \<or> c \<in> set extra) [] l) None 0 w;
              block = (case flt of None \<Rightarrow> [] | Some (_, b) \<Rightarrow> b);
              w = (if cnt > length block then fault OutOfBounds w else w);
              (r, w) = sys (Sock (Setsockopt sfd (Can_filter (take cnt block)))) w
          in if rv r = -1 then
               (let w = baa_errno_msg ''could not set can filter'' [] w;
                    w = (case flt of None \<Rightarrow> w | Some (p, _) \<Rightarrow> snd (sys (Mem (Free p)) w))
                in (-1, w))
             else
               (let (_, w) = sys (Mem (Free (case flt of None \<Rightarrow> 0 | Some (p, _) \<Rightarrow> p))) w in (0, w))))"

section \<open>Properties\<close>

text \<open>
  A filter list with one CAN id sets that id: for a single token, when memory is there and the
  kernel accepts the filter, the function sets one filter with the hexadecimal value of the
  token cut to 29 bits and the mask for standard frames, frees its memory and returns 0.
\<close>
theorem flist_single:
  assumes "tokens (\<lambda>c. c = CHR '','' \<or> c \<in> set extra) [] l = [token]"
    and "\<forall>n k p. rv (w_os w n (Mem (Realloc p k))) = ptr" "ptr \<noteq> 0" "\<forall>n v. rv (w_os w n (Sock (Setsockopt sfd v))) = 0"
  shows "\<exists>w'. baa_set_flist extra sfd (Some l) w = (0, w') \<and> w_fault w' = w_fault w \<and>
    map fst (io w') = map fst (io w) @
      [File (Printf (''token '' @ token @ ''\<newline>'')), Mem (Realloc 0 8),
       Sock (Setsockopt sfd (Can_filter [(ucast (strtoul16 token) AND CAN_EFF_MASK, CAN_SFF_MASK)])), Mem (Free ptr)]"
  using assms by (simp add: baa_set_flist_def split_def Let_def sys_simps answer_def poke_def overwrite_def)

definition flist_env :: "nat \<Rightarrow> call \<Rightarrow> reply" where
  "flist_env n c = (case c of Mem (Realloc p k) \<Rightarrow> reply_of 4096 | _ \<Rightarrow> reply_of 0)"

theorem flist_single_witness:
  "\<exists>w'. baa_set_flist [] 3 (Some ''7ff'') (init_world flist_env) = (0, w') \<and>
    map fst (io w') = [File (Printf ''token 7ff\<newline>''), Mem (Realloc 0 8),
       Sock (Setsockopt 3 (Can_filter [(0x7ff, CAN_SFF_MASK)])), Mem (Free 4096)]"
  using flist_single[of "[]" "''7ff''" "''7ff''" "init_world flist_env" 4096 3]
  by (auto simp: flist_env_def strtoul16_def is_space_def skip_prefix_def hex_val_def)

text \<open>Two or more ids overrun the block: the second element is written behind the one that was
  allocated.\<close>

lemma poke_sticky: "w_fault w \<noteq> None \<Longrightarrow> w_fault (snd (poke off xs buf w)) \<noteq> None"
  using fault_simps(4) by (simp add: poke_def)

lemma flist_loop_sticky: "w_fault w \<noteq> None \<Longrightarrow> w_fault (snd (flist_loop ts flt cnt w)) \<noteq> None"
proof (induction ts arbitrary: flt cnt w)
  case (Cons t ts)
  let ?v = "snd (sys (Mem (Realloc (case flt of None \<Rightarrow> 0 | Some (p, _) \<Rightarrow> p) 8))
    (snd (sys (File (Printf (fmt_text ''token %s\<newline>'' [FStr t]))) w)))"
  have "w_fault ?v \<noteq> None" using Cons.prems by (simp add: sys_simps)
  then show ?case by (simp add: split_def Let_def Cons.IH poke_sticky del: fmt_text.simps not_None_eq)
qed simp

lemma flist_many_overflows:
  assumes "tokens (\<lambda>c. c = CHR '','' \<or> c \<in> set extra) [] l = t1 # t2 # ts"
    and "\<forall>n k p. rv (w_os w n (Mem (Realloc p k))) \<noteq> 0"
  shows "w_fault (snd (baa_set_flist extra sfd (Some l) w)) \<noteq> None"
proof -
  have "w_fault (snd (flist_loop (t1 # t2 # ts) None 0 w)) \<noteq> None"
    using assms(2) fault_simps(4)
    by (simp add: split_def Let_def sys_simps answer_def poke_def overwrite_def flist_loop_sticky del: fmt_text.simps)
  then show ?thesis
    using fault_simps(4)
    by (simp add: baa_set_flist_def assms(1) split_def Let_def sys_simps del: flist_loop.simps split: option.splits)
qed

text \<open>A CAN socket that cannot be bound is lost, and a long interface name overruns \<open>ifr_name\<close>.\<close>

theorem can_bind_failure_leaks:
  "let os = (\<lambda>n c. case c of Sock (Socket d t p) \<Rightarrow> reply_of 3 | Mem (Malloc k) \<Rightarrow> reply_of 4096
         | Sock (Bind s a) \<Rightarrow> fail_reply EACCES | _ \<Rightarrow> reply_of 0);
       res = baa_can_raw_socket ''can0'' True 0 (init_world os)
   in fst (fst res) = -1 \<and> opened (io (snd res)) = {#3#} \<and> closed (io (snd res)) = {#}"
  by (simp add: Let_def baa_can_raw_socket_def can_socket_def can_error_def split_def sys_simps answer_def
      c_strncpy_def poke_def)

theorem can_ifname_overflow:
  assumes "IFNAMSIZ \<le> length ifname" "rv (answer w (Sock (Socket PF_CAN SOCK_RAW CAN_RAW))) \<noteq> -1"
  shows "w_fault (snd (baa_can_raw_socket ifname want_addr flags w)) \<noteq> None"
proof -
  let ?w = "snd (sys (Sock (Socket PF_CAN SOCK_RAW CAN_RAW)) w)"
  have "c_strncpy ifname (length ifname + 1) (replicate IFNAMSIZ NUL) ?w = (replicate IFNAMSIZ NUL, fault OutOfBounds ?w)"
    using assms(1) by (simp add: c_strncpy_def poke_def)
  then show ?thesis
    using assms(2) fault_simps(4)[of OutOfBounds ?w]
    by (simp add: baa_can_raw_socket_def can_socket_def can_error_def split_def Let_def sys_simps)
qed

end
