(* ===== verification/Baa_Program.thy ===== *)
theory Baa_Program
  imports Baa_Helper
begin

text \<open>
  What the programs under \<open>src/examples\<close> share. A program is a function of its command line
  and the state of the process; its result is \<open>None\<close> when it does not return (an interrupted
  \<open>close\<close> that is interrupted for ever), \<open>Inl\<close> with how the process ended, or \<open>Inr\<close> with a value
  for what follows (or, for a program that is still in its endless loop after the given
  number of rounds, with the state of the loop). \<open>exit\<close> runs the handler that was registered
  with \<open>atexit\<close>, which is the argument \<open>fin\<close> of the functions that may call it.

  Here are the option parser \<open>getopt\<close> as the GNU C library has it (options may follow other
  arguments; \<open>POSIXLY_CORRECT\<close> is not set), the thread that handles signals, and the common
  start of the programs. The text \<open>signal_handler\<close> is the same in every program but for
  \<open>pthread_detach\<close>; each program's instance is in the theory of the program.
\<close>

section \<open>Results of program parts\<close>

type_synonym 'a part = "((ending + 'a) \<times> world) option"

definition then_do :: "'a part \<Rightarrow> ('a \<Rightarrow> world \<Rightarrow> 'b part) \<Rightarrow> 'b part" where
  "then_do m f =
    (case m of None \<Rightarrow> None
     | Some (r, w) \<Rightarrow> (case r of Inl e \<Rightarrow> Some (Inl e, w) | Inr x \<Rightarrow> f x w))"

lemma then_do_simps [simp]:
  "then_do None f = None" "then_do (Some (Inl e, w)) f = Some (Inl e, w)"
  "then_do (Some (Inr x, w)) f = f x w"
  by (simp_all add: then_do_def)

lemma then_do_assoc: "then_do (then_do m f) g = then_do m (\<lambda>x w. then_do (f x w) g)"
  by (simp add: then_do_def split: option.splits sum.splits)

lemma then_do_Some_iff:
  "then_do m f = Some (r, w') \<longleftrightarrow>
    (\<exists>e. m = Some (Inl e, w') \<and> r = Inl e) \<or> (\<exists>x w. m = Some (Inr x, w) \<and> f x w = Some (r, w'))"
  by (auto simp: then_do_def split: option.splits sum.splits)

text \<open>\<open>exit\<close>, with the registered handler; a process that is aborted does not run it.\<close>

definition leave :: "(world \<Rightarrow> world option) \<Rightarrow> int \<Rightarrow> world \<Rightarrow> 'a part" where
  "leave fin status w = (case fin w of None \<Rightarrow> None | Some w \<Rightarrow> Some (Inl (Exited status), w))"

definition leave_with :: "(world \<Rightarrow> world option) \<Rightarrow> ending \<times> world \<Rightarrow> 'a part" where
  "leave_with fin ew = (case ew of (Exited s, w) \<Rightarrow> leave fin s w | (Aborted, w) \<Rightarrow> Some (Inl Aborted, w))"

section \<open>Options\<close>

datatype opt_result = Got char "string option" | Bad_option char | Missing_arg char

text \<open>What an option string says of a letter: unknown, a flag, or an option with an argument.\<close>

fun optspec :: "string \<Rightarrow> char \<Rightarrow> bool option" where
  "optspec [] c = None"
| "optspec [x] c = (if c = x \<and> c \<noteq> CHR '':'' then Some False else None)"
| "optspec (x # y # r) c =
    (if c = x \<and> c \<noteq> CHR '':'' then Some (y = CHR '':'') else optspec (y # r) c)"

definition is_option :: "string \<Rightarrow> bool" where
  "is_option a \<longleftrightarrow> (case a of x # y # r \<Rightarrow> x = CHR ''-'' | _ \<Rightarrow> False)"

text \<open>The results of the calls of \<open>getopt\<close> up to the one that returns -1; the first list is what is
  left of the argument that is being scanned.\<close>

function getopt_scan :: "string \<Rightarrow> string \<Rightarrow> string list \<Rightarrow> opt_result list" where
  "getopt_scan os [] [] = []"
| "getopt_scan os [] (a # as) =
    (if a = ''--'' then []
     else if is_option a then getopt_scan os (tl a) as else getopt_scan os [] as)"
| "getopt_scan os (c # cs) as =
    (case optspec os c of
       None \<Rightarrow> Bad_option c # getopt_scan os cs as
     | Some False \<Rightarrow> Got c None # getopt_scan os cs as
     | Some True \<Rightarrow>
         if cs \<noteq> [] then Got c (Some cs) # getopt_scan os [] as
         else (case as of [] \<Rightarrow> [Missing_arg c] | v # as \<Rightarrow> Got c (Some v) # getopt_scan os [] as))"
  by pat_completeness auto
termination
  by (relation "measure (\<lambda>(os, cs, as). length cs + sum_list (map (\<lambda>a. Suc (length a)) as))") auto

definition getopt_all :: "string \<Rightarrow> string list \<Rightarrow> opt_result list" where
  "getopt_all os argv = getopt_scan os [] (tl argv)"

text \<open>The message \<open>getopt\<close> writes before it returns \<open>?\<close>.\<close>

definition getopt_report :: "string \<Rightarrow> opt_result \<Rightarrow> world \<Rightarrow> world" where
  "getopt_report argv0 r w =
    (case r of
       Got c arg \<Rightarrow> w
     | Bad_option c \<Rightarrow> snd (sys (Log (Fputs_stderr (argv0 @ '': invalid option -- '' @ [CHR 0x27, c, CHR 0x27, newline]))) w)
     | Missing_arg c \<Rightarrow>
         snd (sys (Log (Fputs_stderr (argv0 @ '': option requires an argument -- '' @ [CHR 0x27, c, CHR 0x27, newline]))) w))"

fun opt_char :: "opt_result \<Rightarrow> char" where
  "opt_char (Got c arg) = c"
| "opt_char r = CHR ''?''"

fun opt_arg :: "opt_result \<Rightarrow> string option" where
  "opt_arg (Got c arg) = arg"
| "opt_arg r = None"

text \<open>The loop around \<open>getopt\<close>; the body of the \<open>switch\<close> is an argument.\<close>

fun option_loop :: "string \<Rightarrow> (char \<Rightarrow> string option \<Rightarrow> 's \<Rightarrow> world \<Rightarrow> 's part) \<Rightarrow> opt_result list \<Rightarrow> 's \<Rightarrow> world \<Rightarrow> 's part" where
  "option_loop argv0 body [] s w = Some (Inr s, w)"
| "option_loop argv0 body (r # rs) s w =
    then_do (body (opt_char r) (opt_arg r) s (getopt_report argv0 r w)) (option_loop argv0 body rs)"

text \<open>\<open>argv[0]\<close>: a null pointer when there are no arguments at all.\<close>

definition arg0 :: "string list \<Rightarrow> string option" where
  "arg0 argv = (case argv of [] \<Rightarrow> None | a # _ \<Rightarrow> Some a)"

definition argv0 :: "string list \<Rightarrow> string" where
  "argv0 argv = (case argv of [] \<Rightarrow> [] | a # _ \<Rightarrow> a)"

section \<open>Common parts\<close>

text \<open>Name and version of the package, from the build system.\<close>

record build =
  PACKAGE_STRING :: string
  PACKAGE_VERSION :: string

definition show_some_infos :: "build \<Rightarrow> world \<Rightarrow> world" where
  "show_some_infos b w = baa_show_version_info (PACKAGE_VERSION b) (baa_show_package_name (PACKAGE_STRING b) w)"

definition putnl :: "world \<Rightarrow> world" where
  "putnl w = snd (sys (File (Printf [newline])) w)"

text \<open>A list of messages without arguments, in order.\<close>

definition infos :: "string list \<Rightarrow> world \<Rightarrow> world" where
  "infos ls w = fold (\<lambda>l. baa_info_msg l []) ls w"

definition getenv :: "string \<Rightarrow> world \<Rightarrow> string option \<times> world" where
  "getenv name w = (let (r, w) = sys (Proc (Getenv name)) w in (if rv r = 0 then None else Some (rstr r), w))"

text \<open>The exit handler of most programs.\<close>

definition cheers :: "world \<Rightarrow> world" where
  "cheers w = (let (user, w) = getenv ''USER'' w in baa_info_msg ''cheers %s'' [str_arg user] w)"

definition program_name :: "string list \<Rightarrow> world \<Rightarrow> string part" where
  "program_name argv w =
    (case baa_set_program_name (arg0 argv) w of
       (Inl e, w) \<Rightarrow> Some (Inl e, w)
     | (Inr buf, w) \<Rightarrow> Some (Inr (c_str buf), w))"

definition register_cleanup :: "world \<Rightarrow> unit part" where
  "register_cleanup w =
    (let (err, w) = sys (Proc Atexit) w
     in if rv err \<noteq> 0 then Some (Inl (Exited EXIT_FAILURE), w) else Some (Inr (), w))"

definition start_thread :: "(world \<Rightarrow> world option) \<Rightarrow> string \<Rightarrow> string \<Rightarrow> world \<Rightarrow> unit part" where
  "start_thread fin fn msg w =
    (let (err, w) = sys (Sched (Thread_create fn)) w
     in if rv err \<noteq> 0 then leave_with fin (baa_th_error_exit (rv err) msg [] w) else Some (Inr (), w))"

definition start_signal_thread :: "(world \<Rightarrow> world option) \<Rightarrow> string \<Rightarrow> world \<Rightarrow> unit part" where
  "start_signal_thread fin msg w =
    (let (err, w) = sys (Proc Sigmask_block_all) w
     in if rv err \<noteq> 0 then leave_with fin (baa_th_error_exit (rv err) ''could not set sigmask'' [] w)
        else start_thread fin ''signal_handler'' msg w)"

section \<open>The thread that handles signals\<close>

abbreviation (input) SIGTERM :: int where "SIGTERM \<equiv> 15"

definition signal_text :: "(string \<Rightarrow> farg list \<Rightarrow> world \<Rightarrow> world) \<Rightarrow> string \<Rightarrow> int \<Rightarrow> world \<Rightarrow> world" where
  "signal_text msg fmt sig w = (let (t, w) = sys (Proc (Strsignal sig)) w in msg fmt [FStr (rstr t), FInt sig] w)"

definition signal_iteration :: "(world \<Rightarrow> world option) \<Rightarrow> world \<Rightarrow> unit part" where
  "signal_iteration fin w =
    (let (err, w) = sys (Proc Sigwait) w
     in if rv err \<noteq> 0 then leave_with fin (baa_error_exit ''sigwait() != 0 in %s'' [FStr ''signal_handler''] w)
        else
          (let sig = rprio err
           in if sig = SIGTERM
              then leave fin EXIT_SUCCESS (signal_text baa_info_msg ''catched signal \"%s\" (%d) -> exit now '' sig w)
              else if sig = SIGHUP
              then Some (Inr (), signal_text baa_info_msg ''signal \"%s\" (%d) -> ignore it'' sig w)
              else Some (Inr (), signal_text baa_error_msg ''unhandled signal \"%s\" (%d)'' sig w)))"

fun signal_run :: "nat \<Rightarrow> (world \<Rightarrow> world option) \<Rightarrow> world \<Rightarrow> unit part" where
  "signal_run 0 fin w = Some (Inr (), w)"
| "signal_run (Suc n) fin w = then_do (signal_iteration fin w) (\<lambda>_. signal_run n fin)"

section \<open>What a part adds to the trace\<close>

text \<open>The calls made between two states satisfy a predicate, and nothing went wrong in memory.\<close>

definition only :: "(call \<Rightarrow> bool) \<Rightarrow> world \<Rightarrow> world \<Rightarrow> bool" where
  "only P w w' \<longleftrightarrow> w_os w' = w_os w \<and> w_fault w' = w_fault w \<and>
    (\<exists>new. io w' = io w @ new \<and> (\<forall>e \<in> set new. P (fst e)))"

named_theorems only_intros "what single operations add to the trace"

lemma only_refl [only_intros]: "only P w w"
  by (simp add: only_def)

lemma only_trans: "only P u v \<Longrightarrow> only P v w \<Longrightarrow> only P u w"
  unfolding only_def by (metis append_assoc set_append Un_iff)

lemma only_mono: "only P w w' \<Longrightarrow> (\<And>c. P c \<Longrightarrow> Q c) \<Longrightarrow> only Q w w'"
  unfolding only_def by blast

lemma only_sys [only_intros]: "P c \<or> is_log c \<Longrightarrow> only P w v \<Longrightarrow> only P w (snd (sys c v))"
proof (cases "is_log c")
  case True
  moreover assume "only P w v"
  moreover have "io (snd (sys c v)) = io v" using True by (simp add: sys_def Let_def io_def)
  ultimately show ?thesis by (simp add: only_def sys_simps)
next
  case False
  assume "P c \<or> is_log c" "only P w v"
  with False show ?thesis by (auto simp: only_def sys_simps)
qed

lemma only_quiet: "quiet v v' \<Longrightarrow> only P w v \<Longrightarrow> only P w v'"
  using quiet_io[of v v'] by (simp add: only_def quiet_fields)

lemmas only_msgs [only_intros] =
  only_quiet[OF error_msg.msg_quiet] only_quiet[OF errno_msg.msg_quiet] only_quiet[OF info_msg.msg_quiet]
  only_quiet[OF th_error_msg.msg_quiet] only_quiet[OF error_common_quiet]

lemma only_infos [only_intros]: "only P w v \<Longrightarrow> only P w (infos ls v)"
  unfolding infos_def by (induction ls arbitrary: v) (auto intro: only_intros)

text \<open>Rules that follow the structure of a function that threads the state, one for each way
  the functions are written; they keep the state of every step a variable.\<close>

named_theorems only_struct "rules for the structure of a function"

lemma only_snd_pair [only_struct]: "only P w v \<Longrightarrow> only P w (snd (a, v))"
  by simp

lemma only_snd_if [only_struct]:
  "(c \<Longrightarrow> only P w (snd a)) \<Longrightarrow> (\<not> c \<Longrightarrow> only P w (snd b)) \<Longrightarrow> only P w (snd (if c then a else b))"
  by simp

lemma only_snd_case [only_struct]:
  "only P w (snd e) \<Longrightarrow> (\<And>a v. only P w v \<Longrightarrow> only P w (snd (f a v))) \<Longrightarrow> only P w (snd (case e of (a, v) \<Rightarrow> f a v))"
  by (simp add: split_def)

lemma only_case [only_struct]:
  "only P w (snd e) \<Longrightarrow> (\<And>a v. only P w v \<Longrightarrow> only P w (f a v)) \<Longrightarrow> only P w (case e of (a, v) \<Rightarrow> f a v)"
  by (simp add: split_def)

lemma only_snd_case_arg [only_struct]:
  "(\<And>x y. only P w (snd (g x y v))) \<Longrightarrow> only P w (snd ((case a of (x, y) \<Rightarrow> g x y) v))"
  by (simp add: split_def)

lemma only_snd_option [only_struct]:
  "(x = None \<Longrightarrow> only P w (snd a)) \<Longrightarrow> (\<And>y. x = Some y \<Longrightarrow> only P w (snd (f y))) \<Longrightarrow>
   only P w (snd (case x of None \<Rightarrow> a | Some y \<Rightarrow> f y))"
  by (cases x) simp_all

lemma only_let_world [only_struct]:
  "only P w e \<Longrightarrow> (\<And>v. only P w v \<Longrightarrow> only P w (snd (f v))) \<Longrightarrow> only P w (snd (Let e f))"
  "only P w e \<Longrightarrow> (\<And>v. only P w v \<Longrightarrow> only P w (g v)) \<Longrightarrow> only P w (Let e g)"
  by (simp_all add: Let_def)

lemma only_let_pair [only_struct]:
  "only P w (snd e) \<Longrightarrow> (\<And>a v. only P w v \<Longrightarrow> only P w (snd (f a v))) \<Longrightarrow> only P w (snd (Let e (\<lambda>(a, v). f a v)))"
  "only P w (snd e) \<Longrightarrow> (\<And>a v. only P w v \<Longrightarrow> only P w (g a v)) \<Longrightarrow> only P w (Let e (\<lambda>(a, v). g a v))"
  by (simp_all add: Let_def split_def)

lemma only_let_value:
  "(\<And>x. only P w (snd (f x))) \<Longrightarrow> only P w (snd (Let (e :: 'b) f))"
  "(\<And>x. only P w (g x)) \<Longrightarrow> only P w (Let (e :: 'b) g)"
  by (simp_all add: Let_def)

lemmas only_let_values [only_struct] =
  only_let_value[where 'b = nat] only_let_value[where 'b = int] only_let_value[where 'b = string]
  only_let_value[where 'b = sockaddr] only_let_value[where 'b = bool] only_let_value[where 'b = reply]

lemma only_new:
  assumes "only P w w'"
  obtains new where "io w' = io w @ new" "\<forall>e \<in> set new. P (fst e)"
  using assms by (auto simp: only_def)

lemma only_calls:
  "only P w w' \<Longrightarrow> (\<And>c. P c \<Longrightarrow> \<not> Q c) \<Longrightarrow> filter Q (map fst (io w')) = filter Q (map fst (io w))"
  by (auto simp: only_def filter_empty_conv)

lemma only_snprintf [only_intros]:
  "off + n \<le> length buf \<Longrightarrow> only P w v \<Longrightarrow> only P w (snd (c_snprintf off n body buf v))"
  by (cases "n = 0") (simp_all add: c_snprintf_fits, simp add: c_snprintf_def)

lemma only_strncpy [only_intros]:
  "n \<le> length buf \<Longrightarrow> only P w v \<Longrightarrow> only P w (snd (c_strncpy src n buf v))"
  by (simp add: c_strncpy_def poke_def)

lemma only_if [only_intros]: "(c \<Longrightarrow> only P w a) \<Longrightarrow> (\<not> c \<Longrightarrow> only P w b) \<Longrightarrow> only P w (if c then a else b)"
  by simp

text \<open>The package information and the usage texts print and ask for the system name.\<close>

fun is_print :: "call \<Rightarrow> bool" where
  "is_print (File (Printf s)) = True"
| "is_print (Proc Uname) = True"
| "is_print c = False"

lemma only_show_infos [only_intros]:
  "P (Proc Uname) \<Longrightarrow> only P w v \<Longrightarrow> only P w (show_some_infos b v)"
  unfolding show_some_infos_def baa_show_version_info_def baa_show_package_name_def
  by (auto simp: split_def Let_def intro!: only_intros)

lemma only_putnl [only_intros]: "P (File (Printf [newline])) \<Longrightarrow> only P w v \<Longrightarrow> only P w (putnl v)"
  unfolding putnl_def by (auto intro!: only_intros)

lemma only_getopt_report [only_intros]: "only P w v \<Longrightarrow> only P w (getopt_report a r v)"
  unfolding getopt_report_def by (auto split: opt_result.splits intro!: only_intros)

lemma only_cheers [only_intros]: "P (Proc (Getenv ''USER'')) \<Longrightarrow> only P w v \<Longrightarrow> only P w (cheers v)"
  unfolding cheers_def getenv_def by (auto simp: split_def Let_def intro!: only_intros)

lemma only_signal_text [only_intros]:
  assumes "\<And>fmt args u. quiet u (msg fmt args u)"
  shows "P (Proc (Strsignal sig)) \<Longrightarrow> only P w v \<Longrightarrow> only P w (signal_text msg fmt sig v)"
  unfolding signal_text_def by (auto simp: split_def Let_def intro!: only_intros only_quiet[OF assms])

section \<open>What a program part adds to the trace\<close>

text \<open>
  A contract for a part: the calls it may make, how the process may end in it, and what the
  value for the rest may be.
\<close>

definition part_only :: "(call \<Rightarrow> bool) \<Rightarrow> (ending \<Rightarrow> bool) \<Rightarrow> ('a \<Rightarrow> bool) \<Rightarrow> world \<Rightarrow> 'a part \<Rightarrow> bool" where
  "part_only P R S w m \<longleftrightarrow>
    (\<forall>r w'. m = Some (r, w') \<longrightarrow> only P w w' \<and> (case r of Inl e \<Rightarrow> R e | Inr x \<Rightarrow> S x))"

named_theorems part_intros "contracts of single parts"

lemma part_only_None [part_intros]: "part_only P R S w None"
  by (simp add: part_only_def)

lemma part_only_Inr [part_intros]: "S x \<Longrightarrow> only P w v \<Longrightarrow> part_only P R S w (Some (Inr x, v))"
  by (simp add: part_only_def)

lemma part_only_Inl [part_intros]: "R e \<Longrightarrow> only P w v \<Longrightarrow> part_only P R S w (Some (Inl e, v))"
  by (simp add: part_only_def)

lemma part_only_then [part_intros]:
  "part_only P R (\<lambda>_. True) w m \<Longrightarrow> (\<And>x v. only P w v \<Longrightarrow> part_only P R S w (f x v)) \<Longrightarrow> part_only P R S w (then_do m f)"
  by (fastforce simp: part_only_def then_do_Some_iff)

lemma part_only_if [part_intros]:
  "(c \<Longrightarrow> part_only P R S w a) \<Longrightarrow> (\<not> c \<Longrightarrow> part_only P R S w b) \<Longrightarrow> part_only P R S w (if c then a else b)"
  by simp

lemma part_only_option [part_intros]:
  "(x = None \<Longrightarrow> part_only P R S w a) \<Longrightarrow> (\<And>y. x = Some y \<Longrightarrow> part_only P R S w (f y)) \<Longrightarrow>
   part_only P R S w (case x of None \<Rightarrow> a | Some y \<Rightarrow> f y)"
  by (cases x) simp_all

lemma part_only_let [part_intros]:
  "only P w (snd e) \<Longrightarrow> (\<And>a v. e = (a, v) \<Longrightarrow> only P w v \<Longrightarrow> part_only P R S w (f a v)) \<Longrightarrow> part_only P R S w (Let e (\<lambda>(a, v). f a v))"
  "only P w u \<Longrightarrow> (\<And>v. only P w v \<Longrightarrow> part_only P R S w (g v)) \<Longrightarrow> part_only P R S w (Let u g)"
  "(\<And>x y. a = (x, y) \<Longrightarrow> part_only P R S w (h x y v)) \<Longrightarrow> part_only P R S w ((case a of (x, y) \<Rightarrow> h x y) v)"
  by (auto simp: Let_def split_def)

lemma part_only_leave [part_intros]:
  "(\<And>u u'. fin u = Some u' \<Longrightarrow> only P u u') \<Longrightarrow> R (Exited s) \<Longrightarrow> only P w v \<Longrightarrow> part_only P R S w (leave fin s v)"
  by (auto simp: part_only_def leave_def split: option.splits intro: only_trans)

lemma part_only_exits [part_intros]:
  assumes "\<And>u u'. fin u = Some u' \<Longrightarrow> only P u u'" "R (Exited EXIT_FAILURE)" "only P w v"
  shows "part_only P R S w (leave_with fin (baa_error_exit fmt va v))"
    "part_only P R S w (leave_with fin (baa_th_error_exit e fmt va v))"
  unfolding leave_with_def baa_error_exit_def baa_th_error_exit_def
  using assms by (auto intro!: part_intros only_intros)

lemma part_only_options [part_intros]:
  assumes "\<And>r s v. r \<in> set rs \<Longrightarrow> only P w v \<Longrightarrow> part_only P R (\<lambda>_. True) w (body (opt_char r) (opt_arg r) s v)"
  shows "only P w v \<Longrightarrow> part_only P R (\<lambda>_. True) w (option_loop x body rs s v)"
  using assms
proof (induction rs arbitrary: s v)
  case (Cons r rs)
  have "only P w (getopt_report x r v)"
    using Cons.prems(1) unfolding getopt_report_def by (auto split: opt_result.splits intro!: only_intros)
  then show ?case using Cons.IH Cons.prems(2) by (auto intro!: part_intros)
qed (simp add: part_intros)

lemma part_only_program_name [part_intros]:
  assumes "\<And>n. P (Mem (Malloc n))" "R (Exited EXIT_FAILURE)" "only P w v"
  shows "part_only P R (\<lambda>_. True) w (program_name argv v)"
proof -
  have cat: "only P w (snd (c_strcat s (NUL # replicate (length s) NUL) u))" if "only P w u" for s u
    using that by (simp add: c_strcat_def c_strlen_def poke_def)
  show ?thesis
    unfolding program_name_def baa_set_program_name_def Let_def baa_error_exit_def
    using assms by (auto simp: split_def intro!: cat part_intros only_intros)
qed

lemma part_only_register [part_intros]:
  "P (Proc Atexit) \<Longrightarrow> R (Exited EXIT_FAILURE) \<Longrightarrow> only P w v \<Longrightarrow> part_only P R (\<lambda>_. True) w (register_cleanup v)"
  unfolding register_cleanup_def by (auto simp: split_def Let_def intro!: part_intros only_intros)

lemma part_only_start_thread [part_intros]:
  "P (Sched (Thread_create fn)) \<Longrightarrow> (\<And>u u'. fin u = Some u' \<Longrightarrow> only P u u') \<Longrightarrow> R (Exited EXIT_FAILURE) \<Longrightarrow> only P w v \<Longrightarrow>
   part_only P R (\<lambda>_. True) w (start_thread fin fn msg v)"
  unfolding start_thread_def by (auto simp: split_def Let_def intro!: part_intros only_intros)

lemma part_only_start_signal [part_intros]:
  "P (Sched (Thread_create ''signal_handler'')) \<Longrightarrow> P (Proc Sigmask_block_all) \<Longrightarrow>
   (\<And>u u'. fin u = Some u' \<Longrightarrow> only P u u') \<Longrightarrow> R (Exited EXIT_FAILURE) \<Longrightarrow> only P w v \<Longrightarrow>
   part_only P R (\<lambda>_. True) w (start_signal_thread fin msg v)"
  unfolding start_signal_thread_def by (auto simp: split_def Let_def intro!: part_intros only_intros)

lemma part_onlyD: "part_only P R S w m \<Longrightarrow> m = Some (r, w') \<Longrightarrow> only P w w' \<and> (case r of Inl e \<Rightarrow> R e | Inr x \<Rightarrow> S x)"
  by (simp add: part_only_def)

text \<open>A postcondition of a part, and how a contract for its beginning carries it.\<close>

definition part_post :: "(ending + 'a \<Rightarrow> world \<Rightarrow> bool) \<Rightarrow> 'a part \<Rightarrow> bool" where
  "part_post Q m \<longleftrightarrow> (\<forall>r w'. m = Some (r, w') \<longrightarrow> Q r w')"

named_theorems post_intros "postconditions along the structure of a part"

lemma part_post_then [post_intros]:
  assumes "part_only P R S w m" "\<And>x v. S x \<Longrightarrow> only P w v \<Longrightarrow> part_post Q (f x v)"
    and "\<And>e v. R e \<Longrightarrow> only P w v \<Longrightarrow> Q (Inl e) v"
  shows "part_post Q (then_do m f)"
  using assms unfolding part_post_def part_only_def then_do_Some_iff by fastforce

lemma part_post_only:
  assumes "part_only P R S w m" "\<And>e v. R e \<Longrightarrow> only P w v \<Longrightarrow> Q (Inl e) v" "\<And>x v. S x \<Longrightarrow> only P w v \<Longrightarrow> Q (Inr x) v"
  shows "part_post Q m"
  using assms unfolding part_post_def part_only_def by (fastforce split: sum.splits)

lemma part_post_if [post_intros]:
  "(c \<Longrightarrow> part_post Q a) \<Longrightarrow> (\<not> c \<Longrightarrow> part_post Q b) \<Longrightarrow> part_post Q (if c then a else b)"
  by simp

lemma part_post_let [post_intros]:
  assumes "only P w (snd e)" "\<And>a v. only P w v \<Longrightarrow> part_post Q (f a v)"
  shows "part_post Q (Let e (\<lambda>(a, v). f a v))"
  using assms by (auto simp: Let_def split_def)

lemma part_postD: "part_post Q m \<Longrightarrow> m = Some (r, w') \<Longrightarrow> Q r w'"
  by (simp add: part_post_def)

text \<open>Parts that always return.\<close>

definition returns :: "'a option \<Rightarrow> bool" where
  "returns m \<longleftrightarrow> m \<noteq> None"

named_theorems returns_intros "parts that return"

lemma returns_then [returns_intros]: "returns m \<Longrightarrow> (\<And>x v. returns (f x v)) \<Longrightarrow> returns (then_do m f)"
  by (auto simp: returns_def then_do_def split: option.splits sum.splits)

lemma returns_if [returns_intros]: "(c \<Longrightarrow> returns a) \<Longrightarrow> (\<not> c \<Longrightarrow> returns b) \<Longrightarrow> returns (if c then a else b)"
  by simp

lemma returns_let [returns_intros]:
  "(\<And>a v. returns (f a v)) \<Longrightarrow> returns (Let e (\<lambda>(a, v). f a v))" "(\<And>a v. returns (f a v)) \<Longrightarrow> returns (case e of (a, v) \<Rightarrow> f a v)"
  by (auto simp: Let_def split_def)

lemma returns_Some [returns_intros]: "returns (Some x)"
  by (simp add: returns_def)

lemma returns_leave [returns_intros]: "(\<And>v. returns (fin v)) \<Longrightarrow> returns (leave fin s w)"
  by (auto simp: returns_def leave_def split: option.splits)

lemma returns_leave_with [returns_intros]: "(\<And>v. returns (fin v)) \<Longrightarrow> returns (leave_with fin ew)"
  by (auto simp: leave_with_def split: prod.splits ending.splits intro: returns_leave returns_Some)

lemma returns_options [returns_intros]:
  "(\<And>c a s v. returns (body c a s v)) \<Longrightarrow> returns (option_loop x body rs s w)"
  by (induction rs arbitrary: s w) (auto intro!: returns_intros)

lemma returns_start [returns_intros]:
  "returns (program_name argv w)" "returns (register_cleanup w)"
  "(\<And>v. returns (fin v)) \<Longrightarrow> returns (start_thread fin fn msg w)"
  "(\<And>v. returns (fin v)) \<Longrightarrow> returns (start_signal_thread fin msg w)"
  by (auto simp: program_name_def register_cleanup_def start_thread_def start_signal_thread_def split_def Let_def
      split: sum.splits intro!: returns_intros)

lemma returnsE: "returns m \<Longrightarrow> (\<And>r w'. m = Some (r, w') \<Longrightarrow> thesis) \<Longrightarrow> thesis"
  by (auto simp: returns_def)

lemma only_rtpreempt [only_intros]:
  "P (Proc Uname) \<Longrightarrow> (\<And>p. P (File (Fopen p))) \<Longrightarrow> P (File Fscanf_d) \<Longrightarrow> P (File Fclose) \<Longrightarrow> only P w v \<Longrightarrow>
   only P w (snd (baa_check_for_rtpreempt v))"
  unfolding baa_check_for_rtpreempt_def Let_def by (auto simp: split_def intro!: only_intros)

lemma only_drop_capability [only_intros]:
  "P (Proc Capng_clear) \<Longrightarrow> (\<And>c. P (Proc (Capng_update c))) \<Longrightarrow> P (Proc Capng_print) \<Longrightarrow> P (Proc Capng_apply) \<Longrightarrow>
   only P w v \<Longrightarrow> only P w (snd (baa_drop_capability c v))"
  unfolding baa_drop_capability_def Let_def by (auto simp: split_def intro!: only_intros)

lemma wrap_close_only:
  "baa_wrap_close fd w = Some w' \<Longrightarrow> only (\<lambda>c. c = File (Close fd)) w w'"
proof (rule baa_wrap_close.raw_induct[where P = "\<lambda>fd w w'. only (\<lambda>c. c = File (Close fd)) w w'"])
  fix f :: "int \<Rightarrow> world \<Rightarrow> world option" and fd w v
  assume IH: "\<And>fd w v. f fd w = Some v \<Longrightarrow> only (\<lambda>c. c = File (Close fd)) w v"
    and eq: "(let r = answer w (File (Close fd)); w = snd (sys (File (Close fd)) w)
      in if rv r = -1 then (if w_errno w = EINTR then f fd w
         else Some (baa_errno_msg ''FATAL: could not close fd %d'' [FInt fd] w)) else Some w) = Some v"
  have s: "only (\<lambda>c. c = File (Close fd)) w (snd (sys (File (Close fd)) w))" by (auto intro!: only_intros)
  from eq show "only (\<lambda>c. c = File (Close fd)) w v"
    using only_trans[OF s IH] s by (auto simp: Let_def split: if_splits intro!: only_intros)
qed

lemma only_os: "only P w v \<Longrightarrow> w_os v = w_os w"
  by (simp add: only_def)

lemma wrap_close_ok: "rv (answer w (File (Close fd))) \<noteq> -1 \<Longrightarrow> baa_wrap_close fd w = Some (snd (sys (File (Close fd)) w))"
  by (subst baa_wrap_close.simps) (simp add: Let_def)

section \<open>Exit handlers\<close>

text \<open>
  The interface of a handler that \<open>exit\<close> runs: the calls it may make, and that it does no harm.
  It may fail to return; a handler that always returns is a \<open>returning_handler\<close>. What the
  signal thread and the exits of a program do follows for every handler.
\<close>

fun sigwaits :: "event list \<Rightarrow> reply list" where
  "sigwaits [] = []"
| "sigwaits ((c, r) # es) = (if c = Proc Sigwait then r # sigwaits es else sigwaits es)"

lemma sigwaits_append [simp]: "sigwaits (xs @ ys) = sigwaits xs @ sigwaits ys"
  by (induction xs rule: sigwaits.induct) auto

lemma sigwaits_none: "\<forall>e \<in> set es. fst e \<noteq> Proc Sigwait \<Longrightarrow> sigwaits es = []"
  by (induction es rule: sigwaits.induct) auto

text \<open>A signal the thread does not end with.\<close>

definition survived :: "reply \<Rightarrow> bool" where
  "survived r \<longleftrightarrow> rv r = 0 \<and> rprio r \<noteq> SIGTERM"

text \<open>What the thread saw when it has run for at most \<open>n\<close> rounds: it is still running and
  survived \<open>n\<close> signals, or it ended with the last of them.\<close>

definition signal_history :: "nat \<Rightarrow> ending + unit \<Rightarrow> reply list \<Rightarrow> bool" where
  "signal_history n r qs \<longleftrightarrow>
    r = Inr () \<and> length qs = n \<and> list_all survived qs \<or>
    (\<exists>ps q. qs = ps @ [q] \<and> length ps < n \<and> list_all survived ps \<and> \<not> survived q \<and>
      r = Inl (Exited (if rv q \<noteq> 0 then EXIT_FAILURE else EXIT_SUCCESS)))"

lemma signal_history_Cons:
  assumes "survived q" "signal_history n r qs"
  shows "signal_history (Suc n) r (q # qs)"
  using assms(2) unfolding signal_history_def
proof (elim disjE exE conjE)
  fix ps q' assume "qs = ps @ [q']" "length ps < n" "list_all survived ps" "\<not> survived q'"
    "r = Inl (Exited (if rv q' \<noteq> 0 then EXIT_FAILURE else EXIT_SUCCESS))"
  with assms(1) show "r = Inr () \<and> length (q # qs) = Suc n \<and> list_all survived (q # qs) \<or>
    (\<exists>ps q''. q # qs = ps @ [q''] \<and> length ps < Suc n \<and> list_all survived ps \<and> \<not> survived q'' \<and>
      r = Inl (Exited (if rv q'' \<noteq> 0 then EXIT_FAILURE else EXIT_SUCCESS)))"
    by (intro disjI2 exI[of _ "q # ps"] exI[of _ q']) simp
qed (simp add: assms(1))

lemma signal_history_last:
  "\<not> survived q \<Longrightarrow> signal_history (Suc n) (Inl (Exited (if rv q \<noteq> 0 then EXIT_FAILURE else EXIT_SUCCESS))) [q]"
  by (simp add: signal_history_def)

locale exit_handler =
  fixes fin :: "world \<Rightarrow> world option" and may :: "call \<Rightarrow> bool"
  assumes fin_only: "fin w = Some w' \<Longrightarrow> only may w w'"
    and fin_no_wait: "\<not> may (Proc Sigwait)"
begin

lemma leave_result:
  "leave fin s w = Some (r, w') \<longleftrightarrow> r = Inl (Exited s) \<and> fin w = Some w'"
  by (auto simp: leave_def split: option.splits)

lemma leave_only: "leave fin s w = Some (r, w') \<Longrightarrow> only may w w'"
  by (auto simp: leave_result dest: fin_only)

lemma fin_after_msg: "fin (error_common a e l fmt va w) = Some w' \<Longrightarrow> only may w w'"
  using fin_only only_trans only_quiet[OF error_common_quiet only_refl] by blast

lemma error_exit_result:
  "leave_with fin (baa_error_exit fmt va w) = Some (r, w') \<Longrightarrow> r = Inl (Exited EXIT_FAILURE) \<and> only may w w'"
  unfolding leave_with_def baa_error_exit_def
  by (auto simp: leave_result dest: fin_after_msg)

lemma th_error_exit_result:
  "leave_with fin (baa_th_error_exit e fmt va w) = Some (r, w') \<Longrightarrow> r = Inl (Exited EXIT_FAILURE) \<and> only may w w'"
  unfolding leave_with_def baa_th_error_exit_def
  by (auto simp: leave_result dest: fin_after_msg)

lemma start_thread_result:
  assumes "start_thread fin fn msg w = Some (r, w')"
  shows "(if rv (answer w (Sched (Thread_create fn))) = 0
     then r = Inr () \<and> w' = snd (sys (Sched (Thread_create fn)) w)
     else r = Inl (Exited EXIT_FAILURE) \<and> only may (snd (sys (Sched (Thread_create fn)) w)) w')"
  using assms
  by (auto simp: start_thread_def split_def Let_def sys_simps split: if_splits dest: th_error_exit_result)

lemma may_not_wait: "only may w w' \<Longrightarrow> only (\<lambda>c. c \<noteq> Proc Sigwait) w w'"
  using fin_no_wait by (auto intro: only_mono)

lemma signal_iteration_result:
  fixes w defines "q \<equiv> answer w (Proc Sigwait)"
  assumes "signal_iteration fin w = Some (r, w')"
  shows "r = (if rv q \<noteq> 0 then Inl (Exited EXIT_FAILURE) else if rprio q = SIGTERM then Inl (Exited EXIT_SUCCESS) else Inr ())"
    and "only (\<lambda>c. c \<noteq> Proc Sigwait) (snd (sys (Proc Sigwait) w)) w'"
proof -
  let ?v = "snd (sys (Proc Sigwait) w)"
  have out: "only (\<lambda>c. c \<noteq> Proc Sigwait) ?v (signal_text baa_info_msg fmt sig ?v)"
    "only (\<lambda>c. c \<noteq> Proc Sigwait) ?v (signal_text baa_error_msg fmt sig ?v)" for fmt sig
    by (intro only_signal_text info_msg.msg_quiet error_msg.msg_quiet only_refl; simp)+
  consider "rv q \<noteq> 0" | "rv q = 0" "rprio q = SIGTERM" | "rv q = 0" "rprio q \<noteq> SIGTERM" by blast
  then have "r = (if rv q \<noteq> 0 then Inl (Exited EXIT_FAILURE) else if rprio q = SIGTERM then Inl (Exited EXIT_SUCCESS) else Inr ()) \<and>
    only (\<lambda>c. c \<noteq> Proc Sigwait) ?v w'"
  proof cases
    case 1
    with assms(2) have "leave_with fin (baa_error_exit ''sigwait() != 0 in %s'' [FStr ''signal_handler''] ?v) = Some (r, w')"
      by (simp add: signal_iteration_def split_def Let_def sys_simps q_def)
    from error_exit_result[OF this] 1 show ?thesis using may_not_wait by simp
  next
    case 2
    with assms(2) have "leave fin EXIT_SUCCESS (signal_text baa_info_msg ''catched signal \"%s\" (%d) -> exit now '' SIGTERM ?v) = Some (r, w')"
      by (simp add: signal_iteration_def split_def Let_def sys_simps q_def)
    with 2 show ?thesis using leave_result only_trans[OF out(1) may_not_wait[OF fin_only]] by auto
  next
    case 3
    with assms(2) out show ?thesis
      by (auto simp: signal_iteration_def split_def Let_def sys_simps q_def split: if_splits)
  qed
  then show "r = (if rv q \<noteq> 0 then Inl (Exited EXIT_FAILURE) else if rprio q = SIGTERM then Inl (Exited EXIT_SUCCESS) else Inr ())"
    "only (\<lambda>c. c \<noteq> Proc Sigwait) ?v w'" by blast+
qed

text \<open>The thread survives the signals up to the first \<open>SIGTERM\<close> or failure, and ends there.\<close>

lemma signal_run_result:
  assumes "signal_run n fin w = Some (r, w')"
  shows "\<exists>new. io w' = io w @ new \<and> signal_history n r (sigwaits new)"
  using assms
proof (induction n arbitrary: w)
  case (Suc n)
  let ?q = "answer w (Proc Sigwait)"
  from Suc.prems obtain r1 w1 where it: "signal_iteration fin w = Some (r1, w1)"
    by (auto simp: then_do_Some_iff)
  note res = signal_iteration_result[OF it]
  obtain new1 where new1: "io w1 = io w @ (Proc Sigwait, ?q) # new1" "sigwaits new1 = []"
    using res(2) by (elim only_new) (auto simp: sys_simps intro: sigwaits_none)
  show ?case
  proof (cases "survived ?q")
    case True
    then have "r1 = Inr ()" using res(1) by (simp add: survived_def)
    with Suc.prems it have "signal_run n fin w1 = Some (r, w')" by simp
    from Suc.IH[OF this] obtain new where "io w' = io w1 @ new" "signal_history n r (sigwaits new)" by blast
    with True new1 show ?thesis
      by (intro exI[of _ "(Proc Sigwait, ?q) # new1 @ new"]) (simp add: signal_history_Cons)
  next
    case False
    then have "r1 = Inl (Exited (if rv ?q \<noteq> 0 then EXIT_FAILURE else EXIT_SUCCESS))"
      using res(1) by (auto simp: survived_def)
    with Suc.prems it have r: "w' = w1" "r = Inl (Exited (if rv ?q \<noteq> 0 then EXIT_FAILURE else EXIT_SUCCESS))"
      by simp_all
    have "signal_history (Suc n) r [?q]" unfolding r(2) by (rule signal_history_last[OF False])
    with r(1) new1 show ?thesis
      by (intro exI[of _ "(Proc Sigwait, ?q) # new1"]) simp
  qed
qed (simp add: signal_history_def)

end

locale returning_handler = exit_handler +
  assumes fin_returns: "fin w \<noteq> None"
begin

lemma leave_returns: "\<exists>w'. leave fin s w = Some (Inl (Exited s), w') \<and> only may w w'"
  using fin_returns[of w] fin_only[of w] by (auto simp: leave_def split: option.splits)

lemma exits_return:
  "\<exists>w'. leave_with fin (baa_error_exit fmt va w) = Some (Inl (Exited EXIT_FAILURE), w') \<and> only may w w'"
  "\<exists>w'. leave_with fin (baa_th_error_exit e fmt va w) = Some (Inl (Exited EXIT_FAILURE), w') \<and> only may w w'"
proof -
  have *: "\<exists>w'. leave fin s v = Some (Inl (Exited s), w') \<and> only may w w'" if "quiet w v" for s v
    using leave_returns[of s v] only_trans[OF only_quiet[OF that only_refl]] by blast
  show "\<exists>w'. leave_with fin (baa_error_exit fmt va w) = Some (Inl (Exited EXIT_FAILURE), w') \<and> only may w w'"
    "\<exists>w'. leave_with fin (baa_th_error_exit e fmt va w) = Some (Inl (Exited EXIT_FAILURE), w') \<and> only may w w'"
    using *[OF error_common_quiet] by (auto simp: leave_with_def baa_error_exit_def baa_th_error_exit_def)
qed

lemma signal_iteration_returns: "signal_iteration fin w \<noteq> None"
proof -
  have "leave fin s v \<noteq> (None :: unit part)" for s v using leave_returns[of s v] by auto
  then show ?thesis
    by (simp add: signal_iteration_def split_def Let_def leave_with_def baa_error_exit_def)
qed

lemma signal_run_returns: "\<exists>r w'. signal_run n fin w = Some (r, w')"
proof (induction n arbitrary: w)
  case (Suc n)
  obtain r w' where "signal_iteration fin w = Some (r, w')" using signal_iteration_returns[of w] by auto
  with Suc.IH show ?case by (cases r) auto
qed simp

end

interpretation cheers: returning_handler "\<lambda>w. Some (cheers w)" "\<lambda>c. c = Proc (Getenv ''USER'')"
  by unfold_locales (auto intro: only_cheers only_refl)

section \<open>The program name\<close>

text \<open>With memory for it, the name is what follows the last slash of the first argument.\<close>

lemma program_name_ok:
  assumes "arg0 argv = Some a" "rv (answer w (Mem (Malloc (length (after_last_slash a) + 1)))) \<noteq> 0"
  shows "program_name argv w = Some (Inr (c_str (after_last_slash a)), snd (sys (Mem (Malloc (length (after_last_slash a) + 1))) w))"
proof -
  have "c_strcat s (replicate (length s + 1) NUL) v = (s @ [NUL], v)" for s v
    by (simp add: c_strcat_def c_strlen_def poke_def overwrite_def)
  moreover have "c_str (s @ [NUL]) = c_str s" for s
    by (induction s) (simp_all add: c_str_def)
  ultimately show ?thesis
    using assms by (simp add: program_name_def baa_set_program_name_def split_def Let_def sys_simps)
qed

lemma program_name_fails:
  assumes "arg0 argv = Some a" "rv (answer w (Mem (Malloc (length (after_last_slash a) + 1)))) = 0"
  shows "\<exists>w'. program_name argv w = Some (Inl (Exited EXIT_FAILURE), w') \<and>
    only (\<lambda>c. c = Mem (Malloc (length (after_last_slash a) + 1))) w w'"
  using assms
  by (auto simp: program_name_def baa_set_program_name_def baa_error_exit_def split_def Let_def sys_simps
      intro!: only_intros)

text \<open>An environment in which the common start of the programs succeeds.\<close>

definition start_env :: "(nat \<Rightarrow> call \<Rightarrow> reply) \<Rightarrow> bool" where
  "start_env os \<longleftrightarrow> (\<forall>n k. rv (os n (Mem (Malloc k))) \<noteq> 0) \<and> (\<forall>n. rv (os n (Proc Atexit)) = 0) \<and>
    (\<forall>n. rv (os n (Proc Sigmask_block_all)) = 0) \<and> (\<forall>n f. rv (os n (Sched (Thread_create f))) = 0)"

definition name_call :: "string \<Rightarrow> call" where
  "name_call a = Mem (Malloc (length (after_last_slash a) + 1))"

definition signal_thread_started :: "world \<Rightarrow> world" where
  "signal_thread_started w = snd (sys (Sched (Thread_create ''signal_handler'')) (snd (sys (Proc Sigmask_block_all) w)))"

lemma start_env_ok:
  assumes "start_env (w_os w)"
  shows "program_name (a # as) w = Some (Inr (c_str (after_last_slash a)), snd (sys (name_call a) w))"
    "register_cleanup w = Some (Inr (), snd (sys (Proc Atexit) w))"
    "start_signal_thread fin msg w = Some (Inr (), signal_thread_started w)"
    "start_thread fin fn msg w = Some (Inr (), snd (sys (Sched (Thread_create fn)) w))"
    "rv (answer w (Sched (Thread_create fn))) = 0" "rv (answer w (Mem (Malloc k))) \<noteq> 0"
  using assms program_name_ok[of "a # as" a w]
  by (simp_all add: start_env_def name_call_def arg0_def register_cleanup_def start_signal_thread_def start_thread_def
      signal_thread_started_def split_def Let_def sys_simps answer_def)

lemma start_simps [simp]:
  "\<not> is_log (name_call a)" "w_os (signal_thread_started w) = w_os w" "w_fault (signal_thread_started w) = w_fault w"
  "map fst (io (signal_thread_started w)) = map fst (io w) @ [Proc Sigmask_block_all, Sched (Thread_create ''signal_handler'')]"
  by (simp_all add: name_call_def signal_thread_started_def sys_simps)

section \<open>Reading options back\<close>

text \<open>A command line written out from a list of options, and what the parser makes of it.\<close>

fun render :: "(char \<times> string option) list \<Rightarrow> string list" where
  "render [] = []"
| "render ((c, None) # os) = [CHR ''-'', c] # render os"
| "render ((c, Some v) # os) = [CHR ''-'', c] # v # render os"

definition expects :: "string \<Rightarrow> char \<times> string option \<Rightarrow> bool" where
  "expects os p \<longleftrightarrow> fst p \<noteq> CHR ''-'' \<and> optspec os (fst p) = Some (snd p \<noteq> None)"

lemma getopt_scan_render: "list_all (expects os) xs \<Longrightarrow> getopt_scan os [] (render xs) = map (\<lambda>(c, a). Got c a) xs"
  by (induction xs rule: render.induct) (simp_all add: expects_def is_option_def)

lemma getopt_all_render:
  "list_all (expects os) xs \<Longrightarrow> getopt_all os (p # render xs) = map (\<lambda>(c, a). Got c a) xs"
  by (simp add: getopt_all_def getopt_scan_render)

lemma getopt_report_Got [simp]: "getopt_report a (Got c arg) w = w"
  by (simp add: getopt_report_def)

text \<open>Programs without options that matter: what is not an option is skipped.\<close>

lemma getopt_no_options: "list_all (\<lambda>a. \<not> is_option a) as \<Longrightarrow> getopt_scan os [] as = []"
  by (induction "as") (auto simp: is_option_def)

section \<open>Properties\<close>

text \<open>
  C38. The signal thread of a program: it always returns from a round, and what it does depends on
  the signals alone. It survives every signal but \<open>SIGTERM\<close>, and after at most n rounds it
  either still waits, having survived n signals, or it has ended the process with the first
  signal it did not survive: with status 0 for \<open>SIGTERM\<close> and with status 1 when waiting failed.
\<close>
theorem signal_thread_ends:
  "\<exists>r w' new. signal_run n (\<lambda>w. Some (cheers w)) w = Some (r, w') \<and> io w' = io w @ new \<and> signal_history n r (sigwaits new)"
  using cheers.signal_run_returns cheers.signal_run_result by meson

end
