(* ===== verification/Baa_Process.thy ===== *)
theory Baa_Process
  imports Baa_Error
begin

text \<open>
  The process and clock helpers: \<open>src/src/process.c\<close>, with the normalisation of a
  \<open>timespec\<close> that \<open>src/src/fiber.c\<close> and \<open>process.c\<close> share. Both write the same loop; the
  model defines it once per place and proves that they agree.
\<close>

abbreviation (input) NSEC_PER_SEC :: int where "NSEC_PER_SEC \<equiv> 1000000000"

section \<open>Normalising a time\<close>

function baa_ts_norm :: "timespec \<Rightarrow> timespec" where
  "baa_ts_norm t =
    (if tv_nsec t \<ge> NSEC_PER_SEC
     then baa_ts_norm (t\<lparr>tv_nsec := tv_nsec t - NSEC_PER_SEC, tv_sec := tv_sec t + 1\<rparr>)
     else t)"
  by pat_completeness auto
termination
  by (relation "measure (\<lambda>t. nat (tv_nsec t))") auto

declare baa_ts_norm.simps [simp del]

definition total_ns :: "timespec \<Rightarrow> int" where
  "total_ns t = tv_sec t * NSEC_PER_SEC + tv_nsec t"

definition normalised :: "timespec \<Rightarrow> bool" where
  "normalised t \<longleftrightarrow> 0 \<le> tv_nsec t \<and> tv_nsec t < NSEC_PER_SEC"

lemma ts_norm_total [simp]: "total_ns (baa_ts_norm t) = total_ns t"
proof (induction t rule: baa_ts_norm.induct)
  case (1 t)
  then show ?case by (subst baa_ts_norm.simps) (simp add: total_ns_def algebra_simps)
qed

lemma ts_norm_range: "0 \<le> tv_nsec t \<Longrightarrow> normalised (baa_ts_norm t)"
proof (induction t rule: baa_ts_norm.induct)
  case (1 t)
  then show ?case by (subst baa_ts_norm.simps) (simp add: normalised_def)
qed

lemma timespec_eqI: "tv_sec s = tv_sec t \<Longrightarrow> tv_nsec s = tv_nsec t \<Longrightarrow> s = (t :: timespec)"
  by simp

lemma normalised_unique:
  assumes "normalised s" "normalised t" "total_ns s = total_ns t"
  shows "s = t"
proof (rule timespec_eqI)
  have ns: "tv_nsec u = total_ns u mod NSEC_PER_SEC" and sec: "tv_sec u = total_ns u div NSEC_PER_SEC"
    if "normalised u" for u
    using that by (auto simp: normalised_def total_ns_def)
  show "tv_sec s = tv_sec t" using assms sec by metis
  show "tv_nsec s = tv_nsec t" using assms ns by metis
qed

lemma ts_norm_eq:
  assumes "0 \<le> tv_nsec t"
  shows "baa_ts_norm t = \<lparr>tv_sec = tv_sec t + tv_nsec t div NSEC_PER_SEC, tv_nsec = tv_nsec t mod NSEC_PER_SEC\<rparr>"
proof -
  let ?u = "\<lparr>tv_sec = tv_sec t + tv_nsec t div NSEC_PER_SEC, tv_nsec = tv_nsec t mod NSEC_PER_SEC\<rparr>"
  have "normalised ?u" by (simp add: normalised_def)
  moreover have "total_ns ?u = total_ns t"
    by (simp add: total_ns_def algebra_simps)
  ultimately show ?thesis
    using ts_norm_range[OF assms] by (intro normalised_unique) simp_all
qed

text \<open>Times are ordered by their seconds first; for normalised times that is the order of their length.\<close>

instantiation timespec_ext :: (linorder) linorder
begin

definition less_eq_timespec_ext :: "'a timespec_scheme \<Rightarrow> 'a timespec_scheme \<Rightarrow> bool" where
  "less_eq_timespec_ext s t \<longleftrightarrow> tv_sec s < tv_sec t \<or> tv_sec s = tv_sec t \<and>
    (tv_nsec s < tv_nsec t \<or> tv_nsec s = tv_nsec t \<and> timespec.more s \<le> timespec.more t)"

definition less_timespec_ext :: "'a timespec_scheme \<Rightarrow> 'a timespec_scheme \<Rightarrow> bool" where
  "less_timespec_ext s t \<longleftrightarrow> tv_sec s < tv_sec t \<or> tv_sec s = tv_sec t \<and>
    (tv_nsec s < tv_nsec t \<or> tv_nsec s = tv_nsec t \<and> timespec.more s < timespec.more t)"

instance
  by intro_classes (auto simp: less_eq_timespec_ext_def less_timespec_ext_def)

end

lemma timespec_less_total:
  assumes "normalised s" "normalised t"
  shows "s < t \<longleftrightarrow> total_ns s < total_ns t"
proof -
  have "0 \<le> tv_nsec s" "tv_nsec s < NSEC_PER_SEC" "0 \<le> tv_nsec t" "tv_nsec t < NSEC_PER_SEC"
    using assms by (simp_all add: normalised_def)
  then show ?thesis unfolding less_timespec_ext_def total_ns_def by (cases "tv_sec s = tv_sec t") auto
qed



section \<open>Queries\<close>

definition baa_get_num_cpu :: "world \<Rightarrow> (int \<times> int) \<times> world" where
  "baa_get_num_cpu w =
    (let (conf, w) = sys (Sched Get_nprocs_conf) w;
         (onln, w) = sys (Sched Get_nprocs) w
     in ((rv conf, rv onln), w))"

definition baa_get_sched_policy :: "c_int \<Rightarrow> world \<Rightarrow> int \<times> world" where
  "baa_get_sched_policy pid w = (let (r, w) = sys (Sched (Sched_getscheduler pid)) w in (rv r, w))"

definition baa_get_sched_priority :: "c_int \<Rightarrow> world \<Rightarrow> int \<times> world" where
  "baa_get_sched_priority pid w =
    (let (r, w) = sys (Sched (Sched_getparam pid)) w
     in if rv r = -1 then (-1, w) else (rprio r, w))"

function slice_norm :: "timespec \<Rightarrow> timespec" where
  "slice_norm t =
    (if tv_nsec t \<ge> NSEC_PER_SEC
     then slice_norm (t\<lparr>tv_nsec := tv_nsec t - NSEC_PER_SEC, tv_sec := tv_sec t + 1\<rparr>)
     else t)"
  by pat_completeness auto
termination
  by (relation "measure (\<lambda>t. nat (tv_nsec t))") auto

declare slice_norm.simps [simp del]

text \<open>\<open>NS_TO_MS\<close> is C division, which truncates towards zero.\<close>

definition NS_TO_MS :: "int \<Rightarrow> int" where
  "NS_TO_MS v = sgn v * (\<bar>v\<bar> div 1000000)"

definition baa_get_sched_time_slice_ms :: "c_int \<Rightarrow> world \<Rightarrow> int \<times> world" where
  "baa_get_sched_time_slice_ms pid w =
    (let (r, w) = sys (Sched (Sched_rr_get_interval pid)) w
     in if rv r = -1 then (-1, w)
        else (let t = slice_norm (rtime r) in (NS_TO_MS (tv_nsec t), w)))"

section \<open>Reports\<close>

fun affinity_report :: "c_int \<Rightarrow> nat list \<Rightarrow> nat list \<Rightarrow> world \<Rightarrow> world" where
  "affinity_report pid cpus [] w = w"
| "affinity_report pid cpus (i # is) w =
    affinity_report pid cpus is
      (baa_info_msg ''pid %d cpu=%d is %s''
        [FInt (sint pid), FInt (int i), FStr (if i < 1024 \<and> i \<in> set cpus then ''set'' else ''unset'')] w)"

definition baa_print_cpu_affinity :: "c_int \<Rightarrow> nat \<Rightarrow> world \<Rightarrow> world" where
  "baa_print_cpu_affinity pid max_cpu w =
    (let (r, w) = sys (Sched (Sched_getaffinity pid)) w
     in if rv r = -1 then baa_errno_msg ''could not get affinity for pid %ld'' [FInt (sint pid)] w
        else affinity_report pid (rcpus r) [0..<max_cpu] w)"

definition baa_print_sched_policy :: "c_int \<Rightarrow> world \<Rightarrow> world" where
  "baa_print_sched_policy pid w =
    (let (policy, w) = baa_get_sched_policy pid w
     in if policy = -1 then baa_error_msg ''could not get schedule policy for pid %ld'' [FInt (sint pid)] w
        else if policy = SCHED_FIFO then baa_info_msg ''scheduler SCHED_FIFO for pid %d'' [FInt (sint pid)] w
        else if policy = SCHED_RR then baa_info_msg ''scheduler SCHED_RR for pid %d'' [FInt (sint pid)] w
        else if policy = SCHED_OTHER then baa_info_msg ''scheduler SCHED_OTHER for pid %d'' [FInt (sint pid)] w
        else if policy = SCHED_IDLE then baa_info_msg ''scheduler SCHED_IDLE for pid %d'' [FInt (sint pid)] w
        else if policy = SCHED_BATCH then baa_info_msg ''scheduler SCHED_BATCH for pid %d'' [FInt (sint pid)] w
        else baa_info_msg ''unknown scheduler %d for %ld'' [FInt policy, FInt (sint pid)] w)"

definition baa_print_sched_priority :: "c_int \<Rightarrow> world \<Rightarrow> world" where
  "baa_print_sched_priority pid w =
    (let (prio, w) = baa_get_sched_priority pid w
     in baa_info_msg ''priority  for pid %ld is %d'' [FInt (sint pid), FInt prio] w)"

definition baa_print_priority_range :: "int \<Rightarrow> world \<Rightarrow> world" where
  "baa_print_priority_range policy w =
    (if policy = SCHED_FIFO then
       (let (mn, w) = sys (Sched (Sched_priority_min policy)) w;
            (mx, w) = sys (Sched (Sched_priority_max policy)) w
        in baa_info_msg ''priorty range for SCHED_FIFO is %d - %d'' [FInt (rv mn), FInt (rv mx)] w)
     else if policy = SCHED_RR then
       (let (mn, w) = sys (Sched (Sched_priority_min policy)) w;
            (mx, w) = sys (Sched (Sched_priority_max policy)) w
        in baa_info_msg ''priorty range for SCHED_RR is %d - %d'' [FInt (rv mn), FInt (rv mx)] w)
     else baa_info_msg ''priority range makes no sense for policy %d (must be 0)'' [FInt policy] w)"

definition baa_print_sched_time_slice_ms :: "c_int \<Rightarrow> world \<Rightarrow> world" where
  "baa_print_sched_time_slice_ms pid w =
    (let (ms, w) = baa_get_sched_time_slice_ms pid w
     in baa_info_msg ''time slice for pid %ld in ms %ld'' [FInt (sint pid), FInt ms] w)"

definition baa_print_num_cpu :: "world \<Rightarrow> world" where
  "baa_print_num_cpu w =
    (let ((cpu_conf, cpu_onln), w) = baa_get_num_cpu w;
         w = baa_info_msg ''number configured cpu's %d'' [FInt cpu_conf] w
     in baa_info_msg ''number online cpu's %d'' [FInt cpu_onln] w)"

lemma print_time_slice_simps:
  "map fst (io (baa_print_sched_time_slice_ms pid w)) = map fst (io w) @ [Sched (Sched_rr_get_interval pid)]"
  "w_os (baa_print_sched_time_slice_ms pid w) = w_os w"
  "w_fault (baa_print_sched_time_slice_ms pid w) = w_fault w"
  by (simp_all add: baa_print_sched_time_slice_ms_def baa_get_sched_time_slice_ms_def split_def Let_def sys_simps)

lemma print_priority_simps:
  "map fst (io (baa_print_sched_priority pid w)) = map fst (io w) @ [Sched (Sched_getparam pid)]"
  "w_os (baa_print_sched_priority pid w) = w_os w"
  "w_fault (baa_print_sched_priority pid w) = w_fault w"
  by (simp_all add: baa_print_sched_priority_def baa_get_sched_priority_def split_def Let_def sys_simps)

lemma print_policy_simps:
  "map fst (io (baa_print_sched_policy pid w)) = map fst (io w) @ [Sched (Sched_getscheduler pid)]"
  "w_os (baa_print_sched_policy pid w) = w_os w"
  "w_fault (baa_print_sched_policy pid w) = w_fault w"
  by (simp_all add: baa_print_sched_policy_def baa_get_sched_policy_def split_def Let_def sys_simps)

lemmas print_query_simps = print_time_slice_simps print_priority_simps print_policy_simps

section \<open>Properties\<close>

lemma slice_norm_eq: "slice_norm t = baa_ts_norm t"
proof (induction t rule: slice_norm.induct)
  case (1 t)
  then show ?case by (subst slice_norm.simps, subst baa_ts_norm.simps) simp
qed

text \<open>
  The time slice query returns \<open>-1\<close> when the kernel call fails and otherwise the milliseconds
  of the interval's fraction of a second: whole seconds of the interval are dropped.
\<close>
theorem time_slice_ms_value:
  assumes "0 \<le> tv_nsec (rtime (answer w (Sched (Sched_rr_get_interval pid))))"
  shows "fst (baa_get_sched_time_slice_ms pid w) =
    (let r = answer w (Sched (Sched_rr_get_interval pid))
     in if rv r = -1 then -1 else (total_ns (rtime r) mod NSEC_PER_SEC) div 1000000)"
proof -
  let ?t = "rtime (answer w (Sched (Sched_rr_get_interval pid)))"
  have "tv_nsec (slice_norm ?t) = total_ns ?t mod NSEC_PER_SEC"
    using ts_norm_eq[OF assms] by (simp add: slice_norm_eq total_ns_def)
  moreover have "0 \<le> tv_nsec (slice_norm ?t)"
    using ts_norm_range[OF assms] by (simp add: slice_norm_eq normalised_def)
  ultimately show ?thesis
    by (auto simp: baa_get_sched_time_slice_ms_def split_def Let_def sys_simps NS_TO_MS_def sgn_if)
qed

theorem time_slice_ms_value_witness:
  "fst (baa_get_sched_time_slice_ms 42 (init_world (\<lambda>_ _. (reply_of 0)\<lparr>rtime := \<lparr>tv_sec = 1, tv_nsec = 100000000\<rparr>\<rparr>))) = 100"
  by (subst time_slice_ms_value) (simp_all add: answer_def total_ns_def)

end
