(* ===== verification/Baa_Serialize.thy ===== *)
theory Baa_Serialize
  imports Baa_Error
begin

text \<open>
  The serialiser of \<open>src/src/serialize.c\<close>: \<open>baa_pack\<close> and \<open>baa_unpack\<close> move values between
  variable arguments and a message buffer under a format with one letter per field. The
  buffer is a byte list that the code indexes, a variable argument is a 64 bit slot, and
  the destinations of \<open>baa_unpack\<close> are addresses in a byte-addressed memory, so that what
  the code does to overlapping destinations is in the model.
\<close>

section \<open>Memory and variable arguments\<close>

type_synonym mem = "nat \<Rightarrow> byte"

definition store_le :: "nat \<Rightarrow> c_ulong \<Rightarrow> nat \<Rightarrow> mem \<Rightarrow> mem" where
  "store_le n v a m = (\<lambda>x. if a \<le> x \<and> x < a + n then ucast (drop_bit (8 * (x - a)) v) else m x)"

fun load_le :: "nat \<Rightarrow> nat \<Rightarrow> mem \<Rightarrow> c_ulong" where
  "load_le 0 a m = 0"
| "load_le (Suc n) a m = ucast (m a) OR push_bit 8 (load_le n (Suc a) m)"

definition va_arg :: "c_ulong list \<Rightarrow> world \<Rightarrow> c_ulong \<times> c_ulong list \<times> world" where
  "va_arg ap w = (case ap of [] \<Rightarrow> (unspec w, [], fault MissingVarArg w) | v # ap \<Rightarrow> (v, ap, w))"

definition peek :: "nat \<Rightarrow> byte list \<Rightarrow> world \<Rightarrow> byte \<times> world" where
  "peek p buf w = (if p < length buf then (buf ! p, w) else (0, fault OutOfBounds w))"

section \<open>Fields\<close>

definition pack_16 :: "byte list \<Rightarrow> nat \<Rightarrow> c_uint \<Rightarrow> world \<Rightarrow> byte list \<times> world" where
  "pack_16 buf p i w =
    (let (buf, w) = poke p [ucast (drop_bit 8 i)] buf w;
         (buf, w) = poke (p + 1) [ucast i] buf w
     in (buf, w))"

definition pack_32 :: "byte list \<Rightarrow> nat \<Rightarrow> c_ulong \<Rightarrow> world \<Rightarrow> byte list \<times> world" where
  "pack_32 buf p i w =
    (let (buf, w) = poke p [ucast (drop_bit 24 i)] buf w;
         (buf, w) = poke (p + 1) [ucast (drop_bit 16 i)] buf w;
         (buf, w) = poke (p + 2) [ucast (drop_bit 8 i)] buf w;
         (buf, w) = poke (p + 3) [ucast i] buf w
     in (buf, w))"

definition unpack_i8 :: "byte list \<Rightarrow> nat \<Rightarrow> world \<Rightarrow> byte \<times> world" where
  "unpack_i8 buf p w =
    (let (b0, w) = peek p buf w;
         tmp = (ucast b0 :: c_uint);
         i = (if tmp \<le> 0x7f then tmp else - 1 - (0xff - tmp))
     in (ucast i, w))"

definition unpack_i16 :: "byte list \<Rightarrow> nat \<Rightarrow> world \<Rightarrow> c_int \<times> world" where
  "unpack_i16 buf p w =
    (let (b0, w) = peek p buf w; (b1, w) = peek (p + 1) buf w;
         tmp = push_bit 8 (ucast b0 :: c_uint) OR ucast b1;
         i = (if tmp \<le> 0x7fff then tmp else - 1 - (0xffff - tmp))
     in (i, w))"

definition unpack_i32 :: "byte list \<Rightarrow> nat \<Rightarrow> world \<Rightarrow> c_long \<times> world" where
  "unpack_i32 buf p w =
    (let (b0, w) = peek p buf w; (b1, w) = peek (p + 1) buf w;
         (b2, w) = peek (p + 2) buf w; (b3, w) = peek (p + 3) buf w;
         tmp = push_bit 24 (ucast b0 :: c_ulong) OR push_bit 16 (ucast b1) OR push_bit 8 (ucast b2) OR ucast b3;
         i = (if tmp \<le> 0x7fffffff then tmp else - 1 - (0xffffffff - tmp))
     in (i, w))"

definition unpack_16 :: "byte list \<Rightarrow> nat \<Rightarrow> world \<Rightarrow> c_uint \<times> world" where
  "unpack_16 buf p w =
    (let (b0, w) = peek p buf w; (b1, w) = peek (p + 1) buf w
     in (push_bit 8 (ucast b0 :: c_uint) OR ucast b1, w))"

definition unpack_32 :: "byte list \<Rightarrow> nat \<Rightarrow> world \<Rightarrow> c_ulong \<times> world" where
  "unpack_32 buf p w =
    (let (b0, w) = peek p buf w; (b1, w) = peek (p + 1) buf w;
         (b2, w) = peek (p + 2) buf w; (b3, w) = peek (p + 3) buf w
     in (push_bit 24 (ucast b0 :: c_ulong) OR push_bit 16 (ucast b1) OR push_bit 8 (ucast b2) OR ucast b3, w))"

section \<open>The two format loops\<close>

text \<open>
  The default branch passes the pointer \<open>fmt\<close> to a \<open>%c\<close> conversion, so the character that is
  printed is the low byte of an address: an unspecified value.
\<close>

definition unknown_format :: "world \<Rightarrow> world" where
  "unknown_format w = baa_error_msg ''unknown format %c'' [FChr (char_of (unat (unspec w)))] w"

fun pack_loop :: "string \<Rightarrow> c_ulong list \<Rightarrow> byte list \<Rightarrow> nat \<Rightarrow> nat \<Rightarrow> world \<Rightarrow> (byte list \<times> nat) \<times> world"
where
  "pack_loop [] ap buf p sz w = ((buf, sz), w)"
| "pack_loop (f # fmt) ap buf p sz w =
    (if f = CHR ''c'' then
       (let (v, ap, w) = va_arg ap w;
            c = (ucast (ucast v :: c_uint) :: byte);
            (buf, w) = poke p [c] buf w
        in pack_loop fmt ap buf (p + 1) (sz + 1) w)
     else if f = CHR ''C'' then
       (let (v, ap, w) = va_arg ap w;
            c = (ucast (ucast v :: c_int) :: byte);
            (buf, w) = poke p [c] buf w
        in pack_loop fmt ap buf (p + 1) (sz + 1) w)
     else if f = CHR ''s'' then
       (let (v, ap, w) = va_arg ap w;
            s = (ucast (ucast v :: c_uint) :: 16 word);
            (buf, w) = pack_16 buf p (ucast s) w
        in pack_loop fmt ap buf (p + 2) (sz + 2) w)
     else if f = CHR ''S'' then
       (let (v, ap, w) = va_arg ap w;
            s = (ucast (ucast v :: c_int) :: 16 word);
            (buf, w) = pack_16 buf p (scast s) w
        in pack_loop fmt ap buf (p + 2) (sz + 2) w)
     else if f = CHR ''l'' then
       (let (l, ap, w) = va_arg ap w;
            (buf, w) = pack_32 buf p l w
        in pack_loop fmt ap buf (p + 4) (sz + 4) w)
     else if f = CHR ''L'' then
       (let (l, ap, w) = va_arg ap w;
            (buf, w) = pack_32 buf p l w
        in pack_loop fmt ap buf (p + 4) (sz + 4) w)
     else pack_loop fmt ap buf p sz (unknown_format w))"

definition baa_pack :: "byte list \<Rightarrow> string \<Rightarrow> c_ulong list \<Rightarrow> world \<Rightarrow> (byte list \<times> nat) \<times> world" where
  "baa_pack buf fmt ap w = pack_loop fmt ap buf 0 0 w"

fun unpack_loop :: "string \<Rightarrow> c_ulong list \<Rightarrow> byte list \<Rightarrow> nat \<Rightarrow> nat \<Rightarrow> mem \<Rightarrow> world \<Rightarrow> (mem \<times> nat) \<times> world"
where
  "unpack_loop [] ap buf p sz m w = ((m, sz), w)"
| "unpack_loop (f # fmt) ap buf p sz m w =
    (if f = CHR ''c'' then
       (let (a, ap, w) = va_arg ap w;
            (c, w) = peek p buf w
        in unpack_loop fmt ap buf (p + 1) (sz + 1) (store_le 1 (ucast c) (unat a) m) w)
     else if f = CHR ''C'' then
       (let (a, ap, w) = va_arg ap w;
            (c, w) = unpack_i8 buf p w
        in unpack_loop fmt ap buf (p + 1) (sz + 1) (store_le 1 (ucast c) (unat a) m) w)
     else if f = CHR ''s'' then
       (let (a, ap, w) = va_arg ap w;
            (s, w) = unpack_16 buf p w
        in unpack_loop fmt ap buf (p + 2) (sz + 2) (store_le 2 (ucast s) (unat a) m) w)
     else if f = CHR ''S'' then
       (let (a, ap, w) = va_arg ap w;
            (s, w) = unpack_i16 buf p w
        in unpack_loop fmt ap buf (p + 2) (sz + 2) (store_le 2 (ucast s) (unat a) m) w)
     else if f = CHR ''l'' then
       (let (a, ap, w) = va_arg ap w;
            (l, w) = unpack_32 buf p w
        in unpack_loop fmt ap buf (p + 4) (sz + 4) (store_le 8 l (unat a) m) w)
     else if f = CHR ''L'' then
       (let (a, ap, w) = va_arg ap w;
            (l, w) = unpack_i32 buf p w
        in unpack_loop fmt ap buf (p + 4) (sz + 4) (store_le 8 l (unat a) m) w)
     else unpack_loop fmt ap buf p sz m (unknown_format w))"

definition baa_unpack :: "byte list \<Rightarrow> string \<Rightarrow> c_ulong list \<Rightarrow> mem \<Rightarrow> world \<Rightarrow> (mem \<times> nat) \<times> world" where
  "baa_unpack buf fmt ap m w = unpack_loop fmt ap buf 0 0 m w"

section \<open>What a field is: the contract of the conversions\<close>

definition known :: "char \<Rightarrow> bool" where
  "known f \<longleftrightarrow> f \<in> set ''cCsSlL''"

text \<open>Bytes on the wire, and bytes of the destination object.\<close>

definition wire_size :: "char \<Rightarrow> nat" where
  "wire_size f =
    (if f \<in> set ''cC'' then 1 else if f \<in> set ''sS'' then 2 else if f \<in> set ''lL'' then 4 else 0)"

definition dest_size :: "char \<Rightarrow> nat" where
  "dest_size f =
    (if f \<in> set ''cC'' then 1 else if f \<in> set ''sS'' then 2 else if f \<in> set ''lL'' then 8 else 0)"

definition be_bytes :: "nat \<Rightarrow> c_ulong \<Rightarrow> byte list" where
  "be_bytes n v = map (\<lambda>k. ucast (drop_bit (8 * k) v)) (rev [0..<n])"

definition be_value :: "byte list \<Rightarrow> c_ulong" where
  "be_value bs = fold (\<lambda>b acc. push_bit 8 acc OR ucast b) bs 0"

text \<open>The value a field carries: the argument cut to the field's width, read as unsigned
  for a lower case letter and as two's complement for an upper case one.\<close>

definition field_value :: "char \<Rightarrow> c_ulong \<Rightarrow> c_ulong" where
  "field_value f v =
    (if f \<in> set ''csl'' then take_bit (8 * wire_size f) v
     else if f \<in> set ''CSL'' then signed_take_bit (8 * wire_size f - 1) v else 0)"

definition enc_field :: "char \<Rightarrow> c_ulong \<Rightarrow> byte list" where
  "enc_field f v = be_bytes (wire_size f) v"

definition dec_field :: "char \<Rightarrow> byte list \<Rightarrow> c_ulong" where
  "dec_field f bs = field_value f (be_value bs)"

section \<open>Byte order\<close>

lemma length_be_bytes [simp]: "length (be_bytes n v) = n"
  by (simp add: be_bytes_def)

lemma be_bytes_small:
  "be_bytes 1 v = [ucast v]" "be_bytes (Suc 0) v = [ucast v]"
  "be_bytes 2 v = [ucast (drop_bit 8 v), ucast v]"
  "be_bytes 4 v = [ucast (drop_bit 24 v), ucast (drop_bit 16 v), ucast (drop_bit 8 v), ucast v]"
  by (simp_all add: be_bytes_def upt_rec numeral_eq_Suc)

lemma be_value_small:
  "be_value [a] = ucast a"
  "be_value [a, b] = push_bit 8 (ucast a) OR ucast b"
  "be_value [a, b, c, d] =
     push_bit 24 (ucast a) OR push_bit 16 (ucast b) OR push_bit 8 (ucast c) OR ucast d"
  by (simp_all add: be_value_def push_bit_or push_bit_push_bit or.assoc)

lemma be_value_append: "be_value (bs @ [b]) = push_bit 8 (be_value bs) OR ucast b"
  by (simp add: be_value_def)

lemma be_bytes_Suc: "be_bytes (Suc n) v = be_bytes n (drop_bit 8 v) @ [ucast v]"
proof -
  have "rev [0..<Suc n] = map Suc (rev [0..<n]) @ [0]"
    by (simp only: rev_map[symmetric] map_Suc_upt upt_conv_Cons[of 0 "Suc n"]) simp
  then show ?thesis by (simp add: be_bytes_def drop_bit_drop_bit add.commute del: upt_Suc)
qed

lemma push_or_take_bit: "push_bit 8 (take_bit k (drop_bit 8 v)) OR ucast (ucast v :: byte) =
    take_bit (k + 8) (v :: c_ulong)"
  by (rule bit_word_eqI) (auto simp: bit_simps)

lemma be_value_bytes: "be_value (be_bytes n v) = take_bit (8 * n) v"
proof (induction n arbitrary: v)
  case 0
  show ?case by (simp add: be_bytes_def be_value_def)
next
  case (Suc n)
  then show ?case by (simp add: be_bytes_Suc be_value_append push_or_take_bit add.commute)
qed

section \<open>Little-endian memory\<close>

lemma store_le_cong:
  "take_bit (8 * n) u = take_bit (8 * n) v \<Longrightarrow> store_le n u a m = store_le n v a m"
proof -
  assume eq: "take_bit (8 * n) u = take_bit (8 * n) v"
  have "(ucast (drop_bit (8 * k) u) :: byte) = ucast (drop_bit (8 * k) v)" if "k < n" for k
  proof (rule bit_word_eqI)
    fix i assume i: "i < LENGTH(8)"
    have "8 * k + i < 8 * n" using i that by simp
    then have "bit u (8 * k + i) = bit v (8 * k + i)"
      using eq by (metis bit_take_bit_iff)
    then show "bit (ucast (drop_bit (8 * k) u) :: byte) i = bit (ucast (drop_bit (8 * k) v) :: byte) i"
      using i by (simp add: bit_simps)
  qed
  then show ?thesis by (auto simp: store_le_def fun_eq_iff)
qed

lemma store_le_other: "x < a \<or> a + n \<le> x \<Longrightarrow> store_le n v a m x = m x"
  by (auto simp: store_le_def)

lemma load_le_cong: "(\<And>x. a \<le> x \<Longrightarrow> x < a + n \<Longrightarrow> m x = m' x) \<Longrightarrow> load_le n a m = load_le n a m'"
  by (induction n arbitrary: a) auto

lemma load_store_disjoint:
  "a + n \<le> b \<or> b + k \<le> a \<Longrightarrow> load_le n a (store_le k v b m) = load_le n a m"
  by (rule load_le_cong) (auto simp: store_le_other)

lemma load_store_offset: "n + d \<le> k \<Longrightarrow> load_le n (a + d) (store_le k v a m) = take_bit (8 * n) (drop_bit (8 * d) v)"
proof (induction n arbitrary: d)
  case 0
  show ?case by simp
next
  case (Suc n)
  have hd: "store_le k v a m (a + d) = ucast (drop_bit (8 * d) v)"
    using Suc.prems by (simp add: store_le_def)
  have "load_le n (a + Suc d) (store_le k v a m) = take_bit (8 * n) (drop_bit 8 (drop_bit (8 * d) v))"
    using Suc.IH[of "Suc d"] Suc.prems by (simp add: drop_bit_drop_bit add.commute)
  then show ?case
    using hd push_or_take_bit[of "8 * n" "drop_bit (8 * d) v"]
    by (simp add: or.commute add.commute)
qed

lemma load_store_same: "n \<le> k \<Longrightarrow> load_le n a (store_le k v a m) = take_bit (8 * n) v"
  using load_store_offset[of n 0 k a v m] by simp

section \<open>The codec interface\<close>

text \<open>
  The laws a message format needs of its fields: every field has a fixed number of bytes on
  the wire and decodes to the value it carries. That a whole message survives the trip,
  with anything after it, follows here once for every such set of fields.
\<close>

fun enc_seq :: "('f \<Rightarrow> 'v \<Rightarrow> byte list) \<Rightarrow> 'f list \<Rightarrow> 'v list \<Rightarrow> byte list" where
  "enc_seq enc (f # fs) (v # vs) = enc f v @ enc_seq enc fs vs"
| "enc_seq enc fs vs = []"

fun dec_seq :: "('f \<Rightarrow> nat) \<Rightarrow> ('f \<Rightarrow> byte list \<Rightarrow> 'v) \<Rightarrow> 'f list \<Rightarrow> byte list \<Rightarrow> 'v list" where
  "dec_seq wd dec [] bs = []"
| "dec_seq wd dec (f # fs) bs = dec f (take (wd f) bs) # dec_seq wd dec fs (drop (wd f) bs)"

locale codec =
  fixes valid :: "'f \<Rightarrow> bool" and wd :: "'f \<Rightarrow> nat"
    and enc :: "'f \<Rightarrow> 'v \<Rightarrow> byte list" and dec :: "'f \<Rightarrow> byte list \<Rightarrow> 'v"
    and carried :: "'f \<Rightarrow> 'v \<Rightarrow> 'v"
  assumes enc_width: "valid f \<Longrightarrow> length (enc f v) = wd f"
    and dec_enc: "valid f \<Longrightarrow> dec f (enc f v) = carried f v"
begin

lemma length_enc_seq:
  "list_all valid fs \<Longrightarrow> length fs \<le> length vs \<Longrightarrow> length (enc_seq enc fs vs) = sum_list (map wd fs)"
proof (induction fs arbitrary: vs)
  case Nil
  then show ?case by simp
next
  case (Cons f fs)
  then obtain v vs' where "vs = v # vs'" by (cases vs) auto
  with Cons show ?case by (simp add: enc_width)
qed

lemma dec_enc_seq:
  "list_all valid fs \<Longrightarrow> length fs = length vs \<Longrightarrow>
   dec_seq wd dec fs (enc_seq enc fs vs @ rest) = map2 carried fs vs"
proof (induction fs arbitrary: vs)
  case Nil
  then show ?case by simp
next
  case (Cons f fs)
  then obtain v vs' where "vs = v # vs'" by (cases vs) auto
  with Cons show ?case by (simp add: enc_width dec_enc)
qed

end

section \<open>The fields of the serialiser are a codec\<close>

lemma known_cases:
  "known f \<longleftrightarrow> f = CHR ''c'' \<or> f = CHR ''C'' \<or> f = CHR ''s'' \<or> f = CHR ''S'' \<or> f = CHR ''l'' \<or> f = CHR ''L''"
  by (auto simp: known_def)

lemma length_enc_field [simp]: "length (enc_field f v) = wire_size f"
  by (simp add: enc_field_def)

lemma field_value_take_bit: "field_value f (take_bit (8 * wire_size f) v) = field_value f v"
  by (simp add: field_value_def signed_take_bit_take_bit wire_size_def)

lemma dec_enc_field: "dec_field f (enc_field f v) = field_value f v"
  by (simp add: dec_field_def enc_field_def be_value_bytes field_value_take_bit)

interpretation fields: codec known wire_size enc_field dec_field field_value
  by unfold_locales (simp_all add: dec_enc_field)

section \<open>The loops implement the codec\<close>

lemma narrow_bytes:
  fixes v :: c_ulong
  shows "(ucast (ucast v :: c_uint) :: byte) = ucast v"
    and "(ucast (drop_bit 8 (ucast (ucast (ucast v :: c_uint) :: 16 word) :: c_uint)) :: byte) = ucast (drop_bit 8 v)"
    and "(ucast (ucast (ucast (ucast v :: c_uint) :: 16 word) :: c_uint) :: byte) = ucast v"
    and "(ucast (drop_bit 8 (scast (ucast (ucast v :: c_uint) :: 16 word) :: c_uint)) :: byte) = ucast (drop_bit 8 v)"
    and "(ucast (scast (ucast (ucast v :: c_uint) :: 16 word) :: c_uint) :: byte) = ucast v"
  by (rule bit_word_eqI; auto simp: bit_simps)+

lemma pack_16_fits:
  "p + 2 \<le> length buf \<Longrightarrow> pack_16 buf p i w = (overwrite p [ucast (drop_bit 8 i), ucast i] buf, w)"
  using overwrite_append[of p "[ucast (drop_bit 8 i)]" "[ucast i]" buf]
  by (simp add: pack_16_def poke_fits)

lemma pack_32_fits:
  assumes "p + 4 \<le> length buf"
  shows "pack_32 buf p i w = (overwrite p (be_bytes 4 i) buf, w)"
proof -
  have ow: "overwrite (p + 1) [b] (overwrite p [a] buf) = overwrite p [a, b] buf"
    "overwrite (p + 2) [c] (overwrite p [a, b] buf) = overwrite p [a, b, c] buf"
    "overwrite (p + 3) [d] (overwrite p [a, b, c] buf) = overwrite p [a, b, c, d] buf" for a b c d
    using assms overwrite_append[of p "[a]" "[b]" buf] overwrite_append[of p "[a, b]" "[c]" buf]
      overwrite_append[of p "[a, b, c]" "[d]" buf] by (simp_all add: numeral_3_eq_3 numeral_2_eq_2)
  show ?thesis
    using assms by (simp add: pack_32_def poke_fits be_bytes_small ow[simplified])
qed

lemma pack_step:
  assumes "known f" "p + wire_size f \<le> length buf"
  shows "pack_loop (f # fmt) (v # ap) buf p sz w =
    pack_loop fmt ap (overwrite p (enc_field f v) buf) (p + wire_size f) (sz + wire_size f) w"
  using assms unfolding known_cases
  by (elim disjE)
    (simp_all add: va_arg_def poke_fits pack_16_fits pack_32_fits enc_field_def wire_size_def
      be_bytes_small narrow_bytes)

lemma pack_unknown:
  "\<not> known f \<Longrightarrow> pack_loop (f # fmt) ap buf p sz w = pack_loop fmt ap buf p sz (unknown_format w)"
  by (simp add: known_cases)

text \<open>The sign repair of the signed readers is sign extension.\<close>

lemma sign_repair:
  "(if (ucast b :: c_uint) \<le> 0x7f then ucast b else - 1 - (0xff - ucast b)) = (scast (b :: byte) :: c_uint)"
  "(if (ucast h :: c_uint) \<le> 0x7fff then ucast h else - 1 - (0xffff - ucast h)) = (scast (h :: 16 word) :: c_uint)"
  "(if (ucast x :: c_ulong) \<le> 0x7fffffff then ucast x else - 1 - (0xffffffff - ucast x)) = (scast (x :: 32 word) :: c_ulong)"
proof -
  have "(ucast b :: c_uint) \<le> 0x7f \<longleftrightarrow> uint b < 2 ^ 7"
    by (auto simp: word_le_def uint_up_ucast is_up)
  then show "(if (ucast b :: c_uint) \<le> 0x7f then ucast b else - 1 - (0xff - ucast b)) = (scast b :: c_uint)"
    by (simp add: scast_cases)
  have "(ucast h :: c_uint) \<le> 0x7fff \<longleftrightarrow> uint h < 2 ^ 15"
    by (auto simp: word_le_def uint_up_ucast is_up)
  then show "(if (ucast h :: c_uint) \<le> 0x7fff then ucast h else - 1 - (0xffff - ucast h)) = (scast h :: c_uint)"
    by (simp add: scast_cases)
  have "(ucast x :: c_ulong) \<le> 0x7fffffff \<longleftrightarrow> uint x < 2 ^ 31"
    by (auto simp: word_le_def uint_up_ucast is_up)
  then show "(if (ucast x :: c_ulong) \<le> 0x7fffffff then ucast x else - 1 - (0xffffffff - ucast x)) = (scast x :: c_ulong)"
    by (simp add: scast_cases)
qed

lemma take_bit_be_value: "take_bit (8 * length bs) (be_value bs) = be_value bs"
proof (induction bs rule: rev_induct)
  case Nil
  show ?case by (simp add: be_value_def)
next
  case (snoc b bs)
  have "take_bit (8 * length bs + 8) (push_bit 8 y OR ucast b) = push_bit 8 (take_bit (8 * length bs) y) OR ucast b"
    for y :: c_ulong
    by (rule bit_word_eqI) (auto simp: bit_simps dest: bit_imp_le_length)
  with snoc show ?case by (simp add: be_value_append add.commute)
qed

lemma joined_halves:
  "push_bit 8 (ucast a :: c_uint) OR ucast b = ucast (push_bit 8 (ucast a :: 16 word) OR ucast (b :: byte))"
  for a :: byte
  by (rule bit_word_eqI) (auto simp: bit_simps dest: bit_imp_le_length)

lemma joined_halves_wide:
  "push_bit 8 (ucast a :: c_ulong) OR ucast b = ucast (push_bit 8 (ucast a :: c_uint) OR ucast (b :: byte))"
  for a :: byte
  by (rule bit_word_eqI) (auto simp: bit_simps dest: bit_imp_le_length)

lemma joined_halves_widest:
  "push_bit 8 (ucast a :: c_ulong) OR ucast b = ucast (push_bit 8 (ucast a :: 16 word) OR ucast (b :: byte))"
  for a :: byte
  by (rule bit_word_eqI) (auto simp: bit_simps dest: bit_imp_le_length)

lemma ucast_narrow: "take_bit 32 v = v \<Longrightarrow> ucast (ucast v :: 32 word) = (v :: c_ulong)"
  by (simp add: unsigned_ucast_eq)

lemma extend_bits:
  "take_bit 8 (ucast (ucast (scast b :: c_uint) :: byte) :: c_ulong) = take_bit 8 (signed_take_bit 7 (ucast b))"
  for b :: byte
  by (rule bit_word_eqI, simp add: bit_simps min_def, auto)

lemma extend_bits_16:
  "take_bit 16 (ucast (scast h :: c_uint) :: c_ulong) = take_bit 16 (signed_take_bit 15 (ucast h))"
  for h :: "16 word"
  by (rule bit_word_eqI, simp add: bit_simps min_def, auto)

lemma extend_bits_32: "(scast x :: c_ulong) = signed_take_bit 31 (ucast x)" for x :: "32 word"
  by (rule bit_word_eqI) (simp add: bit_simps min_def)

lemma dec_field_small:
  "dec_field (CHR ''c'') [b0] = ucast b0"
  "dec_field (CHR ''C'') [b0] = signed_take_bit 7 (ucast b0)"
  "dec_field (CHR ''s'') [b0, b1] = push_bit 8 (ucast b0) OR ucast b1"
  "dec_field (CHR ''S'') [b0, b1] = signed_take_bit 15 (push_bit 8 (ucast b0) OR ucast b1)"
  "dec_field (CHR ''l'') [b0, b1, b2, b3] = be_value [b0, b1, b2, b3]"
  "dec_field (CHR ''L'') [b0, b1, b2, b3] = signed_take_bit 31 (be_value [b0, b1, b2, b3])"
  using take_bit_be_value[of "[b0]"] take_bit_be_value[of "[b0, b1]"]
    take_bit_be_value[of "[b0, b1, b2, b3]"]
  by (simp_all add: dec_field_def field_value_def wire_size_def be_value_small(1,2))

lemma unpack_i32_value:
  assumes "p + 4 \<le> length buf"
  shows "unpack_i32 buf p w =
    (signed_take_bit 31 (be_value [buf ! p, buf ! (p + 1), buf ! (p + 2), buf ! (p + 3)]), w)"
proof -
  define v where "v = be_value [buf ! p, buf ! (p + 1), buf ! (p + 2), buf ! (p + 3)]"
  define x where "x = (ucast v :: 32 word)"
  have v: "ucast x = v"
    using take_bit_be_value[of "[buf ! p, buf ! (p + 1), buf ! (p + 2), buf ! (p + 3)]"]
    by (simp add: x_def ucast_narrow v_def)
  have "unpack_i32 buf p w = (if v \<le> 0x7fffffff then v else - 1 - (0xffffffff - v), w)"
    using assms by (simp add: unpack_i32_def peek_def v_def be_value_small Let_def)
  also have "\<dots> = (scast x, w)" by (simp only: sign_repair(3)[of x, unfolded v])
  finally show ?thesis using v by (simp add: extend_bits_32 v_def)
qed

lemma unpack_i16_value:
  assumes "p + 2 \<le> length buf"
  shows "unpack_i16 buf p w = (scast (push_bit 8 (ucast (buf ! p)) OR ucast (buf ! (p + 1)) :: 16 word), w)"
  using assms sign_repair(2)
  by (simp add: unpack_i16_def peek_def Let_def joined_halves)

lemma unpack_i8_value: "p < length buf \<Longrightarrow> unpack_i8 buf p w = (ucast (scast (buf ! p) :: c_uint), w)"
  using sign_repair(1) by (simp add: unpack_i8_def peek_def Let_def)

lemma unpack_step:
  assumes "known f" "p + wire_size f \<le> length buf"
  shows "unpack_loop (f # fmt) (a # ap) buf p sz m w =
    unpack_loop fmt ap buf (p + wire_size f) (sz + wire_size f)
      (store_le (dest_size f) (dec_field f (take (wire_size f) (drop p buf))) (unat a) m) w"
proof -
  consider "f = CHR ''c''" | "f = CHR ''C''" | "f = CHR ''s''" | "f = CHR ''S''" | "f = CHR ''l''" | "f = CHR ''L''"
    using assms(1) by (auto simp: known_cases)
  then show ?thesis
  proof cases
    case 1
    with assms(2) show ?thesis
      using drop_take_nth1[of p buf] by (simp add: va_arg_def peek_def wire_size_def dest_size_def dec_field_small)
  next
    case 2
    let ?b = "buf ! p"
    have "store_le 1 (ucast (ucast (scast ?b :: c_uint) :: byte)) a m = store_le 1 (signed_take_bit 7 (ucast ?b)) a m" for a m
      using extend_bits[of ?b] by (intro store_le_cong) simp
    with 2 assms(2) show ?thesis
      using drop_take_nth1[of p buf]
      by (simp add: va_arg_def unpack_i8_value wire_size_def dest_size_def dec_field_small)
  next
    case 3
    with assms(2) show ?thesis
      using drop_take_nth2[of p buf]
      by (simp add: va_arg_def unpack_16_def peek_def wire_size_def dest_size_def dec_field_small joined_halves_wide)
  next
    case 4
    let ?h = "push_bit 8 (ucast (buf ! p)) OR ucast (buf ! (p + 1)) :: 16 word"
    have "store_le 2 (ucast (scast ?h :: c_uint)) a m = store_le 2 (signed_take_bit 15 (ucast ?h)) a m" for a m
      using extend_bits_16[of ?h] by (intro store_le_cong) simp
    with 4 assms(2) show ?thesis
      using drop_take_nth2[of p buf]
      by (simp add: va_arg_def unpack_i16_value wire_size_def dest_size_def dec_field_small joined_halves_widest)
  next
    case 5
    with assms(2) show ?thesis
      using drop_take_nth4[of p buf]
      by (simp add: va_arg_def unpack_32_def peek_def wire_size_def dest_size_def dec_field_small be_value_small)
  next
    case 6
    with assms(2) show ?thesis
      using drop_take_nth4[of p buf]
      by (simp add: va_arg_def unpack_i32_value wire_size_def dest_size_def dec_field_small)
  qed
qed

lemma unpack_unknown:
  "\<not> known f \<Longrightarrow> unpack_loop (f # fmt) ap buf p sz m w = unpack_loop fmt ap buf p sz m (unknown_format w)"
  by (simp add: known_cases)

definition fmt_size :: "string \<Rightarrow> nat" where
  "fmt_size fmt = sum_list (map wire_size fmt)"

lemma fmt_size_simps [simp]: "fmt_size [] = 0" "fmt_size (f # fmt) = wire_size f + fmt_size fmt"
  by (simp_all add: fmt_size_def)

fun store_seq :: "string \<Rightarrow> c_ulong list \<Rightarrow> c_ulong list \<Rightarrow> mem \<Rightarrow> mem" where
  "store_seq (f # fmt) (a # as) (v # vs) m = store_seq fmt as vs (store_le (dest_size f) v (unat a) m)"
| "store_seq fmt as vs m = m"

lemma pack_loop_enc:
  assumes "list_all known fmt" "length fmt \<le> length ap" "p + fmt_size fmt \<le> length buf"
  shows "pack_loop fmt ap buf p sz w = ((overwrite p (enc_seq enc_field fmt ap) buf, sz + fmt_size fmt), w)"
  using assms
proof (induction fmt arbitrary: ap buf p sz)
  case Nil
  then show ?case by simp
next
  case (Cons f fmt)
  then obtain v ap' where ap: "ap = v # ap'" by (cases ap) auto
  have len: "length (enc_seq enc_field fmt ap') = fmt_size fmt"
    using Cons.prems ap by (simp add: fields.length_enc_seq fmt_size_def)
  have "overwrite (p + wire_size f) (enc_seq enc_field fmt ap') (overwrite p (enc_field f v) buf) =
      overwrite p (enc_field f v @ enc_seq enc_field fmt ap') buf"
    using Cons.prems overwrite_append[of p "enc_field f v" "enc_seq enc_field fmt ap'" buf] len by simp
  then show ?case
    using Cons.prems Cons.IH[of ap' "p + wire_size f" "overwrite p (enc_field f v) buf" "sz + wire_size f"]
    by (simp add: ap pack_step del: pack_loop.simps)
qed

lemma unpack_loop_dec:
  assumes "list_all known fmt" "length fmt \<le> length ap" "p + fmt_size fmt \<le> length buf"
  shows "unpack_loop fmt ap buf p sz m w =
    ((store_seq fmt ap (dec_seq wire_size dec_field fmt (drop p buf)) m, sz + fmt_size fmt), w)"
  using assms
proof (induction fmt arbitrary: ap p sz m)
  case Nil
  then show ?case by simp
next
  case (Cons f fmt)
  then obtain a ap' where ap: "ap = a # ap'" by (cases ap) auto
  show ?case
    using Cons.prems Cons.IH[of ap' "p + wire_size f" "sz + wire_size f"]
    by (simp add: ap unpack_step add.commute del: unpack_loop.simps)
qed

section \<open>Properties\<close>

text \<open>
  C1. Round trip of the serialiser. For every format made of the six field letters, every list of
  arguments and every buffer that holds the message, packing succeeds without touching
  memory outside the message, and unpacking the result stores into each destination the
  value of its argument cut to the field's width (zero extended for \<open>c s l\<close>, sign extended
  for \<open>C S L\<close>). Both calls return the size of the message, and nothing else in the process
  changes.
\<close>
theorem pack_unpack_roundtrip:
  assumes "list_all known fmt" "length args = length fmt" "length ptrs = length fmt"
    and "fmt_size fmt \<le> length buf"
  shows "\<exists>buf'. baa_pack buf fmt args w = ((buf', fmt_size fmt), w) \<and>
    length buf' = length buf \<and> drop (fmt_size fmt) buf' = drop (fmt_size fmt) buf \<and>
    baa_unpack buf' fmt ptrs m w = ((store_seq fmt ptrs (map2 field_value fmt args) m, fmt_size fmt), w)"
proof -
  let ?e = "enc_seq enc_field fmt args"
  let ?b = "overwrite 0 ?e buf"
  have le: "length ?e = fmt_size fmt"
    using assms by (simp add: fields.length_enc_seq fmt_size_def)
  have b: "?b = ?e @ drop (fmt_size fmt) buf" using le by (simp add: overwrite_def)
  have pack: "baa_pack buf fmt args w = ((?b, fmt_size fmt), w)"
    using assms by (simp add: baa_pack_def pack_loop_enc)
  have "dec_seq wire_size dec_field fmt ?b = map2 field_value fmt args"
    using assms b fields.dec_enc_seq[of fmt args] by simp
  then have "baa_unpack ?b fmt ptrs m w =
      ((store_seq fmt ptrs (map2 field_value fmt args) m, fmt_size fmt), w)"
    using assms le by (simp add: baa_unpack_def unpack_loop_dec)
  then show ?thesis using pack assms le b by auto
qed

theorem pack_unpack_roundtrip_witness:
  "let w = init_world (\<lambda>_ _. reply_of 0); buf = replicate 5 0
   in fst (fst (baa_pack buf ''cL'' [7, - 2] w)) = [7, 0xff, 0xff, 0xff, 0xfe] \<and>
      (\<exists>buf'. baa_pack buf ''cL'' [7, - 2] w = ((buf', 5), w) \<and>
        baa_unpack buf' ''cL'' [100, 200] (\<lambda>_. 0) w =
          ((store_le 8 (- 2) 200 (store_le 1 7 100 (\<lambda>_. 0)), 5), w))"
proof -
  define w where "w = init_world (\<lambda>_ _. reply_of 0)"
  have ex: "\<exists>buf'. baa_pack (replicate 5 0) ''cL'' [7, - 2] w = ((buf', fmt_size ''cL''), w) \<and>
      length buf' = length (replicate 5 (0 :: byte)) \<and>
      drop (fmt_size ''cL'') buf' = drop (fmt_size ''cL'') (replicate 5 0) \<and>
      baa_unpack buf' ''cL'' [100, 200] (\<lambda>_. 0) w =
        ((store_seq ''cL'' [100, 200] (map2 field_value ''cL'' [7, - 2]) (\<lambda>_. 0), fmt_size ''cL''), w)"
    by (rule pack_unpack_roundtrip) (simp_all add: known_def wire_size_def)
  moreover have "fst (fst (baa_pack (replicate 5 0) ''cL'' [7, - 2] w)) = [7, 0xff, 0xff, 0xff, 0xfe]"
    by (simp add: baa_pack_def pack_loop_enc known_def enc_field_def wire_size_def be_bytes_small
        overwrite_def del: pack_loop.simps)
  ultimately show ?thesis
    by (auto simp: w_def[symmetric] wire_size_def dest_size_def field_value_def)
qed

text \<open>The values a field can carry: what the type of the letter can hold.\<close>

definition in_field_range :: "char \<Rightarrow> c_ulong \<Rightarrow> bool" where
  "in_field_range f v \<longleftrightarrow>
    (if f \<in> set ''csl'' then uint v < 2 ^ (8 * wire_size f)
     else - (2 ^ (8 * wire_size f - 1)) \<le> sint v \<and> sint v < 2 ^ (8 * wire_size f - 1))"

lemma sint_signed_take_bit_word:
  "n < 63 \<Longrightarrow> sint (signed_take_bit n (v :: c_ulong)) = signed_take_bit n (sint v)"
  by (rule bit_eqI) (auto simp: bit_simps min_def)

lemma field_value_id:
  assumes "known f" "in_field_range f v"
  shows "field_value f v = v"
proof (cases "f \<in> set ''csl''")
  case True
  then have "uint (take_bit (8 * wire_size f) v) = uint v"
    using assms(2) by (simp add: in_field_range_def unsigned_take_bit_eq take_bit_int_eq_self)
  then have "take_bit (8 * wire_size f) v = v" by (rule unsigned_word_eqI)
  then show ?thesis using True by (simp add: field_value_def)
next
  case False
  then have f: "f \<in> set ''CSL''" using assms(1) by (auto simp: known_cases)
  define n where "n = 8 * wire_size f - 1"
  have "signed_take_bit n (sint v) = sint v"
    using assms(2) False by (simp add: in_field_range_def n_def signed_take_bit_int_eq_self_iff)
  moreover have "n < 63" by (simp add: n_def wire_size_def)
  ultimately have "sint (signed_take_bit n v) = sint v" by (simp add: sint_signed_take_bit_word)
  then have "signed_take_bit n v = v" by (rule signed_word_eqI)
  then show ?thesis using f False by (simp add: field_value_def n_def)
qed

text \<open>
  Arguments that fit their field survive unchanged: with the hypotheses of the round trip and
  every argument in the range of its letter, unpacking stores exactly the packed arguments.
\<close>
theorem pack_unpack_identity:
  assumes "list_all known fmt" "length args = length fmt" "length ptrs = length fmt"
    and "fmt_size fmt \<le> length buf" "list_all2 in_field_range fmt args"
  shows "fst (fst (baa_unpack (fst (fst (baa_pack buf fmt args w))) fmt ptrs m w)) = store_seq fmt ptrs args m"
proof -
  have "map2 field_value fmt args = args"
    using assms(1,2,5)
  proof (induction fmt arbitrary: args)
    case (Cons f fmt)
    then show ?case by (cases args) (auto simp: field_value_id)
  qed simp
  moreover have "dec_seq wire_size dec_field fmt (enc_seq enc_field fmt args @ drop (fmt_size fmt) buf) =
      map2 field_value fmt args"
    using assms by (simp add: fields.dec_enc_seq)
  ultimately show ?thesis
    using assms by (simp add: baa_pack_def baa_unpack_def pack_loop_enc unpack_loop_dec overwrite_def
      fields.length_enc_seq fmt_size_def[symmetric])
qed

theorem pack_unpack_identity_witness:
  "fst (fst (baa_unpack (fst (fst (baa_pack (replicate 3 0) ''Cs'' [- 5, 60000] (init_world (\<lambda>_ _. reply_of 0)))))
     ''Cs'' [8, 16] (\<lambda>_. 0) (init_world (\<lambda>_ _. reply_of 0)))) = store_le 2 60000 16 (store_le 1 (- 5) 8 (\<lambda>_. 0))"
  by (subst pack_unpack_identity)
    (simp_all add: known_def wire_size_def in_field_range_def dest_size_def)

text \<open>Destinations that do not overlap: every one of them holds its own value afterwards.\<close>

fun disjoint_dests :: "string \<Rightarrow> c_ulong list \<Rightarrow> bool" where
  "disjoint_dests (f # fmt) (a # as) \<longleftrightarrow>
    list_all2 (\<lambda>g b. unat a + dest_size f \<le> unat b \<or> unat b + dest_size g \<le> unat a) fmt as \<and> disjoint_dests fmt as"
| "disjoint_dests fmt as \<longleftrightarrow> True"

lemma load_store_seq_disjoint:
  assumes "list_all2 (\<lambda>g b. a + n \<le> unat b \<or> unat b + dest_size g \<le> a) fmt as"
  shows "load_le n a (store_seq fmt as vs m) = load_le n a m"
  using assms
proof (induction fmt as vs m rule: store_seq.induct)
  case (1 f fmt b as v vs m)
  then show ?case by (auto simp: load_store_disjoint)
qed auto

text \<open>
  Unpacking into destinations that do not overlap: after the call the k-th destination
  holds, at its own width, the value decoded from the k-th field.
\<close>
theorem unpack_stores_each:
  assumes "list_all known fmt" "length ptrs = length fmt" "fmt_size fmt \<le> length buf"
    and "disjoint_dests fmt ptrs" "k < length fmt"
  shows "load_le (dest_size (fmt ! k)) (unat (ptrs ! k)) (fst (fst (baa_unpack buf fmt ptrs m w))) =
    take_bit (8 * dest_size (fmt ! k)) (dec_seq wire_size dec_field fmt buf ! k)"
proof -
  have "load_le (dest_size (fmt ! k)) (unat (ptrs ! k)) (store_seq fmt ptrs vs m) =
      take_bit (8 * dest_size (fmt ! k)) (vs ! k)" if "length vs = length fmt" for vs
    using assms(2,4,5) that
  proof (induction fmt ptrs vs m arbitrary: k rule: store_seq.induct)
    case (1 f fmt a as v vs m)
    then show ?case
      by (cases k) (auto simp: load_store_seq_disjoint load_store_same)
  qed auto
  moreover have "length (dec_seq wire_size dec_field fmt buf) = length fmt" for buf
    by (induction fmt arbitrary: buf) auto
  ultimately show ?thesis
    using assms by (simp add: baa_unpack_def unpack_loop_dec)
qed

theorem unpack_stores_each_witness:
  "load_le 8 16 (fst (fst (baa_unpack [1, 0, 0, 0, 2] ''cL'' [8, 16] (\<lambda>_. 0) (init_world (\<lambda>_ _. reply_of 0))))) = 2"
  using unpack_stores_each[of "''cL''" "[8, 16]" "[1, 0, 0, 0, 2]" 1 "\<lambda>_. 0" "init_world (\<lambda>_ _. reply_of 0)"]
  by (simp add: known_def wire_size_def dest_size_def dec_field_small be_value_small)

section \<open>Bounds of the message buffer\<close>

lemma unknown_format_simps [simp]:
  "w_fault (unknown_format w) = w_fault w" "io (unknown_format w) = io w" "quiet w (unknown_format w)"
  by (auto simp: unknown_format_def intro: quiet_intros)

lemma poke_fault: "w_fault (snd (poke off xs buf w)) = None \<longleftrightarrow> w_fault w = None \<and> off + length xs \<le> length buf"
  by (auto simp: poke_def fault_simps)

lemma pack_16_fault: "w_fault (snd (pack_16 buf p i w)) = None \<longleftrightarrow> w_fault w = None \<and> p + 2 \<le> length buf"
  by (auto simp: pack_16_def split_def poke_fault Let_def)

lemma pack_32_fault: "w_fault (snd (pack_32 buf p i w)) = None \<longleftrightarrow> w_fault w = None \<and> p + 4 \<le> length buf"
  by (auto simp: pack_32_def split_def poke_fault Let_def)

lemma va_arg_fault: "w_fault (snd (snd (va_arg ap w))) = None \<Longrightarrow> w_fault w = None"
  by (cases ap) (auto simp: va_arg_def fault_simps)

lemma pack_loop_sticky: "w_fault (snd (pack_loop fmt ap buf p sz w)) = None \<Longrightarrow> w_fault w = None"
proof (induction fmt arbitrary: ap buf p sz w)
  case (Cons f fmt)
  from Cons.prems show ?case
    by (auto simp: split_def Let_def poke_fault pack_16_fault pack_32_fault
        dest!: Cons.IH va_arg_fault split: if_splits)
qed simp

lemma pack_step_fault:
  assumes "known f" "\<not> p + wire_size f \<le> length buf"
  shows "w_fault (snd (pack_loop (f # fmt) (v # ap) buf p sz w)) \<noteq> None"
proof
  assume "w_fault (snd (pack_loop (f # fmt) (v # ap) buf p sz w)) = None"
  then show False
    using assms unfolding known_cases
    by (auto simp: va_arg_def split_def Let_def wire_size_def poke_fault pack_16_fault pack_32_fault
        dest!: pack_loop_sticky split: if_splits)
qed

text \<open>
  C18. The buffer contract of the serialiser. \<open>baa_pack\<close> takes no buffer length: with a format of
  known letters and enough arguments, it stays inside the buffer exactly when the message
  fits, and runs over its end otherwise.
\<close>
theorem pack_safe_iff:
  assumes "list_all known fmt" "length fmt \<le> length ap" "w_fault w = None"
  shows "w_fault (snd (baa_pack buf fmt ap w)) = None \<longleftrightarrow> fmt_size fmt \<le> length buf"
proof -
  have "w_fault (snd (pack_loop fmt ap buf p sz w)) = None \<longleftrightarrow> p + fmt_size fmt \<le> length buf"
    if "p \<le> length buf" for p sz buf
    using assms that
  proof (induction fmt arbitrary: ap buf p sz)
    case (Cons f fmt)
    then obtain v ap' where ap: "ap = v # ap'" by (cases ap) auto
    show ?case
    proof (cases "p + wire_size f \<le> length buf")
      case True
      then show ?thesis
        using Cons.prems Cons.IH[of ap' "p + wire_size f"]
        by (simp add: ap pack_step add.assoc del: pack_loop.simps)
    next
      case False
      then show ?thesis
        using Cons.prems pack_step_fault[of f p buf fmt v ap' sz w] by (simp add: ap del: pack_loop.simps)
    qed
  qed simp
  then show ?thesis by (simp add: baa_pack_def)
qed

theorem pack_safe_iff_witness:
  "w_fault (snd (baa_pack (replicate 17 0) ''cLLLL'' [0, 1, 2, 3, 4] (init_world (\<lambda>_ _. reply_of 0)))) = None \<and>
   w_fault (snd (baa_pack (replicate 16 0) ''cLLLL'' [0, 1, 2, 3, 4] (init_world (\<lambda>_ _. reply_of 0)))) \<noteq> None"
  by (simp add: pack_safe_iff known_def wire_size_def)

lemma fmt_size_filter: "fmt_size (filter known fmt) = fmt_size fmt"
  by (induction fmt) (auto simp: wire_size_def known_cases)

lemma pack_loop_skip:
  assumes "length (filter known fmt) \<le> length ap" "p + fmt_size fmt \<le> length buf"
  shows "\<exists>w'. quiet w w' \<and> pack_loop fmt ap buf p sz w = (fst (pack_loop (filter known fmt) ap buf p sz w), w')"
  using assms
proof (induction fmt arbitrary: ap buf p sz w)
  case Nil
  then show ?case by (auto intro: quiet_intros)
next
  case (Cons f fmt)
  show ?case
  proof (cases "known f")
    case True
    then obtain v ap' where "ap = v # ap'" using Cons.prems by (cases ap) auto
    with True Cons show ?thesis by (simp add: pack_step add.assoc del: pack_loop.simps)
  next
    case False
    have fit: "p + fmt_size (filter known fmt) \<le> length buf" and len: "length (filter known fmt) \<le> length ap"
      using Cons.prems False by (simp_all add: fmt_size_filter)
    have kn: "list_all known (filter known fmt)" by (simp add: list_all_iff)
    have "fst (pack_loop (filter known fmt) ap buf p sz (unknown_format w)) = fst (pack_loop (filter known fmt) ap buf p sz w)"
      using pack_loop_enc[OF kn len fit] by simp
    with False Cons show ?thesis
      using Cons.IH[of ap p buf "unknown_format w" sz]
      by (auto simp: pack_unknown simp del: pack_loop.simps intro: quiet_trans[OF unknown_format_simps(3)])
  qed
qed

lemma unpack_loop_skip:
  assumes "length (filter known fmt) \<le> length ap" "p + fmt_size fmt \<le> length buf"
  shows "\<exists>w'. quiet w w' \<and> unpack_loop fmt ap buf p sz m w = (fst (unpack_loop (filter known fmt) ap buf p sz m w), w')"
  using assms
proof (induction fmt arbitrary: ap p sz m w)
  case Nil
  then show ?case by (auto intro: quiet_intros)
next
  case (Cons f fmt)
  show ?case
  proof (cases "known f")
    case True
    then obtain a ap' where "ap = a # ap'" using Cons.prems by (cases ap) auto
    with True Cons show ?thesis by (simp add: unpack_step add.assoc del: unpack_loop.simps)
  next
    case False
    have fit: "p + fmt_size (filter known fmt) \<le> length buf" and len: "length (filter known fmt) \<le> length ap"
      using Cons.prems False by (simp_all add: fmt_size_filter)
    have kn: "list_all known (filter known fmt)" by (simp add: list_all_iff)
    have "fst (unpack_loop (filter known fmt) ap buf p sz m (unknown_format w)) = fst (unpack_loop (filter known fmt) ap buf p sz m w)"
      using unpack_loop_dec[OF kn len fit] by simp
    with False Cons show ?thesis
      using Cons.IH[of ap p "unknown_format w" sz m]
      by (auto simp: unpack_unknown simp del: unpack_loop.simps intro: quiet_trans[OF unknown_format_simps(3)])
  qed
qed



end
