(* ===== verification/Baa_Protocol.thy ===== *)
theory Baa_Protocol
  imports Baa_Error
begin

text \<open>
  What the two datagram servers of the library share: the protocol types of
  \<open>src/src/libbaalue.h\<close>, the acknowledgement macros of \<open>src/src/libbaalue-private.h\<close>, and the
  interface \<open>ack_server\<close> of a server loop that receives, acknowledges and acts.
\<close>

section \<open>The protocol\<close>

definition PTYPE_SCHED_PROPS :: byte where "PTYPE_SCHED_PROPS = 0x00"
definition PTYPE_DEVICE_MGMT :: byte where "PTYPE_DEVICE_MGMT = 0x01"
definition PTYPE_DEVICE_MGMT_HALT :: byte where "PTYPE_DEVICE_MGMT_HALT = 0x02"
definition PTYPE_DEVICE_MGMT_REBOOT :: byte where "PTYPE_DEVICE_MGMT_REBOOT = 0x03"
definition PTYPE_DEVICE_MGMT_PING :: byte where "PTYPE_DEVICE_MGMT_PING = 0x04"
definition PTYPE_RESET :: byte where "PTYPE_RESET = 0xEE"
definition PTYPE_ERROR :: byte where "PTYPE_ERROR = 0xEF"
definition PTYPE_CMD_ACK :: byte where "PTYPE_CMD_ACK = 0xFD"
definition PTYPE_RCV_ACK :: byte where "PTYPE_RCV_ACK = 0xFF"

lemmas ptype_defs = PTYPE_SCHED_PROPS_def PTYPE_DEVICE_MGMT_def PTYPE_DEVICE_MGMT_HALT_def
  PTYPE_DEVICE_MGMT_REBOOT_def PTYPE_DEVICE_MGMT_PING_def PTYPE_RESET_def PTYPE_ERROR_def
  PTYPE_CMD_ACK_def PTYPE_RCV_ACK_def

definition BAA_MAX_LEN_MSG :: nat where "BAA_MAX_LEN_MSG = 100"

text \<open>The acknowledgement macros: one byte to the sender of the request; a failure is only
  reported.\<close>

definition send_ptype :: "byte \<Rightarrow> string \<Rightarrow> int \<Rightarrow> sockaddr \<Rightarrow> world \<Rightarrow> world" where
  "send_ptype ptype fn kdo_s addr w =
    (let (r, w) = sys (Sock (Sendto kdo_s [ptype] addr)) w
     in if rv r \<noteq> 1 then baa_errno_msg ''num_send == -1 in %s'' [FStr fn] w else w)"

definition SEND_RCV_ACK :: "string \<Rightarrow> int \<Rightarrow> sockaddr \<Rightarrow> world \<Rightarrow> world" where
  "SEND_RCV_ACK = send_ptype PTYPE_RCV_ACK"

definition SEND_CMD_ACK :: "string \<Rightarrow> int \<Rightarrow> sockaddr \<Rightarrow> world \<Rightarrow> world" where
  "SEND_CMD_ACK = send_ptype PTYPE_CMD_ACK"

definition SEND_ERROR :: "string \<Rightarrow> int \<Rightarrow> sockaddr \<Rightarrow> world \<Rightarrow> world" where
  "SEND_ERROR = send_ptype PTYPE_ERROR"

text \<open>What \<open>recvfrom\<close> writes: at most the requested number of bytes into the buffer, and the
  address of the sender, which stays as it was when the sender has none.\<close>

definition received :: "nat \<Rightarrow> reply \<Rightarrow> byte list \<Rightarrow> byte list" where
  "received n r buf = overwrite 0 (take n (rbytes r)) buf"

definition sender :: "reply \<Rightarrow> sockaddr \<Rightarrow> sockaddr" where
  "sender r addr = (if rfrom r = NoAddr then addr else rfrom r)"

lemma length_received [simp]: "n \<le> length buf \<Longrightarrow> length (received n r buf) = length buf"
  by (simp add: received_def)

definition request_buffer :: "reply \<Rightarrow> byte list" where
  "request_buffer r = received BAA_MAX_LEN_MSG r (replicate BAA_MAX_LEN_MSG 0)"

lemma sender_NoAddr [simp]: "sender r NoAddr = rfrom r"
  by (simp add: sender_def)

lemma send_ptype_simps [simp]:
  "map fst (io (send_ptype p fn kdo_s addr w)) = map fst (io w) @ [Sock (Sendto kdo_s [p] addr)]"
  "w_os (send_ptype p fn kdo_s addr w) = w_os w" "w_fault (send_ptype p fn kdo_s addr w) = w_fault w"
  by (simp_all add: send_ptype_def split_def Let_def sys_simps)

lemmas send_defs = SEND_RCV_ACK_def SEND_CMD_ACK_def SEND_ERROR_def

lemma rfrom_bytes_reply [simp]: "rfrom (bytes_reply bs) = NoAddr"
  by (simp add: bytes_reply_def)

section \<open>Acknowledging servers\<close>

fun is_ack :: "int \<Rightarrow> call \<Rightarrow> bool" where
  "is_ack kdo_s (Sock (Sendto s bs a)) = (s = kdo_s \<and> bs = [PTYPE_RCV_ACK])"
| "is_ack kdo_s c = False"

text \<open>
  The interface of a server loop. In every iteration it receives one datagram. If the
  receive fails or the datagram is not accepted, nothing else happens but diagnostics;
  otherwise the sender gets the acknowledgement of reception and then the server acts. The
  actions do not contain that acknowledgement. What every run of such a server looks like
  follows here for all of them.
\<close>

locale ack_server =
  fixes kdo_s :: int and iter :: "'s \<Rightarrow> world \<Rightarrow> 's \<times> world" and run :: "nat \<Rightarrow> 's \<Rightarrow> world \<Rightarrow> 's \<times> world"
    and accepts :: "byte \<Rightarrow> bool" and action :: "'s \<Rightarrow> reply \<Rightarrow> call list"
  assumes run_0: "run 0 s w = (s, w)"
    and run_Suc: "run (Suc n) s w = run n (fst (iter s w)) (snd (iter s w))"
    and accepted: "r = answer w (Sock (Recvfrom kdo_s BAA_MAX_LEN_MSG)) \<Longrightarrow> rv r \<noteq> -1 \<Longrightarrow>
      accepts (request_buffer r ! 0) \<Longrightarrow>
      map fst (io (snd (iter s w))) = map fst (io w) @
        [Sock (Recvfrom kdo_s BAA_MAX_LEN_MSG), Sock (Sendto kdo_s [PTYPE_RCV_ACK] (rfrom r))] @ action s r"
    and ignored: "r = answer w (Sock (Recvfrom kdo_s BAA_MAX_LEN_MSG)) \<Longrightarrow>
      rv r = -1 \<or> \<not> accepts (request_buffer r ! 0) \<Longrightarrow>
      map fst (io (snd (iter s w))) = map fst (io w) @ [Sock (Recvfrom kdo_s BAA_MAX_LEN_MSG)]"
    and one_ack: "Sock (Sendto kdo_s [PTYPE_RCV_ACK] a) \<notin> set (action s r)"
    and one_receive: "Sock (Recvfrom kdo_s BAA_MAX_LEN_MSG) \<notin> set (action s r)"
    and iter_fault: "w_fault (snd (iter s w)) = w_fault w"
begin

definition segment :: "call list \<Rightarrow> bool" where
  "segment l \<longleftrightarrow> l = [Sock (Recvfrom kdo_s BAA_MAX_LEN_MSG)] \<or>
    (\<exists>s r. l = [Sock (Recvfrom kdo_s BAA_MAX_LEN_MSG), Sock (Sendto kdo_s [PTYPE_RCV_ACK] (rfrom r))] @ action s r)"

lemma iter_segment: "\<exists>l. map fst (io (snd (iter s w))) = map fst (io w) @ l \<and> segment l"
  unfolding segment_def using accepted[OF refl, of w s] ignored[OF refl, of w s] by blast

lemma run_segments:
  "\<exists>segs. map fst (io (snd (run n s w))) = map fst (io w) @ concat segs \<and> length segs = n \<and> list_all segment segs"
proof (induction n arbitrary: s w)
  case 0
  show ?case by (simp add: run_0)
next
  case (Suc n)
  obtain l where l: "map fst (io (snd (iter s w))) = map fst (io w) @ l" "segment l"
    using iter_segment by blast
  obtain segs where "map fst (io (snd (run (Suc n) s w))) = map fst (io (snd (iter s w))) @ concat segs"
    "length segs = n" "list_all segment segs"
    using Suc.IH by (auto simp: run_Suc)
  then show ?case using l by (intro exI[of _ "l # segs"]) simp
qed

lemma run_fault: "w_fault (snd (run n s w)) = w_fault w"
  by (induction n arbitrary: s w) (simp_all add: run_0 run_Suc iter_fault)

lemma no_ack_in_action: "filter (is_ack kdo_s) (action s r) = []"
proof -
  have "\<not> is_ack kdo_s c" if "c \<in> set (action s r)" for c
    using that one_ack by (cases "(kdo_s, c)" rule: is_ack.cases) auto
  then show ?thesis by simp
qed

lemma segment_acks: "segment l \<Longrightarrow> length (filter (is_ack kdo_s) l) \<le> 1"
  by (auto simp: segment_def no_ack_in_action)

lemma segments_acks: "list_all segment segs \<Longrightarrow> length (filter (is_ack kdo_s) (concat segs)) \<le> length segs"
  by (induction segs) (auto dest: segment_acks)

lemma segment_receives: "segment l \<Longrightarrow> count_list l (Sock (Recvfrom kdo_s BAA_MAX_LEN_MSG)) = 1"
  using one_receive by (auto simp: segment_def)

lemma segments_receives:
  "list_all segment segs \<Longrightarrow> count_list (concat segs) (Sock (Recvfrom kdo_s BAA_MAX_LEN_MSG)) = length segs"
  by (induction segs) (auto simp: segment_receives)

text \<open>Every run receives once per iteration and never sends more acknowledgements of
  reception than it received datagrams.\<close>

lemma run_counts:
  "count_list (map fst (io (snd (run n s w)))) (Sock (Recvfrom kdo_s BAA_MAX_LEN_MSG)) =
     count_list (map fst (io w)) (Sock (Recvfrom kdo_s BAA_MAX_LEN_MSG)) + n \<and>
   length (filter (is_ack kdo_s) (map fst (io (snd (run n s w))))) \<le>
     length (filter (is_ack kdo_s) (map fst (io w))) + n"
proof -
  obtain segs where segs: "map fst (io (snd (run n s w))) = map fst (io w) @ concat segs"
    "length segs = n" "list_all segment segs" using run_segments by blast
  show ?thesis
    unfolding segs(1) using segments_acks[OF segs(3)] segments_receives[OF segs(3)] segs(2)
    by (simp del: filter_map)
qed

end

end
