(* ===== verification/Baa_Can_Programs.thy ===== *)
theory Baa_Can_Programs
  imports Baa_Can Baa_Program Baa_Process Baa_Serialize Baa_Protocol
begin

text \<open>
  The CAN programs: the cyclic sender \<open>src/examples/can_send.c\<close> and the receiver
  \<open>src/examples/can_recv.c\<close>, each with its options, its exit handler, its signal thread, the
  thread that reports error frames and its endless loop (any number \<open>n\<close> of rounds).
\<close>

section \<open>Frames\<close>

record can_frame =
  can_id :: c_uint
  can_dlc :: byte
  frame_data :: "byte list"

text \<open>The layout of \<open>struct can_frame\<close>: 16 bytes, three of them unused.\<close>

definition frame_bytes :: "can_frame \<Rightarrow> byte list" where
  "frame_bytes f =
    [ucast (can_id f), ucast (drop_bit 8 (can_id f)), ucast (drop_bit 16 (can_id f)), ucast (drop_bit 24 (can_id f)),
     can_dlc f, 0, 0, 0] @ frame_data f"

definition frame_of :: "byte list \<Rightarrow> can_frame" where
  "frame_of bs =
    \<lparr>can_id = ucast (bs ! 0) OR push_bit 8 (ucast (bs ! 1)) OR push_bit 16 (ucast (bs ! 2)) OR push_bit 24 (ucast (bs ! 3)),
     can_dlc = bs ! 4, frame_data = drop 8 bs\<rparr>"

abbreviation (input) CAN_FRAME_SIZE :: nat where "CAN_FRAME_SIZE \<equiv> 16"
abbreviation (input) CAN_ERR_FLAG :: c_uint where "CAN_ERR_FLAG \<equiv> 0x20000000"

definition perror :: "string \<Rightarrow> world \<Rightarrow> world" where
  "perror s w = snd (sys (Log (Fputs_stderr (s @ '': '' @ w_strerror w (w_errno w) @ [newline]))) w)"

fun print_data :: "nat list \<Rightarrow> byte list \<Rightarrow> world \<Rightarrow> world" where
  "print_data [] data w = w"
| "print_data (i # is) data w =
    (let (b, w) = peek i data w
     in print_data is data (baa_info_msg ''frame.data[%d] -> 0x%.2x'' [FInt (int i), FInt (uint b)] w))"

text \<open>The message about a frame and its data; \<open>fn\<close> is the name of the calling function.\<close>

definition print_frame :: "string \<Rightarrow> can_frame \<Rightarrow> int \<Rightarrow> world \<Rightarrow> world" where
  "print_frame fn frame sec w =
    (let (t, w) = sys (Proc (Ctime sec)) w;
         w = baa_info_msg ''%s: received can frame -> \"frame.id:0x%x\" / \"frame.can_dlc:%d\" @ \"time:%s''
               [FStr fn, FInt (uint (can_id frame)), FInt (uint (can_dlc frame)), FStr (rstr t)] w
     in print_data [0..<unat (can_dlc frame)] (frame_data frame) w)"

section \<open>The thread for error frames\<close>

text \<open>One round of the loop in \<open>print_error_frames\<close>. The two programs differ in how they report that
  there is no time stamp; the time is zero then.\<close>

definition error_frame_iteration :: "(world \<Rightarrow> world) \<Rightarrow> int \<Rightarrow> world \<Rightarrow> world" where
  "error_frame_iteration no_stamp ifname_s w =
    (let (r, w) = sys (File (Read ifname_s CAN_FRAME_SIZE)) w
     in if rv r = -1 then baa_errno_msg ''read in print_error_frames'' [] w
        else
          (let frame = frame_of (received CAN_FRAME_SIZE r (replicate CAN_FRAME_SIZE 0));
               (s, w) = sys (Sock (Ioctl_stamp ifname_s)) w;
               sec = (if rv s = -1 then 0 else tv_sec (rtime s));
               w = (if rv s = -1 then no_stamp w else w)
           in if can_id frame AND CAN_ERR_FLAG \<noteq> 0
              then print_frame ''print_error_frames'' frame sec
                     (baa_info_msg ''\<newline>!-----! An ERROR flag is set !-----!'' [] w)
              else baa_error_msg ''something went wrong ... should never see that!'' [] w))"

fun error_frame_run :: "nat \<Rightarrow> (world \<Rightarrow> world) \<Rightarrow> int \<Rightarrow> world \<Rightarrow> world" where
  "error_frame_run 0 no_stamp ifname_s w = w"
| "error_frame_run (Suc n) no_stamp ifname_s w =
    error_frame_run n no_stamp ifname_s (error_frame_iteration no_stamp ifname_s w)"

section \<open>The sender\<close>

definition can_send_cleanup :: "world \<Rightarrow> world" where
  "can_send_cleanup w = cheers w"

definition can_send_usage :: "build \<Rightarrow> string option \<Rightarrow> world \<Rightarrow> world" where
  "can_send_usage b name w =
    (let w = putnl w;
         w = baa_info_msg ''Usage: %s [options]              '' [str_arg name] w;
         w = infos
              [''Options:                                       '',
               ''       -i vcan0     -> interface               '',
               ''       -a 0x123     -> can addr                '',
               ''       -t 100       -> cylic time 100ms        '',
               ''       -h           -> show this help          ''] w;
         w = putnl w
     in show_some_infos b w)"

definition can_send_signal_handler :: "nat \<Rightarrow> world \<Rightarrow> unit part" where
  "can_send_signal_handler n w = signal_run n (\<lambda>w. Some (can_send_cleanup w)) w"

text \<open>The thread returns (\<open>False\<close>) when the socket or the error mask fails; the result of setting
  the filter is not looked at.\<close>

definition can_send_print_error_frames :: "nat \<Rightarrow> string \<Rightarrow> world \<Rightarrow> bool \<times> world" where
  "can_send_print_error_frames n ifname w =
    (let ((ifname_s, _), w) = baa_can_raw_socket ifname False 0 w
     in if ifname_s = -1 then (False, baa_error_msg ''could not init can_node %s'' [FStr ifname] w)
        else
          (let (_, w) = sys (Sock (Setsockopt ifname_s (Can_filter [(0x00, CAN_SFF_MASK)]))) w;
               (e, w) = baa_set_hw_error_mask ifname_s w
           in if e = -1 then (False, baa_error_msg ''could not set error mask'' [] w)
              else (True, error_frame_run n (baa_errno_msg ''ioctl in print_error_frames'' []) ifname_s w)))"

definition telegram_iteration :: "int \<Rightarrow> timespec \<Rightarrow> can_frame \<Rightarrow> world \<Rightarrow> can_frame \<times> world" where
  "telegram_iteration fds t frame w =
    (let (r, w) = sys (File (Write fds (map byte_char (frame_bytes frame)))) w
     in if rv r = -1
        then (frame, snd (sys (Proc (Sleep 4)) (baa_errno_msg ''could not write frame'' [] w)))
        else
          (let d = frame_data frame;
               frame = (if d ! 1 = 0xfe then frame\<lparr>frame_data := d[1 := 0]\<rparr>
                        else frame\<lparr>frame_data := d[1 := d ! 1 + 1]\<rparr>);
               (_, w) = sys (Sched (Clock_nanosleep_rel t)) w
           in (frame, w)))"

fun telegram_run :: "nat \<Rightarrow> int \<Rightarrow> timespec \<Rightarrow> can_frame \<Rightarrow> world \<Rightarrow> can_frame \<times> world" where
  "telegram_run 0 fds t frame w = (frame, w)"
| "telegram_run (Suc n) fds t frame w =
    (let (frame, w) = telegram_iteration fds t frame w in telegram_run n fds t frame w)"

text \<open>The product of the cycle time is computed in \<open>unsigned long\<close> and stored in a \<open>long\<close>.\<close>

definition cycle_time :: "c_ulong \<Rightarrow> world \<Rightarrow> timespec \<times> world" where
  "cycle_time cycle_time_ms w =
    (let default_ms = 100
     in if cycle_time_ms = 0
        then (\<lparr>tv_sec = 0, tv_nsec = default_ms * 1000000\<rparr>,
              baa_info_msg ''no cyclic time defined, use default value:%dms'' [FInt default_ms] w)
        else (baa_ts_norm \<lparr>tv_sec = 0, tv_nsec = sint (cycle_time_ms * 1000000)\<rparr>, w))"

definition send_cyclic_telegram :: "nat \<Rightarrow> string \<Rightarrow> c_ulong \<Rightarrow> c_ulong \<Rightarrow> world \<Rightarrow> can_frame part" where
  "send_cyclic_telegram n ifname can_addr cycle_time_ms w =
    (let ((fds, _), w) = baa_can_raw_socket ifname False 0 w
     in if fds = -1
        then leave (\<lambda>w. Some (can_send_cleanup w)) EXIT_FAILURE
               (baa_error_msg ''could not init can_node %s for CAN_RAW'' [FStr ifname] w)
        else
          (let frame = \<lparr>can_id = ucast can_addr, can_dlc = 2, frame_data = replicate 8 0\<rparr>;
               (t, w) = cycle_time cycle_time_ms w;
               (frame, w) = telegram_run n fds t frame w
           in Some (Inr frame, w)))"

text \<open>\<open>strtoul\<close> with base 10.\<close>

fun dec_digits :: "nat \<Rightarrow> string \<Rightarrow> nat" where
  "dec_digits acc [] = acc"
| "dec_digits acc (c # s) =
    (let n = of_char c :: nat in if 48 \<le> n \<and> n \<le> 57 then dec_digits (10 * acc + (n - 48)) s else acc)"

definition strtoul10 :: "string \<Rightarrow> c_ulong" where
  "strtoul10 s =
    (let s = dropWhile is_space s;
         (neg, s) = (case s of c # r \<Rightarrow> if c = CHR ''-'' then (True, r) else if c = CHR ''+'' then (False, r) else (False, s)
                     | [] \<Rightarrow> (False, s));
         v = dec_digits 0 s
     in if v \<ge> 2 ^ 64 then - 1 else if neg then - of_nat v else of_nat v)"

record can_send_opts =
  cs_ifname :: "string option"
  cs_addr :: c_ulong
  cs_cycle :: c_ulong

definition can_send_switch :: "build \<Rightarrow> char \<Rightarrow> string option \<Rightarrow> can_send_opts \<Rightarrow> world \<Rightarrow> can_send_opts part" where
  "can_send_switch b c optarg s w =
    (if c = CHR ''i'' then Some (Inr (s\<lparr>cs_ifname := optarg\<rparr>), w)
     else if c = CHR ''a'' then Some (Inr (s\<lparr>cs_addr := strtoul16 (the optarg)\<rparr>), w)
     else if c = CHR ''t'' then Some (Inr (s\<lparr>cs_cycle := strtoul10 (the optarg)\<rparr>), w)
     else if c = CHR ''h'' then leave Some EXIT_SUCCESS (can_send_usage b None w)
     else leave Some EXIT_FAILURE (can_send_usage b None (baa_info_msg ''ERROR -> no valid argument'' [] w)))"

text \<open>The program name is set after the options were read, so the usage text prints a null
  pointer. A failure to create the second thread is reported with the error number of the
  first, which is 0.\<close>

definition can_send_main :: "build \<Rightarrow> nat \<Rightarrow> string list \<Rightarrow> world \<Rightarrow> can_frame part" where
  "can_send_main b n argv w =
    then_do (option_loop (argv0 argv) (can_send_switch b) (getopt_all ''hei:a:t:'' argv)
              \<lparr>cs_ifname = None, cs_addr = 0, cs_cycle = 0\<rparr> w)
     (\<lambda>s w. case cs_ifname s of
        None \<Rightarrow> leave Some EXIT_FAILURE (can_send_usage b None w)
      | Some ifname \<Rightarrow>
          let w = baa_info_msg ''will use %s as canif'' [FStr ifname] w
          in if cs_addr s = 0 then leave Some EXIT_FAILURE (can_send_usage b None w)
             else
               let w = baa_info_msg ''will use addr 0x%x'' [FInt (sint (ucast (cs_addr s) :: c_int))] w;
                   fin = (\<lambda>w. Some (can_send_cleanup w))
               in then_do (program_name argv w) (\<lambda>_ w.
                  then_do (register_cleanup w) (\<lambda>_ w.
                  then_do (start_signal_thread fin ''could not create sighandler pthread'' w) (\<lambda>_ w.
                  let (ret, w) = sys (Sched (Thread_create ''print_error_frames'')) w
                  in if rv ret \<noteq> 0
                     then leave_with fin (baa_th_error_exit 0 ''could not create error-handler pthread'' [] w)
                     else send_cyclic_telegram n ifname (cs_addr s) (cs_cycle s) w))))"

section \<open>The receiver\<close>

definition can_recv_cleanup :: "world \<Rightarrow> world" where
  "can_recv_cleanup w = cheers w"

definition can_recv_usage :: "build \<Rightarrow> string option \<Rightarrow> world \<Rightarrow> world" where
  "can_recv_usage b name w =
    (let w = putnl w;
         w = baa_info_msg ''Usage: %s [options]              '' [str_arg name] w;
         w = infos
              [''Options:                                       '',
               ''       -i vcan0     -> interface           '',
               ''       -f 0x00F,0x10A -> recv 0x00F and 0x10A  '',
               ''       -h           -> show this help          ''] w;
         w = putnl w
     in show_some_infos b w)"

definition can_recv_signal_handler :: "nat \<Rightarrow> world \<Rightarrow> unit part" where
  "can_recv_signal_handler n w = signal_run n (\<lambda>w. Some (can_recv_cleanup w)) w"

definition can_recv_print_error_frames :: "nat \<Rightarrow> string \<Rightarrow> world \<Rightarrow> bool \<times> world" where
  "can_recv_print_error_frames n ifname w =
    (let ((ifname_s, _), w) = baa_can_raw_socket ifname False 0 w
     in if ifname_s = -1 then (False, baa_error_msg ''could not init can_node %s'' [FStr ifname] w)
        else
          (let (r, w) = sys (Sock (Setsockopt ifname_s (Can_filter [(0x00, CAN_SFF_MASK)]))) w
           in if rv r = -1 then (False, baa_errno_msg ''could not set can filter'' [] w)
              else
                (let (e, w) = baa_set_hw_error_mask ifname_s w
                 in if e = -1 then (False, baa_error_msg ''could not set error mask'' [] w)
                    else (True, error_frame_run n (perror ''ioctl in print_error_frames'') ifname_s w))))"

definition recv_iteration :: "int \<Rightarrow> world \<Rightarrow> world" where
  "recv_iteration fds w =
    (let (r, w) = sys (File (Read fds CAN_FRAME_SIZE)) w;
         n = rv r
     in if n = -1 then perror ''read in recv_frame_raw'' w
        else
          (let frame = frame_of (received CAN_FRAME_SIZE r (replicate CAN_FRAME_SIZE 0));
               w = (if n < int CAN_FRAME_SIZE then baa_error_msg ''incomplete can frame in recv_frame_raw'' [] w else w);
               w = baa_info_msg ''received %d bytes'' [FInt n] w;
               (s, w) = sys (Sock (Ioctl_stamp fds)) w;
               sec = (if rv s = -1 then 0 else tv_sec (rtime s));
               w = (if can_id frame AND CAN_ERR_FLAG \<noteq> 0
                    then baa_info_msg ''!-----! An ERROR flag is set !-----!'' [] w else w)
           in print_frame ''recv_frame_raw'' frame sec w))"

fun recv_run :: "nat \<Rightarrow> int \<Rightarrow> world \<Rightarrow> world" where
  "recv_run 0 fds w = w"
| "recv_run (Suc n) fds w = recv_run n fds (recv_iteration fds w)"

text \<open>\<open>extra\<close> is the memory behind the delimiter of \<open>baa_set_flist\<close>.\<close>

definition recv_frame_raw :: "string \<Rightarrow> nat \<Rightarrow> string \<Rightarrow> string option \<Rightarrow> world \<Rightarrow> unit part" where
  "recv_frame_raw extra n ifname flist w =
    (let ((fds, _), w) = baa_can_raw_socket ifname False 0 w
     in if fds = -1
        then leave (\<lambda>w. Some (can_recv_cleanup w)) EXIT_FAILURE
               (baa_error_msg ''could not init can_node %s for CAN_RAW'' [FStr ifname] w)
        else
          (let (e, w) = baa_set_flist extra fds flist w;
               w = (if e = -1 then baa_error_msg ''could not set filter list'' [] w else w)
           in Some (Inr (), recv_run n fds w)))"

record can_recv_opts =
  cr_ifname :: "string option"
  cr_flist :: "string option"

definition can_recv_switch :: "build \<Rightarrow> string \<Rightarrow> char \<Rightarrow> string option \<Rightarrow> can_recv_opts \<Rightarrow> world \<Rightarrow> can_recv_opts part" where
  "can_recv_switch b name c optarg s w =
    (if c = CHR ''i'' then Some (Inr (s\<lparr>cr_ifname := optarg\<rparr>), w)
     else if c = CHR ''f'' then Some (Inr (s\<lparr>cr_flist := optarg\<rparr>), w)
     else if c = CHR ''h'' then leave Some EXIT_SUCCESS (can_recv_usage b (Some name) w)
     else leave Some EXIT_FAILURE (can_recv_usage b (Some name) (baa_error_msg ''ERROR: no valid argument'' [] w)))"

definition can_recv_main :: "build \<Rightarrow> string \<Rightarrow> nat \<Rightarrow> string list \<Rightarrow> world \<Rightarrow> unit part" where
  "can_recv_main b extra n argv w =
    then_do (program_name argv w) (\<lambda>name w.
    then_do (option_loop (argv0 argv) (can_recv_switch b name) (getopt_all ''hi:f:'' argv)
              \<lparr>cr_ifname = None, cr_flist = None\<rparr> w) (\<lambda>s w.
     let w = show_some_infos b w
     in case cr_ifname s of
          None \<Rightarrow> leave Some EXIT_FAILURE (can_recv_usage b (Some name) w)
        | Some ifname \<Rightarrow>
            let w = baa_info_msg ''will use %s as canif'' [FStr ifname] w;
                w = (if cr_flist s = None then baa_info_msg ''no can-id filter will be set'' [] w else w);
                fin = (\<lambda>w. Some (can_recv_cleanup w))
            in then_do (register_cleanup w) (\<lambda>_ w.
               then_do (start_signal_thread fin ''could not create pthread'' w) (\<lambda>_ w.
               let (ret, w) = sys (Sched (Thread_create ''print_error_frames'')) w
               in if rv ret \<noteq> 0
                  then leave_with fin (baa_th_error_exit 0 ''could not create error-handler pthread'' [] w)
                  else recv_frame_raw extra n ifname (cr_flist s) w))))"

section \<open>The telegrams on the bus\<close>

text \<open>
  What the sender is meant to do: the telegram with number \<open>k\<close> carries \<open>k\<close> modulo 255 in its
  second byte. A telegram that was written is followed by the pause and the next number;
  one that was not written is repeated after four seconds.
\<close>

definition telegram :: "c_uint \<Rightarrow> nat \<Rightarrow> can_frame" where
  "telegram ident k = \<lparr>can_id = ident, can_dlc = 2, frame_data = [0, of_nat (k mod 255), 0, 0, 0, 0, 0, 0]\<rparr>"

definition write_call :: "int \<Rightarrow> can_frame \<Rightarrow> call" where
  "write_call fds frame = File (Write fds (map byte_char (frame_bytes frame)))"

fun bus_log :: "int \<Rightarrow> timespec \<Rightarrow> c_uint \<Rightarrow> nat \<Rightarrow> bool list \<Rightarrow> call list" where
  "bus_log fds t ident k [] = []"
| "bus_log fds t ident k (True # oks) =
    [write_call fds (telegram ident k), Sched (Clock_nanosleep_rel t)] @ bus_log fds t ident (Suc k) oks"
| "bus_log fds t ident k (False # oks) =
    [write_call fds (telegram ident k), Proc (Sleep 4)] @ bus_log fds t ident k oks"

text \<open>The outcomes of the writes to a descriptor in a list of events.\<close>

fun write_outcomes :: "int \<Rightarrow> event list \<Rightarrow> bool list" where
  "write_outcomes fds [] = []"
| "write_outcomes fds ((File (Write fd s), r) # es) =
    (if fd = fds then (rv r \<noteq> -1) # write_outcomes fds es else write_outcomes fds es)"
| "write_outcomes fds (e # es) = write_outcomes fds es"

lemma write_outcomes_append [simp]: "write_outcomes fds (xs @ ys) = write_outcomes fds xs @ write_outcomes fds ys"
  by (induction fds xs rule: write_outcomes.induct) simp_all

lemma unat_numeral_byte: "unat (0xfe :: byte) = 254"
  by simp

lemma counter_step:
  "(if (of_nat (k mod 255) :: byte) = 0xfe then 0 else of_nat (k mod 255) + 1) = (of_nat (Suc k mod 255) :: byte)"
proof -
  have u: "unat (of_nat (k mod 255) :: byte) = k mod 255" by (simp add: unat_of_nat)
  have "(of_nat (k mod 255) :: byte) = 0xfe \<longleftrightarrow> k mod 255 = 254"
    using u by (metis of_nat_numeral unat_numeral_byte)
  then show ?thesis by (auto simp: mod_Suc)
qed

lemma telegram_step:
  "telegram_iteration fds t (telegram ident k) w =
    (if rv (answer w (write_call fds (telegram ident k))) = -1
     then (telegram ident k,
           snd (sys (Proc (Sleep 4)) (baa_errno_msg ''could not write frame'' [] (snd (sys (write_call fds (telegram ident k)) w)))))
     else (telegram ident (Suc k), snd (sys (Sched (Clock_nanosleep_rel t)) (snd (sys (write_call fds (telegram ident k)) w)))))"
  using counter_step[of k]
  by (auto simp: telegram_iteration_def split_def Let_def sys_simps write_call_def telegram_def split: if_splits)

lemma write_call_simps [simp]:
  "\<not> is_log (write_call fds f)"
  "write_outcomes fds ((write_call fds f, r) # es) = (rv r \<noteq> -1) # write_outcomes fds es"
  by (simp_all add: write_call_def)

text \<open>One round: the telegram is written, and what follows depends on the outcome.\<close>

lemma telegram_round:
  fixes fds t ident k w
  defines "i \<equiv> telegram_iteration fds t (telegram ident k) w" and "ok \<equiv> rv (answer w (write_call fds (telegram ident k))) \<noteq> -1"
  shows "\<exists>es. io (snd i) = io w @ es \<and> write_outcomes fds es = [ok] \<and>
    fst i = telegram ident (if ok then Suc k else k) \<and>
    (\<forall>oks. map fst es @ bus_log fds t ident (if ok then Suc k else k) oks = bus_log fds t ident k (ok # oks))"
  unfolding i_def ok_def telegram_step by (simp add: sys_simps)

lemma telegram_run_log:
  "\<exists>new. io (snd (telegram_run n fds t (telegram ident k) w)) = io w @ new \<and>
    length (write_outcomes fds new) = n \<and>
    fst (telegram_run n fds t (telegram ident k) w) = telegram ident (k + count_list (write_outcomes fds new) True) \<and>
    map fst new = bus_log fds t ident k (write_outcomes fds new)"
proof (induction n arbitrary: k w)
  case (Suc n)
  let ?i = "telegram_iteration fds t (telegram ident k) w"
  obtain ok es where es: "io (snd ?i) = io w @ es" "write_outcomes fds es = [ok]"
    "fst ?i = telegram ident (if ok then Suc k else k)"
    "\<And>oks. map fst es @ bus_log fds t ident (if ok then Suc k else k) oks = bus_log fds t ident k (ok # oks)"
    using telegram_round by blast
  obtain new where "io (snd (telegram_run n fds t (fst ?i) (snd ?i))) = io (snd ?i) @ new"
    "length (write_outcomes fds new) = n"
    "fst (telegram_run n fds t (fst ?i) (snd ?i)) = telegram ident ((if ok then Suc k else k) + count_list (write_outcomes fds new) True)"
    "map fst new = bus_log fds t ident (if ok then Suc k else k) (write_outcomes fds new)"
    unfolding es(3) using Suc.IH by blast
  moreover have "telegram_run (Suc n) fds t (telegram ident k) w = telegram_run n fds t (fst ?i) (snd ?i)"
    by (simp add: split_def Let_def)
  ultimately show ?case using es(1,2) es(4)[of "write_outcomes fds new"]
    by (intro exI[of _ "es @ new"]) (cases ok; simp del: telegram_run.simps)
qed simp

lemma replicate_8: "replicate 8 x = [x, x, x, x, x, x, x, x]"
proof -
  have "replicate 8 x = replicate (Suc (Suc (Suc (Suc (Suc (Suc (Suc (Suc 0)))))))) x" by (rule arg_cong) simp
  then show ?thesis by simp
qed

lemma first_telegram: "\<lparr>can_id = ident, can_dlc = 2, frame_data = replicate 8 0\<rparr> = telegram ident 0"
  by (simp add: telegram_def replicate_8)

section \<open>Reading frames stays in bounds\<close>

lemma print_data_quiet: "\<forall>i \<in> set is. i < length data \<Longrightarrow> quiet w (print_data is data w)"
proof (induction "is" arbitrary: w)
  case (Cons i "is")
  then show ?case
    by (simp add: peek_def) (blast intro: quiet_trans info_msg.msg_quiet)
qed (simp add: quiet_refl)

lemma print_data_sticky: "w_fault w \<noteq> None \<Longrightarrow> w_fault (print_data is data w) \<noteq> None"
proof (induction "is" arbitrary: w)
  case (Cons i "is")
  have "w_fault (snd (peek i data w)) \<noteq> None" using Cons.prems fault_simps(4) by (simp add: peek_def)
  then show ?case using Cons.IH by (simp add: split_def Let_def)
qed simp

lemma print_data_overrun: "i \<in> set is \<Longrightarrow> length data \<le> i \<Longrightarrow> w_fault (print_data is data w) \<noteq> None"
proof (induction "is" arbitrary: w)
  case (Cons j "is")
  show ?case
  proof (cases "i \<in> set is")
    case True
    with Cons show ?thesis by (simp add: split_def Let_def)
  next
    case False
    with Cons.prems have "j = i" by simp
    with Cons.prems have "w_fault (baa_info_msg ''frame.data[%d] -> 0x%.2x'' [FInt (int j), FInt 0] (fault OutOfBounds w)) \<noteq> None"
      by (simp add: fault_simps)
    from print_data_sticky[OF this] show ?thesis
      using \<open>j = i\<close> Cons.prems by (simp add: peek_def)
  qed
qed simp

lemma print_frame_calls:
  "unat (can_dlc f) \<le> length (frame_data f) \<Longrightarrow>
   map fst (io (print_frame fn f sec w)) = map fst (io w) @ [Proc (Ctime sec)] \<and>
   w_fault (print_frame fn f sec w) = w_fault w \<and> w_os (print_frame fn f sec w) = w_os w"
proof -
  assume "unat (can_dlc f) \<le> length (frame_data f)"
  then have "quiet v (print_data [0..<unat (can_dlc f)] (frame_data f) v)" for v
    by (intro print_data_quiet) simp
  from quiet_io[OF this] quiet_fields[OF this] show ?thesis
    by (simp add: print_frame_def split_def Let_def sys_simps)
qed

lemma print_frame_overrun:
  "length (frame_data f) < unat (can_dlc f) \<Longrightarrow> w_fault (print_frame fn f sec w) \<noteq> None"
  unfolding print_frame_def split_def Let_def by (rule print_data_overrun[of "length (frame_data f)"]) simp_all

text \<open>The frame a \<open>read\<close> leaves in the zeroed structure.\<close>

definition frame_read :: "reply \<Rightarrow> can_frame" where
  "frame_read r = frame_of (received CAN_FRAME_SIZE r (replicate CAN_FRAME_SIZE 0))"

lemma frame_read_data [simp]: "length (frame_data (frame_read r)) = 8"
  by (simp add: frame_read_def frame_of_def)

definition good_frame :: "reply \<Rightarrow> bool" where
  "good_frame r \<longleftrightarrow> rv r = -1 \<or> unat (can_dlc (frame_read r)) \<le> 8"

lemma perror_quiet: "quiet w (perror s w)"
  by (simp add: perror_def quiet_log)

lemma perror_simps [simp]: "io (perror s w) = io w" "w_os (perror s w) = w_os w" "w_fault (perror s w) = w_fault w"
  using perror_quiet quiet_io quiet_fields by blast+

lemma recv_iteration_result:
  fixes w fds defines "r \<equiv> answer w (File (Read fds CAN_FRAME_SIZE))"
  shows "good_frame r \<Longrightarrow> w_fault (recv_iteration fds w) = w_fault w"
    and "\<not> good_frame r \<Longrightarrow> w_fault (recv_iteration fds w) \<noteq> None"
    and "good_frame r \<Longrightarrow> w_os (recv_iteration fds w) = w_os w"
  using print_frame_calls[of "frame_read r"] print_frame_overrun[of "frame_read r"]
  by (auto simp: recv_iteration_def good_frame_def split_def Let_def sys_simps frame_read_def[symmetric] r_def[symmetric])

lemma error_iteration_result:
  fixes w fds defines "r \<equiv> answer w (File (Read fds CAN_FRAME_SIZE))"
  assumes "\<And>u. quiet u (no_stamp u)" and "good_frame r"
  shows "w_fault (error_frame_iteration no_stamp fds w) = w_fault w"
    and "w_os (error_frame_iteration no_stamp fds w) = w_os w"
  using print_frame_calls[of "frame_read r"] quiet_fields(1,2)[OF assms(2)] assms(3)
  by (auto simp: error_frame_iteration_def good_frame_def split_def Let_def sys_simps frame_read_def[symmetric] r_def[symmetric])

text \<open>
  C36. The receiver reads a frame inside its bounds exactly when the length the frame carries is
  at most 8: the loop over the data trusts that number. As long as the kernel delivers frames
  with at most 8 bytes, as it promises for a CAN socket, no round of the receiver and of the
  two threads for error frames reads outside a frame.
\<close>
theorem can_frames_in_bounds:
  "(w_fault w = None \<longrightarrow>
     (w_fault (recv_iteration fds w) = None \<longleftrightarrow> good_frame (answer w (File (Read fds CAN_FRAME_SIZE))))) \<and>
   ((\<forall>k. good_frame (w_os w k (File (Read fds CAN_FRAME_SIZE)))) \<longrightarrow>
     w_fault (recv_run n fds w) = w_fault w \<and>
     w_fault (error_frame_run n (baa_errno_msg ''ioctl in print_error_frames'' []) fds w) = w_fault w \<and>
     w_fault (error_frame_run n (perror ''ioctl in print_error_frames'') fds w) = w_fault w)"
proof (intro conjI impI)
  assume "w_fault w = None"
  then show "w_fault (recv_iteration fds w) = None \<longleftrightarrow> good_frame (answer w (File (Read fds CAN_FRAME_SIZE)))"
    using recv_iteration_result(1,2)[of w fds] by metis
next
  assume ok: "\<forall>k. good_frame (w_os w k (File (Read fds CAN_FRAME_SIZE)))"
  then show "w_fault (recv_run n fds w) = w_fault w"
    by (induction n arbitrary: w) (simp_all add: recv_iteration_result answer_def)
  have run: "w_fault (error_frame_run n g fds w) = w_fault w" if g: "\<And>u. quiet u (g u)" for g
    using ok by (induction n arbitrary: w) (simp_all add: error_iteration_result[OF g] answer_def)
  show "w_fault (error_frame_run n (baa_errno_msg ''ioctl in print_error_frames'' []) fds w) = w_fault w"
    "w_fault (error_frame_run n (perror ''ioctl in print_error_frames'') fds w) = w_fault w"
    by (rule run, rule errno_msg.msg_quiet, rule run, rule perror_quiet)
qed

definition nine_bytes :: "nat \<Rightarrow> call \<Rightarrow> reply" where
  "nine_bytes n c = (case c of File (Read fd k) \<Rightarrow> bytes_reply [0x23, 1, 0, 0, 9] | _ \<Rightarrow> reply_of 0)"

theorem can_frames_in_bounds_witness:
  "w_fault (recv_iteration 3 (init_world nine_bytes)) \<noteq> None \<and>
   w_fault (recv_run 2 3 (init_world (\<lambda>_ _. bytes_reply [0x23, 1, 0, 0, 2]))) = None"
proof -
  have "\<not> good_frame (answer (init_world nine_bytes) (File (Read 3 CAN_FRAME_SIZE)))"
    by (simp add: answer_def nine_bytes_def good_frame_def frame_read_def frame_of_def received_def overwrite_def nth_append)
  moreover have "\<forall>k. good_frame (w_os (init_world (\<lambda>_ _. bytes_reply [0x23, 1, 0, 0, 2])) k (File (Read 3 CAN_FRAME_SIZE)))"
    by (simp add: good_frame_def frame_read_def frame_of_def received_def overwrite_def nth_append)
  ultimately show ?thesis
    using can_frames_in_bounds[of "init_world nine_bytes" 3 0]
      can_frames_in_bounds[of "init_world (\<lambda>_ _. bytes_reply [0x23, 1, 0, 0, 2])" 3 2] by simp
qed

section \<open>From the command line to the bus\<close>

text \<open>What a list of options asks for: the last value of each letter.\<close>

fun can_send_option :: "char \<times> string option \<Rightarrow> can_send_opts \<Rightarrow> can_send_opts" where
  "can_send_option (c, a) s =
    (if c = CHR ''i'' then s\<lparr>cs_ifname := a\<rparr>
     else if c = CHR ''a'' then s\<lparr>cs_addr := strtoul16 (the a)\<rparr>
     else if c = CHR ''t'' then s\<lparr>cs_cycle := strtoul10 (the a)\<rparr> else s)"

definition can_send_wanted :: "(char \<times> string option) list \<Rightarrow> can_send_opts" where
  "can_send_wanted opts = fold can_send_option opts \<lparr>cs_ifname = None, cs_addr = 0, cs_cycle = 0\<rparr>"

definition can_send_opt :: "char \<times> string option \<Rightarrow> bool" where
  "can_send_opt p \<longleftrightarrow> fst p \<in> {CHR ''i'', CHR ''a'', CHR ''t''} \<and> snd p \<noteq> None"

lemma can_send_opts_parsed:
  assumes "list_all can_send_opt opts"
  shows "option_loop (argv0 (p # render opts)) (can_send_switch b) (getopt_all ''hei:a:t:'' (p # render opts)) s w =
    Some (Inr (fold can_send_option opts s), w)"
proof -
  have "list_all (expects ''hei:a:t:'') opts"
    using assms by (rule list.pred_mono_strong) (auto simp: can_send_opt_def expects_def)
  then have "getopt_all ''hei:a:t:'' (p # render opts) = map (\<lambda>(c, a). Got c a) opts" by (rule getopt_all_render)
  moreover have "option_loop x (can_send_switch b) (map (\<lambda>(c, a). Got c a) opts) s w = Some (Inr (fold can_send_option opts s), w)" for x
    using assms
    by (induction opts arbitrary: s) (auto simp: can_send_opt_def can_send_switch_def)
  ultimately show ?thesis by simp
qed

text \<open>An environment in which everything up to the loop succeeds.\<close>

definition can_env :: "(nat \<Rightarrow> call \<Rightarrow> reply) \<Rightarrow> int \<Rightarrow> bool" where
  "can_env os fd \<longleftrightarrow> fd \<noteq> -1 \<and> start_env os \<and>
    (\<forall>n d t p. rv (os n (Sock (Socket d t p))) = fd) \<and> (\<forall>n i. rv (os n (Sock (Ioctl_ifindex fd i))) = 0) \<and>
    (\<forall>n a. rv (os n (Sock (Bind fd a))) = 0)"

lemma can_env_answers:
  assumes "can_env (w_os w) fd"
  shows "rv (answer w (Mem (Malloc k))) \<noteq> 0" "start_env (w_os w)" "rv (answer w (Sock (Socket d t p))) = fd"
    "rv (answer w (Sock (Ioctl_ifindex fd i))) = 0" "rv (answer w (Sock (Bind fd a))) = 0" "fd \<noteq> -1"
  using assms by (simp_all add: can_env_def answer_def start_env_def)

lemma can_raw_socket_ok:
  assumes "can_env (w_os w) fd" "no_nul ifname" "length ifname < IFNAMSIZ"
  shows "\<exists>idx w'. baa_can_raw_socket ifname False 0 w = ((fd, None), w') \<and> w_os w' = w_os w \<and> w_fault w' = w_fault w \<and>
    map fst (io w') = map fst (io w) @ [Sock (Socket PF_CAN SOCK_RAW CAN_RAW), Sock (Ioctl_ifindex fd ifname),
      Mem (Malloc 24), Sock (Bind fd (CanAddr idx))]"
proof -
  have env: "can_env (w_os (snd (sys c u))) fd" if "can_env (w_os u) fd" for c u
    using that by (simp add: sys_simps)
  let ?n = "length ifname + 1"
  have cp: "c_strncpy ifname ?n (replicate IFNAMSIZ NUL) u =
      (overwrite 0 (strncpy_chars ?n ifname) (replicate IFNAMSIZ NUL), u)" for u
    using assms(3) by (simp add: c_strncpy_def poke_def)
  have nm: "c_str (overwrite 0 (strncpy_chars ?n ifname) (replicate IFNAMSIZ NUL)) = ifname"
    using assms(2) by (simp add: overwrite_def strncpy_chars_fits)
  show ?thesis
    unfolding baa_can_raw_socket_def can_socket_def Let_def split_def cp nm fst_conv snd_conv
    using can_env_answers[OF assms(1)] can_env_answers[OF env[OF assms(1)]]
      can_env_answers[OF env[OF env[OF assms(1)]]] can_env_answers[OF env[OF env[OF env[OF assms(1)]]]]
    by (simp add: sys_simps BIND_TO_ANY_CANIF_def)
qed

lemma only_can_send_usage [only_intros]:
  "P (Proc Uname) \<Longrightarrow> P (File (Printf [newline])) \<Longrightarrow> only P w v \<Longrightarrow> only P w (can_send_usage b nm v)"
  unfolding can_send_usage_def Let_def by (auto intro!: only_intros)

text \<open>The calls of the sender before its first telegram.\<close>

definition can_send_start :: "string \<Rightarrow> string \<Rightarrow> int \<Rightarrow> int \<Rightarrow> call list" where
  "can_send_start p ifname fd idx =
    [name_call p, Proc Atexit, Proc Sigmask_block_all,
     Sched (Thread_create ''signal_handler''), Sched (Thread_create ''print_error_frames''),
     Sock (Socket PF_CAN SOCK_RAW CAN_RAW), Sock (Ioctl_ifindex fd ifname), Mem (Malloc 24), Sock (Bind fd (CanAddr idx))]"

lemma cycle_time_simps [simp]:
  "io (snd (cycle_time ms w)) = io w" "w_os (snd (cycle_time ms w)) = w_os w" "w_fault (snd (cycle_time ms w)) = w_fault w"
  "fst (cycle_time ms w) = fst (cycle_time ms v)"
  by (simp_all add: cycle_time_def)

lemma send_cyclic_telegram_ok:
  assumes "can_env (w_os w) fd" "no_nul ifname" "length ifname < IFNAMSIZ"
  shows "\<exists>idx oks w'. send_cyclic_telegram n ifname addr ms w = Some (Inr (telegram (ucast addr) (count_list oks True)), w') \<and>
    length oks = n \<and> map fst (io w') = map fst (io w) @ [Sock (Socket PF_CAN SOCK_RAW CAN_RAW), Sock (Ioctl_ifindex fd ifname),
      Mem (Malloc 24), Sock (Bind fd (CanAddr idx))] @ bus_log fd (fst (cycle_time ms w)) (ucast addr) 0 oks"
proof -
  obtain idx v where v: "baa_can_raw_socket ifname False 0 w = ((fd, None), v)"
    "map fst (io v) = map fst (io w) @ [Sock (Socket PF_CAN SOCK_RAW CAN_RAW), Sock (Ioctl_ifindex fd ifname),
      Mem (Malloc 24), Sock (Bind fd (CanAddr idx))]"
    using can_raw_socket_ok[OF assms] by blast
  let ?t = "fst (cycle_time ms v)" let ?u = "snd (cycle_time ms v)"
  obtain new where new: "io (snd (telegram_run n fd ?t (telegram (ucast addr) 0) ?u)) = io ?u @ new"
    "length (write_outcomes fd new) = n"
    "fst (telegram_run n fd ?t (telegram (ucast addr) 0) ?u) = telegram (ucast addr) (0 + count_list (write_outcomes fd new) True)"
    "map fst new = bus_log fd ?t (ucast addr) 0 (write_outcomes fd new)"
    using telegram_run_log by blast
  have fd: "fd \<noteq> -1" using can_env_answers(6)[OF assms(1)] .
  have "send_cyclic_telegram n ifname addr ms w = Some (Inr (fst (telegram_run n fd ?t (telegram (ucast addr) 0) ?u)),
      snd (telegram_run n fd ?t (telegram (ucast addr) 0) ?u))"
    using fd by (simp add: send_cyclic_telegram_def v(1) first_telegram split_def Let_def)
  with new v(2) show ?thesis
    by (intro exI[of _ idx] exI[of _ "write_outcomes fd new"]
        exI[of _ "snd (telegram_run n fd ?t (telegram (ucast addr) 0) ?u)"])
      (simp add: cycle_time_simps(4)[of ms w v])
qed


definition can_ok_env :: "nat \<Rightarrow> call \<Rightarrow> reply" where
  "can_ok_env n c = (case c of Sock (Socket d t p) \<Rightarrow> reply_of 3 | Mem (Malloc k) \<Rightarrow> reply_of 4096 | _ \<Rightarrow> reply_of 0)"

definition some_build :: build where
  "some_build = \<lparr>PACKAGE_STRING = ''libbaalue 0.1'', PACKAGE_VERSION = ''0.1''\<rparr>"


section \<open>The receiver and its filter list\<close>

fun can_recv_option :: "char \<times> string option \<Rightarrow> can_recv_opts \<Rightarrow> can_recv_opts" where
  "can_recv_option (c, a) s =
    (if c = CHR ''i'' then s\<lparr>cr_ifname := a\<rparr> else if c = CHR ''f'' then s\<lparr>cr_flist := a\<rparr> else s)"

definition can_recv_opt :: "char \<times> string option \<Rightarrow> bool" where
  "can_recv_opt p \<longleftrightarrow> fst p \<in> {CHR ''i'', CHR ''f''} \<and> snd p \<noteq> None"

lemma can_recv_opts_parsed:
  assumes "list_all can_recv_opt opts"
  shows "option_loop (argv0 (p # render opts)) (can_recv_switch b nm) (getopt_all ''hi:f:'' (p # render opts)) s w =
    Some (Inr (fold can_recv_option opts s), w)"
proof -
  have "list_all (expects ''hi:f:'') opts"
    using assms by (rule list.pred_mono_strong) (auto simp: can_recv_opt_def expects_def)
  then have "getopt_all ''hi:f:'' (p # render opts) = map (\<lambda>(c, a). Got c a) opts" by (rule getopt_all_render)
  moreover have "option_loop x (can_recv_switch b nm) (map (\<lambda>(c, a). Got c a) opts) s w = Some (Inr (fold can_recv_option opts s), w)" for x
    using assms
    by (induction opts arbitrary: s) (auto simp: can_recv_opt_def can_recv_switch_def)
  ultimately show ?thesis by simp
qed

text \<open>With an interface and a start that succeeds, the receiver gets to its socket.\<close>

lemma can_recv_main_ok:
  assumes "can_env (w_os w) fd" "list_all can_recv_opt opts"
    and "fold can_recv_option opts \<lparr>cr_ifname = None, cr_flist = None\<rparr> = \<lparr>cr_ifname = Some ifname, cr_flist = flist\<rparr>"
  shows "\<exists>v. can_recv_main b extra n (p # render opts) w = recv_frame_raw extra n ifname flist v \<and>
    w_os v = w_os w \<and> w_fault v = w_fault w"
proof -
  let ?w1 = "snd (sys (name_call p) w)"
  let ?w2 = "baa_info_msg ''will use %s as canif'' [FStr ifname] (show_some_infos b ?w1)"
  define v where "v = snd (sys (Sched (Thread_create ''print_error_frames'')) (signal_thread_started (snd (sys (Proc Atexit)
    (if flist = None then baa_info_msg ''no can-id filter will be set'' [] ?w2 else ?w2)))))"
  have "only (\<lambda>_. True) w (show_some_infos b ?w1)" by (auto intro!: only_intros)
  then have sh: "w_os (show_some_infos b ?w1) = w_os w" "w_fault (show_some_infos b ?w1) = w_fault w"
    by (auto simp: only_def)
  have "can_recv_main b extra n (p # render opts) w = recv_frame_raw extra n ifname flist v"
    using can_env_answers(2)[OF assms(1)]
    by (simp add: can_recv_main_def can_recv_opts_parsed[OF assms(2)] assms(3) split_def Let_def start_env_ok sys_simps sh v_def)
  then show ?thesis by (intro exI[of _ v]) (simp add: v_def sys_simps sh)
qed

lemma print_frame_sticky: "w_fault w \<noteq> None \<Longrightarrow> w_fault (print_frame fn f sec w) \<noteq> None"
  unfolding print_frame_def split_def Let_def by (rule print_data_sticky) (simp add: sys_simps)

lemma recv_run_sticky: "w_fault w \<noteq> None \<Longrightarrow> w_fault (recv_run n fds w) \<noteq> None"
proof (induction n arbitrary: w)
  case (Suc n)
  have "w_fault (recv_iteration fds w) \<noteq> None"
    using Suc.prems print_frame_sticky by (simp add: recv_iteration_def split_def Let_def sys_simps)
  then show ?case using Suc.IH by simp
qed simp

text \<open>
  The receiver overruns its memory when it is called as its documentation shows. With an
  interface and a list of two or more identifiers, when the start and the allocations
  succeed, the second filter is written behind the block that was allocated for one.
\<close>
theorem can_recv_filters_overrun:
  assumes "can_env (w_os w) fd" "no_nul ifname" "length ifname < IFNAMSIZ"
    and "\<forall>k q m. rv (w_os w k (Mem (Realloc q m))) \<noteq> 0"
    and "tokens (\<lambda>c. c = CHR '','' \<or> c \<in> set extra) [] ids = t1 # t2 # ts"
  shows "\<exists>w'. can_recv_main b extra n [p, ''-i'', ifname, ''-f'', ids] w = Some (Inr (), w') \<and> w_fault w' \<noteq> None"
proof -
  let ?o = "[(CHR ''i'', Some ifname), (CHR ''f'', Some ids)]"
  obtain v where v: "can_recv_main b extra n (p # render ?o) w = recv_frame_raw extra n ifname (Some ids) v"
    "w_os v = w_os w"
    using can_recv_main_ok[OF assms(1), of ?o ifname "Some ids" b extra n p] by (auto simp: can_recv_opt_def)
  obtain idx u where u: "baa_can_raw_socket ifname False 0 v = ((fd, None), u)" "w_os u = w_os v"
    using can_raw_socket_ok[of v fd ifname, unfolded v(2), OF assms(1-3)] v(2) by auto
  have "w_fault (snd (baa_set_flist extra fd (Some ids) u)) \<noteq> None"
    using flist_many_overflows[OF assms(5), of u fd] assms(4) u(2) v(2) by simp
  then show ?thesis
    using can_env_answers(6)[OF assms(1)] recv_run_sticky v(1)
    by (simp add: recv_frame_raw_def u(1) split_def Let_def)
qed

theorem can_recv_filters_overrun_witness:
  "\<exists>w'. can_recv_main some_build [] 5 [''./can_recv'', ''-i'', ''vcan0'', ''-f'', ''0x00F,0x10A'']
     (init_world (\<lambda>n c. case c of Sock (Socket d t p) \<Rightarrow> reply_of 3 | Mem m \<Rightarrow> reply_of 4096 | _ \<Rightarrow> reply_of 0)) = Some (Inr (), w') \<and>
    w_fault w' \<noteq> None"
  by (rule can_recv_filters_overrun[of _ 3 _ _ _ "''0x00F''" "''0x10A''" "[]"])
    (simp_all add: can_env_def start_env_def NUL_def)

end
