(* ===== verification/Baa_Can_Session.thy ===== *)
theory Baa_Can_Session
  imports Baa_Can_Programs
begin

text \<open>
  The two CAN programs together: the frames of \<open>src/examples/can_send.c\<close> are well-formed and
  survive the way through \<open>write\<close> and \<open>read\<close>, and the receiver of \<open>src/examples/can_recv.c\<close> reports the
  identifiers and numbers that the sender wrote.
\<close>

section \<open>Well-formed frames\<close>

text \<open>A frame of the right shape: eight data bytes, of which at most eight are used.\<close>

definition wf_frame :: "can_frame \<Rightarrow> bool" where
  "wf_frame f \<longleftrightarrow> length (frame_data f) = 8 \<and> unat (can_dlc f) \<le> 8"

lemma split_bytes: "ucast (ucast v :: byte) OR push_bit 8 (ucast (ucast (drop_bit 8 v) :: byte)) OR
    push_bit 16 (ucast (ucast (drop_bit 16 v) :: byte)) OR push_bit 24 (ucast (ucast (drop_bit 24 v) :: byte)) = (v :: c_uint)"
proof (rule bit_word_eqI)
  fix n assume "n < LENGTH(32)"
  then show "bit (ucast (ucast v :: byte) OR push_bit 8 (ucast (ucast (drop_bit 8 v) :: byte)) OR
    push_bit 16 (ucast (ucast (drop_bit 16 v) :: byte)) OR push_bit 24 (ucast (ucast (drop_bit 24 v) :: byte)) :: c_uint) n = bit v n"
    by (cases "n < 8"; cases "n < 16"; cases "n < 24") (auto simp: bit_simps)
qed

lemma frame_bytes_roundtrip: "frame_of (frame_bytes f) = f"
  by (cases f) (simp add: frame_of_def frame_bytes_def split_bytes)

lemma char_byte_char [simp]: "char_byte (byte_char b) = b"
proof -
  have "unat b < 256" using unsigned_less[of b] by simp
  then show ?thesis by (simp add: char_byte_def byte_char_def)
qed

lemma telegram_run_wf:
  "wf_frame f \<Longrightarrow> wf_frame (fst (telegram_run n fds t f w)) \<and> can_id (fst (telegram_run n fds t f w)) = can_id f \<and>
    can_dlc (fst (telegram_run n fds t f w)) = can_dlc f"
proof (induction n arbitrary: f w)
  case (Suc n)
  let ?i = "telegram_iteration fds t f w"
  have "wf_frame (fst ?i) \<and> can_id (fst ?i) = can_id f \<and> can_dlc (fst ?i) = can_dlc f"
    using Suc.prems by (simp add: telegram_iteration_def wf_frame_def split_def Let_def)
  with Suc.IH[of "fst ?i" "snd ?i"] show ?case by (simp add: split_def Let_def)
qed simp

lemma telegram_id: "can_id (telegram ident k) = ident"
  by (simp add: telegram_def)

lemma telegram_wf: "wf_frame (telegram ident k)"
  by (simp add: wf_frame_def telegram_def)

lemma wf_frame_read:
  "wf_frame f \<Longrightarrow> frame_read (bytes_reply (frame_bytes f)) = f \<and> length (frame_bytes f) = 16"
  using frame_bytes_roundtrip[of f] by (simp add: wf_frame_def frame_bytes_def frame_read_def received_def overwrite_def)



section \<open>From the sender to the receiver\<close>

text \<open>The frames that were written to a descriptor.\<close>

fun sent :: "int \<Rightarrow> event list \<Rightarrow> string list" where
  "sent fds [] = []"
| "sent fds ((File (Write fd s), r) # es) = (if fd = fds \<and> rv r \<noteq> -1 then s # sent fds es else sent fds es)"
| "sent fds (e # es) = sent fds es"

lemma sent_append [simp]: "sent fds (xs @ ys) = sent fds xs @ sent fds ys"
  by (induction fds xs rule: sent.induct) simp_all

lemma telegram_run_sent:
  "\<exists>new. io (snd (telegram_run n fds t (telegram ident k) w)) = io w @ new \<and>
    sent fds new = map (\<lambda>i. map byte_char (frame_bytes (telegram ident i))) [k..<k + length (sent fds new)]"
proof (induction n arbitrary: k w)
  case (Suc n)
  let ?i = "telegram_iteration fds t (telegram ident k) w"
  define ok where "ok = (rv (answer w (write_call fds (telegram ident k))) \<noteq> -1)"
  obtain es where es: "io (snd ?i) = io w @ es" "fst ?i = telegram ident (if ok then Suc k else k)"
    "sent fds es = (if ok then [map byte_char (frame_bytes (telegram ident k))] else [])"
    unfolding telegram_step ok_def by (cases ok) (simp_all add: sys_simps write_call_def ok_def)
  obtain new where new: "io (snd (telegram_run n fds t (fst ?i) (snd ?i))) = io (snd ?i) @ new"
    "sent fds new = map (\<lambda>i. map byte_char (frame_bytes (telegram ident i)))
      [if ok then Suc k else k..<(if ok then Suc k else k) + length (sent fds new)]"
    unfolding es(2) using Suc.IH by blast
  have "sent fds (es @ new) = map (\<lambda>i. map byte_char (frame_bytes (telegram ident i))) [k..<k + length (sent fds (es @ new))]"
    using new(2) es(3) by (cases ok) (simp_all add: upt_conv_Cons del: upt_Suc)
  then show ?case using new(1) es(1) by (intro exI[of _ "es @ new"]) (simp add: split_def Let_def)
qed simp

text \<open>What the receiver reports of a telegram.\<close>

lemma print_telegram:
  "print_frame fn (telegram ident k) sec w =
    (let (t, w) = sys (Proc (Ctime sec)) w;
         w = baa_info_msg ''%s: received can frame -> \"frame.id:0x%x\" / \"frame.can_dlc:%d\" @ \"time:%s''
               [FStr fn, FInt (uint ident), FInt 2, FStr (rstr t)] w;
         w = baa_info_msg ''frame.data[%d] -> 0x%.2x'' [FInt 0, FInt 0] w
     in baa_info_msg ''frame.data[%d] -> 0x%.2x'' [FInt 1, FInt (int (k mod 255))] w)"
proof -
  have "[0..<2] = [0, Suc 0]" by (simp add: upt_rec)
  moreover have "uint (of_nat (k mod 255) :: byte) = int (k mod 255)"
    by (simp add: uint_nat unat_of_nat) 
  ultimately show ?thesis by (simp add: print_frame_def telegram_def peek_def split_def Let_def)
qed

lemma recv_telegram:
  assumes "answer w (File (Read fdr CAN_FRAME_SIZE)) = bytes_reply (frame_bytes (telegram ident k))"
  shows "\<exists>v sec. recv_iteration fdr w = print_frame ''recv_frame_raw'' (telegram ident k) sec v \<and>
    map fst (io v) = map fst (io w) @ [File (Read fdr CAN_FRAME_SIZE), Sock (Ioctl_stamp fdr)] \<and> w_fault v = w_fault w"
proof -
  let ?u = "baa_info_msg ''received %d bytes'' [FInt 16] (snd (sys (File (Read fdr CAN_FRAME_SIZE)) w))"
  let ?s = "sys (Sock (Ioctl_stamp fdr)) ?u"
  define v where "v = (if ident AND CAN_ERR_FLAG \<noteq> 0 then baa_info_msg ''!-----! An ERROR flag is set !-----!'' [] (snd ?s) else snd ?s)"
  have "recv_iteration fdr w = print_frame ''recv_frame_raw'' (telegram ident k) (if rv (fst ?s) = -1 then 0 else tv_sec (rtime (fst ?s))) v"
    using wf_frame_read[OF telegram_wf, of ident k]
    by (simp add: recv_iteration_def v_def split_def Let_def sys_simps assms frame_read_def[symmetric] telegram_id)
  then show ?thesis by (intro exI[of _ v] exI conjI) (assumption, simp_all add: v_def sys_simps)
qed

text \<open>
  C12. Sender and receiver agree. When the k-th frame that the sender wrote to the bus, counting only
  writes that succeeded, is what the receiver reads, the receiver reports the identifier of
  the sender, two data bytes, and the number k modulo 255 in the second of them, so a
  repeated or failed write never shows as a gap in the numbers.
\<close>
theorem can_session:
  assumes "io (snd (telegram_run n fds t (telegram ident 0) ws)) = io ws @ new" "k < length (sent fds new)"
    and "answer w (File (Read fdr CAN_FRAME_SIZE)) = bytes_reply (map char_byte (sent fds new ! k))"
  shows "\<exists>time v. recv_iteration fdr w =
      baa_info_msg ''frame.data[%d] -> 0x%.2x'' [FInt 1, FInt (int (k mod 255))]
        (baa_info_msg ''frame.data[%d] -> 0x%.2x'' [FInt 0, FInt 0]
          (baa_info_msg ''%s: received can frame -> \"frame.id:0x%x\" / \"frame.can_dlc:%d\" @ \"time:%s''
            [FStr ''recv_frame_raw'', FInt (uint ident), FInt 2, FStr time] v)) \<and>
    w_fault (recv_iteration fdr w) = w_fault w"
proof -
  obtain new' where "io (snd (telegram_run n fds t (telegram ident 0) ws)) = io ws @ new'"
    "sent fds new' = map (\<lambda>i. map byte_char (frame_bytes (telegram ident i))) [0..<0 + length (sent fds new')]"
    using telegram_run_sent by blast
  with assms(1) have "sent fds new = map (\<lambda>i. map byte_char (frame_bytes (telegram ident i))) [0..<length (sent fds new)]" by simp
  then have "sent fds new ! k = map byte_char (frame_bytes (telegram ident k))"
    using assms(2) by (metis add_0 nth_map_upt diff_zero)
  with assms(3) have "answer w (File (Read fdr CAN_FRAME_SIZE)) = bytes_reply (frame_bytes (telegram ident k))"
    by (simp add: comp_def)
  then obtain v sec where "recv_iteration fdr w = print_frame ''recv_frame_raw'' (telegram ident k) sec v" "w_fault v = w_fault w"
    using recv_telegram by blast
  then show ?thesis by (auto simp: print_telegram split_def Let_def sys_simps)
qed

definition one_telegram :: "nat \<Rightarrow> call \<Rightarrow> reply" where
  "one_telegram i c = (case c of File (Read fd m) \<Rightarrow> bytes_reply (frame_bytes (telegram 0x123 0)) | _ \<Rightarrow> reply_of 0)"

theorem can_session_witness:
  "\<exists>time v. recv_iteration 4 (init_world one_telegram) =
      baa_info_msg ''frame.data[%d] -> 0x%.2x'' [FInt 1, FInt 0]
        (baa_info_msg ''frame.data[%d] -> 0x%.2x'' [FInt 0, FInt 0]
          (baa_info_msg ''%s: received can frame -> \"frame.id:0x%x\" / \"frame.can_dlc:%d\" @ \"time:%s''
            [FStr ''recv_frame_raw'', FInt 0x123, FInt 2, FStr time] v))"
proof -
  let ?t = "\<lparr>tv_sec = 0, tv_nsec = 100\<rparr>" let ?c = "write_call 3 (telegram 0x123 0)"
  have r: "io (snd (telegram_run 1 3 ?t (telegram 0x123 0) (init_world one_telegram))) =
      io (init_world one_telegram) @ [(?c, reply_of 0), (Sched (Clock_nanosleep_rel ?t), reply_of 0)]"
    by (simp add: telegram_step split_def Let_def sys_simps answer_def one_telegram_def write_call_def)
  show ?thesis
    using can_session[OF r, of 0 "init_world one_telegram" 4]
    by (auto simp: write_call_def answer_def one_telegram_def comp_def)
qed
end
