(* ===== verification/Baa_Fiber.thy ===== *)
theory Baa_Fiber
  imports Baa_Process
begin

text \<open>
  The time-triggered scheduler of \<open>src/src/fiber.c\<close>: the fibers (periodic threads), the
  functions that create, configure and start them, and the check of a configuration. The
  client and server that configure fibers of another process are in \<open>Baa_Sched_Server\<close>,
  the start barrier as a concurrent system is in \<open>Baa_Barrier\<close>.

  An array with its element count is a list; a thread body with an endless loop is its
  prologue followed by any number of iterations.
\<close>

section \<open>Fibers\<close>

record fiber_element =
  kernel_tid :: c_int
  sched_priority :: c_int
  fe_t :: timespec
  policy :: c_int
  cpu :: c_int
  dt :: c_int
  dt_sec :: c_int
  safe_stack_fac :: c_uint
  safe_heap_fac :: c_uint

text \<open>The handler only makes \<open>clock_nanosleep\<close> return; it does nothing itself.\<close>

definition baa_sigint_handler_sched :: "int \<Rightarrow> world \<Rightarrow> world" where
  "baa_sigint_handler_sched sig w = w"

definition BASE_SAFE_SIZE :: c_ulong where
  "BASE_SAFE_SIZE = 1024"

definition DEF_MEM_FAC :: c_ulong where
  "DEF_MEM_FAC = 1"

definition stack_prefault :: "c_ulong \<Rightarrow> byte list" where
  "stack_prefault sz = replicate (unat (sz * BASE_SAFE_SIZE)) 0"

definition heap_prefault :: "c_ulong \<Rightarrow> world \<Rightarrow> int \<times> world" where
  "heap_prefault sz w =
    (let (r, w) = sys (Mem (Malloc (unat (sz * BASE_SAFE_SIZE)))) w
     in if rv r = 0 then (-1, baa_errno_msg ''malloc in %s'' [FStr ''heap_prefault''] w)
        else (0, w))"

definition fiber_prologue :: "fiber_element \<Rightarrow> world \<Rightarrow> fiber_element \<times> world" where
  "fiber_prologue fiber w =
    (let (r, w) = sys (Proc Gettid) w;
         fiber = fiber\<lparr>kernel_tid := word_of_int (rv r)\<rparr>;
         _ = stack_prefault (if safe_stack_fac fiber = 0 then DEF_MEM_FAC else ucast (safe_stack_fac fiber));
         (_, w) = heap_prefault (if safe_heap_fac fiber = 0 then DEF_MEM_FAC else ucast (safe_heap_fac fiber)) w;
         (_, w) = sys (Sched Mutex_lock) w;
         (_, w) = sys (Sched Cond_wait) w;
         (_, w) = sys (Sched Mutex_unlock) w;
         (r, w) = sys (Sched Clock_gettime) w
     in (fiber\<lparr>fe_t := \<lparr>tv_sec = tv_sec (rtime r) + 1, tv_nsec = 0\<rparr>\<rparr>, w))"

text \<open>
  The thread of a fiber. The member \<open>func\<close> never changes and is only called, so it is an argument:
  what one call of the function does to the process.
\<close>

definition fiber_iteration :: "(world \<Rightarrow> world) \<Rightarrow> fiber_element \<Rightarrow> world \<Rightarrow> fiber_element \<times> world" where
  "fiber_iteration func fiber w =
    (let (s, w) = sys (Sched (Clock_nanosleep (fe_t fiber))) w;
         w = (if rv s = EINTR
              then baa_info_msg ''interrupted by signal SIGINT handler in %s'' [FStr ''baa_fiber''] w else w);
         w = func w;
         t = (fe_t fiber)\<lparr>tv_nsec := tv_nsec (fe_t fiber) + sint (dt fiber)\<rparr>
     in (fiber\<lparr>fe_t := baa_ts_norm t\<rparr>, w))"

fun fiber_run :: "nat \<Rightarrow> (world \<Rightarrow> world) \<Rightarrow> fiber_element \<Rightarrow> world \<Rightarrow> fiber_element \<times> world" where
  "fiber_run 0 func fiber w = (fiber, w)"
| "fiber_run (Suc n) func fiber w = (let (fiber, w) = fiber_iteration func fiber w in fiber_run n func fiber w)"

definition baa_fiber :: "nat \<Rightarrow> (world \<Rightarrow> world) \<Rightarrow> fiber_element \<Rightarrow> world \<Rightarrow> fiber_element \<times> world" where
  "baa_fiber n func fiber w = (let (fiber, w) = fiber_prologue fiber w in fiber_run n func fiber w)"

section \<open>Building and starting the schedule\<close>

fun create_loop :: "nat list \<Rightarrow> world \<Rightarrow> int \<times> world" where
  "create_loop [] w = (let (_, w) = sys (Proc (Sleep 1)) w in (0, w))"
| "create_loop (i # is) w =
    (let (r, w) = sys (Sched (Pthread_create i)) w
     in if rv r \<noteq> 0 then (-1, baa_th_error_msg (rv r) ''pthread_create in %s'' [FStr ''baa_build_scheduler''] w)
        else create_loop is w)"

definition baa_build_scheduler :: "nat \<Rightarrow> world \<Rightarrow> int \<times> world" where
  "baa_build_scheduler count w = create_loop [0..<count] w"

text \<open>\<open>CPU_ZERO\<close> and \<open>CPU_SET\<close>: a \<open>cpu_set_t\<close> has 1024 bits and a number outside is ignored.\<close>

definition cpu_set :: "c_int \<Rightarrow> nat list" where
  "cpu_set c = (if 0 \<le> sint c \<and> sint c < 1024 then [nat (sint c)] else [])"

definition set_props_one :: "fiber_element \<Rightarrow> world \<Rightarrow> world" where
  "set_props_one fiber w =
    (let cset = cpu_set (cpu fiber);
         w = (if nat (sint (cpu fiber)) \<notin> set cset
              then baa_error_msg ''could not set fiber to CPU %d'' [FInt (sint (cpu fiber))] w else w);
         (r, w) = sys (Sched (Sched_setaffinity (kernel_tid fiber) cset)) w;
         w = (if rv r = -1 then
                (if w_errno w = EINVAL then baa_errno_msg ''no physical cpu %d'' [FInt (sint (cpu fiber))] w
                 else baa_errno_msg ''sched_setaffinity() == -1 '' [] w)
              else w);
         (r, w) = sys (Sched (Sched_setscheduler (kernel_tid fiber) (policy fiber) (sched_priority fiber))) w
     in if rv r \<noteq> 0
        then baa_errno_msg ''could not set scheduling policy %d'' [FInt (sint (policy fiber))] w
        else w)"

fun set_props_loop :: "fiber_element list \<Rightarrow> world \<Rightarrow> world" where
  "set_props_loop [] w = w"
| "set_props_loop (fiber # fibers) w = set_props_loop fibers (set_props_one fiber w)"

definition baa_set_schedule_props :: "fiber_element list \<Rightarrow> world \<Rightarrow> int \<times> world" where
  "baa_set_schedule_props fiber_array w = (0, set_props_loop fiber_array w)"

fun join_loop :: "nat list \<Rightarrow> world \<Rightarrow> int \<times> world" where
  "join_loop [] w = (0, w)"
| "join_loop (i # is) w =
    (let (r, w) = sys (Sched (Pthread_join i)) w
     in if rv r \<noteq> 0 then (-1, baa_th_error_msg (rv r) ''pthread_join %s'' [FStr ''baa_start_scheduler''] w)
        else join_loop is w)"

definition baa_start_scheduler :: "nat \<Rightarrow> world \<Rightarrow> int \<times> world" where
  "baa_start_scheduler count w =
    (let (_, w) = sys (Sched Mutex_lock) w;
         (_, w) = sys (Sched Cond_broadcast) w;
         (_, w) = sys (Sched Mutex_unlock) w
     in join_loop [0..<count] w)"

section \<open>Checking a configuration\<close>

definition check_rt_priority :: "int \<Rightarrow> fiber_element \<Rightarrow> world \<Rightarrow> bool \<times> world" where
  "check_rt_priority pol fiber w =
    (let (mn, w) = sys (Sched (Sched_priority_min pol)) w;
         (mx, w) = sys (Sched (Sched_priority_max pol)) w
     in if sint (sched_priority fiber) > rv mx then (False, baa_error_msg ''priority > %d'' [FInt (rv mx)] w)
        else if sint (sched_priority fiber) < rv mn then (False, baa_error_msg ''priority < %d'' [FInt (rv mn)] w)
        else (True, w))"

definition check_zero_priority :: "fiber_element \<Rightarrow> world \<Rightarrow> bool \<times> world" where
  "check_zero_priority fiber w =
    (if sint (sched_priority fiber) \<noteq> 0
     then (False, baa_error_msg ''priority %d != 0'' [FInt (sint (sched_priority fiber))] w)
     else (True, w))"

definition check_policy :: "fiber_element \<Rightarrow> world \<Rightarrow> bool \<times> world" where
  "check_policy fiber w =
    (if sint (policy fiber) = SCHED_RR then check_rt_priority SCHED_RR fiber w
     else if sint (policy fiber) = SCHED_FIFO then check_rt_priority SCHED_FIFO fiber w
     else if sint (policy fiber) = SCHED_OTHER then check_zero_priority fiber w
     else if sint (policy fiber) = SCHED_IDLE then check_zero_priority fiber w
     else if sint (policy fiber) = SCHED_BATCH then check_zero_priority fiber w
     else (False, baa_error_msg ''policy %d invalid'' [FInt (sint (policy fiber))] w))"

fun check_loop :: "fiber_element list \<Rightarrow> world \<Rightarrow> bool \<times> world" where
  "check_loop [] w = (True, w)"
| "check_loop (fiber # fibers) w =
    (let (ok, w) = check_policy fiber w
     in if \<not> ok then (False, w)
        else (let ((cpu_conf, cpu_onln), w) = baa_get_num_cpu w
              in if sint (cpu fiber) > cpu_conf
                 then (False, baa_error_msg ''cpu affinity > configured cpu (%d > %d)''
                                [FInt (sint (cpu fiber)), FInt cpu_conf] w)
                 else check_loop fibers w))"

definition baa_is_fiber_config_valid :: "fiber_element list option \<Rightarrow> int \<Rightarrow> world \<Rightarrow> bool \<times> world" where
  "baa_is_fiber_config_valid fiber_array count w =
    (case fiber_array of
       None \<Rightarrow> (False, baa_error_msg ''fiber_array == NULL || count == 0'' [] w)
     | Some fibers \<Rightarrow>
         if count = 0 then (False, baa_error_msg ''fiber_array == NULL || count == 0'' [] w)
         else check_loop (take (nat count) fibers) w)"

section \<open>The activation times of a fiber\<close>

definition ns_time :: "int \<Rightarrow> int \<Rightarrow> timespec" where
  "ns_time sec ns = \<lparr>tv_sec = sec + ns div NSEC_PER_SEC, tv_nsec = ns mod NSEC_PER_SEC\<rparr>"

lemma normalised_ns_time [simp]: "normalised (ns_time sec ns)"
  by (simp add: normalised_def ns_time_def)

lemma total_ns_time: "total_ns (ns_time sec ns) = sec * NSEC_PER_SEC + ns"
  by (simp add: total_ns_def ns_time_def algebra_simps)

lemma ts_norm_ns_time:
  assumes "0 \<le> d"
  shows "baa_ts_norm ((ns_time sec ns)\<lparr>tv_nsec := tv_nsec (ns_time sec ns) + d\<rparr>) = ns_time sec (ns + d)"
proof (rule normalised_unique)
  have "0 \<le> tv_nsec (ns_time sec ns) + d" using assms by (simp add: ns_time_def)
  then show "normalised (baa_ts_norm ((ns_time sec ns)\<lparr>tv_nsec := tv_nsec (ns_time sec ns) + d\<rparr>))"
    by (intro ts_norm_range) simp
  have "total_ns ((ns_time sec ns)\<lparr>tv_nsec := tv_nsec (ns_time sec ns) + d\<rparr>) = total_ns (ns_time sec ns) + d"
    by (simp add: total_ns_def)
  then show "total_ns (baa_ts_norm ((ns_time sec ns)\<lparr>tv_nsec := tv_nsec (ns_time sec ns) + d\<rparr>)) =
      total_ns (ns_time sec (ns + d))"
    by (simp add: total_ns_time)
qed simp

text \<open>One activation: sleep until a time, then call the function.\<close>

definition sleep_until :: "timespec \<Rightarrow> world \<Rightarrow> world" where
  "sleep_until t w =
    (let (s, w) = sys (Sched (Clock_nanosleep t)) w
     in if rv s = EINTR then baa_info_msg ''interrupted by signal SIGINT handler in %s'' [FStr ''baa_fiber''] w else w)"

lemma fiber_iteration_eq:
  "fiber_iteration func fiber w =
    (fiber\<lparr>fe_t := baa_ts_norm ((fe_t fiber)\<lparr>tv_nsec := tv_nsec (fe_t fiber) + sint (dt fiber)\<rparr>)\<rparr>,
     func (sleep_until (fe_t fiber) w))"
  by (simp add: fiber_iteration_def sleep_until_def split_def Let_def)

lemma fiber_run_activations:
  assumes "0 \<le> sint (dt fiber)" "fe_t fiber = ns_time sec ns"
  shows "snd (fiber_run n func fiber w) =
    fold (\<lambda>k w. func (sleep_until (ns_time sec (ns + int k * sint (dt fiber))) w)) [0..<n] w"
  using assms
proof (induction n arbitrary: fiber w ns)
  case (Suc n)
  let ?f = "fst (fiber_iteration func fiber w)" and ?d = "sint (dt fiber)"
  have "fe_t ?f = ns_time sec (ns + ?d)" "dt ?f = dt fiber"
    using Suc.prems by (simp_all add: fiber_iteration_eq ts_norm_ns_time)
  moreover have "[0..<Suc n] = 0 # map Suc [0..<n]" by (simp add: upt_conv_Cons map_Suc_upt del: upt_Suc)
  ultimately show ?case
    using Suc.IH[of ?f "ns + ?d" "func (sleep_until (ns_time sec ns) w)"] Suc.prems
    by (simp add: split_def Let_def fold_map comp_def algebra_simps fiber_iteration_eq del: upt_Suc)
qed simp

lemma sleep_until_io: "\<exists>r. io (sleep_until t w) = io w @ [(Sched (Clock_nanosleep t), r)]"
  by (simp add: sleep_until_def split_def Let_def sys_simps)

lemma heap_prefault_io:
  "\<exists>r. io (snd (heap_prefault sz w)) = io w @ [(Mem (Malloc (unat (sz * BASE_SAFE_SIZE))), r)]"
  by (simp add: heap_prefault_def split_def Let_def sys_simps)

lemma fiber_prologue_io:
  "\<exists>r1 hsize r2 r3 r4 r5 r. io (snd (fiber_prologue fiber w)) = io w @
     [(Proc Gettid, r1), (Mem (Malloc hsize), r2), (Sched Mutex_lock, r3), (Sched Cond_wait, r4),
      (Sched Mutex_unlock, r5), (Sched Clock_gettime, r)] \<and>
   fe_t (fst (fiber_prologue fiber w)) = ns_time (tv_sec (rtime r) + 1) 0 \<and>
   dt (fst (fiber_prologue fiber w)) = dt fiber"
proof -
  let ?w1 = "snd (sys (Proc Gettid) w)"
  let ?sz = "if safe_heap_fac fiber = 0 then DEF_MEM_FAC else ucast (safe_heap_fac fiber) :: c_ulong"
  obtain hsize r2 where "io (snd (heap_prefault ?sz ?w1)) = io ?w1 @ [(Mem (Malloc hsize), r2)]"
    using heap_prefault_io by blast
  then show ?thesis
    by (simp add: fiber_prologue_def split_def Let_def sys_simps ns_time_def split: if_splits)
qed

text \<open>A whole run: prologue and activations.\<close>

definition started :: "world \<Rightarrow> int \<Rightarrow> world \<Rightarrow> bool" where
  "started w sec v \<longleftrightarrow> (\<exists>r1 hsize r2 r3 r4 r5 r. io v = io w @
     [(Proc Gettid, r1), (Mem (Malloc hsize), r2), (Sched Mutex_lock, r3), (Sched Cond_wait, r4),
      (Sched Mutex_unlock, r5), (Sched Clock_gettime, r)] \<and> sec = tv_sec (rtime r))"

lemma baa_fiber_run:
  assumes "0 \<le> sint (dt fiber)"
  shows "\<exists>sec v. started w sec v \<and>
    snd (baa_fiber n func fiber w) = fold (\<lambda>k w. func (sleep_until (ns_time (sec + 1) (int k * sint (dt fiber))) w)) [0..<n] v"
proof -
  let ?p = "fiber_prologue fiber w"
  obtain sec where p: "started w sec (snd ?p)" "fe_t (fst ?p) = ns_time (sec + 1) 0" "dt (fst ?p) = dt fiber"
    using fiber_prologue_io[of fiber w] unfolding started_def by metis
  then show ?thesis
    using fiber_run_activations[of "fst ?p" "sec + 1" 0 n func "snd ?p"] assms
    by (auto simp: baa_fiber_def split_def Let_def)
qed

text \<open>The activation times are a strictly increasing sequence.\<close>

lemma activation_times_increase:
  "0 < d \<Longrightarrow> sorted_wrt (<) (map (\<lambda>k. ns_time sec (int k * d)) [0..<n])"
  by (simp add: sorted_wrt_map sorted_wrt_upt timespec_less_total total_ns_time sorted_wrt_iff_nth_less)

text \<open>
  C4. A fiber is time-triggered without drift. After the start barrier it reads the monotonic clock
  once and takes the next full second as its origin. Then, for every number of iterations
  and every function group, the run is the repetition of two steps: sleep until exactly
  origin + k * dt (as a normalised time), and call the function group once. Neither the run
  time of the function group nor a signal nor anything else the system answers shifts a
  later activation, and with a positive period the times strictly increase.
\<close>
theorem fiber_activations:
  assumes "0 \<le> sint (dt fiber)"
  shows "\<exists>sec v. started w sec v \<and>
    snd (baa_fiber n func fiber w) =
      fold (\<lambda>k w. func (sleep_until (ns_time (sec + 1) (int k * sint (dt fiber))) w)) [0..<n] v \<and>
    (\<forall>k. normalised (ns_time (sec + 1) (int k * sint (dt fiber))) \<and>
      total_ns (ns_time (sec + 1) (int k * sint (dt fiber))) = (sec + 1) * NSEC_PER_SEC + int k * sint (dt fiber)) \<and>
    (dt fiber \<noteq> 0 \<longrightarrow> sorted_wrt (<) (map (\<lambda>k. ns_time (sec + 1) (int k * sint (dt fiber))) [0..<n]))"
proof -
  have "0 < sint (dt fiber)" if "dt fiber \<noteq> 0"
    using assms that by (metis order_le_less signed_eq_0_iff)
  with baa_fiber_run[OF assms, of w n func] show ?thesis
    by (fastforce simp: total_ns_time intro: activation_times_increase)
qed

definition example_fiber :: fiber_element where
  "example_fiber = \<lparr>kernel_tid = 0, sched_priority = 10, fe_t = \<lparr>tv_sec = 0, tv_nsec = 0\<rparr>,
     policy = 1, cpu = 0, dt = 500000000, dt_sec = 0, safe_stack_fac = 0, safe_heap_fac = 0\<rparr>"

theorem fiber_activations_witness:
  "\<exists>sec v. started (init_world (\<lambda>_ _. reply_of 0)) sec v \<and>
    snd (baa_fiber 3 (\<lambda>w. w\<lparr>w_errno := 7\<rparr>) example_fiber (init_world (\<lambda>_ _. reply_of 0))) =
      fold (\<lambda>k w. (sleep_until (ns_time (sec + 1) (int k * 500000000)) w)\<lparr>w_errno := 7\<rparr>) [0..<3] v"
  using fiber_activations[of example_fiber "init_world (\<lambda>_ _. reply_of 0)" 3 "\<lambda>w. w\<lparr>w_errno := 7\<rparr>"]
  by (auto simp: example_fiber_def)

section \<open>Configuring fibers\<close>

definition props_calls :: "fiber_element \<Rightarrow> call list" where
  "props_calls fiber =
    [Sched (Sched_setaffinity (kernel_tid fiber) (cpu_set (cpu fiber))),
     Sched (Sched_setscheduler (kernel_tid fiber) (policy fiber) (sched_priority fiber))]"

lemma set_props_one_io:
  "map fst (io (set_props_one fiber w)) = map fst (io w) @ props_calls fiber"
  "w_os (set_props_one fiber w) = w_os w" "w_fault (set_props_one fiber w) = w_fault w"
  by (simp_all add: set_props_one_def split_def Let_def sys_simps props_calls_def)

lemma set_props_loop_io:
  "map fst (io (set_props_loop fibers w)) = map fst (io w) @ concat (map props_calls fibers)"
  "w_os (set_props_loop fibers w) = w_os w" "w_fault (set_props_loop fibers w) = w_fault w"
  by (induction fibers arbitrary: w) (simp_all add: set_props_one_io)

text \<open>
  Setting the schedule properties requests, for every fiber in order, its CPU affinity and then
  its policy and priority, and nothing else; a refused request is reported and does not
  stop the others. The function returns 0 even when every request was refused.
\<close>
theorem set_schedule_props_calls:
  "fst (baa_set_schedule_props fibers w) = 0 \<and>
   map fst (io (snd (baa_set_schedule_props fibers w))) = map fst (io w) @ concat (map props_calls fibers) \<and>
   w_fault (snd (baa_set_schedule_props fibers w)) = w_fault w"
  by (simp add: baa_set_schedule_props_def set_props_loop_io)

section \<open>Creating and joining threads\<close>

text \<open>
  The interface of a loop that makes one call per index and leaves at the first failure:
  either every call succeeded and the loop finishes, or exactly the calls up to the first
  failing one were made.
\<close>

locale call_until_failure =
  fixes call_of :: "nat \<Rightarrow> call" and lp :: "nat list \<Rightarrow> world \<Rightarrow> int \<times> world"
    and finish :: "world \<Rightarrow> int \<times> world" and failed :: "int \<Rightarrow> world \<Rightarrow> int \<times> world"
  assumes lp_Nil: "lp [] w = finish w"
    and lp_Cons: "lp (i # is) w =
      (if rv (answer w (call_of i)) \<noteq> 0 then failed (rv (answer w (call_of i))) (snd (sys (call_of i) w))
       else lp is (snd (sys (call_of i) w)))"
    and not_log: "\<not> is_log (call_of i)"
begin

lemma lp_step_ok:
  assumes "rv (answer w (call_of i)) = 0"
  shows "lp (i # is) w = lp is (snd (sys (call_of i) w))"
  using assms by (simp add: lp_Cons)

lemma lp_all_ok:
  assumes "\<forall>j<length is. rv (w_os w (length (w_trace w) + j) (call_of (is ! j))) = 0"
  shows "\<exists>w'. lp is w = finish w' \<and> map fst (io w') = map fst (io w) @ map call_of is"
  using assms
proof (induction "is" arbitrary: w)
  case Nil
  then show ?case by (auto simp: lp_Nil)
next
  case (Cons i "is")
  let ?w = "snd (sys (call_of i) w)"
  have "rv (answer w (call_of i)) = 0" using Cons.prems by (auto simp: answer_def)
  moreover have "\<forall>j<length is. rv (w_os ?w (length (w_trace ?w) + j) (call_of (is ! j))) = 0"
    using Cons.prems by (auto simp: sys_simps)
  ultimately show ?case
    using Cons.IH[of ?w] by (simp add: lp_step_ok sys_simps not_log)
qed

lemma lp_fails_at:
  assumes "k < length is" "\<forall>j<k. rv (w_os w (length (w_trace w) + j) (call_of (is ! j))) = 0"
    and "rv (w_os w (length (w_trace w) + k) (call_of (is ! k))) \<noteq> 0"
  shows "\<exists>e w'. lp is w = failed e w' \<and> map fst (io w') = map fst (io w) @ map call_of (take (Suc k) is)"
  using assms
proof (induction "is" arbitrary: w k)
  case (Cons i "is")
  let ?w = "snd (sys (call_of i) w)"
  show ?case
  proof (cases k)
    case 0
    then show ?thesis
      using Cons.prems by (intro exI[of _ "rv (answer w (call_of i))"] exI[of _ ?w])
        (simp add: lp_Cons answer_def sys_simps not_log)
  next
    case (Suc k')
    have "rv (answer w (call_of i)) = 0" using Cons.prems Suc by (auto simp: answer_def)
    moreover have "\<forall>j<k'. rv (w_os ?w (length (w_trace ?w) + j) (call_of (is ! j))) = 0"
      and "rv (w_os ?w (length (w_trace ?w) + k') (call_of (is ! k'))) \<noteq> 0"
      using Cons.prems Suc by (auto simp: sys_simps)
    ultimately show ?thesis
      using Cons.IH[of k' ?w] Cons.prems(1) Suc by (simp add: lp_step_ok sys_simps not_log)
  qed
qed simp

text \<open>Whatever the system answers: the calls made are the first ones of the list, and all of them
  when the loop finishes.\<close>

lemma lp_prefix:
  "\<exists>k w'. k \<le> length is \<and> map fst (io w') = map fst (io w) @ map call_of (take k is) \<and>
    (k = length is \<and> lp is w = finish w' \<or> (\<exists>e. lp is w = failed e w'))"
proof (induction "is" arbitrary: w)
  case Nil
  then show ?case by (auto simp: lp_Nil)
next
  case (Cons i "is")
  let ?w = "snd (sys (call_of i) w)"
  show ?case
  proof (cases "rv (answer w (call_of i)) = 0")
    case True
    obtain k w' where "k \<le> length is" "map fst (io w') = map fst (io ?w) @ map call_of (take k is)"
      "k = length is \<and> lp is ?w = finish w' \<or> (\<exists>e. lp is ?w = failed e w')"
      using Cons.IH by blast
    then show ?thesis
      using True by (intro exI[of _ "Suc k"] exI[of _ w']) (auto simp: lp_step_ok sys_simps not_log)
  next
    case False
    then show ?thesis
      by (intro exI[of _ 1] exI[of _ ?w]) (auto simp: lp_Cons sys_simps not_log)
  qed
qed

lemma lp_finishes: "\<forall>n i. rv (w_os w n (call_of i)) = 0 \<Longrightarrow> \<exists>w'. lp is w = finish w'"
  using lp_all_ok[of "is" w] by auto

end

interpretation create: call_until_failure "\<lambda>i. Sched (Pthread_create i)" create_loop
  "\<lambda>w. (0, snd (sys (Proc (Sleep 1)) w))"
  "\<lambda>e w. (-1, baa_th_error_msg e ''pthread_create in %s'' [FStr ''baa_build_scheduler''] w)"
  by unfold_locales (simp_all add: split_def Let_def sys_simps)

interpretation join: call_until_failure "\<lambda>i. Sched (Pthread_join i)" join_loop "\<lambda>w. (0, w)"
  "\<lambda>e w. (-1, baa_th_error_msg e ''pthread_join %s'' [FStr ''baa_start_scheduler''] w)"
  by unfold_locales (simp_all add: split_def Let_def sys_simps)

text \<open>The j-th thread creation after a state succeeds, if nothing but creations precedes it.\<close>

definition created :: "world \<Rightarrow> nat \<Rightarrow> bool" where
  "created w j \<longleftrightarrow> rv (w_os w (length (w_trace w) + j) (Sched (Pthread_create j))) = 0"

text \<open>
  C28. Building the scheduler creates the threads in order. If all creations succeed, the function
  sleeps a second and returns 0; otherwise it stops at the first one that fails and returns
  -1: the threads before it exist then and no thread after it is created.
\<close>
theorem build_scheduler_result:
  "((\<forall>j<count. created w j) \<longrightarrow>
      fst (baa_build_scheduler count w) = 0 \<and>
      map fst (io (snd (baa_build_scheduler count w))) =
        map fst (io w) @ map (\<lambda>i. Sched (Pthread_create i)) [0..<count] @ [Proc (Sleep 1)]) \<and>
    (\<forall>k<count. (\<forall>j<k. created w j) \<and> \<not> created w k \<longrightarrow>
      fst (baa_build_scheduler count w) = -1 \<and>
      map fst (io (snd (baa_build_scheduler count w))) =
        map fst (io w) @ map (\<lambda>i. Sched (Pthread_create i)) [0..<Suc k])"
proof (intro conjI allI impI; (elim conjE)?)
  assume "\<forall>j<count. created w j"
  then show "fst (baa_build_scheduler count w) = 0"
    "map fst (io (snd (baa_build_scheduler count w))) =
        map fst (io w) @ map (\<lambda>i. Sched (Pthread_create i)) [0..<count] @ [Proc (Sleep 1)]"
    using create.lp_all_ok[of "[0..<count]" w]
    by (auto simp: baa_build_scheduler_def created_def sys_simps)
next
  fix k assume "k < count" "\<forall>j<k. created w j" "\<not> created w k"
  then show "fst (baa_build_scheduler count w) = -1"
    "map fst (io (snd (baa_build_scheduler count w))) =
        map fst (io w) @ map (\<lambda>i. Sched (Pthread_create i)) [0..<Suc k]"
    using create.lp_fails_at[of k "[0..<count]" w]
    by (auto simp: baa_build_scheduler_def created_def take_upt simp del: upt_Suc)
qed

theorem build_scheduler_result_witness:
  "fst (baa_build_scheduler 3 (init_world (\<lambda>n _. if n = 1 then reply_of EAGAIN else reply_of 0))) = -1 \<and>
   map fst (io (snd (baa_build_scheduler 3 (init_world (\<lambda>n _. if n = 1 then reply_of EAGAIN else reply_of 0))))) =
     [Sched (Pthread_create 0), Sched (Pthread_create 1)] \<and>
   fst (baa_build_scheduler 2 (init_world (\<lambda>_ _. reply_of 0))) = 0"
proof -
  let ?w = "init_world (\<lambda>n _. if n = 1 then reply_of EAGAIN else reply_of 0)"
  have "(1::nat) < 3" "(\<forall>j<1. created ?w j) \<and> \<not> created ?w 1" by (auto simp: created_def)
  then have "fst (baa_build_scheduler 3 ?w) = -1 \<and>
      map fst (io (snd (baa_build_scheduler 3 ?w))) = map fst (io ?w) @ map (\<lambda>i. Sched (Pthread_create i)) [0..<Suc 1]"
    using build_scheduler_result[of 3 ?w] by blast
  moreover have "fst (baa_build_scheduler 2 (init_world (\<lambda>_ _. reply_of 0))) = 0"
    using build_scheduler_result[of 2 "init_world (\<lambda>_ _. reply_of 0)"] by (auto simp: created_def)
  ultimately show ?thesis by (simp add: upt_rec)
qed

text \<open>
  Starting the scheduler broadcasts the start condition under the mutex exactly once, and then joins
  the threads in order; it returns 0 after joining all of them and -1 at the first join that
  fails.
\<close>
theorem start_scheduler_result:
  "\<exists>w'. map fst (io w') = map fst (io w) @ [Sched Mutex_lock, Sched Cond_broadcast, Sched Mutex_unlock] \<and>
    ((\<forall>j<count. rv (w_os w (length (w_trace w') + j) (Sched (Pthread_join j))) = 0) \<longrightarrow>
      fst (baa_start_scheduler count w) = 0 \<and>
      map fst (io (snd (baa_start_scheduler count w))) =
        map fst (io w') @ map (\<lambda>i. Sched (Pthread_join i)) [0..<count]) \<and>
    (\<forall>k<count. (\<forall>j<k. rv (w_os w (length (w_trace w') + j) (Sched (Pthread_join j))) = 0) \<and>
        rv (w_os w (length (w_trace w') + k) (Sched (Pthread_join k))) \<noteq> 0 \<longrightarrow>
      fst (baa_start_scheduler count w) = -1 \<and>
      map fst (io (snd (baa_start_scheduler count w))) =
        map fst (io w') @ map (\<lambda>i. Sched (Pthread_join i)) [0..<Suc k])"
proof -
  define w' where "w' = snd (sys (Sched Mutex_unlock) (snd (sys (Sched Cond_broadcast) (snd (sys (Sched Mutex_lock) w)))))"
  have start: "baa_start_scheduler count w = join_loop [0..<count] w'"
    by (simp add: baa_start_scheduler_def w'_def split_def Let_def)
  have os: "w_os w' = w_os w"
    and io: "map fst (io w') = map fst (io w) @ [Sched Mutex_lock, Sched Cond_broadcast, Sched Mutex_unlock]"
    by (simp_all add: w'_def sys_simps)
  show ?thesis
  proof (intro exI[of _ w'] conjI allI impI io; (elim conjE)?)
    assume "\<forall>j<count. rv (w_os w (length (w_trace w') + j) (Sched (Pthread_join j))) = 0"
    then show "fst (baa_start_scheduler count w) = 0"
      "map fst (io (snd (baa_start_scheduler count w))) = map fst (io w') @ map (\<lambda>i. Sched (Pthread_join i)) [0..<count]"
      using join.lp_all_ok[of "[0..<count]" w'] by (auto simp: start os)
  next
    fix k assume "k < count" "\<forall>j<k. rv (w_os w (length (w_trace w') + j) (Sched (Pthread_join j))) = 0"
      "rv (w_os w (length (w_trace w') + k) (Sched (Pthread_join k))) \<noteq> 0"
    then show "fst (baa_start_scheduler count w) = -1"
      "map fst (io (snd (baa_start_scheduler count w))) = map fst (io w') @ map (\<lambda>i. Sched (Pthread_join i)) [0..<Suc k]"
      using join.lp_fails_at[of k "[0..<count]" w'] by (auto simp: start os take_upt simp del: upt_Suc)
  qed
qed

theorem start_scheduler_result_witness:
  "fst (baa_start_scheduler 2 (init_world (\<lambda>_ _. reply_of 0))) = 0"
  using start_scheduler_result[of "init_world (\<lambda>_ _. reply_of 0)" 2] by auto

section \<open>The configuration check against its specification\<close>

text \<open>What the check accepts, as a predicate on one fiber, given the kernel's priority ranges
  and the number of configured processors.\<close>

definition fiber_ok :: "(int \<Rightarrow> int) \<Rightarrow> (int \<Rightarrow> int) \<Rightarrow> int \<Rightarrow> fiber_element \<Rightarrow> bool" where
  "fiber_ok pmin pmax ncpu fiber \<longleftrightarrow>
    (let p = sint (policy fiber); prio = sint (sched_priority fiber)
     in (p \<in> {SCHED_RR, SCHED_FIFO} \<and> pmin p \<le> prio \<and> prio \<le> pmax p \<or>
         p \<in> {SCHED_OTHER, SCHED_IDLE, SCHED_BATCH} \<and> prio = 0) \<and>
        sint (cpu fiber) \<le> ncpu)"

text \<open>The documented behaviour of the queries: their answer does not change during a run.\<close>

definition stable_queries :: "(nat \<Rightarrow> call \<Rightarrow> reply) \<Rightarrow> (int \<Rightarrow> int) \<Rightarrow> (int \<Rightarrow> int) \<Rightarrow> int \<Rightarrow> bool" where
  "stable_queries os pmin pmax ncpu \<longleftrightarrow>
    (\<forall>n p. rv (os n (Sched (Sched_priority_min p))) = pmin p \<and> rv (os n (Sched (Sched_priority_max p))) = pmax p) \<and>
    (\<forall>n. rv (os n (Sched Get_nprocs_conf)) = ncpu)"

lemma check_policy_os [simp]: "w_os (snd (check_policy fiber w)) = w_os w"
  by (simp add: check_policy_def check_rt_priority_def check_zero_priority_def split_def Let_def sys_simps)

lemma check_loop_iff:
  "stable_queries (w_os w) pmin pmax ncpu \<Longrightarrow>
   fst (check_loop fibers w) \<longleftrightarrow> list_all (fiber_ok pmin pmax ncpu) fibers"
proof (induction fibers arbitrary: w)
  case (Cons fiber fibers)
  have pol: "fst (check_policy fiber w) \<longleftrightarrow>
     (let p = sint (policy fiber); prio = sint (sched_priority fiber)
      in p \<in> {SCHED_RR, SCHED_FIFO} \<and> pmin p \<le> prio \<and> prio \<le> pmax p \<or>
         p \<in> {SCHED_OTHER, SCHED_IDLE, SCHED_BATCH} \<and> prio = 0)"
    using Cons.prems
    by (auto simp: check_policy_def check_rt_priority_def check_zero_priority_def split_def Let_def
        sys_simps answer_def stable_queries_def)
  let ?w1 = "snd (check_policy fiber w)" let ?w2 = "snd (baa_get_num_cpu ?w1)"
  have ncpu: "fst (fst (baa_get_num_cpu ?w1)) = ncpu" and os: "w_os ?w2 = w_os w"
    using Cons.prems
    by (auto simp: baa_get_num_cpu_def split_def Let_def sys_simps answer_def stable_queries_def)
  have "fst (check_loop fibers ?w2) \<longleftrightarrow> list_all (fiber_ok pmin pmax ncpu) fibers"
    using Cons.IH[of ?w2] Cons.prems os by simp
  moreover have "fiber_ok pmin pmax ncpu fiber \<longleftrightarrow> fst (check_policy fiber w) \<and> sint (cpu fiber) \<le> ncpu"
    unfolding pol fiber_ok_def Let_def ..
  ultimately show ?case
    using ncpu by (simp add: split_def Let_def not_less)
qed simp

text \<open>
  C14. The configuration check implements its specification: when the kernel answers the queries for
  the priority ranges and the number of processors consistently, a configuration is accepted
  exactly when the array is there, the count is not 0 and every fiber has a known policy, a
  priority the policy allows and a processor number that is at most the number of configured
  processors.
\<close>
theorem fiber_config_valid_iff:
  assumes "stable_queries (w_os w) pmin pmax ncpu"
  shows "fst (baa_is_fiber_config_valid fiber_array count w) \<longleftrightarrow>
    (\<exists>fibers. fiber_array = Some fibers \<and> count \<noteq> 0 \<and>
      list_all (fiber_ok pmin pmax ncpu) (take (nat count) fibers))"
  using check_loop_iff[OF assms]
  by (auto simp: baa_is_fiber_config_valid_def split: option.splits)

definition linux_queries :: "nat \<Rightarrow> call \<Rightarrow> reply" where
  "linux_queries n c =
    (case c of Sched (Sched_priority_min p) \<Rightarrow> reply_of 1 | Sched (Sched_priority_max p) \<Rightarrow> reply_of 99
     | Sched Get_nprocs_conf \<Rightarrow> reply_of 2 | _ \<Rightarrow> reply_of 0)"

theorem fiber_config_valid_iff_witness:
  "fst (baa_is_fiber_config_valid (Some [example_fiber]) 1 (init_world linux_queries)) \<and>
   \<not> fst (baa_is_fiber_config_valid (Some [example_fiber\<lparr>sched_priority := 100\<rparr>]) 1 (init_world linux_queries))"
proof -
  have st: "stable_queries (w_os (init_world linux_queries)) (\<lambda>_. 1) (\<lambda>_. 99) 2"
    by (simp add: stable_queries_def linux_queries_def)
  show ?thesis
    by (simp add: fiber_config_valid_iff[OF st] fiber_ok_def example_fiber_def)
qed

text \<open>
  The check does not keep the scheduler from asking for a processor that does not exist. With
  processors 0 to \<open>ncpu - 1\<close> configured, a fiber for processor \<open>ncpu\<close> passes, and so does one
  for a negative processor, for which the affinity that is then requested is the empty set.
\<close>
theorem fiber_config_accepts_missing_cpu:
  "fst (baa_is_fiber_config_valid (Some [example_fiber\<lparr>cpu := 2\<rparr>]) 1 (init_world linux_queries)) \<and>
   fst (baa_is_fiber_config_valid (Some [example_fiber\<lparr>cpu := - 1\<rparr>]) 1 (init_world linux_queries)) \<and>
   rv (linux_queries 0 (Sched Get_nprocs_conf)) = 2 \<and>
   props_calls (example_fiber\<lparr>cpu := 2\<rparr>) ! 0 = Sched (Sched_setaffinity 0 [2]) \<and>
   props_calls (example_fiber\<lparr>cpu := - 1\<rparr>) ! 0 = Sched (Sched_setaffinity 0 [])"
proof -
  have st: "stable_queries (w_os (init_world linux_queries)) (\<lambda>_. 1) (\<lambda>_. 99) 2"
    by (simp add: stable_queries_def linux_queries_def)
  show ?thesis
    using check_loop_iff[OF st]
    by (simp add: baa_is_fiber_config_valid_def fiber_ok_def example_fiber_def linux_queries_def
        props_calls_def cpu_set_def del: check_loop.simps)
qed

end
