(* ===== verification/Baa_Sched_Server.thy ===== *)
theory Baa_Sched_Server
  imports Baa_Fiber Baa_Serialize Baa_Protocol
begin

text \<open>
  Setting schedule properties of fibers through a privileged server, from \<open>src/src/fiber.c\<close>.
  The client packs one request per fiber and waits for the
  acknowledgements; the server unpacks a request straight into the members of a local
  \<open>fiber_element_t\<close>. Its format has 64 bit destinations and the members are 32 bit wide, so
  the stores overlap: the members are addresses in the memory of \<open>Baa_Serialize\<close>, at their
  LP64 offsets.
\<close>

section \<open>The client\<close>

text \<open>An \<open>int\<close> passed as a variable argument: the upper half of its slot is unspecified.\<close>

definition int_slot :: "c_int \<Rightarrow> world \<Rightarrow> c_ulong" where
  "int_slot x w = push_bit 32 (unspec w) OR ucast x"

definition sched_args :: "fiber_element \<Rightarrow> world \<Rightarrow> c_ulong list" where
  "sched_args fiber w =
    [int_slot (ucast PTYPE_SCHED_PROPS) w, int_slot (kernel_tid fiber) w, int_slot (policy fiber) w,
     int_slot (cpu fiber) w, int_slot (sched_priority fiber) w]"

partial_function (option) read_rcv_ack ::
  "int \<Rightarrow> byte \<Rightarrow> sockaddr \<Rightarrow> world \<Rightarrow> (bool \<times> byte \<times> sockaddr \<times> world) option" where
  "read_rcv_ack sfd ptype_rcv addr w =
    (let r = answer w (Sock (Recvfrom sfd 1)); w = snd (sys (Sock (Recvfrom sfd 1)) w)
     in if rv r = -1
        then Some (False, ptype_rcv, addr,
               baa_errno_msg ''num_read == -1 in %s'' [FStr ''baa_set_schedule_props_via_server''] w)
        else
          (let ptype_rcv = (case rbytes r of [] \<Rightarrow> ptype_rcv | b # _ \<Rightarrow> b); addr = sender r addr
           in if ptype_rcv = PTYPE_ERROR \<or> ptype_rcv = PTYPE_RESET
              then Some (True, ptype_rcv, addr, baa_error_msg ''get PTYPE_ERROR/RESET from server'' [] w)
              else if ptype_rcv = PTYPE_CMD_ACK then Some (True, ptype_rcv, addr, w)
              else if ptype_rcv = PTYPE_RCV_ACK then read_rcv_ack sfd ptype_rcv addr w
              else Some (True, ptype_rcv, addr,
                     baa_error_msg ''unknown PTYPE %d, try next one'' [FInt (uint ptype_rcv)] w)))"

definition CLEAN_SCHED_PROPS_CLIENT :: "byte list" where
  [simp]: "CLEAN_SCHED_PROPS_CLIENT = replicate BAA_MAX_LEN_MSG 0"

fun via_server_loop :: "fiber_element list \<Rightarrow> int \<Rightarrow> byte \<Rightarrow> sockaddr \<Rightarrow> world \<Rightarrow> (int \<times> world) option" where
  "via_server_loop [] sfd ptype_rcv addr w = Some (0, w)"
| "via_server_loop (fiber # fibers) sfd ptype_rcv addr w =
    (let buf = CLEAN_SCHED_PROPS_CLIENT;
         ((buf, num_packed), w) = baa_pack buf ''cLLLL'' (sched_args fiber w) w;
         w = (if num_packed > BAA_MAX_LEN_MSG
              then baa_info_msg ''message is to longer (%d) than %d'' [FInt (int num_packed), FInt (int BAA_MAX_LEN_MSG)] w
              else w);
         (r, w) = sys (Sock (Sendto sfd (take num_packed buf) addr)) w
     in if rv r \<noteq> int num_packed
        then Some (-1, baa_errno_msg ''num_send != num_packed in %s'' [FStr ''baa_set_schedule_props_via_server''] w)
        else
          (case read_rcv_ack sfd ptype_rcv addr w of
             None \<Rightarrow> None
           | Some (ok, ptype_rcv, addr, w) \<Rightarrow>
               if ok then via_server_loop fibers sfd ptype_rcv addr w else Some (-1, w)))"

definition baa_set_schedule_props_via_server ::
  "fiber_element list \<Rightarrow> int \<Rightarrow> string \<Rightarrow> world \<Rightarrow> (int \<times> world) option" where
  "baa_set_schedule_props_via_server fiber_array sfd kdo_f w =
    via_server_loop fiber_array sfd (ucast (unspec w)) (UnixAddr (take 107 kdo_f)) w"

section \<open>The server\<close>

definition mem_fill :: "nat \<Rightarrow> nat \<Rightarrow> byte \<Rightarrow> mem \<Rightarrow> mem" where
  "mem_fill a n b m = (\<lambda>x. if a \<le> x \<and> x < a + n then b else m x)"

text \<open>The members of a \<open>fiber_element_t\<close> at an address, at their LP64 offsets.\<close>

definition fiber_at :: "nat \<Rightarrow> mem \<Rightarrow> fiber_element" where
  "fiber_at a m = \<lparr>kernel_tid = ucast (load_le 4 (a + 8) m), sched_priority = ucast (load_le 4 (a + 24) m),
     fe_t = \<lparr>tv_sec = sint (load_le 8 (a + 32) m), tv_nsec = sint (load_le 8 (a + 40) m)\<rparr>,
     policy = ucast (load_le 4 (a + 48) m), cpu = ucast (load_le 4 (a + 52) m),
     dt = ucast (load_le 4 (a + 56) m), dt_sec = ucast (load_le 4 (a + 60) m),
     safe_stack_fac = ucast (load_le 4 (a + 64) m), safe_heap_fac = ucast (load_le 4 (a + 68) m)\<rparr>"

definition unpack_dests :: "nat \<Rightarrow> nat \<Rightarrow> c_ulong list" where
  "unpack_dests fe pt = map of_nat [pt, fe + 8, fe + 48, fe + 52, fe + 24]"

definition print_sched_infos_configured :: "c_int \<Rightarrow> world \<Rightarrow> world" where
  "print_sched_infos_configured tid w =
    (let w = baa_info_msg ''--------_BEGIN_-----------'' [] w;
         w = baa_info_msg ''show CONFIGURED values'' [] w;
         w = baa_print_sched_time_slice_ms tid w;
         w = baa_print_sched_priority tid w;
         w = baa_print_sched_policy tid w
     in baa_info_msg ''---------_END_------------'' [] w)"

definition CLEAN_SCHED_PROPS_SERVER :: "nat \<Rightarrow> mem \<Rightarrow> byte list \<times> sockaddr \<times> mem" where
  [simp]: "CLEAN_SCHED_PROPS_SERVER fe m = (replicate BAA_MAX_LEN_MSG 0, NoAddr, mem_fill fe 72 0 m)"

definition schedule_server_iteration :: "nat \<Rightarrow> nat \<Rightarrow> int \<Rightarrow> mem \<Rightarrow> world \<Rightarrow> mem \<times> world" where
  "schedule_server_iteration fe pt kdo_s m w =
    (let (buf, addr, m) = CLEAN_SCHED_PROPS_SERVER fe m;
         (r, w) = sys (Sock (Recvfrom kdo_s BAA_MAX_LEN_MSG)) w
     in if rv r = -1 then (m, w)
        else
          (let buf = received BAA_MAX_LEN_MSG r buf;
               addr = sender r addr;
               fn = ''baa_schedule_server_th''
           in if buf ! 0 = PTYPE_SCHED_PROPS then
                (let ((m, num_unpacked), w) = baa_unpack buf ''cLLLL'' (unpack_dests fe pt) m w
                 in if num_unpacked > BAA_MAX_LEN_MSG
                    then (m, SEND_ERROR fn kdo_s addr
                               (baa_error_msg ''message is to longer (%d) than %d''
                                 [FInt (int num_unpacked), FInt (int BAA_MAX_LEN_MSG)] w))
                    else
                      (let w = SEND_RCV_ACK fn kdo_s addr w;
                           (err, w) = baa_set_schedule_props [fiber_at fe m] w
                       in if err \<noteq> 0
                          then (m, SEND_ERROR fn kdo_s addr
                                     (baa_error_msg ''could not set schedule properties'' [] w))
                          else
                            (let w = SEND_CMD_ACK fn kdo_s addr w
                             in (m, print_sched_infos_configured (kernel_tid (fiber_at fe m)) w))))
              else (m, baa_error_msg ''protocol type %d not supported'' [FInt (uint (buf ! 0))] w)))"

fun schedule_server_run :: "nat \<Rightarrow> nat \<Rightarrow> nat \<Rightarrow> int \<Rightarrow> mem \<Rightarrow> world \<Rightarrow> mem \<times> world" where
  "schedule_server_run 0 fe pt kdo_s m w = (m, w)"
| "schedule_server_run (Suc n) fe pt kdo_s m w =
    (let (m, w) = schedule_server_iteration fe pt kdo_s m w in schedule_server_run n fe pt kdo_s m w)"

definition baa_schedule_server_th :: "nat \<Rightarrow> nat \<Rightarrow> nat \<Rightarrow> int \<Rightarrow> mem \<Rightarrow> world \<Rightarrow> mem \<times> world" where
  "baa_schedule_server_th n fe pt kdo_s m w =
    (let (r, w) = sys (Sched Pthread_detach) w;
         w = (if rv r \<noteq> 0
              then baa_th_error_msg (rv r) ''pthread_detach in %s'' [FStr ''baa_schedule_server_th''] w else w);
         m = store_le 1 0 pt m
     in schedule_server_run n fe pt kdo_s m w)"

section \<open>Requests\<close>

text \<open>The request for a fiber: 17 bytes, the type and four numbers in network byte order.\<close>

definition sched_message :: "fiber_element \<Rightarrow> byte list" where
  "sched_message fiber =
    enc_seq enc_field ''cLLLL''
      [ucast PTYPE_SCHED_PROPS, scast (kernel_tid fiber), scast (policy fiber), scast (cpu fiber),
       scast (sched_priority fiber)]"

lemma length_sched_message [simp]: "length (sched_message fiber) = 17"
  by (simp add: sched_message_def wire_size_def)

lemma be_bytes_cong: "take_bit (8 * n) u = take_bit (8 * n) v \<Longrightarrow> be_bytes n u = be_bytes n v"
proof (induction n arbitrary: u v)
  case (Suc n)
  have "take_bit (8 * n) (drop_bit 8 x) = drop_bit 8 (take_bit (8 * Suc n) x)" for x :: c_ulong
    by (simp add: take_bit_drop_bit add.commute)
  then have "be_bytes n (drop_bit 8 u) = be_bytes n (drop_bit 8 v)" using Suc by metis
  moreover have "(ucast x :: byte) = ucast (take_bit (8 * Suc n) x)" for x :: c_ulong
    by (rule bit_word_eqI) (auto simp: bit_simps)
  then have "(ucast u :: byte) = ucast v" using Suc.prems by metis
  ultimately show ?case by (simp add: be_bytes_Suc)
qed (simp add: be_bytes_def)

lemma take_bit_int_slot: "n \<le> 32 \<Longrightarrow> take_bit n (int_slot x w) = take_bit n (scast x)"
proof -
  assume n: "n \<le> 32"
  have "bit (int_slot x w) i = bit (scast x :: c_ulong) i" if "i < n" for i
  proof (cases "i = 31")
    case False
    then have "i < 31" using that n by simp
    then show ?thesis by (simp add: int_slot_def bit_simps)
  qed (simp add: int_slot_def bit_simps)
  then show ?thesis by (intro bit_word_eqI) (auto simp: bit_take_bit_iff)
qed

lemma enc_int_slot: "enc_field f (int_slot x w) = enc_field f (scast x)"
  unfolding enc_field_def
  by (rule be_bytes_cong, rule take_bit_int_slot) (simp add: wire_size_def)

lemma pack_request:
  "baa_pack (replicate BAA_MAX_LEN_MSG 0) ''cLLLL'' (sched_args fiber w) w =
    ((sched_message fiber @ replicate 83 0, 17), w)"
proof -
  have "enc_seq enc_field ''cLLLL'' (sched_args fiber w) = sched_message fiber"
    by (simp add: sched_args_def sched_message_def enc_int_slot PTYPE_SCHED_PROPS_def)
  moreover have "list_all known ''cLLLL''" "fmt_size ''cLLLL'' = 17"
    by (simp_all add: known_def wire_size_def)
  ultimately show ?thesis
    by (simp add: baa_pack_def pack_loop_enc BAA_MAX_LEN_MSG_def sched_args_def overwrite_def
        del: pack_loop.simps enc_seq.simps)
qed

section \<open>The overlapping stores of the server\<close>

text \<open>The addresses of the two locals the server unpacks into: they do not overlap and do not
  wrap around.\<close>

definition frame_ok :: "nat \<Rightarrow> nat \<Rightarrow> bool" where
  "frame_ok fe pt \<longleftrightarrow> fe + 72 < 2 ^ 64 \<and> pt < 2 ^ 64 \<and> (pt < fe \<or> fe + 72 \<le> pt)"

definition server_mem :: "nat \<Rightarrow> nat \<Rightarrow> c_ulong list \<Rightarrow> mem \<Rightarrow> mem" where
  "server_mem fe pt vs m = store_seq ''cLLLL'' (unpack_dests fe pt) vs (mem_fill fe 72 0 m)"

lemma unat_dest: "n < 2 ^ 64 \<Longrightarrow> unat (of_nat n :: c_ulong) = n"
  by (simp add: unat_of_nat)

lemma server_mem_eq:
  assumes "frame_ok fe pt"
  shows "server_mem fe pt [v0, v1, v2, v3, v4] m =
    store_le 8 v4 (fe + 24) (store_le 8 v3 (fe + 52) (store_le 8 v2 (fe + 48)
      (store_le 8 v1 (fe + 8) (store_le 1 v0 pt (mem_fill fe 72 0 m)))))"
proof -
  have "unat (of_nat k :: c_ulong) = k" if "k \<in> {pt, fe + 8, fe + 48, fe + 52, fe + 24}" for k
    using assms that by (intro unat_dest) (auto simp: frame_ok_def)
  then show ?thesis
    unfolding server_mem_def unpack_dests_def by (simp add: dest_size_def del: of_nat_add)
qed

lemma load_fill: "a \<le> x \<Longrightarrow> x + n \<le> a + k \<Longrightarrow> load_le n x (mem_fill a k 0 m) = 0"
  by (induction n arbitrary: x) (simp_all add: mem_fill_def)

lemma ucast_take_bit_32: "(ucast (take_bit 32 v) :: 32 word) = ucast (v :: c_ulong)"
  by (rule bit_word_eqI) (simp add: bit_simps)

text \<open>What the members hold after the stores, in the order of the format: the store to
  \<open>policy\<close> runs over \<open>cpu\<close>, which the next store then sets, and the store to \<open>cpu\<close> runs over
  \<open>dt\<close>, which keeps the sign of the processor number.\<close>

lemma server_fiber:
  assumes "frame_ok fe pt"
  shows "fiber_at fe (server_mem fe pt [v0, v1, v2, v3, v4] m) =
    \<lparr>kernel_tid = ucast v1, sched_priority = ucast v4, fe_t = \<lparr>tv_sec = 0, tv_nsec = 0\<rparr>,
     policy = ucast v2, cpu = ucast v3, dt = ucast (drop_bit 32 v3), dt_sec = 0,
     safe_stack_fac = 0, safe_heap_fac = 0\<rparr>"
proof -
  have pt: "pt < fe \<or> fe + 72 \<le> pt" using assms by (simp add: frame_ok_def)
  have dtl: "load_le 4 (fe + 56) (store_le 8 v3 (fe + 52) m') = take_bit 32 (drop_bit 32 v3)" for m'
    using load_store_offset[of 4 4 8 "fe + 52" v3 m'] by (simp add: add.assoc)
  have same: "load_le 4 a (store_le 8 v a m') = take_bit 32 v" for a v m'
    using load_store_same[of 4 8 a v m'] by simp
  have ptl: "load_le n (fe + k) (store_le (Suc 0) v0 pt m') = load_le n (fe + k) m'" if "k + n \<le> 72" for n k m'
    using pt that by (intro load_store_disjoint) auto
  show ?thesis
    using pt unfolding server_mem_eq[OF assms] fiber_at_def
    by (simp add: load_store_disjoint same dtl ptl load_fill ucast_take_bit_32)
qed

section \<open>One request at the server\<close>

definition configured_queries :: "c_int \<Rightarrow> call list" where
  "configured_queries tid =
    [Sched (Sched_rr_get_interval tid), Sched (Sched_getparam tid), Sched (Sched_getscheduler tid)]"

lemma print_configured_simps [simp]:
  "map fst (io (print_sched_infos_configured tid w)) = map fst (io w) @ configured_queries tid"
  "w_os (print_sched_infos_configured tid w) = w_os w"
  "w_fault (print_sched_infos_configured tid w) = w_fault w"
  by (simp_all add: print_sched_infos_configured_def print_query_simps configured_queries_def Let_def)

definition request_values :: "reply \<Rightarrow> c_ulong list" where
  "request_values r = dec_seq wire_size dec_field ''cLLLL'' (request_buffer r)"

lemma server_unpack:
  "baa_unpack (request_buffer r) ''cLLLL'' (unpack_dests fe pt) (mem_fill fe 72 0 m) w =
    ((server_mem fe pt (request_values r) m, 17), w)"
proof -
  have "fmt_size ''cLLLL'' = 17" "list_all known ''cLLLL''" by (simp_all add: wire_size_def known_def)
  moreover have "length (request_buffer r) = 100" by (simp add: request_buffer_def BAA_MAX_LEN_MSG_def)
  moreover have "length (unpack_dests fe pt) = 5" by (simp add: unpack_dests_def)
  ultimately show ?thesis
    unfolding baa_unpack_def server_mem_def request_values_def
    by (subst unpack_loop_dec) simp_all
qed

text \<open>The calls one received datagram causes.\<close>

definition served :: "nat \<Rightarrow> nat \<Rightarrow> int \<Rightarrow> reply \<Rightarrow> mem \<Rightarrow> call list" where
  "served fe pt kdo_s r m =
    (let fiber = fiber_at fe (server_mem fe pt (request_values r) m)
     in [Sock (Sendto kdo_s [PTYPE_RCV_ACK] (rfrom r))] @ props_calls fiber @
        [Sock (Sendto kdo_s [PTYPE_CMD_ACK] (rfrom r))] @ configured_queries (kernel_tid fiber))"

lemma server_iteration_request:
  fixes w kdo_s
  defines "r \<equiv> answer w (Sock (Recvfrom kdo_s BAA_MAX_LEN_MSG))"
  assumes "rv r \<noteq> -1" "request_buffer r ! 0 = PTYPE_SCHED_PROPS"
  shows "map fst (io (snd (schedule_server_iteration fe pt kdo_s m w))) =
      map fst (io w) @ Sock (Recvfrom kdo_s BAA_MAX_LEN_MSG) # served fe pt kdo_s r m"
    and "w_os (snd (schedule_server_iteration fe pt kdo_s m w)) = w_os w"
    and "w_fault (snd (schedule_server_iteration fe pt kdo_s m w)) = w_fault w"
proof -
  let ?w = "snd (sys (Sock (Recvfrom kdo_s BAA_MAX_LEN_MSG)) w)"
  let ?m = "server_mem fe pt (request_values r) m"
  let ?f = "fiber_at fe ?m" and ?fn = "''baa_schedule_server_th''"
  have eq: "schedule_server_iteration fe pt kdo_s m w =
    (?m, print_sched_infos_configured (kernel_tid ?f) (SEND_CMD_ACK ?fn kdo_s (rfrom r)
      (snd (baa_set_schedule_props [?f] (SEND_RCV_ACK ?fn kdo_s (rfrom r) ?w)))))"
    using assms(2,3) unfolding schedule_server_iteration_def
    by (simp add: split_def Let_def sys_simps r_def[symmetric] request_buffer_def[symmetric]
        server_unpack BAA_MAX_LEN_MSG_def[symmetric] baa_set_schedule_props_def)
      (simp add: BAA_MAX_LEN_MSG_def)
  show "map fst (io (snd (schedule_server_iteration fe pt kdo_s m w))) =
      map fst (io w) @ Sock (Recvfrom kdo_s BAA_MAX_LEN_MSG) # served fe pt kdo_s r m"
    unfolding eq by (simp add: send_defs served_def Let_def sys_simps set_props_one_io baa_set_schedule_props_def)
  show "w_os (snd (schedule_server_iteration fe pt kdo_s m w)) = w_os w"
    "w_fault (snd (schedule_server_iteration fe pt kdo_s m w)) = w_fault w"
    unfolding eq by (simp_all add: send_defs sys_simps set_props_one_io baa_set_schedule_props_def)
qed

lemma field_value_scast: "field_value (CHR ''L'') (scast (x :: c_int)) = scast x"
  unfolding field_value_def wire_size_def
  by (rule bit_word_eqI) (auto simp: bit_simps min_def)

lemma server_iteration_ignored:
  assumes "rv (answer w (Sock (Recvfrom kdo_s BAA_MAX_LEN_MSG))) = -1 \<or>
    request_buffer (answer w (Sock (Recvfrom kdo_s BAA_MAX_LEN_MSG))) ! 0 \<noteq> PTYPE_SCHED_PROPS"
  shows "map fst (io (snd (schedule_server_iteration fe pt kdo_s m w))) =
      map fst (io w) @ [Sock (Recvfrom kdo_s BAA_MAX_LEN_MSG)]"
    and "w_fault (snd (schedule_server_iteration fe pt kdo_s m w)) = w_fault w"
  using assms
  by (auto simp: schedule_server_iteration_def split_def Let_def sys_simps request_buffer_def)

interpretation sched: ack_server kdo_s "schedule_server_iteration fe pt kdo_s"
  "\<lambda>n. schedule_server_run n fe pt kdo_s" "\<lambda>b. b = PTYPE_SCHED_PROPS"
  "\<lambda>m r. tl (served fe pt kdo_s r m)" for kdo_s fe pt
proof unfold_locales
  fix w m show "w_fault (snd (schedule_server_iteration fe pt kdo_s m w)) = w_fault w"
    using server_iteration_request(3) server_iteration_ignored(2) by blast
qed (auto simp: split_def server_iteration_request server_iteration_ignored served_def Let_def
  props_calls_def configured_queries_def ptype_defs)

lemma field_value_zero [simp]: "field_value f 0 = 0"
  by (simp add: field_value_def)

lemma be_value_zeros [simp]: "be_value (replicate n 0) = 0"
  by (simp add: be_value_def fold_replicate) (induction n; simp)

lemma request_of_message:
  assumes "take BAA_MAX_LEN_MSG (rbytes r) = sched_message fiber"
  shows "request_buffer r ! 0 = PTYPE_SCHED_PROPS"
    and "request_values r = [0, scast (kernel_tid fiber), scast (policy fiber), scast (cpu fiber), scast (sched_priority fiber)]"
proof -
  have buf: "request_buffer r = sched_message fiber @ replicate 83 0"
    using assms by (simp add: request_buffer_def received_def overwrite_def BAA_MAX_LEN_MSG_def)
  show "request_buffer r ! 0 = PTYPE_SCHED_PROPS"
    unfolding buf by (simp add: sched_message_def enc_field_def wire_size_def be_bytes_small PTYPE_SCHED_PROPS_def)
  have "list_all known ''cLLLL''" by (simp add: known_def)
  then show "request_values r = [0, scast (kernel_tid fiber), scast (policy fiber), scast (cpu fiber), scast (sched_priority fiber)]"
    unfolding request_values_def buf sched_message_def
    by (subst fields.dec_enc_seq) (simp_all add: field_value_scast PTYPE_SCHED_PROPS_def field_value_zero)
qed

lemma ucast_scast_int: "(ucast (scast x :: c_ulong) :: c_int) = x"
proof (rule bit_word_eqI)
  fix n assume "n < LENGTH(32)"
  then have "n < 31 \<or> n = 31" by auto
  then show "bit (ucast (scast x :: c_ulong) :: c_int) n = bit x n" by (auto simp: bit_simps)
qed

lemma served_message:
  assumes "frame_ok fe pt" "take BAA_MAX_LEN_MSG (rbytes r) = sched_message fiber"
  shows "served fe pt kdo_s r m =
    [Sock (Sendto kdo_s [PTYPE_RCV_ACK] (rfrom r))] @ props_calls fiber @
    [Sock (Sendto kdo_s [PTYPE_CMD_ACK] (rfrom r))] @ configured_queries (kernel_tid fiber)"
  by (simp add: served_def request_of_message[OF assms(2)] server_fiber[OF assms(1)] ucast_scast_int props_calls_def)

text \<open>
  C3. The server carries out what the client asked. When a datagram with the request for a fiber
  arrives, the server acknowledges it to its sender, requests exactly the affinity, policy
  and priority of that fiber, acknowledges the command, and then only queries: the
  overlapping 64 bit stores into the 32 bit members do not change any value that is used,
  and no access is out of bounds.
\<close>
theorem server_sets_requested:
  assumes "frame_ok fe pt" "rv (answer w (Sock (Recvfrom kdo_s BAA_MAX_LEN_MSG))) \<noteq> -1"
    and "take BAA_MAX_LEN_MSG (rbytes (answer w (Sock (Recvfrom kdo_s BAA_MAX_LEN_MSG)))) = sched_message fiber"
  shows "map fst (io (snd (schedule_server_iteration fe pt kdo_s m w))) =
      map fst (io w) @ [Sock (Recvfrom kdo_s BAA_MAX_LEN_MSG),
        Sock (Sendto kdo_s [PTYPE_RCV_ACK] (rfrom (answer w (Sock (Recvfrom kdo_s BAA_MAX_LEN_MSG)))))] @
      props_calls fiber @
      [Sock (Sendto kdo_s [PTYPE_CMD_ACK] (rfrom (answer w (Sock (Recvfrom kdo_s BAA_MAX_LEN_MSG)))))] @
      configured_queries (kernel_tid fiber) \<and>
    w_fault (snd (schedule_server_iteration fe pt kdo_s m w)) = w_fault w"
  using server_iteration_request[OF assms(2) request_of_message(1)[OF assms(3)], of fe pt m]
    served_message[OF assms(1,3)] by simp

definition one_request :: "nat \<Rightarrow> call \<Rightarrow> reply" where
  "one_request n c =
    (case c of Sock (Recvfrom s k) \<Rightarrow> (bytes_reply (sched_message (example_fiber\<lparr>cpu := 3, kernel_tid := 77\<rparr>)))\<lparr>rfrom := UnixAddr ''client''\<rparr>
     | Sock (Sendto s bs a) \<Rightarrow> reply_of (int (length bs)) | _ \<Rightarrow> reply_of 0)"

lemma one_request_recv:
  "rv (answer (init_world one_request) (Sock (Recvfrom s k))) = 17"
  "rbytes (answer (init_world one_request) (Sock (Recvfrom s k))) = sched_message (example_fiber\<lparr>cpu := 3, kernel_tid := 77\<rparr>)"
  "rfrom (answer (init_world one_request) (Sock (Recvfrom s k))) = UnixAddr ''client''"
  by (simp_all add: answer_def one_request_def)

theorem server_sets_requested_witness:
  "map fst (io (snd (schedule_server_iteration 4096 8192 5 (\<lambda>_. 0xAA) (init_world one_request)))) =
    [Sock (Recvfrom 5 BAA_MAX_LEN_MSG), Sock (Sendto 5 [PTYPE_RCV_ACK] (UnixAddr ''client'')),
     Sched (Sched_setaffinity 77 [3]), Sched (Sched_setscheduler 77 1 10),
     Sock (Sendto 5 [PTYPE_CMD_ACK] (UnixAddr ''client'')), Sched (Sched_rr_get_interval 77),
     Sched (Sched_getparam 77), Sched (Sched_getscheduler 77)]"
  using server_sets_requested[of 4096 8192 "init_world one_request" 5 "example_fiber\<lparr>cpu := 3, kernel_tid := 77\<rparr>" "\<lambda>_. 0xAA"]
  by (simp add: one_request_recv frame_ok_def BAA_MAX_LEN_MSG_def props_calls_def cpu_set_def
      example_fiber_def configured_queries_def)

text \<open>
  Anything else is not acknowledged and changes nothing: when the receive fails, or when the
  first byte is not the type of a request, the iteration makes no call but the receive and
  diagnostics.
\<close>
theorem server_ignores_others:
  assumes "rv (answer w (Sock (Recvfrom kdo_s BAA_MAX_LEN_MSG))) = -1 \<or>
    request_buffer (answer w (Sock (Recvfrom kdo_s BAA_MAX_LEN_MSG))) ! 0 \<noteq> PTYPE_SCHED_PROPS"
  shows "map fst (io (snd (schedule_server_iteration fe pt kdo_s m w))) =
      map fst (io w) @ [Sock (Recvfrom kdo_s BAA_MAX_LEN_MSG)] \<and>
    w_fault (snd (schedule_server_iteration fe pt kdo_s m w)) = w_fault w"
  using server_iteration_ignored[OF assms] by blast

theorem server_ignores_others_witness:
  "map fst (io (snd (schedule_server_iteration 4096 8192 5 (\<lambda>_. 0) (init_world (\<lambda>_ _. bytes_reply [0x04]))))) =
    [Sock (Recvfrom 5 BAA_MAX_LEN_MSG)]"
  using server_ignores_others[of "init_world (\<lambda>_ _. bytes_reply [0x04])" 5 4096 8192 "\<lambda>_. 0"]
  by (simp add: answer_def request_buffer_def received_def overwrite_def BAA_MAX_LEN_MSG_def PTYPE_SCHED_PROPS_def)

text \<open>
  The server does not check how much it received. An empty datagram leaves the zeroed buffer, whose
  first byte is the type of a request: it is acknowledged and carried out for thread 0,
  which is the server thread itself, with policy 0, priority 0 and processor 0.
\<close>
theorem empty_datagram_is_request:
  assumes "frame_ok fe pt" "rv (answer w (Sock (Recvfrom kdo_s BAA_MAX_LEN_MSG))) = 0"
    and "rbytes (answer w (Sock (Recvfrom kdo_s BAA_MAX_LEN_MSG))) = []"
  shows "\<exists>l. map fst (io (snd (schedule_server_iteration fe pt kdo_s m w))) =
    map fst (io w) @ Sock (Recvfrom kdo_s BAA_MAX_LEN_MSG) #
    Sock (Sendto kdo_s [PTYPE_RCV_ACK] (rfrom (answer w (Sock (Recvfrom kdo_s BAA_MAX_LEN_MSG))))) #
    Sched (Sched_setaffinity 0 [0]) # Sched (Sched_setscheduler 0 0 0) # l"
proof -
  let ?r = "answer w (Sock (Recvfrom kdo_s BAA_MAX_LEN_MSG))"
  have buf: "request_buffer ?r = replicate 100 0"
    using assms(3) by (simp add: request_buffer_def received_def BAA_MAX_LEN_MSG_def)
  then have "request_values ?r = [0, 0, 0, 0, 0]"
    by (simp add: request_values_def dec_field_def wire_size_def be_value_small)
  then have "props_calls (fiber_at fe (server_mem fe pt (request_values ?r) m)) =
      [Sched (Sched_setaffinity 0 [0]), Sched (Sched_setscheduler 0 0 0)]"
    by (simp add: server_fiber[OF assms(1)] props_calls_def cpu_set_def)
  moreover have "request_buffer ?r ! 0 = PTYPE_SCHED_PROPS" by (simp add: buf PTYPE_SCHED_PROPS_def)
  ultimately show ?thesis
    using server_iteration_request(1)[of w kdo_s fe pt m] assms(2) by (simp add: served_def Let_def)
qed

theorem empty_datagram_is_request_witness:
  "\<exists>l. map fst (io (snd (schedule_server_iteration 4096 8192 5 (\<lambda>_. 0) (init_world (\<lambda>_ _. reply_of 0))))) =
    Sock (Recvfrom 5 BAA_MAX_LEN_MSG) # Sock (Sendto 5 [PTYPE_RCV_ACK] NoAddr) #
    Sched (Sched_setaffinity 0 [0]) # Sched (Sched_setscheduler 0 0 0) # l"
  using empty_datagram_is_request[of 4096 8192 "init_world (\<lambda>_ _. reply_of 0)" 5 "\<lambda>_. 0"]
  by (simp add: answer_def frame_ok_def)

text \<open>
  For every number of iterations and whatever arrives, the server thread detaches itself, receives
  once per iteration and sends at most one acknowledgement of reception per datagram, and
  it never accesses memory out of bounds.
\<close>
theorem schedule_server_th_safe:
  "count_list (map fst (io (snd (baa_schedule_server_th n fe pt kdo_s m w)))) (Sock (Recvfrom kdo_s BAA_MAX_LEN_MSG)) =
     count_list (map fst (io w)) (Sock (Recvfrom kdo_s BAA_MAX_LEN_MSG)) + n \<and>
   length (filter (is_ack kdo_s) (map fst (io (snd (baa_schedule_server_th n fe pt kdo_s m w))))) \<le>
     length (filter (is_ack kdo_s) (map fst (io w))) + n \<and>
   w_fault (snd (baa_schedule_server_th n fe pt kdo_s m w)) = w_fault w"
proof -
  let ?w1 = "snd (sys (Sched Pthread_detach) w)" and ?e = "rv (answer w (Sched Pthread_detach))"
  let ?w2 = "if ?e \<noteq> 0 then baa_th_error_msg ?e ''pthread_detach in %s'' [FStr ''baa_schedule_server_th''] ?w1 else ?w1"
  have th: "baa_schedule_server_th n fe pt kdo_s m w = schedule_server_run n fe pt kdo_s (store_le 1 0 pt m) ?w2"
    by (simp add: baa_schedule_server_th_def split_def Let_def sys_simps)
  have "map fst (io ?w2) = map fst (io w) @ [Sched Pthread_detach]" "w_fault ?w2 = w_fault w"
    by (simp_all add: sys_simps)
  then show ?thesis
    unfolding th using sched.run_counts[where kdo_s=kdo_s and fe=fe and pt=pt and n=n and s="store_le 1 0 pt m" and w="?w2"]
      sched.run_fault[where kdo_s=kdo_s and fe=fe and pt=pt and n=n and s="store_le 1 0 pt m" and w="?w2"]
    by (simp del: filter_map)
qed

section \<open>The client\<close>

lemma read_ack_step:
  assumes "rv (answer w (Sock (Recvfrom sfd 1))) \<noteq> -1" "rbytes (answer w (Sock (Recvfrom sfd 1))) = [b]"
    "rfrom (answer w (Sock (Recvfrom sfd 1))) \<in> {NoAddr, addr}"
  shows "b = PTYPE_RCV_ACK \<Longrightarrow> read_rcv_ack sfd p addr w =
      read_rcv_ack sfd PTYPE_RCV_ACK addr (snd (sys (Sock (Recvfrom sfd 1)) w))"
    and "b = PTYPE_CMD_ACK \<Longrightarrow> read_rcv_ack sfd p addr w =
      Some (True, PTYPE_CMD_ACK, addr, snd (sys (Sock (Recvfrom sfd 1)) w))"
  using assms by (subst read_rcv_ack.simps, auto simp: Let_def sender_def ptype_defs)+

text \<open>An environment in which every request is sent and answered by the two acknowledgements:
  the replies to the calls from position \<open>n\<close> on.\<close>

definition acked :: "int \<Rightarrow> sockaddr \<Rightarrow> (nat \<Rightarrow> call \<Rightarrow> reply) \<Rightarrow> nat \<Rightarrow> bool" where
  "acked sfd addr os n \<longleftrightarrow>
    (\<forall>bs. rv (os n (Sock (Sendto sfd bs addr))) = int (length bs)) \<and>
    (\<forall>(k, p) \<in> {(1, PTYPE_RCV_ACK), (2, PTYPE_CMD_ACK)}.
      rv (os (n + k) (Sock (Recvfrom sfd 1))) = 1 \<and> rbytes (os (n + k) (Sock (Recvfrom sfd 1))) = [p] \<and>
      rfrom (os (n + k) (Sock (Recvfrom sfd 1))) \<in> {NoAddr, addr})"

definition request_calls :: "int \<Rightarrow> sockaddr \<Rightarrow> fiber_element \<Rightarrow> call list" where
  "request_calls sfd addr fiber =
    [Sock (Sendto sfd (sched_message fiber) addr), Sock (Recvfrom sfd 1), Sock (Recvfrom sfd 1)]"

lemma via_server_step:
  assumes "acked sfd addr (w_os w) (length (w_trace w))"
  shows "\<exists>w'. via_server_loop (fiber # fibers) sfd p addr w = via_server_loop fibers sfd PTYPE_CMD_ACK addr w' \<and>
    map fst (io w') = map fst (io w) @ request_calls sfd addr fiber \<and>
    w_os w' = w_os w \<and> length (w_trace w') = length (w_trace w) + 3"
proof -
  let ?rc = "Sock (Recvfrom sfd 1)" and ?sc = "Sock (Sendto sfd (sched_message fiber) addr)"
  let ?w1 = "snd (sys ?sc w)" let ?w2 = "snd (sys ?rc ?w1)" let ?w3 = "snd (sys ?rc ?w2)"
  have snd: "rv (answer w ?sc) = 17" using assms by (simp add: acked_def answer_def)
  have "read_rcv_ack sfd p addr ?w1 = read_rcv_ack sfd PTYPE_RCV_ACK addr ?w2"
    using assms by (intro read_ack_step) (auto simp: acked_def answer_def sys_simps)
  also have "\<dots> = Some (True, PTYPE_CMD_ACK, addr, ?w3)"
    using assms by (intro read_ack_step) (auto simp: acked_def answer_def sys_simps)
  finally have rd: "read_rcv_ack sfd p addr ?w1 = Some (True, PTYPE_CMD_ACK, addr, ?w3)" .
  have "via_server_loop (fiber # fibers) sfd p addr w = via_server_loop fibers sfd PTYPE_CMD_ACK addr ?w3"
    by (simp add: pack_request split_def Let_def sys_simps snd rd BAA_MAX_LEN_MSG_def[symmetric])
      (simp add: BAA_MAX_LEN_MSG_def)
  then show ?thesis
    by (intro exI[of _ ?w3]) (simp add: request_calls_def sys_simps)
qed

lemma via_server_acked:
  assumes "\<forall>k<length fibers. acked sfd addr (w_os w) (length (w_trace w) + 3 * k)"
  shows "\<exists>w'. via_server_loop fibers sfd p addr w = Some (0, w') \<and>
    map fst (io w') = map fst (io w) @ concat (map (request_calls sfd addr) fibers)"
  using assms
proof (induction fibers arbitrary: w p)
  case (Cons fiber fibers)
  then have "acked sfd addr (w_os w) (length (w_trace w))" by (metis add.right_neutral length_greater_0_conv list.distinct(1) mult_0_right)
  from via_server_step[OF this] obtain w' where
    w': "via_server_loop (fiber # fibers) sfd p addr w = via_server_loop fibers sfd PTYPE_CMD_ACK addr w'"
      "map fst (io w') = map fst (io w) @ request_calls sfd addr fiber"
      "w_os w' = w_os w" "length (w_trace w') = length (w_trace w) + 3" by blast
  have "\<forall>k<length fibers. acked sfd addr (w_os w') (length (w_trace w') + 3 * k)"
  proof (intro allI impI)
    fix k assume "k < length fibers"
    then show "acked sfd addr (w_os w') (length (w_trace w') + 3 * k)"
      using Cons.prems w' by (auto dest: spec[of _ "Suc k"] simp: algebra_simps)
  qed
  with Cons.IH[of w' PTYPE_CMD_ACK] w' show ?case by auto
qed simp

section \<open>Client and server together\<close>

fun datagrams :: "call list \<Rightarrow> byte list list" where
  "datagrams [] = []"
| "datagrams (Sock (Sendto s bs a) # cs) = bs # datagrams cs"
| "datagrams (c # cs) = datagrams cs"

lemma datagrams_append [simp]: "datagrams (xs @ ys) = datagrams xs @ datagrams ys"
  by (induction xs rule: datagrams.induct) simp_all

fun sets_props :: "call \<Rightarrow> bool" where
  "sets_props (Sched (Sched_setaffinity t c)) = True"
| "sets_props (Sched (Sched_setscheduler t p q)) = True"
| "sets_props c = False"

text \<open>The server receives the given datagrams, one per iteration.\<close>

fun delivers :: "nat \<Rightarrow> nat \<Rightarrow> int \<Rightarrow> byte list list \<Rightarrow> mem \<Rightarrow> world \<Rightarrow> bool" where
  "delivers fe pt kdo_s [] m w = True"
| "delivers fe pt kdo_s (d # ds) m w =
    (rv (answer w (Sock (Recvfrom kdo_s BAA_MAX_LEN_MSG))) = int (length d) \<and>
     rbytes (answer w (Sock (Recvfrom kdo_s BAA_MAX_LEN_MSG))) = d \<and>
     (let (m, w) = schedule_server_iteration fe pt kdo_s m w in delivers fe pt kdo_s ds m w))"

lemma served_props:
  assumes "frame_ok fe pt" "rv (answer w (Sock (Recvfrom kdo_s BAA_MAX_LEN_MSG))) = int (length (sched_message fiber))"
    and "rbytes (answer w (Sock (Recvfrom kdo_s BAA_MAX_LEN_MSG))) = sched_message fiber"
  shows "filter sets_props (map fst (io (snd (schedule_server_iteration fe pt kdo_s m w)))) =
    filter sets_props (map fst (io w)) @ props_calls fiber"
proof -
  let ?r = "answer w (Sock (Recvfrom kdo_s BAA_MAX_LEN_MSG))"
  have msg: "rv ?r \<noteq> -1" "take BAA_MAX_LEN_MSG (rbytes ?r) = sched_message fiber"
    using assms(2,3) by (auto simp: BAA_MAX_LEN_MSG_def)
  show ?thesis
    using server_iteration_request(1)[OF msg(1) request_of_message(1)[OF msg(2)], of fe pt m]
      served_message[OF assms(1) msg(2)] by (simp add: props_calls_def configured_queries_def)
qed

lemma server_run_requests:
  assumes "frame_ok fe pt" "delivers fe pt kdo_s (map sched_message fibers) m w"
  shows "filter sets_props (map fst (io (snd (schedule_server_run (length fibers) fe pt kdo_s m w)))) =
    filter sets_props (map fst (io w)) @ concat (map props_calls fibers)"
  using assms(2)
proof (induction fibers arbitrary: m w)
  case (Cons fiber fibers)
  then show ?case using served_props[OF assms(1), of w kdo_s fiber m] by (simp add: split_def Let_def)
qed simp

lemma datagrams_request_calls:
  "datagrams (concat (map (request_calls sfd addr) fibers)) = map sched_message fibers"
  by (induction fibers) (simp_all add: request_calls_def)

lemma sets_props_calls: "filter sets_props (concat (map props_calls fibers)) = concat (map props_calls fibers)"
  by (induction fibers) (simp_all add: props_calls_def)

text \<open>
  C2. Setting the properties through the server is setting them directly. If every request of the
  client is sent and acknowledged, the client returns 0, and a server that receives the
  datagrams the client sent makes exactly the affinity and scheduler calls, in the same
  order and with the same values, that \<open>baa_set_schedule_props\<close> makes for these fibers.
\<close>
theorem via_server_refines_direct:
  assumes "\<forall>k<length fibers. acked sfd (UnixAddr (take 107 kdo_f)) (w_os wc) (length (w_trace wc) + 3 * k)"
    and "frame_ok fe pt"
  shows "\<exists>wc'. baa_set_schedule_props_via_server fibers sfd kdo_f wc = Some (0, wc') \<and>
    (\<forall>m ws wd. delivers fe pt kdo_s (drop (length (datagrams (map fst (io wc)))) (datagrams (map fst (io wc')))) m ws \<longrightarrow>
      (let direct = filter sets_props (map fst (io (snd (baa_set_schedule_props fibers wd))))
       in filter sets_props (map fst (io (snd (schedule_server_run (length fibers) fe pt kdo_s m ws)))) =
          filter sets_props (map fst (io ws)) @ drop (length (filter sets_props (map fst (io wd)))) direct))"
proof -
  let ?addr = "UnixAddr (take 107 kdo_f)"
  obtain wc' where c: "baa_set_schedule_props_via_server fibers sfd kdo_f wc = Some (0, wc')"
    "map fst (io wc') = map fst (io wc) @ concat (map (request_calls sfd ?addr) fibers)"
    using via_server_acked[OF assms(1)] by (auto simp: baa_set_schedule_props_via_server_def)
  have d: "drop (length (datagrams (map fst (io wc)))) (datagrams (map fst (io wc'))) = map sched_message fibers"
    unfolding c(2) by (simp add: datagrams_request_calls)
  have "drop (length (filter sets_props (map fst (io wd))))
      (filter sets_props (map fst (io (snd (baa_set_schedule_props fibers wd))))) = concat (map props_calls fibers)" for wd
    by (simp add: baa_set_schedule_props_def set_props_loop_io sets_props_calls)
  with c(1) show ?thesis
    using server_run_requests[OF assms(2)] by (intro exI[of _ wc'] conjI allI impI) (auto simp: d Let_def)
qed

definition acking :: "nat \<Rightarrow> call \<Rightarrow> reply" where
  "acking n c =
    (case c of Sock (Sendto s bs a) \<Rightarrow> reply_of (int (length bs))
     | Sock (Recvfrom s k) \<Rightarrow> bytes_reply [if n mod 3 = 1 then PTYPE_RCV_ACK else PTYPE_CMD_ACK]
     | _ \<Rightarrow> reply_of 0)"

lemma acking_acked: "acked sfd addr acking (3 * k)"
  by (simp add: acked_def acking_def mod_add_left_eq[symmetric])

theorem via_server_refines_direct_witness:
  "\<exists>wc'. baa_set_schedule_props_via_server [example_fiber, example_fiber\<lparr>cpu := 1\<rparr>] 4 ''/tmp/s'' (init_world acking) = Some (0, wc')"
  using via_server_refines_direct[of "[example_fiber, example_fiber\<lparr>cpu := 1\<rparr>]" 4 "''/tmp/s''" "init_world acking" 4096 8192 5]
    acking_acked by (auto simp: frame_ok_def)

text \<open>The k-th reply to the client's receive is an acknowledgement of reception.\<close>

definition is_rcv_ack :: "reply \<Rightarrow> bool" where
  "is_rcv_ack r \<longleftrightarrow> rv r \<noteq> -1 \<and> (\<exists>bs. rbytes r = PTYPE_RCV_ACK # bs)"

definition is_other_answer :: "reply \<Rightarrow> bool" where
  "is_other_answer r \<longleftrightarrow> rv r = -1 \<or> (\<exists>b bs. rbytes r = b # bs \<and> b \<noteq> PTYPE_RCV_ACK)"

lemma read_ack_last:
  assumes "is_other_answer (answer w (Sock (Recvfrom sfd 1)))"
  shows "\<exists>p' addr' w'. read_rcv_ack sfd p addr w = Some (rv (answer w (Sock (Recvfrom sfd 1))) \<noteq> -1, p', addr', w') \<and>
    map fst (io w') = map fst (io w) @ [Sock (Recvfrom sfd 1)]"
  using assms by (subst read_rcv_ack.simps) (auto simp: is_other_answer_def Let_def sys_simps)

lemma read_ack_again:
  assumes "is_rcv_ack (answer w (Sock (Recvfrom sfd 1)))"
  shows "\<exists>addr'. read_rcv_ack sfd p addr w = read_rcv_ack sfd PTYPE_RCV_ACK addr' (snd (sys (Sock (Recvfrom sfd 1)) w))"
  using assms by (subst read_rcv_ack.simps) (auto simp: is_rcv_ack_def Let_def ptype_defs)

text \<open>
  The client's wait for the command acknowledgement ends with the first answer that is not an
  acknowledgement of reception: after n of those and one other answer or a failed receive,
  it returns, having received exactly n + 1 times; it reports failure exactly when the last
  receive failed.
\<close>
theorem ack_wait_returns:
  assumes "\<forall>i<n. is_rcv_ack (w_os w (length (w_trace w) + i) (Sock (Recvfrom sfd 1)))"
    and "is_other_answer (w_os w (length (w_trace w) + n) (Sock (Recvfrom sfd 1)))"
  shows "\<exists>p' addr' w'. read_rcv_ack sfd p addr w =
      Some (rv (w_os w (length (w_trace w) + n) (Sock (Recvfrom sfd 1))) \<noteq> -1, p', addr', w') \<and>
    map fst (io w') = map fst (io w) @ replicate (Suc n) (Sock (Recvfrom sfd 1))"
  using assms
proof (induction n arbitrary: w p addr)
  case 0
  then show ?case using read_ack_last[of w sfd p addr] by (simp add: answer_def)
next
  case (Suc n)
  let ?c = "Sock (Recvfrom sfd 1)" let ?w = "snd (sys ?c w)"
  obtain addr' where a: "read_rcv_ack sfd p addr w = read_rcv_ack sfd PTYPE_RCV_ACK addr' ?w"
    using read_ack_again[of w sfd p addr] spec[OF Suc.prems(1), of 0] by (auto simp: answer_def)
  have "\<forall>i<n. is_rcv_ack (w_os ?w (length (w_trace ?w) + i) ?c)"
    using Suc.prems(1) by (auto simp: sys_simps)
  moreover have "is_other_answer (w_os ?w (length (w_trace ?w) + n) ?c)"
    using Suc.prems(2) by (simp add: sys_simps)
  ultimately show ?case using Suc.IH[of ?w PTYPE_RCV_ACK addr'] by (simp add: a sys_simps)
qed

theorem ack_wait_returns_witness:
  "\<exists>p' addr' w'. read_rcv_ack 4 0 NoAddr (init_world (\<lambda>n _. bytes_reply [if n < 2 then PTYPE_RCV_ACK else PTYPE_CMD_ACK])) =
      Some (True, p', addr', w') \<and> map fst (io w') = replicate 3 (Sock (Recvfrom 4 1))"
  using ack_wait_returns[of 2 "init_world (\<lambda>n _. bytes_reply [if n < 2 then PTYPE_RCV_ACK else PTYPE_CMD_ACK])" 4 0 NoAddr]
  by (simp add: is_rcv_ack_def is_other_answer_def ptype_defs eval_nat_numeral)



end
