(* ===== verification/Baa_Sched_Programs.thy ===== *)
theory Baa_Sched_Programs
  imports Baa_Sched_Server Baa_Network Baa_Program
begin

text \<open>
  The time-triggered programs: \<open>src/examples/time_triggert_simple.c\<close>, which configures its own
  fibers, \<open>src/examples/time_triggert_uds.c\<close>, which has them configured by a server, and that
  server, \<open>src/examples/time_triggert_uds_server.c\<close>. The kernel thread ids that the fibers have
  stored in the schedule table by the time it is used are an argument of the programs.
\<close>

section \<open>Tables and functions\<close>

definition MS_TO_NS :: "c_int \<Rightarrow> c_int" where
  "MS_TO_NS val = val * 1000000"

definition BAA_PRINT_LOCATION :: "string \<Rightarrow> string \<Rightarrow> world \<Rightarrow> world" where
  "BAA_PRINT_LOCATION fn file w = baa_info_msg ''Your're in %s of %s'' [FStr fn, FStr file] w"

text \<open>An element of a table; what the initialiser does not name is 0.\<close>

definition fiber :: "c_int \<Rightarrow> c_int \<Rightarrow> c_int \<Rightarrow> c_int \<Rightarrow> c_uint \<Rightarrow> fiber_element" where
  "fiber prio pol cpu_no dt_ns stack_fac =
    \<lparr>kernel_tid = 0, sched_priority = prio, fe_t = \<lparr>tv_sec = 0, tv_nsec = 0\<rparr>, policy = pol, cpu = cpu_no, dt = dt_ns,
     dt_sec = 0, safe_stack_fac = stack_fac, safe_heap_fac = 0\<rparr>"

text \<open>The table after the fibers have stored their thread ids.\<close>

definition with_tids :: "(nat \<Rightarrow> c_int) \<Rightarrow> fiber_element list \<Rightarrow> fiber_element list" where
  "with_tids tids fs = map (\<lambda>(i, f). f\<lparr>kernel_tid := tids i\<rparr>) (enumerate 0 fs)"

abbreviation (input) CAP_SYS_NICE :: int where "CAP_SYS_NICE \<equiv> 23"

definition BAA_VAR_RUN_DIR :: string where "BAA_VAR_RUN_DIR = ''/var/run''"

section \<open>The simple program\<close>

definition simple_function :: "nat \<Rightarrow> world \<Rightarrow> world" where
  "simple_function k w = BAA_PRINT_LOCATION (''function_'' @ show_nat k) ''time_triggert_simple.c'' w"

definition simple_fiber_0 :: "world \<Rightarrow> world" where
  "simple_fiber_0 w = simple_function 0 w"

definition simple_fiber_1 :: "world \<Rightarrow> world" where
  "simple_fiber_1 w = simple_function 4 (simple_function 3 (simple_function 2 (simple_function 1 w)))"

definition simple_table :: "fiber_element list" where
  "simple_table =
    [fiber 89 (word_of_int SCHED_FIFO) 0 (MS_TO_NS 10) 0,
     fiber 90 (word_of_int SCHED_RR) 1 (MS_TO_NS 100) 0]"

text \<open>The members \<open>func\<close> of the table.\<close>

definition simple_funcs :: "(world \<Rightarrow> world) list" where
  "simple_funcs = [simple_fiber_0, simple_fiber_1]"

definition simple_usage :: "build \<Rightarrow> string \<Rightarrow> world \<Rightarrow> world" where
  "simple_usage b name w =
    (let w = putnl w;
         w = baa_info_msg ''Usage: %s [options]              '' [FStr name] w;
         w = infos
              [''Options:                                       '',
               ''        -h                       show help     ''] w;
         w = putnl w;
         w = infos
              [''Notes: The kernel must support at least PREEMPT'',
               ''       For realtime RT-PREEMPT is mandatory    '',
               ''       See \"uname -a\"                        ''] w;
         w = putnl w
     in show_some_infos b w)"

definition simple_cleanup :: "world \<Rightarrow> world" where
  "simple_cleanup w = cheers w"

definition simple_signal_handler :: "nat \<Rightarrow> world \<Rightarrow> unit part" where
  "simple_signal_handler n w = signal_run n (\<lambda>w. Some (simple_cleanup w)) w"

text \<open>The \<open>switch\<close> of a program whose only option is \<open>-h\<close>.\<close>

definition help_switch :: "(world \<Rightarrow> world) \<Rightarrow> char \<Rightarrow> string option \<Rightarrow> unit \<Rightarrow> world \<Rightarrow> unit part" where
  "help_switch usage c optarg s w =
    (if c = CHR ''h'' then leave Some EXIT_SUCCESS (usage w)
     else leave Some EXIT_FAILURE (usage (baa_error_msg ''ERROR: no valid argument'' [] w)))"

text \<open>From the built table to the end of the program.\<close>

definition run_table :: "(world \<Rightarrow> world option) \<Rightarrow> (fiber_element list \<Rightarrow> world \<Rightarrow> (int \<times> world) option) \<Rightarrow>
  (nat \<Rightarrow> c_int) \<Rightarrow> fiber_element list \<Rightarrow> world \<Rightarrow> unit part" where
  "run_table fin set_props tids table w =
    (let (err, w) = baa_build_scheduler (length table) w
     in if err \<noteq> 0 then leave_with fin (baa_error_exit ''could not build schedule table'' [] w)
        else
          (let table = with_tids tids table;
               (ok, w) = baa_is_fiber_config_valid (Some table) (int (length table)) w
           in if \<not> ok then leave_with fin (baa_error_exit ''actual fiber config is not valid'' [] w)
              else
                (case set_props table w of
                   None \<Rightarrow> None
                 | Some (err, w) \<Rightarrow>
                     if err \<noteq> 0 then leave_with fin (baa_error_exit ''could not set schedule properties'' [] w)
                     else
                       (let (_, w) = sys (Log Fflush_stdout) w;
                            (err, w) = baa_start_scheduler (length table) w
                        in if err \<noteq> 0 then leave_with fin (baa_error_exit ''could not start scheduler'' [] w)
                           else
                             (let (_, w) = sys (Sched (Thread_join ''signal_handler'')) w
                              in leave fin EXIT_SUCCESS w)))))"

definition simple_main :: "build \<Rightarrow> (nat \<Rightarrow> c_int) \<Rightarrow> string list \<Rightarrow> world \<Rightarrow> unit part" where
  "simple_main b tids argv w =
    then_do (program_name argv w) (\<lambda>name w.
    then_do (option_loop (argv0 argv) (help_switch (simple_usage b name)) (getopt_all ''h'' argv) () w) (\<lambda>_ w.
    then_do (register_cleanup w) (\<lambda>_ w.
     let fin = (\<lambda>w. Some (simple_cleanup w));
         (preempt, w) = baa_check_for_rtpreempt w
     in if \<not> preempt then leave fin EXIT_FAILURE (simple_usage b name w)
        else
          then_do (start_signal_thread fin ''could not create pthread'' w) (\<lambda>_ w.
           let (err, w) = baa_drop_capability CAP_SYS_NICE w
           in if err = -1 then leave fin EXIT_FAILURE w
              else run_table fin (\<lambda>fs w. Some (baa_set_schedule_props fs w)) tids simple_table w))))"

section \<open>The client of the schedule server\<close>

definition uds_function :: "nat \<Rightarrow> world \<Rightarrow> world" where
  "uds_function k w = BAA_PRINT_LOCATION (''function_'' @ show_nat k) ''time_triggert_uds.c'' w"

text \<open>What the five fibers call, in order.\<close>

definition uds_fiber :: "nat \<Rightarrow> world \<Rightarrow> world" where
  "uds_fiber i w =
    fold uds_function
      (if i = 0 then [0] else if i = 1 then [1] else if i = 2 then [2] else if i = 3 then [8, 9]
       else [3, 4, 5, 6, 7]) w"

definition uds_table :: "fiber_element list" where
  "uds_table =
    [fiber 90 (word_of_int SCHED_FIFO) 1 (MS_TO_NS 1) 0,
     fiber 89 (word_of_int SCHED_RR) 0 (MS_TO_NS 10) 0,
     fiber 88 (word_of_int SCHED_FIFO) 1 (MS_TO_NS 50) 0,
     fiber 87 (word_of_int SCHED_RR) 0 (MS_TO_NS 100) 8,
     fiber 86 (word_of_int SCHED_BATCH) 1 (MS_TO_NS 999) 0]"

definition uds_usage :: "build \<Rightarrow> string \<Rightarrow> world \<Rightarrow> world" where
  "uds_usage b name w =
    (let w = putnl w;
         w = baa_info_msg ''Usage: %s [options]              '' [FStr name] w;
         w = infos
              [''Options:                                       '',
               ''        -h                       show help     '',
               ''        -f [server socket]                     '',
               ''        -d [socket dir]                        ''] w;
         w = putnl w;
         w = infos [''Examples:                                      ''] w;
         w = baa_info_msg ''%s -d /var/tmp -f time_triggert_uds_server.socket'' [FStr name] w;
         w = baa_info_msg ''%s -d /tmp -f time_triggert_uds_server.unix    '' [FStr name] w;
         w = putnl w;
         w = infos
              [''Notes: The kernel must support at least PREEMPT'',
               ''       For realtime RT-PREEMPT is mandatory    '',
               ''       See \"uname -a\"                        ''] w;
         w = putnl w
     in show_some_infos b w)"

text \<open>\<open>unlink\<close> of a path that may be a null pointer, with its report.\<close>

definition remove_file :: "string option \<Rightarrow> world \<Rightarrow> world" where
  "remove_file f w =
    (let (r, w) = sys (File (case f of None \<Rightarrow> Unlink_null | Some p \<Rightarrow> Unlink p)) w
     in if rv r \<noteq> 0 then baa_errno_msg ''could not remove %s'' [str_arg f] w else w)"

definition uds_cleanup :: "int \<Rightarrow> string option \<Rightarrow> world \<Rightarrow> world option" where
  "uds_cleanup kdo_socket kdo_ret_file w =
    (case (if kdo_socket \<noteq> -1 then baa_wrap_close kdo_socket w else Some w) of
       None \<Rightarrow> None
     | Some w \<Rightarrow> Some (cheers (remove_file kdo_ret_file w)))"

definition uds_signal_handler :: "int \<Rightarrow> string option \<Rightarrow> nat \<Rightarrow> world \<Rightarrow> unit part" where
  "uds_signal_handler kdo_socket kdo_ret_file n w = signal_run n (uds_cleanup kdo_socket kdo_ret_file) w"

record uds_opts =
  uo_file :: "string option"
  uo_dir :: "string option"

definition uds_switch :: "build \<Rightarrow> string \<Rightarrow> char \<Rightarrow> string option \<Rightarrow> uds_opts \<Rightarrow> world \<Rightarrow> uds_opts part" where
  "uds_switch b name c optarg s w =
    (if c = CHR ''f'' then Some (Inr (s\<lparr>uo_file := optarg\<rparr>), w)
     else if c = CHR ''d'' then Some (Inr (s\<lparr>uo_dir := optarg\<rparr>), w)
     else if c = CHR ''h'' then leave Some EXIT_SUCCESS (uds_usage b name w)
     else leave Some EXIT_FAILURE (uds_usage b name (baa_error_msg ''ERROR: no valid argument'' [] w)))"

definition uds_main :: "build \<Rightarrow> (nat \<Rightarrow> c_int) \<Rightarrow> string list \<Rightarrow> world \<Rightarrow> unit part" where
  "uds_main b tids argv w =
    then_do (program_name argv w) (\<lambda>name w.
    then_do (option_loop (argv0 argv) (uds_switch b name) (getopt_all ''hf:d:'' argv) \<lparr>uo_file = None, uo_dir = None\<rparr> w) (\<lambda>s w.
    if length argv \<noteq> 5
    then leave Some EXIT_FAILURE (uds_usage b name (baa_error_msg ''not enough arguments'' [] w))
    else
      then_do (register_cleanup w) (\<lambda>_ w.
       let (preempt, w) = baa_check_for_rtpreempt w
       in if \<not> preempt then leave (uds_cleanup (-1) None) EXIT_FAILURE (uds_usage b name w)
          else
            then_do (start_signal_thread (uds_cleanup (-1) None) ''could not create pthread'' w) (\<lambda>_ w.
             let (kdo_file, w) = baa_create_uds_name_string (uo_file s) (uo_dir s) w
             in case kdo_file of
                  None \<Rightarrow> leave (uds_cleanup (-1) None) EXIT_FAILURE (uds_usage b name w)
                | Some kdo_f \<Rightarrow>
                    let ((kdo_socket, kdo_ret_file), w) = baa_uds_dgram_client (Some name) (Some BAA_VAR_RUN_DIR) w
                    in if kdo_socket = -1
                       then leave_with (uds_cleanup (-1) kdo_ret_file) (baa_error_exit ''could not create socket'' [] w)
                       else
                         run_table (uds_cleanup kdo_socket kdo_ret_file)
                           (\<lambda>fs w. baa_set_schedule_props_via_server fs kdo_socket kdo_f w) tids uds_table w))))"

section \<open>The schedule server program\<close>

definition server_cleanup :: "int \<Rightarrow> string option \<Rightarrow> string option \<Rightarrow> world \<Rightarrow> world option" where
  "server_cleanup kdo_socket kdo_file pid_file w =
    (case (if kdo_socket \<noteq> -1 then baa_wrap_close kdo_socket w else Some w) of
       None \<Rightarrow> None
     | Some w \<Rightarrow> Some (cheers (remove_file pid_file (remove_file kdo_file w))))"

definition server_signal_handler :: "int \<Rightarrow> string option \<Rightarrow> string option \<Rightarrow> nat \<Rightarrow> world \<Rightarrow> unit part" where
  "server_signal_handler kdo_socket kdo_file pid_file n w = signal_run n (server_cleanup kdo_socket kdo_file pid_file) w"

text \<open>The socket file gets its permissions and its group before the thread that serves it starts.\<close>

definition server_publish :: "(world \<Rightarrow> world option) \<Rightarrow> string \<Rightarrow> world \<Rightarrow> unit part" where
  "server_publish fin kdo_file w =
    (let (err, w) = sys (File (Chmod kdo_file (S_IRUSR OR S_IWUSR OR S_IRGRP OR S_IWGRP))) w
     in if rv err = -1
        then leave_with fin (baa_error_exit ''could not set permissions to %s'' [FStr kdo_file] w)
        else
          (let (g, w) = sys (Db (Getgrnam ''users'')) w
           in case rgroup g of
                None \<Rightarrow> leave_with fin (baa_error_exit ''could not get group struct'' [] w)
              | Some grp_users \<Rightarrow>
                  (let (err, w) = sys (File (Chown kdo_file (-1) (gr_gid grp_users))) w
                   in if rv err = -1 then leave_with fin (baa_error_exit ''could not set group'' [] w)
                      else
                        then_do (start_thread fin ''baa_schedule_server_th'' ''could not create pthread'' w) (\<lambda>_ w.
                         let (_, w) = sys (Sched (Thread_join ''baa_schedule_server_th'')) w;
                             (_, w) = sys (Sched (Thread_join ''signal_handler'')) w
                         in leave fin EXIT_SUCCESS w))))"

definition server_open :: "string \<Rightarrow> string \<Rightarrow> world \<Rightarrow> unit part" where
  "server_open name pid_file w =
    (let ((kdo_socket, kdo_file), w) = baa_uds_dgram_server (Some name) (Some BAA_VAR_RUN_DIR) w
     in if kdo_socket = -1
        then leave_with (server_cleanup (-1) kdo_file (Some pid_file)) (baa_error_exit ''could not create kdo socket'' [] w)
        else server_publish (server_cleanup kdo_socket kdo_file (Some pid_file)) (the kdo_file) w)"

text \<open>What the daemon does, from the switch to the system log on.\<close>

definition server_daemon :: "string \<Rightarrow> world \<Rightarrow> unit part" where
  "server_daemon name w =
    (let w = baa_enable_syslog True (Some name) w
     in case baa_create_file_with_pid (Some name) (Some BAA_VAR_RUN_DIR) w of
          None \<Rightarrow> None
        | Some (pid_file, w) \<Rightarrow>
            (case pid_file of
               None \<Rightarrow> leave_with (server_cleanup (-1) None None) (baa_error_exit ''could not create %s'' [str_arg None] w)
             | Some f \<Rightarrow>
                 then_do (start_signal_thread (server_cleanup (-1) None (Some f)) ''could not create pthread'' w)
                   (\<lambda>_. server_open name f)))"

definition server_detach :: "string \<Rightarrow> world \<Rightarrow> unit part" where
  "server_detach name w =
    (let (d, w) = baa_become_daemon w
     in case d of
          Inl e \<Rightarrow> Some (Inl e, w)
        | Inr err \<Rightarrow>
            if err \<noteq> 0 then leave_with (server_cleanup (-1) None None) (baa_error_exit ''become_daemon() != 0'' [] w)
            else server_daemon name w)"

definition server_main :: "build \<Rightarrow> string list \<Rightarrow> world \<Rightarrow> unit part" where
  "server_main b argv w =
    then_do (program_name argv w) (\<lambda>name w.
    then_do (register_cleanup w) (\<lambda>_ w.
     let (err, w) = baa_drop_capability CAP_SYS_NICE w
     in if err = -1 then leave (server_cleanup (-1) None None) EXIT_FAILURE w
        else server_detach name (show_some_infos b w)))"

section \<open>What the library functions add to the trace\<close>

fun uds_call :: "call \<Rightarrow> bool" where
  "uds_call (Proc Getpid) = True"
| "uds_call (File (Unlink p)) = True"
| "uds_call (Sock (Socket d t p)) = True"
| "uds_call (Sock (Bind s a)) = True"
| "uds_call (Sock (Connect s a)) = True"
| "uds_call (Sock (Setsockopt s v)) = True"
| "uds_call (Proc (Sigaction s h f)) = True"
| "uds_call (Proc (Alarm n)) = True"
| "uds_call (Mem (Malloc n)) = True"
| "uds_call c = False"

lemma only_timeouts [only_intros]:
  "P (Sock (Setsockopt sfd (Timeval SO_SNDTIMEO SEND_TIMEOUT 0))) \<Longrightarrow> only P w v \<Longrightarrow> only P w (snd (set_snd_timeout sfd v))"
  "P (Sock (Setsockopt sfd (Timeval SO_RCVTIMEO RECV_TIMEOUT 0))) \<Longrightarrow> only P w v \<Longrightarrow> only P w (snd (set_rcv_timeout sfd v))"
  unfolding set_snd_timeout_def set_rcv_timeout_def set_timeout_def
  by (auto simp: split_def Let_def intro!: only_intros)

lemma only_signal [only_intros]:
  "P (signal_call s h) \<Longrightarrow> only P w v \<Longrightarrow> only P w (snd (baa_signal s h v))"
  unfolding baa_signal_def signal_call_def Let_def by (auto simp: split_def intro!: only_intros)

lemma only_uds_socket [only_intros]:
  assumes P: "\<And>c. uds_call c \<Longrightarrow> P c" and w: "only P w v"
  shows "only P w (snd (uds_socket name dir type flags v))"
proof -
  have nm: "only P w (snd (uds_name n dir flags u))" if "only P w u" for n u
    unfolding uds_name_def using that by (auto intro!: only_struct only_intros P)
  have bi: "only P w (snd (uds_bind flags sfd addr u))" if "only P w u" for sfd addr u
    unfolding uds_bind_def using that by (auto intro!: only_struct only_intros P)
  have co: "only P w (snd (uds_connect flags sfd addr u))" if "only P w u" for sfd addr u
    unfolding uds_connect_def using that
    by (auto simp: signal_call_def simp del: baa_signal_simps intro!: only_struct only_intros P)
  show ?thesis
    unfolding uds_socket_def using w
    by (auto intro!: only_struct only_intros nm bi co P)
qed

lemma only_create_name [only_intros]:
  assumes "\<And>n. P (Mem (Malloc n))" "only P w v"
  shows "only P w (snd (baa_create_uds_name_string file dir v))"
  unfolding baa_create_uds_name_string_def using assms
  by (cases "file"; cases dir) (auto intro!: only_struct only_intros)

lemma only_build [only_intros]:
  assumes "\<And>i. P (Sched (Pthread_create i))" "P (Proc (Sleep 1))" "only P w v"
  shows "only P w (snd (baa_build_scheduler n v))"
proof -
  have "only P w (snd (create_loop is v))" for "is"
    using assms(3) by (induction "is" arbitrary: v) (auto intro!: only_struct only_intros assms(1,2)[unfolded One_nat_def])
  then show ?thesis by (simp add: baa_build_scheduler_def)
qed

fun config_query :: "call \<Rightarrow> bool" where
  "config_query (Sched (Sched_priority_min p)) = True"
| "config_query (Sched (Sched_priority_max p)) = True"
| "config_query (Sched Get_nprocs_conf) = True"
| "config_query (Sched Get_nprocs) = True"
| "config_query c = False"

lemma only_config_valid [only_intros]:
  assumes P: "\<And>c. config_query c \<Longrightarrow> P c" and w: "only P w v"
  shows "only P w (snd (baa_is_fiber_config_valid fs n v))"
proof -
  have pol: "only P w (snd (check_policy f u))" if "only P w u" for f u
    unfolding check_policy_def check_rt_priority_def check_zero_priority_def using that
    by (auto simp: split_def Let_def intro!: only_intros P)
  have num: "only P w (snd (baa_get_num_cpu u))" if "only P w u" for u
    unfolding baa_get_num_cpu_def using that by (auto simp: split_def Let_def intro!: only_intros P)
  have "only P w (snd (check_loop gs u))" if "only P w u" for gs u
    using that
  proof (induction gs arbitrary: u)
    case (Cons f gs)
    show ?case unfolding check_loop.simps by (intro only_struct only_intros pol num Cons.IH Cons.prems)
  qed simp
  then show ?thesis using w unfolding baa_is_fiber_config_valid_def by (auto split: option.splits intro!: only_intros)
qed

lemma only_remove_file [only_intros]:
  "(\<And>p. P (File (Unlink p))) \<Longrightarrow> P (File Unlink_null) \<Longrightarrow> only P w v \<Longrightarrow> only P w (remove_file f v)"
  unfolding remove_file_def by (auto simp: split_def Let_def split: option.splits intro!: only_intros)

text \<open>The exit handlers of the two programs with a unix domain socket.\<close>

fun tidy_call :: "int \<Rightarrow> call \<Rightarrow> bool" where
  "tidy_call fd (File (Close s)) = (s = fd)"
| "tidy_call fd (File (Unlink p)) = True"
| "tidy_call fd (File Unlink_null) = True"
| "tidy_call fd (Proc (Getenv n)) = True"
| "tidy_call fd c = False"

lemma close_step_only:
  "(if s \<noteq> -1 then baa_wrap_close s u else Some u) = Some v \<Longrightarrow> only (tidy_call s) u v"
  by (auto split: if_splits intro: only_refl only_mono[OF wrap_close_only])

interpretation uds_exit: exit_handler "uds_cleanup s f" "tidy_call s" for s f
proof unfold_locales
  fix w w' assume "uds_cleanup s f w = Some w'"
  then obtain v where "(if s \<noteq> -1 then baa_wrap_close s w else Some w) = Some v" "w' = cheers (remove_file f v)"
    by (auto simp: uds_cleanup_def split: option.splits)
  then show "only (tidy_call s) w w'" using close_step_only by (auto intro!: only_intros)
qed simp

interpretation server_exit: exit_handler "server_cleanup s f p" "tidy_call s" for s f p
proof unfold_locales
  fix w w' assume "server_cleanup s f p w = Some w'"
  then obtain v where "(if s \<noteq> -1 then baa_wrap_close s w else Some w) = Some v" "w' = cheers (remove_file p (remove_file f v))"
    by (auto simp: server_cleanup_def split: option.splits)
  then show "only (tidy_call s) w w'" using close_step_only by (auto intro!: only_intros)
qed simp

section \<open>The client never starts its fibers\<close>

lemma with_tids_simps [simp]: "length (with_tids tids fs) = length fs"
  by (simp add: with_tids_def)

lemma check_loop_rejects:
  assumes "f \<in> set fs" "sint (policy f) = SCHED_BATCH" "sint (sched_priority f) \<noteq> 0"
  shows "\<not> fst (check_loop fs w)"
  using assms(1)
proof (induction fs arbitrary: w)
  case (Cons g fs)
  have "\<not> fst (check_policy f w)" for w
    using assms(2,3) by (simp add: check_policy_def check_zero_priority_def)
  with Cons show ?case by (auto simp: split_def Let_def)
qed simp

lemma uds_table_rejected: "\<not> fst (baa_is_fiber_config_valid (Some (with_tids tids uds_table)) (int (length uds_table)) w)"
proof -
  have "\<exists>f \<in> set (with_tids tids uds_table). sint (policy f) = SCHED_BATCH \<and> sint (sched_priority f) \<noteq> 0"
    by (simp add: with_tids_def uds_table_def fiber_def)
  then show ?thesis
    using check_loop_rejects by (auto simp: baa_is_fiber_config_valid_def)
qed

text \<open>What would configure or start a fiber: a request to the server, a scheduler call, the
  broadcast.\<close>

fun starts :: "call \<Rightarrow> bool" where
  "starts (Sched Cond_broadcast) = True"
| "starts (Sched (Sched_setaffinity t c)) = True"
| "starts (Sched (Sched_setscheduler t p q)) = True"
| "starts (Sock (Sendto s bs a)) = True"
| "starts c = False"

lemma tidy_not_starts: "only (tidy_call s) u v \<Longrightarrow> only (\<lambda>c. \<not> starts c) u v"
  by (erule only_mono) (auto elim: tidy_call.elims)

lemma only_uds_usage [only_intros]:
  "P (Proc Uname) \<Longrightarrow> P (File (Printf [newline])) \<Longrightarrow> only P w v \<Longrightarrow> only P w (uds_usage b nm v)"
  unfolding uds_usage_def by (intro only_struct only_intros)

lemma run_uds_table:
  assumes fin: "\<And>u u'. fin u = Some u' \<Longrightarrow> only (\<lambda>c. \<not> starts c) u u'" and w: "only (\<lambda>c. \<not> starts c) w v"
  shows "part_only (\<lambda>c. \<not> starts c) (\<lambda>e. e = Exited EXIT_FAILURE \<or> h \<and> e = Exited EXIT_SUCCESS) S w (run_table fin sp tids uds_table v)"
proof -
  have cq: "\<not> starts c" if "config_query c" for c using that by (auto elim: config_query.elims)
  show ?thesis
    unfolding run_table_def
    using uds_table_rejected w
    by (auto simp: Let_def split_def intro!: part_intros only_intros dest: fin cq)
qed

lemma uds_calls_not_start: "uds_call c \<Longrightarrow> \<not> starts c"
  by (auto elim: uds_call.elims)

section \<open>The order of the simple program\<close>

text \<open>The calls that create, configure, start and join the fibers, and the order they are meant to
  have.\<close>

fun sched_step :: "call \<Rightarrow> bool" where
  "sched_step (Sched (Pthread_create i)) = True"
| "sched_step (Sched (Sched_setaffinity t c)) = True"
| "sched_step (Sched (Sched_setscheduler t p q)) = True"
| "sched_step (Sched Cond_broadcast) = True"
| "sched_step (Sched (Pthread_join i)) = True"
| "sched_step c = False"

abbreviation sched_steps :: "world \<Rightarrow> call list" where
  "sched_steps w \<equiv> filter sched_step (map fst (io w))"

definition schedule_plan :: "fiber_element list \<Rightarrow> call list" where
  "schedule_plan table =
    map (\<lambda>i. Sched (Pthread_create i)) [0..<length table] @ concat (map props_calls table) @
    Sched Cond_broadcast # map (\<lambda>i. Sched (Pthread_join i)) [0..<length table]"

lemma sched_steps_eqI: "only (\<lambda>c. \<not> sched_step c) w w' \<Longrightarrow> sched_steps w' = sched_steps w"
  by (rule only_calls) auto

lemma sched_steps_maps [simp]:
  "filter sched_step (map (\<lambda>i. Sched (Pthread_create i)) xs) = map (\<lambda>i. Sched (Pthread_create i)) xs"
  "filter sched_step (map (\<lambda>i. Sched (Pthread_join i)) xs) = map (\<lambda>i. Sched (Pthread_join i)) xs"
  by (induction xs) simp_all

lemma sched_steps_props [simp]: "filter sched_step (concat (map props_calls fs)) = concat (map props_calls fs)"
  by (induction fs) (simp_all add: props_calls_def)

lemma build_steps:
  "\<exists>k \<le> n. sched_steps (snd (baa_build_scheduler n w)) = sched_steps w @ map (\<lambda>i. Sched (Pthread_create i)) [0..<k] \<and>
    (fst (baa_build_scheduler n w) = 0 \<longrightarrow> k = n)"
proof -
  obtain k w' where k: "k \<le> length [0..<n]" "map fst (io w') = map fst (io w) @ map (\<lambda>i. Sched (Pthread_create i)) (take k [0..<n])"
    "k = length [0..<n] \<and> create_loop [0..<n] w = (0, snd (sys (Proc (Sleep 1)) w')) \<or>
     (\<exists>e. create_loop [0..<n] w = (-1, baa_th_error_msg e ''pthread_create in %s'' [FStr ''baa_build_scheduler''] w'))"
    using create.lp_prefix by blast
  then have "sched_steps w' = sched_steps w @ map (\<lambda>i. Sched (Pthread_create i)) [0..<k]" "k \<le> n"
    by (simp_all add: take_upt del: filter_map)
  with k(3) show ?thesis
    by (intro exI[of _ k]) (auto simp: baa_build_scheduler_def sys_simps)
qed

lemma start_steps:
  "\<exists>k \<le> n. sched_steps (snd (baa_start_scheduler n w)) = sched_steps w @ Sched Cond_broadcast # map (\<lambda>i. Sched (Pthread_join i)) [0..<k] \<and>
    (fst (baa_start_scheduler n w) = 0 \<longrightarrow> k = n)"
proof -
  let ?w = "snd (sys (Sched Mutex_unlock) (snd (sys (Sched Cond_broadcast) (snd (sys (Sched Mutex_lock) w)))))"
  obtain k w' where k: "k \<le> length [0..<n]" "map fst (io w') = map fst (io ?w) @ map (\<lambda>i. Sched (Pthread_join i)) (take k [0..<n])"
    "k = length [0..<n] \<and> join_loop [0..<n] ?w = (0, w') \<or>
     (\<exists>e. join_loop [0..<n] ?w = (-1, baa_th_error_msg e ''pthread_join %s'' [FStr ''baa_start_scheduler''] w'))"
    using join.lp_prefix by blast
  then have "sched_steps w' = sched_steps w @ Sched Cond_broadcast # map (\<lambda>i. Sched (Pthread_join i)) [0..<k]" "k \<le> n"
    by (simp_all add: take_upt sys_simps del: filter_map)
  with k(3) show ?thesis
    by (intro exI[of _ k]) (auto simp: baa_start_scheduler_def split_def Let_def)
qed

lemma plan_prefixes:
  fixes table defines "n \<equiv> length table"
  shows "k \<le> n \<Longrightarrow> map (\<lambda>i. Sched (Pthread_create i)) [0..<k] = take k (schedule_plan table)"
    and "k \<le> n \<Longrightarrow> map (\<lambda>i. Sched (Pthread_create i)) [0..<n] @ concat (map props_calls table) @ Sched Cond_broadcast # map (\<lambda>i. Sched (Pthread_join i)) [0..<k] =
      take (n + length (concat (map props_calls table)) + 1 + k) (schedule_plan table)"
  by (simp_all add: schedule_plan_def n_def take_map take_upt)

text \<open>How far a run got in the plan, and that only a complete one ends with status 0.\<close>

definition followed :: "bool \<Rightarrow> call list \<Rightarrow> world \<Rightarrow> ending + unit \<Rightarrow> world \<Rightarrow> bool" where
  "followed help plan w r v \<longleftrightarrow>
    (\<exists>k. sched_steps v = sched_steps w @ take k plan \<and>
      (r = Inl (Exited EXIT_SUCCESS) \<and> (help \<or> take k plan = plan) \<or> r = Inl (Exited EXIT_FAILURE)))"

lemma followed_failure:
  "sched_steps v = sched_steps w @ take k plan \<Longrightarrow> followed h plan w (Inl (Exited EXIT_FAILURE)) v"
  unfolding followed_def by blast

lemma only_props [only_intros]:
  assumes "\<And>t c. P (Sched (Sched_setaffinity t c))" "\<And>t p q. P (Sched (Sched_setscheduler t p q))" "only P w v"
  shows "only P w (snd (baa_set_schedule_props fs v))"
proof -
  have one: "only P w (set_props_one f u)" if "only P w u" for f u
    unfolding set_props_one_def using that by (auto simp: split_def Let_def intro!: only_intros assms)
  have "only P w (set_props_loop fs v)" using assms(3) by (induction fs arbitrary: v) (auto intro: one)
  then show ?thesis by (simp add: baa_set_schedule_props_def)
qed

lemma only_start [only_intros]:
  assumes "\<And>c. P c" "only P w v"
  shows "only P w (snd (baa_start_scheduler n v))"
proof -
  have jo: "only P w (snd (join_loop is u))" if "only P w u" for "is" u
    using that by (induction "is" arbitrary: u) (auto intro!: only_struct only_intros assms(1))
  show ?thesis
    unfolding baa_start_scheduler_def using assms by (auto simp: split_def Let_def intro!: only_intros jo)
qed

text \<open>What leaves the program without a further step keeps the plan where it is.\<close>

lemma post_failure:
  assumes fin: "\<And>u u'. fin u = Some u' \<Longrightarrow> only (\<lambda>c. \<not> sched_step c) u u'"
    and v: "sched_steps v = sched_steps w @ take k plan"
  shows "part_post (followed h plan w) (leave_with fin (baa_error_exit fmt va v))"
proof (rule part_post_only[where R = "\<lambda>e. e = Exited EXIT_FAILURE" and S = "\<lambda>_. False"])
  show "part_only (\<lambda>c. \<not> sched_step c) (\<lambda>e. e = Exited EXIT_FAILURE) (\<lambda>_. False) v (leave_with fin (baa_error_exit fmt va v))"
    by (auto intro!: part_intros only_intros dest: fin)
  show "followed h plan w (Inl e) u" if "e = Exited EXIT_FAILURE" "only (\<lambda>c. \<not> sched_step c) v u" for e u
    using sched_steps_eqI[OF that(2)] v unfolding that(1) by (intro followed_failure) simp
qed simp

lemma post_success:
  assumes fin: "\<And>u u'. fin u = Some u' \<Longrightarrow> only (\<lambda>c. \<not> sched_step c) u u'" and v: "sched_steps v = sched_steps w @ plan"
  shows "part_post (followed h plan w) (leave fin EXIT_SUCCESS v)"
proof (rule part_post_only[where R = "\<lambda>e. e = Exited EXIT_SUCCESS" and S = "\<lambda>_. False"])
  show "part_only (\<lambda>c. \<not> sched_step c) (\<lambda>e. e = Exited EXIT_SUCCESS) (\<lambda>_. False) v (leave fin EXIT_SUCCESS v)"
    by (auto intro!: part_intros only_intros dest: fin)
  show "followed h plan w (Inl e) u" if "e = Exited EXIT_SUCCESS" "only (\<lambda>c. \<not> sched_step c) v u" for e u
    using sched_steps_eqI[OF that(2)] v that(1) unfolding followed_def by (intro exI[of _ "length plan"]) simp
qed simp

lemma run_table_follows:
  fixes table tids defines "plan \<equiv> schedule_plan (with_tids tids table)"
  assumes fin: "\<And>u u'. fin u = Some u' \<Longrightarrow> only (\<lambda>c. \<not> sched_step c) u u'" and v: "sched_steps v = sched_steps w"
  shows "part_post (followed h plan w) (run_table fin (\<lambda>fs w. Some (baa_set_schedule_props fs w)) tids table v)"
proof -
  let ?tb = "with_tids tids table" let ?n = "length table"
  obtain e1 v1 where e1: "baa_build_scheduler ?n v = (e1, v1)" by fastforce
  obtain ok v2 where e2: "baa_is_fiber_config_valid (Some ?tb) (int ?n) v1 = (ok, v2)" by fastforce
  obtain e3 v3 where e3: "baa_set_schedule_props ?tb v2 = (e3, v3)" by fastforce
  define v4 where "v4 = snd (sys (Log Fflush_stdout) v3)"
  obtain e5 v5 where e5: "baa_start_scheduler ?n v4 = (e5, v5)" by fastforce
  define v6 where "v6 = snd (sys (Sched (Thread_join ''signal_handler'')) v5)"
  obtain k1 where k1: "k1 \<le> ?n" "sched_steps v1 = sched_steps w @ map (\<lambda>i. Sched (Pthread_create i)) [0..<k1]" "e1 = 0 \<longrightarrow> k1 = ?n"
    using build_steps[of ?n v] v by (auto simp: e1)
  have "only (\<lambda>c. \<not> sched_step c) v1 (snd (baa_is_fiber_config_valid (Some ?tb) (int ?n) v1))"
    by (auto intro!: only_intros elim: config_query.elims)
  then have k2: "sched_steps v2 = sched_steps v1" unfolding e2 by (simp add: sched_steps_eqI)
  have k4: "sched_steps v4 = sched_steps v2 @ concat (map props_calls ?tb)"
    using e3 by (auto simp: baa_set_schedule_props_def v4_def set_props_loop_io quiet_io[OF quiet_log] simp del: filter_map)
  obtain k5 where k5: "k5 \<le> ?n" "sched_steps v5 = sched_steps v4 @ Sched Cond_broadcast # map (\<lambda>i. Sched (Pthread_join i)) [0..<k5]"
    "e5 = 0 \<longrightarrow> k5 = ?n"
    using start_steps[of ?n v4] by (auto simp: e5)
  have k6: "sched_steps v6 = sched_steps v5" by (simp add: v6_def sys_simps)
  have kp: "sched_steps v1 = sched_steps w @ take k1 plan"
    using k1(1,2) plan_prefixes(1)[of k1 ?tb] by (simp add: plan_def)
  have run: "run_table fin (\<lambda>fs w. Some (baa_set_schedule_props fs w)) tids table v =
    (if e1 \<noteq> 0 then leave_with fin (baa_error_exit ''could not build schedule table'' [] v1)
     else if \<not> ok then leave_with fin (baa_error_exit ''actual fiber config is not valid'' [] v2)
     else if e5 \<noteq> 0 then leave_with fin (baa_error_exit ''could not start scheduler'' [] v5)
     else leave fin EXIT_SUCCESS v6)"
    using e3 by (simp add: run_table_def e1 e2 e5 v6_def v4_def split_def baa_set_schedule_props_def flip: v4_def)
  consider "e1 \<noteq> 0" | "e1 = 0" "\<not> ok" | "e1 = 0" "ok" "e5 \<noteq> 0" | "e1 = 0" "ok" "e5 = 0" by blast
  then show ?thesis
  proof cases
    case 1
    with kp show ?thesis by (simp add: run post_failure[OF fin])
  next
    case 2
    with kp k2 show ?thesis by (simp add: run post_failure[OF fin])
  next
    case 3
    have "sched_steps v5 = sched_steps w @ take (?n + length (concat (map props_calls ?tb)) + 1 + k5) plan"
      using 3 k1 k2 k4 k5(2) plan_prefixes(2)[of k5 ?tb] k5(1) by (simp add: plan_def)
    with 3 show ?thesis by (simp add: run post_failure[OF fin])
  next
    case 4
    then have "sched_steps v6 = sched_steps w @ plan"
      using k1 k2 k4 k5 k6 by (simp add: plan_def schedule_plan_def)
    with 4 show ?thesis by (simp add: run post_success[OF fin])
  qed
qed

lemma only_simple_usage [only_intros]:
  "P (Proc Uname) \<Longrightarrow> P (File (Printf [newline])) \<Longrightarrow> only P w v \<Longrightarrow> only P w (simple_usage b nm v)"
  unfolding simple_usage_def by (intro only_struct only_intros)

lemma only_simple_cleanup [only_intros]:
  "P (Proc (Getenv ''USER'')) \<Longrightarrow> only P w v \<Longrightarrow> only P w (simple_cleanup v)"
  unfolding simple_cleanup_def by (rule only_cheers)

lemma part_help_switch [part_intros]:
  assumes "\<And>u. only P w u \<Longrightarrow> only P w (usage u)" "only P w v" "c = CHR ''h'' \<Longrightarrow> R (Exited EXIT_SUCCESS)" "R (Exited EXIT_FAILURE)"
  shows "part_only P R S w (help_switch usage c a s v)"
  unfolding help_switch_def using assms by (auto intro!: part_intros only_intros)

lemma followed_start:
  assumes "only (\<lambda>c. \<not> sched_step c) w v" "e = Exited EXIT_FAILURE \<or> h \<and> e = Exited EXIT_SUCCESS"
  shows "followed h plan w (Inl e) v"
  using sched_steps_eqI[OF assms(1)] assms(2) unfolding followed_def by (intro exI[of _ 0]) auto

lemma simple_main_returns: "returns (simple_main b tids argv w)"
  unfolding simple_main_def run_table_def help_switch_def
  by (auto simp: Let_def split_def intro!: returns_intros)

lemma simple_main_follows:
  fixes argv defines "h \<equiv> CHR ''h'' \<in> opt_char ` set (getopt_all ''h'' argv)"
  shows "part_post (followed h (schedule_plan (with_tids tids simple_table)) w) (simple_main b tids argv w)"
proof -
  let ?P = "\<lambda>c. \<not> sched_step c" let ?R = "\<lambda>e. e = Exited EXIT_FAILURE \<or> h \<and> e = Exited EXIT_SUCCESS"
  let ?Q = "followed h (schedule_plan (with_tids tids simple_table)) w"
  let ?fin = "\<lambda>w. Some (simple_cleanup w)"
  have fin: "only ?P u u'" if "?fin u = Some u'" for u u'
    using that by (auto intro!: only_intros)
  have out: "part_post ?Q m" if "part_only ?P ?R (\<lambda>_. False) w m" for m
    using that by (rule part_post_only) (auto intro: followed_start)
  have run: "part_post ?Q (run_table ?fin (\<lambda>fs w. Some (baa_set_schedule_props fs w)) tids simple_table v)" if "only ?P w v" for v
    using fin sched_steps_eqI[OF that] by (rule run_table_follows)
  note struct = part_post_then[where P = ?P and R = ?R and S = "\<lambda>_. True" and w = w and Q = ?Q]
    part_post_let[where P = ?P and w = w and Q = ?Q] part_post_if[where Q = ?Q]
  show ?thesis
    unfolding simple_main_def Let_def[of "\<lambda>w. Some (simple_cleanup w)"]
    by (intro struct run; (rule out)?)
      (auto simp: h_def intro!: part_intros only_intros intro: followed_start rev_image_eqI dest: fin)
qed


text \<open>An environment in which nothing fails: the kernel is preemptible, the threads can be created and
  joined, and the priorities of the table are in the ranges of the kernel.\<close>

definition sched_env :: "(nat \<Rightarrow> call \<Rightarrow> reply) \<Rightarrow> bool" where
  "sched_env os \<longleftrightarrow> start_env os \<and>
    (\<forall>n. rv (os n (Proc Uname)) = 0 \<and> strstr_found (version (ruts (os n (Proc Uname)))) ''PREEMPT'') \<and>
    (\<forall>n c. rv (os n (Proc (Capng_update c))) = 0) \<and>
    (\<forall>n i. rv (os n (Sched (Pthread_create i))) = 0) \<and> (\<forall>n i. rv (os n (Sched (Pthread_join i))) = 0) \<and>
    (\<exists>ncpu \<ge> 1. stable_queries os (\<lambda>_. 1) (\<lambda>_. 99) ncpu)"

lemma simple_table_accepted:
  assumes "stable_queries (w_os w) (\<lambda>_. 1) (\<lambda>_. 99) ncpu" "1 \<le> ncpu"
  shows "fst (baa_is_fiber_config_valid (Some (with_tids tids simple_table)) (int (length simple_table)) w)"
  using check_loop_iff[OF assms(1)] assms(2)
  by (simp add: baa_is_fiber_config_valid_def with_tids_def simple_table_def fiber_ok_def fiber_def del: check_loop.simps)

lemma sched_env_steps:
  assumes "sched_env (w_os w)"
  shows "fst (baa_check_for_rtpreempt w)" "fst (baa_drop_capability c w) = 0"
    "fst (baa_build_scheduler n w) = 0" "fst (baa_start_scheduler n w) = 0"
    "fst (baa_is_fiber_config_valid (Some (with_tids tids simple_table)) (int (length simple_table)) w)"
proof -
  show "fst (baa_check_for_rtpreempt w)" "fst (baa_drop_capability c w) = 0"
    using assms by (auto simp: sched_env_def baa_check_for_rtpreempt_def baa_drop_capability_def split_def Let_def sys_simps answer_def)
  show "fst (baa_build_scheduler n w) = 0"
    using create.lp_finishes[of w "[0..<n]"] assms by (auto simp: sched_env_def baa_build_scheduler_def)
  let ?w = "snd (sys (Sched Mutex_unlock) (snd (sys (Sched Cond_broadcast) (snd (sys (Sched Mutex_lock) w)))))"
  show "fst (baa_start_scheduler n w) = 0"
    using join.lp_finishes[of ?w "[0..<n]"] assms by (auto simp: sched_env_def baa_start_scheduler_def split_def Let_def sys_simps)
  show "fst (baa_is_fiber_config_valid (Some (with_tids tids simple_table)) (int (length simple_table)) w)"
    using simple_table_accepted assms by (auto simp: sched_env_def)
qed

lemma run_simple_table_ok:
  assumes "sched_env (w_os w)"
  shows "\<exists>w'. run_table (\<lambda>w. Some (simple_cleanup w)) (\<lambda>fs w. Some (baa_set_schedule_props fs w)) tids simple_table w = Some (Inl (Exited EXIT_SUCCESS), w')"
proof -
  have os: "w_os (snd (baa_build_scheduler n v)) = w_os v" "w_os (snd (baa_is_fiber_config_valid fs k v)) = w_os v"
    "w_os (snd (sys (Log Fflush_stdout) (snd (baa_set_schedule_props gs v)))) = w_os v" for n fs gs k v
    by (rule only_os[where P = "\<lambda>_. True"]; auto intro!: only_intros)+
  show ?thesis
    using assms by (simp add: run_table_def split_def Let_def sched_env_steps os leave_def baa_set_schedule_props_def
        set_props_loop_io sys_simps)
qed


definition preempt_env :: "nat \<Rightarrow> call \<Rightarrow> reply" where
  "preempt_env n c =
    (case c of
       Mem m \<Rightarrow> reply_of 1
     | Proc Uname \<Rightarrow> (reply_of 0)\<lparr>ruts := \<lparr>sysname = ''Linux'', release = ''6.1'', version = ''SMP PREEMPT'', machine = ''x86''\<rparr>\<rparr>
     | _ \<Rightarrow> linux_queries n c)"

lemma preempt_env_ok: "sched_env preempt_env"
proof -
  have "\<exists>ncpu \<ge> 1. stable_queries preempt_env (\<lambda>_. 1) (\<lambda>_. 99) ncpu"
    by (intro exI[of _ 2]) (simp add: stable_queries_def preempt_env_def linux_queries_def)
  then show ?thesis
    by (simp add: sched_env_def start_env_def preempt_env_def linux_queries_def)
qed


end
