(* ===== verification/Baa_Sched_Daemon.thy ===== *)
theory Baa_Sched_Daemon
  imports Baa_Sched_Programs
begin

text \<open>
  Two properties of the programs of \<open>Baa_Sched_Programs\<close> that need whole runs: a run of the client
  \<open>src/examples/time_triggert_uds.c\<close> in an environment where nothing fails, and the daemon
  \<open>src/examples/time_triggert_uds_server.c\<close>, which serves only after its socket file has been
  given to the group it is meant for.
\<close>

section \<open>A run of the client\<close>

definition close_env :: "(nat \<Rightarrow> call \<Rightarrow> reply) \<Rightarrow> bool" where
  "close_env os \<longleftrightarrow> (\<forall>n fd. rv (os n (File (Close fd))) \<noteq> -1)"

lemma uds_cleanup_returns:
  assumes "close_env (w_os w)"
  shows "\<exists>w'. (leave (uds_cleanup s f) st w :: unit part) = Some (Inl (Exited st), w')"
    "\<exists>w'. (leave_with (uds_cleanup s f) (baa_error_exit fmt va w) :: unit part) = Some (Inl (Exited EXIT_FAILURE), w')"
proof -
  have c: "\<exists>w'. (leave (uds_cleanup s f) st v :: unit part) = Some (Inl (Exited st), w')" if "w_os v = w_os w" for v st
    using assms that baa_wrap_close.simps[of s v] by (auto simp: leave_def uds_cleanup_def close_env_def answer_def split: option.splits)
  then show "\<exists>w'. (leave (uds_cleanup s f) st w :: unit part) = Some (Inl (Exited st), w')" by simp
  show "\<exists>w'. (leave_with (uds_cleanup s f) (baa_error_exit fmt va w) :: unit part) = Some (Inl (Exited EXIT_FAILURE), w')"
    using quiet_fields(1)[OF error_common_quiet] by (simp add: leave_with_def baa_error_exit_def c)
qed

lemma run_uds_table_returns:
  assumes "close_env (w_os w)"
  shows "\<exists>w'. run_table (uds_cleanup s f) sp tids uds_table w = Some (Inl (Exited EXIT_FAILURE), w')"
proof -
  have os: "w_os (snd (baa_build_scheduler n v)) = w_os v" "w_os (snd (baa_is_fiber_config_valid fs k v)) = w_os v" for n fs k v
    by (rule only_os[where P = "\<lambda>_. True"]; auto intro!: only_intros)+
  show ?thesis
    using assms uds_table_rejected by (auto simp: run_table_def Let_def split_def os intro!: uds_cleanup_returns)
qed

lemma uds_main_returns:
  assumes "sched_env (w_os w)" "close_env (w_os w)"
  shows "\<exists>w'. uds_main b tids [name, ''-d'', d, ''-f'', f] w = Some (Inl (Exited EXIT_FAILURE), w')"
proof -
  have st: "start_env (w_os w)" using assms by (simp add: sched_env_def)
  have os: "w_os (snd (baa_check_for_rtpreempt v)) = w_os v" "w_os (snd (baa_create_uds_name_string a c v)) = w_os v"
    "w_os (snd (uds_socket x y z u v)) = w_os v" "w_os (uds_usage b m v) = w_os v" for a c v x y z u m
    by (rule only_os[where P = "\<lambda>_. True"]; auto intro!: only_intros)+
  have opts: "getopt_all ''hf:d:'' [name, ''-d'', d, ''-f'', f] = [Got (CHR ''d'') (Some d), Got (CHR ''f'') (Some f)]"
    using getopt_all_render[of "''hf:d:''" "[(CHR ''d'', Some d), (CHR ''f'', Some f)]" name]
    by (simp add: expects_def)
  show ?thesis
    using assms
    by (auto simp: uds_main_def opts uds_switch_def start_env_ok st sys_simps os sched_env_steps baa_uds_dgram_client_def split_def Let_def
        split: option.splits intro!: uds_cleanup_returns run_uds_table_returns)
qed




section \<open>The server publishes its socket before it serves\<close>

fun pid_call :: "call \<Rightarrow> bool" where
  "pid_call (File f) = True"
| "pid_call (Mem m) = True"
| "pid_call (Proc Getpid) = True"
| "pid_call c = False"

lemma ftruncate_only: "pid_ftruncate_cmd fd str w = Some y \<Longrightarrow> only pid_call w (snd y)"
proof (rule pid_ftruncate_cmd.raw_induct[where P = "\<lambda>fd str w y. only pid_call w (snd y)"])
  fix f :: "int \<Rightarrow> string \<Rightarrow> world \<Rightarrow> (bool \<times> world) option" and fd str w y
  assume IH: "\<And>fd str w y. f fd str w = Some y \<Longrightarrow> only pid_call w (snd y)"
    and eq: "(let ret = rv (answer w (File (Ftruncate fd 0))); w = snd (sys (File (Ftruncate fd 0)) w)
      in if ret = -1 then (if w_errno w = EINTR then f fd str w
           else Some (False, baa_errno_msg ''could not truncate pid file %s'' [FStr str] w)) else Some (True, w)) = Some y"
  have s: "only pid_call w (snd (sys (File (Ftruncate fd 0)) w))" by (auto intro!: only_intros)
  from eq show "only pid_call w (snd y)"
    using only_trans[OF s IH] s by (auto simp: Let_def split: if_splits intro!: only_intros)
qed

lemma pid_file_only:
  assumes "baa_create_file_with_pid nm dir w = Some (f, w')"
  shows "only pid_call w w'"
proof -
  have close: "only pid_call w v" if "baa_wrap_close fd u = Some v" "only pid_call w u" for fd u v
    using only_trans[OF that(2) only_mono[OF wrap_close_only[OF that(1)]]] by auto
  have trunc: "only pid_call w v" if "pid_ftruncate_cmd fd str u = Some (ok, v)" "only pid_call w u" for fd str ok u v
    using only_trans[OF that(2) ftruncate_only[OF that(1)]] by simp
  have err: "only pid_call w v" if "pid_error a p fd u = Some (x, v)" "only pid_call w u" for a p fd u x v
    using that by (auto simp: pid_error_def Let_def intro!: only_intros)
  have wr: "only pid_call w v" if "pid_write pf p fd u = Some (x, v)" "only pid_call w u" for pf p fd u x v
    using that unfolding pid_write_def Let_def
    by (auto simp: split_def split: if_splits option.splits intro!: only_intros elim!: err close)
  have fill: "only pid_call w v" if "pid_fill str n fd u = Some (x, v)" "only pid_call w u" for str n fd u x v
    using that unfolding pid_fill_def Let_def baa_lock_region_def
    by (auto simp: split_def split: if_splits option.splits intro!: only_intros elim!: err wr dest!: trunc)
  show ?thesis
    using assms unfolding baa_create_file_with_pid_def Let_def
    by (auto simp: split_def pid_open_cases split: option.splits if_splits intro!: only_intros elim!: fill)
qed


fun serve_call :: "call \<Rightarrow> bool" where
  "serve_call (Sched (Thread_create f)) = (f = ''baa_schedule_server_th'')"
| "serve_call c = False"

lemma only_daemon [only_intros]:
  assumes P: "\<And>c. \<not> serve_call c \<Longrightarrow> P c" and w: "only P w v"
  shows "only P w (snd (baa_become_daemon v))"
proof -
  have cl: "only P w (close_all is u)" if "only P w u" for "is" u
    using that by (induction "is" arbitrary: u) (auto simp: P only_sys)
  show ?thesis
    unfolding baa_become_daemon_def using w
    by (auto simp: signal_call_def simp del: baa_signal_simps intro!: only_struct only_intros cl P)
qed

lemma only_enable_syslog [only_intros]: "only P w v \<Longrightarrow> only P w (baa_enable_syslog b nm v)"
proof -
  have "only P w (u\<lparr>w_use_syslog := x\<rparr>)" if "only P w u" for u x
    using that by (simp add: only_def io_def)
  moreover assume "only P w v"
  ultimately show ?thesis
    unfolding baa_enable_syslog_def by (auto simp: split_def Let_def split: option.splits intro!: only_intros)
qed

text \<open>Before a trace entry, the socket file was given to the group of users, and both requests succeeded.\<close>

definition published :: "event list \<Rightarrow> bool" where
  "published es \<longleftrightarrow>
    (\<exists>path q1 q2 q3 grp. (File (Chmod path (S_IRUSR OR S_IWUSR OR S_IRGRP OR S_IWGRP)), q1) \<in> set es \<and> rv q1 \<noteq> -1 \<and>
      (Db (Getgrnam ''users''), q2) \<in> set es \<and> rgroup q2 = Some grp \<and>
      (File (Chown path (-1) (gr_gid grp)), q3) \<in> set es \<and> rv q3 \<noteq> -1)"

fun serves_published :: "event list \<Rightarrow> event list \<Rightarrow> bool" where
  "serves_published before [] = True"
| "serves_published before (e # es) = ((serve_call (fst e) \<longrightarrow> published before) \<and> serves_published (before @ [e]) es)"

lemma serves_append:
  "serves_published before (xs @ ys) = (serves_published before xs \<and> serves_published (before @ xs) ys)"
  by (induction xs arbitrary: before) auto

lemma serves_none: "\<forall>e \<in> set es. \<not> serve_call (fst e) \<Longrightarrow> serves_published before es"
  by (induction es arbitrary: before) auto

lemma published_mono: "published es \<Longrightarrow> published (before @ es)"
  unfolding published_def by fastforce

lemma serves_before:
  assumes "serves_published [] es" shows "serves_published before es"
proof -
  have "serves_published xs es \<Longrightarrow> serves_published (before @ xs) es" for xs
  proof (induction es arbitrary: xs)
    case (Cons e es)
    then show ?case using published_mono[of xs before] Cons.IH[of "xs @ [e]"] by auto
  qed simp
  from this[of "[]"] assms show ?thesis by simp
qed

definition serves_ok :: "world \<Rightarrow> world \<Rightarrow> bool" where
  "serves_ok w w' \<longleftrightarrow> (\<exists>new. io w' = io w @ new \<and> serves_published [] new)"

lemma serves_ok_only: "only (\<lambda>c. \<not> serve_call c) w w' \<Longrightarrow> serves_ok w w'"
  by (auto simp: only_def serves_ok_def intro: serves_none)

lemma serves_ok_trans: "serves_ok u v \<Longrightarrow> serves_ok v w \<Longrightarrow> serves_ok u w"
  unfolding serves_ok_def by (auto simp: serves_append intro: serves_before)

lemma tidy_not_serve: "only (tidy_call s) u v \<Longrightarrow> only (\<lambda>c. \<not> serve_call c) u v"
  by (erule only_mono) (auto elim: tidy_call.elims)


text \<open>How a run of the server may end, given what it added to the trace.\<close>

definition server_outcome :: "world \<Rightarrow> ending + unit \<Rightarrow> world \<Rightarrow> bool" where
  "server_outcome w r w' \<longleftrightarrow>
    (\<exists>new. io w' = io w @ new \<and> serves_published [] new \<and>
      (r = Inl (Exited EXIT_FAILURE) \<or>
       r = Inl (Exited EXIT_SUCCESS) \<and> (\<exists>e \<in> set new. fst e = Proc (Exit_now EXIT_SUCCESS) \<or> serve_call (fst e))))"

lemma outcome_failure: "serves_ok w v \<Longrightarrow> server_outcome w (Inl (Exited EXIT_FAILURE)) v"
  by (auto simp: serves_ok_def server_outcome_def)

lemma outcome_start: "only (\<lambda>c. \<not> serve_call c) w v \<Longrightarrow> server_outcome w (Inl (Exited EXIT_FAILURE)) v"
  by (intro outcome_failure serves_ok_only)

lemma daemon_parent:
  assumes "baa_become_daemon w = (Inl e, w')"
  shows "e = Exited EXIT_SUCCESS \<and> (\<exists>new q. io w' = io w @ new @ [(Proc (Exit_now EXIT_SUCCESS), q)] \<and> (\<forall>x \<in> set new. \<not> serve_call (fst x)))"
proof -
  have sg: "only (\<lambda>c. \<not> serve_call c) w (snd (baa_signal s h v))" if "only (\<lambda>c. \<not> serve_call c) w v" for s h v
    using that by (auto simp: signal_call_def simp del: baa_signal_simps intro!: only_intros)
  have ex: "\<exists>u. snd (sys c v) = snd (sys c u) \<and> only (\<lambda>c. \<not> serve_call c) w u" if "only (\<lambda>c. \<not> serve_call c) w v" for c v
    using that by blast
  have "e = Exited EXIT_SUCCESS \<and> (\<exists>u. w' = snd (sys (Proc (Exit_now EXIT_SUCCESS)) u) \<and> only (\<lambda>c. \<not> serve_call c) w u)"
    using assms unfolding baa_become_daemon_def Let_def
    by (auto simp: split_def simp del: baa_signal_simps split: if_splits intro!: ex only_intros sg)
  then obtain u where u: "e = Exited EXIT_SUCCESS" "w' = snd (sys (Proc (Exit_now EXIT_SUCCESS)) u)" "only (\<lambda>c. \<not> serve_call c) w u"
    by blast
  from u(3) obtain new where "io u = io w @ new" "\<forall>x \<in> set new. \<not> serve_call (fst x)" by (rule only_new)
  with u(1,2) show ?thesis by (auto simp: sys_simps)
qed


text \<open>Once the thread is started, whatever follows may end the program in either way.\<close>

lemma outcome_after:
  assumes new: "io v = io w @ new" "serves_published [] new" "\<exists>e \<in> set new. serve_call (fst e)" and o: "only (\<lambda>c. \<not> serve_call c) v v'"
    and e: "e = Exited EXIT_FAILURE \<or> e = Exited EXIT_SUCCESS"
  shows "server_outcome w (Inl e) v'"
proof -
  from o obtain l where "io v' = io v @ l" "\<forall>x \<in> set l. \<not> serve_call (fst x)" by (rule only_new)
  with new e show ?thesis
    unfolding server_outcome_def by (intro exI[of _ "new @ l"]) (auto simp: serves_append serves_none)
qed

lemma serve_step:
  assumes "only (\<lambda>c. \<not> serve_call c) w v" "io v = io w @ new" "published new" "serve_call c" "\<not> is_log c"
  shows "\<exists>new. io (snd (sys c v)) = io w @ new \<and> serves_published [] new \<and> (\<exists>e \<in> set new. serve_call (fst e))"
proof -
  have "\<forall>e \<in> set new. \<not> serve_call (fst e)" using assms(1,2) by (auto simp: only_def)
  with assms show ?thesis
    by (intro exI[of _ "new @ [(c, answer v c)]"]) (auto simp: sys_simps serves_append serves_none)
qed

lemma publish_outcome:
  assumes fin: "\<And>u u'. fin u = Some u' \<Longrightarrow> only (\<lambda>c. \<not> serve_call c) u u'" and v: "only (\<lambda>c. \<not> serve_call c) w v"
  shows "part_post (server_outcome w) (server_publish fin f v)"
proof -
  let ?P = "\<lambda>c. \<not> serve_call c"
  have out: "part_post (server_outcome w) m" if "part_only ?P (\<lambda>e. e = Exited EXIT_FAILURE) (\<lambda>_. False) w m" for m
    using that by (rule part_post_only) (auto intro: outcome_start)
  define c1 where "c1 = File (Chmod f (S_IRUSR OR S_IWUSR OR S_IRGRP OR S_IWGRP))"
  define v1 where "v1 = snd (sys c1 v)"
  define v2 where "v2 = snd (sys (Db (Getgrnam ''users'')) v1)"
  have [simp]: "\<not> is_log c1" "\<not> serve_call c1" by (simp_all add: c1_def)
  let ?c3 = "\<lambda>grp. File (Chown f (-1) (gr_gid grp))" let ?c4 = "Sched (Thread_create ''baa_schedule_server_th'')"
  have eq: "server_publish fin f v =
    (if rv (answer v c1) = -1 then leave_with fin (baa_error_exit ''could not set permissions to %s'' [FStr f] v1)
     else case rgroup (answer v1 (Db (Getgrnam ''users''))) of
       None \<Rightarrow> leave_with fin (baa_error_exit ''could not get group struct'' [] v2)
     | Some grp \<Rightarrow>
         if rv (answer v2 (?c3 grp)) = -1 then leave_with fin (baa_error_exit ''could not set group'' [] (snd (sys (?c3 grp) v2)))
         else then_do (start_thread fin ''baa_schedule_server_th'' ''could not create pthread'' (snd (sys (?c3 grp) v2))) (\<lambda>_ w.
           leave fin EXIT_SUCCESS (snd (sys (Sched (Thread_join ''signal_handler'')) (snd (sys (Sched (Thread_join ''baa_schedule_server_th'')) w))))))"
    by (simp add: server_publish_def c1_def v1_def v2_def split_def Let_def sys_simps split: option.split)
  have o: "only ?P w v1" "only ?P w v2" unfolding v1_def v2_def using v by (auto intro!: only_intros)
  show ?thesis
  proof (cases "rv (answer v c1) = -1 \<or> rgroup (answer v1 (Db (Getgrnam ''users''))) = None")
    case True
    then show ?thesis
      unfolding eq using o fin by (auto intro!: out part_intros)
  next
    case False
    then obtain grp where grp: "rgroup (answer v1 (Db (Getgrnam ''users''))) = Some grp" "rv (answer v c1) \<noteq> -1" by auto
    define c3 where "c3 = File (Chown f (-1) (gr_gid grp))"
    define v3 where "v3 = snd (sys c3 v2)"
    have [simp]: "\<not> is_log c3" "\<not> serve_call c3" by (simp_all add: c3_def)
    have o3: "only ?P w v3" unfolding v3_def using o by (auto intro!: only_intros)
    obtain new0 where "io v = io w @ new0" using v by (rule only_new)
    then have new3: "io v3 = io w @ new0 @ [(c1, answer v c1), (Db (Getgrnam ''users''), answer v1 (Db (Getgrnam ''users''))), (c3, answer v2 c3)]"
      by (simp add: v3_def v2_def v1_def sys_simps)
    show ?thesis
    proof (cases "rv (answer v2 c3) = -1")
      case True
      then show ?thesis
        unfolding eq using o3 grp fin by (auto simp flip: c3_def v3_def intro!: out part_intros)
    next
      case False
      define c4 where "c4 = Sched (Thread_create ''baa_schedule_server_th'')"
      define v4 where "v4 = snd (sys c4 v3)"
      have "published (new0 @ [(c1, answer v c1), (Db (Getgrnam ''users''), answer v1 (Db (Getgrnam ''users''))), (c3, answer v2 c3)])"
        unfolding published_def using grp False
        by (intro exI[of _ f] exI[of _ "answer v c1"] exI[of _ "answer v1 (Db (Getgrnam ''users''))"] exI[of _ "answer v2 c3"] exI[of _ grp])
          (simp add: c1_def c3_def)
      then obtain new where new: "io v4 = io w @ new" "serves_published [] new" "\<exists>e \<in> set new. serve_call (fst e)"
        using serve_step[OF o3 new3, of c4] by (auto simp: c4_def v4_def)
      have "part_only ?P (\<lambda>e. e = Exited EXIT_FAILURE \<or> e = Exited EXIT_SUCCESS) (\<lambda>_. False) v4 (server_publish fin f v)"
        unfolding eq start_thread_def using grp False fin
        by (auto simp: split_def Let_def simp flip: c3_def v3_def c4_def v4_def intro!: part_intros only_intros)
      then show ?thesis by (rule part_post_only) (auto intro: outcome_after[OF new])
    qed
  qed
qed


lemma server_fin: "server_cleanup s f p u = Some u' \<Longrightarrow> only (\<lambda>c. \<not> serve_call c) u u'"
  by (rule tidy_not_serve[OF server_exit.fin_only])

lemma outcome_out:
  "part_only (\<lambda>c. \<not> serve_call c) (\<lambda>e. e = Exited EXIT_FAILURE) (\<lambda>_. False) w m \<Longrightarrow> part_post (server_outcome w) m"
  by (erule part_post_only) (auto intro: outcome_start)

lemmas outcome_struct =
  part_post_then[where P = "\<lambda>c. \<not> serve_call c" and R = "\<lambda>e. e = Exited EXIT_FAILURE" and S = "\<lambda>_. True" and Q = "server_outcome w" and w = w for w]
  part_post_let[where P = "\<lambda>c. \<not> serve_call c" and Q = "server_outcome w" and w = w for w]
  part_post_if[where Q = "server_outcome w" for w]

lemma open_outcome:
  assumes "only (\<lambda>c. \<not> serve_call c) w v"
  shows "part_post (server_outcome w) (server_open nm pf v)"
proof -
  obtain s f u where e: "uds_socket (Some nm) (Some BAA_VAR_RUN_DIR) SOCK_DGRAM USE_BIND v = ((s, f), u)" by (metis prod.collapse)
  have "only (\<lambda>c. \<not> serve_call c) w (snd (uds_socket (Some nm) (Some BAA_VAR_RUN_DIR) SOCK_DGRAM USE_BIND v))"
    using assms by (intro only_intros) (auto elim: uds_call.elims)
  then have u: "only (\<lambda>c. \<not> serve_call c) w u" by (simp add: e)
  show ?thesis
  proof (cases "s = -1")
    case True
    with u show ?thesis by (auto simp: server_open_def baa_uds_dgram_server_def e intro!: outcome_out part_intros server_fin)
  next
    case False
    with u show ?thesis by (auto simp: server_open_def baa_uds_dgram_server_def e intro!: publish_outcome server_fin)
  qed
qed

lemma daemon_outcome:
  assumes "only (\<lambda>c. \<not> serve_call c) w v"
  shows "part_post (server_outcome w) (server_daemon nm v)"
proof (cases "baa_create_file_with_pid (Some nm) (Some BAA_VAR_RUN_DIR) (baa_enable_syslog True (Some nm) v)")
  case None
  then show ?thesis by (simp add: server_daemon_def part_post_def)
next
  case (Some y)
  obtain f u where y: "y = (f, u)" by fastforce
  have "only (\<lambda>c. \<not> serve_call c) w (baa_enable_syslog True (Some nm) v)" using assms by (auto intro!: only_intros)
  then have u: "only (\<lambda>c. \<not> serve_call c) w u"
    by (rule only_trans[OF _ only_mono[OF pid_file_only[OF Some[unfolded y]]]]) (auto elim: pid_call.elims)
  show ?thesis
  proof (cases f)
    case None
    with Some u show ?thesis by (auto simp: server_daemon_def y intro!: outcome_out part_intros server_fin)
  next
    case f: (Some g)
    have "part_post (server_outcome w) (then_do (start_signal_thread (server_cleanup (-1) None (Some g)) ''could not create pthread'' u) (\<lambda>_. server_open nm g))"
      using u by (intro outcome_struct open_outcome) (auto intro!: part_intros server_fin intro: outcome_start)
    with Some f show ?thesis by (simp add: server_daemon_def y)
  qed
qed

lemma detach_outcome:
  assumes "only (\<lambda>c. \<not> serve_call c) w v"
  shows "part_post (server_outcome w) (server_detach nm v)"
proof (cases "baa_become_daemon v")
  case (Pair d u)
  have "only (\<lambda>c. \<not> serve_call c) w (snd (baa_become_daemon v))" using assms by (auto intro!: only_intros)
  then have u: "only (\<lambda>c. \<not> serve_call c) w u" by (simp add: Pair)
  show ?thesis
  proof (cases d)
    case (Inl e)
    obtain new q where d: "e = Exited EXIT_SUCCESS" "io u = io v @ new @ [(Proc (Exit_now EXIT_SUCCESS), q)]"
      using daemon_parent[of v e u] Pair Inl by blast
    obtain l where l: "io v = io w @ l" using assms by (rule only_new)
    from u obtain k where k: "io u = io w @ k" "\<forall>x \<in> set k. \<not> serve_call (fst x)" by (rule only_new)
    have "(Proc (Exit_now EXIT_SUCCESS), q) \<in> set k" using k(1) d(2) l by auto
    with k d(1) have "server_outcome w (Inl e) u"
      unfolding server_outcome_def by (intro exI[of _ k]) (force simp: serves_none)
    with Pair Inl show ?thesis by (simp add: server_detach_def part_post_def)
  next
    case (Inr err)
    then show ?thesis
      using u by (cases "err = 0") (auto simp: server_detach_def Pair intro!: daemon_outcome intro: outcome_out[OF part_only_exits(1)] server_fin)
  qed
qed


text \<open>A run of the daemon itself: both forks return in the child.\<close>

definition daemon_env :: "nat \<Rightarrow> call \<Rightarrow> reply" where
  "daemon_env n c =
    (case c of
       Mem m \<Rightarrow> reply_of 1
     | File (Open p f m) \<Rightarrow> reply_of 3
     | File (Write fd s) \<Rightarrow> reply_of (int (length s))
     | Sock (Socket d t p) \<Rightarrow> reply_of 4
     | Db (Getgrnam g) \<Rightarrow> (reply_of 0)\<lparr>rgroup := Some \<lparr>gr_name = ''users'', gr_gid = 100\<rparr>\<rparr>
     | _ \<Rightarrow> reply_of 0)"

lemma daemon_env_start: "start_env daemon_env" "uds_env daemon_env 4" "close_env daemon_env"
  by (simp_all add: start_env_def uds_env_def close_env_def daemon_env_def)

lemma daemon_env_forks: "w_os w = daemon_env \<Longrightarrow> fst (baa_become_daemon w) = Inr 0"
  by (simp add: baa_become_daemon_def split_def Let_def sys_simps answer_def daemon_env_def)

lemma ftruncate_ok:
  "rv (answer w (File (Ftruncate fd 0))) \<noteq> -1 \<Longrightarrow> pid_ftruncate_cmd fd str w = Some (True, snd (sys (File (Ftruncate fd 0)) w))"
  by (subst pid_ftruncate_cmd.simps) (simp add: Let_def)

lemmas loops_ok = ftruncate_ok wrap_close_ok

lemma daemon_env_write:
  assumes "w_os w = daemon_env"
  shows "\<exists>w'. pid_write f ptr fd w = Some (Some f, w')"
proof -
  have "fmt_text ''%ld\<newline>'' [FInt 0] = ''0\<newline>''" by code_simp
  moreover have "rv (answer w (Proc Getpid)) = 0" using assms by (simp add: answer_def daemon_env_def)
  ultimately show ?thesis
    using assms by (simp add: pid_write_def split_def Let_def sys_simps BAA_MAXLINE_def c_snprintf_fits overwrite_def
        answer_def daemon_env_def loops_ok del: fmt_text.simps)
qed

lemma daemon_env_fill:
  assumes "w_os w = daemon_env" "no_nul f"
  shows "\<exists>w'. pid_fill f (length f) fd w = Some (Some f, w')"
  using daemon_env_write[of "snd (sys (File (Ftruncate fd 0)) (snd (sys (File (Fcntl_setlk fd)) (snd (sys (Mem (Malloc (length f + 1))) w)))))"]
    strncpy_path[OF assms(2) order_refl] assms(1)
  by (simp add: pid_fill_def split_def Let_def sys_simps baa_lock_region_def answer_def daemon_env_def loops_ok)

lemma daemon_env_pid:
  assumes "w_os w = daemon_env"
  shows "\<exists>w'. baa_create_file_with_pid (Some ''srv'') (Some BAA_VAR_RUN_DIR) w = Some (Some ''/var/run/srv.pid'', w')"
proof -
  define path where "path = ''/var/run/srv.pid''"
  have p: "no_nul path" "length path < BAA_MAXLINE" by (simp_all add: path_def NUL_def BAA_MAXLINE_def)
  have f: "fmt_text ''%s/%s.pid'' [FStr BAA_VAR_RUN_DIR, FStr ''srv''] = path" by (simp add: path_def BAA_VAR_RUN_DIR_def)
  show ?thesis
    unfolding baa_create_file_with_pid_def prod.case option.case f path_def[symmetric] Let_def snprintf_path[OF p]
    using assms daemon_env_fill[OF _ p(1)]
    by (simp add: split_def sys_simps pid_open_cases answer_def daemon_env_def)
qed


lemma publish_ok:
  assumes "w_os w = daemon_env" "s \<noteq> -1"
  shows "\<exists>w'. server_publish (server_cleanup s f p) g w = Some (Inl (Exited EXIT_SUCCESS), w')"
proof -
  have fin: "\<exists>w'. leave (server_cleanup s f p) EXIT_SUCCESS v = (Some (Inl (Exited EXIT_SUCCESS), w') :: unit part)" if "w_os v = daemon_env" for v
    using that assms(2) by (simp add: leave_def server_cleanup_def loops_ok answer_def daemon_env_def)
  have st: "start_env (w_os v)" if "w_os v = daemon_env" for v using that daemon_env_start by simp
  show ?thesis
    using assms(1) by (simp add: server_publish_def split_def Let_def sys_simps answer_def start_env_ok[OF st] fin daemon_env_def)
qed

lemma daemon_env_runs:
  "\<exists>w'. server_main b [''/usr/bin/srv''] (init_world daemon_env) = Some (Inl (Exited EXIT_SUCCESS), w')"
proof -
  define v where "v = snd (sys (Proc Atexit) (snd (sys (name_call ''/usr/bin/srv'') (init_world daemon_env))))"
  define v1 where "v1 = snd (baa_become_daemon (show_some_infos b (snd (baa_drop_capability CAP_SYS_NICE v))))"
  have "w_os (show_some_infos b (snd (baa_drop_capability CAP_SYS_NICE v))) = w_os v"
    by (rule only_os[where P = "\<lambda>_. True"]) (auto intro!: only_intros)
  then have os0: "w_os v = daemon_env" "w_os (show_some_infos b (snd (baa_drop_capability CAP_SYS_NICE v))) = daemon_env"
    by (simp_all add: v_def sys_simps)
  have cap: "fst (baa_drop_capability CAP_SYS_NICE v) = 0"
    by (simp add: baa_drop_capability_def os0 split_def Let_def sys_simps answer_def daemon_env_def)
  have "w_os (baa_enable_syslog True (Some ''srv'') v1) = w_os (show_some_infos b (snd (baa_drop_capability CAP_SYS_NICE v)))"
    unfolding v1_def by (rule only_os[where P = "\<lambda>_. True"]) (auto intro!: only_intros)
  then have os1: "w_os (baa_enable_syslog True (Some ''srv'') v1) = daemon_env" by (simp add: os0)
  obtain v2 where v2: "baa_create_file_with_pid (Some ''srv'') (Some BAA_VAR_RUN_DIR) (baa_enable_syslog True (Some ''srv'') v1) = Some (Some ''/var/run/srv.pid'', v2)"
    using daemon_env_pid[OF os1] by blast
  have os2: "w_os (signal_thread_started v2) = daemon_env" using only_os[OF pid_file_only[OF v2]] os1 by simp
  obtain v3 where v3: "baa_uds_dgram_server (Some ''srv'') (Some BAA_VAR_RUN_DIR) (signal_thread_started v2) = ((4, Some ''/var/run/srv.socket''), v3)" "w_os v3 = daemon_env"
    using uds_dgram_server_bound[of "signal_thread_started v2" 4 "''/var/run/srv.socket''" BAA_VAR_RUN_DIR "''srv''"] os2 daemon_env_start
    by (auto simp: NUL_def BAA_VAR_RUN_DIR_def)
  have st: "start_env (w_os u)" if "w_os u = daemon_env" for u using that daemon_env_start by simp
  have "start_signal_thread fin msg v2 = Some (Inr (), signal_thread_started v2)" for fin msg
    using os2 by (intro start_env_ok st) simp
  moreover obtain w' where "server_publish (server_cleanup 4 (Some ''/var/run/srv.socket'') (Some ''/var/run/srv.pid'')) ''/var/run/srv.socket'' v3 =
      Some (Inl (Exited EXIT_SUCCESS), w')"
    using publish_ok[OF v3(2), of 4 "Some ''/var/run/srv.socket''" "Some ''/var/run/srv.pid''" "''/var/run/srv.socket''"] by auto
  ultimately have "server_daemon ''srv'' v1 = Some (Inl (Exited EXIT_SUCCESS), w')"
    using v2 v3 by (simp add: server_daemon_def server_open_def Let_def)
  moreover have "program_name [''/usr/bin/srv''] (init_world daemon_env) = Some (Inr ''srv'', snd (sys (name_call ''/usr/bin/srv'') (init_world daemon_env)))"
    using start_env_ok(1)[OF st, of "init_world daemon_env" "''/usr/bin/srv''" "[]"] by (simp add: after_last_slash_def c_str_def NUL_def)
  moreover have "register_cleanup (snd (sys (name_call ''/usr/bin/srv'') (init_world daemon_env))) = Some (Inr (), v)"
    unfolding v_def by (intro start_env_ok st) (simp add: sys_simps)
  ultimately show ?thesis
    using cap daemon_env_forks[OF os0(2)] by (simp add: server_main_def server_detach_def split_def Let_def flip: v1_def)
qed


end
