(* ===== verification/Baa_Sched_Clients.thy ===== *)
theory Baa_Sched_Clients
  imports Baa_Sched_Server
begin

text \<open>
  Several clients of one schedule server (\<open>baa_set_schedule_props_via_server\<close> and
  \<open>baa_schedule_server_th\<close> of \<open>src/src/fiber.c\<close>). The server works on one datagram at a time, so
  the requests of two clients reach it as some interleaving, with foreign datagrams between them.
\<close>

section \<open>Interleavings\<close>

lemma shuffles_map:
  "ds \<in> shuffles (map f xs) (map f ys) \<Longrightarrow> \<exists>zs. zs \<in> shuffles xs ys \<and> ds = map f zs"
proof (induction xs ys arbitrary: ds rule: shuffles.induct)
  case (3 x xs y ys)
  from "3.prems" consider ds' where "ds = f x # ds'" "ds' \<in> shuffles (map f xs) (map f (y # ys))"
    | ds' where "ds = f y # ds'" "ds' \<in> shuffles (map f (x # xs)) (map f ys)"
    by auto
  then show ?case
  proof cases
    case 1
    then obtain zs where "zs \<in> shuffles xs (y # ys)" "ds' = map f zs" using "3.IH"(1) by blast
    with 1 show ?thesis by (intro exI[of _ "x # zs"]) simp
  next
    case 2
    then obtain zs where "zs \<in> shuffles (x # xs) ys" "ds' = map f zs" using "3.IH"(2) by blast
    with 2 show ?thesis by (intro exI[of _ "y # zs"]) simp
  qed
qed auto

text \<open>What all elements of one list fail picks the other list out of an interleaving.\<close>

lemma shuffles_pick:
  "zs \<in> shuffles xs ys \<Longrightarrow> \<forall>y \<in> set ys. \<not> P y \<Longrightarrow> filter P zs = filter P xs"
  using filter_shuffles[of P xs ys] by (auto simp: filter_empty_conv[THEN iffD2])

section \<open>Requests among other datagrams\<close>

text \<open>What the server takes for a request, by the first byte of its cleared buffer.\<close>

definition is_request :: "byte list \<Rightarrow> bool" where
  "is_request d \<longleftrightarrow> (case d of [] \<Rightarrow> True | b # _ \<Rightarrow> b = PTYPE_SCHED_PROPS)"

lemma sched_message_request [simp]: "is_request (sched_message fiber)"
  by (simp add: is_request_def sched_message_def enc_field_def wire_size_def be_bytes_def PTYPE_SCHED_PROPS_def)

lemma not_request_buffer:
  "rbytes r = d \<Longrightarrow> \<not> is_request d \<Longrightarrow> request_buffer r ! 0 \<noteq> PTYPE_SCHED_PROPS"
  by (cases d) (auto simp: is_request_def request_buffer_def received_def overwrite_def BAA_MAX_LEN_MSG_def numeral_eq_Suc)

lemma server_run_datagrams:
  assumes "frame_ok fe pt" "delivers fe pt kdo_s ds m w" "filter is_request ds = map sched_message fibers"
  shows "filter sets_props (map fst (io (snd (schedule_server_run (length ds) fe pt kdo_s m w)))) =
    filter sets_props (map fst (io w)) @ concat (map props_calls fibers)"
  using assms(2,3)
proof (induction ds arbitrary: fibers m w)
  case (Cons d ds)
  let ?i = "schedule_server_iteration fe pt kdo_s m w"
  have run: "schedule_server_run (length (d # ds)) fe pt kdo_s m w = schedule_server_run (length ds) fe pt kdo_s (fst ?i) (snd ?i)"
    by (simp add: split_def Let_def)
  have rest: "delivers fe pt kdo_s ds (fst ?i) (snd ?i)" using Cons.prems(1) by (simp add: split_def Let_def)
  show ?case
  proof (cases "is_request d")
    case True
    then obtain f fs where f: "fibers = f # fs" "d = sched_message f" "filter is_request ds = map sched_message fs"
      using Cons.prems(2) by (cases fibers) auto
    then show ?thesis
      using served_props[OF assms(1), of w kdo_s f m] Cons.IH[OF rest f(3)] Cons.prems(1)
      unfolding run by simp
  next
    case False
    then have "filter sets_props (map fst (io (snd ?i))) = filter sets_props (map fst (io w))"
      using server_iteration_ignored(1)[of w kdo_s fe pt m] not_request_buffer[OF _ False] Cons.prems(1) by simp
    with False show ?thesis using Cons.IH[OF rest] Cons.prems(2) unfolding run by simp
  qed
qed simp

section \<open>Two clients\<close>

fun about_thread :: "c_int \<Rightarrow> call \<Rightarrow> bool" where
  "about_thread t (Sched (Sched_setaffinity u s)) = (u = t)"
| "about_thread t (Sched (Sched_setscheduler u p q)) = (u = t)"
| "about_thread t c = False"

lemma about_thread_calls:
  "filter (about_thread t) (concat (map props_calls fs)) = concat (map props_calls (filter (\<lambda>f. kernel_tid f = t) fs))"
  by (induction fs) (simp_all add: props_calls_def)

text \<open>
  C7. A schedule server can be shared. When the datagrams it receives are the requests of two clients in
  any interleaving, with any foreign datagrams between them, the affinity and scheduler calls it
  makes are those of the fibers of both clients in an interleaving of their orders. For a thread
  that only the first client has, they are exactly the calls that
  \<open>baa_set_schedule_props\<close> makes for it: no client disturbs the fibers of another.
\<close>
theorem server_shared_by_clients:
  assumes "frame_ok fe pt" "delivers fe pt kdo_s ds m w" "filter sets_props (map fst (io w)) = []"
    and "filter is_request ds \<in> shuffles (map sched_message fs) (map sched_message gs)"
  shows "\<exists>hs. hs \<in> shuffles fs gs \<and>
    filter sets_props (map fst (io (snd (schedule_server_run (length ds) fe pt kdo_s m w)))) = concat (map props_calls hs) \<and>
    (\<forall>t. t \<notin> kernel_tid ` set gs \<longrightarrow>
      filter (about_thread t) (filter sets_props (map fst (io (snd (schedule_server_run (length ds) fe pt kdo_s m w))))) =
      filter (about_thread t) (concat (map props_calls fs)))"
proof -
  obtain hs where hs: "hs \<in> shuffles fs gs" "filter is_request ds = map sched_message hs"
    using shuffles_map[OF assms(4)] by blast
  have "filter (\<lambda>f. kernel_tid f = t) hs = filter (\<lambda>f. kernel_tid f = t) fs" if "t \<notin> kernel_tid ` set gs" for t
    using that by (intro shuffles_pick[OF hs(1)]) auto
  then show ?thesis
    using server_run_datagrams[OF assms(1,2) hs(2)] assms(3) hs(1)
    by (intro exI[of _ hs]) (simp add: about_thread_calls)
qed

text \<open>A run in which the request of one client is followed by that of the other.\<close>

definition two_clients :: "fiber_element \<Rightarrow> fiber_element \<Rightarrow> nat \<Rightarrow> call \<Rightarrow> reply" where
  "two_clients f g n c =
    (case c of Sock (Recvfrom s k) \<Rightarrow> bytes_reply (sched_message (if n = 0 then f else g)) | _ \<Rightarrow> reply_of 0)"

lemma two_clients_deliver:
  assumes "frame_ok fe pt"
  shows "delivers fe pt kdo_s [sched_message f, sched_message g] m (init_world (two_clients f g))"
proof -
  let ?w = "init_world (two_clients f g)" let ?i = "schedule_server_iteration fe pt kdo_s m ?w"
  let ?r = "answer ?w (Sock (Recvfrom kdo_s BAA_MAX_LEN_MSG))"
  have r: "rv ?r \<noteq> -1" "take BAA_MAX_LEN_MSG (rbytes ?r) = sched_message f"
    by (simp_all add: answer_def two_clients_def BAA_MAX_LEN_MSG_def bytes_reply_def)
  note it = server_iteration_request[OF r(1) request_of_message(1)[OF r(2)], of fe pt m]
  have "w_trace (snd ?i) \<noteq> []" using it(1) by (auto simp: io_def)
  then have "answer (snd ?i) (Sock (Recvfrom kdo_s BAA_MAX_LEN_MSG)) = bytes_reply (sched_message g)"
    using it(2) by (simp add: answer_def two_clients_def)
  then show ?thesis by (simp add: split_def Let_def answer_def[of ?w] two_clients_def bytes_reply_def)
qed

theorem server_shared_by_clients_witness:
  "\<exists>hs. hs \<in> shuffles [example_fiber] [example_fiber\<lparr>kernel_tid := 9, cpu := 1\<rparr>] \<and>
    filter sets_props (map fst (io (snd (schedule_server_run 2 4096 8192 5 (\<lambda>_. 0)
      (init_world (two_clients example_fiber (example_fiber\<lparr>kernel_tid := 9, cpu := 1\<rparr>))))))) = concat (map props_calls hs)"
proof -
  let ?f = example_fiber let ?g = "example_fiber\<lparr>kernel_tid := 9, cpu := 1\<rparr>"
  have fr: "frame_ok 4096 8192" by (simp add: frame_ok_def)
  have "[sched_message ?f, sched_message ?g] \<in> shuffles (map sched_message [?f]) (map sched_message [?g])" by simp
  then show ?thesis
    using server_shared_by_clients[OF fr two_clients_deliver[OF fr, of 5 ?f ?g "\<lambda>_. 0"], of "[?f]" "[?g]"]
    by (simp add: numeral_2_eq_2 del: schedule_server_run.simps shuffles.simps) blast
qed

end
