(* ===== verification/Baa_Barrier.thy ===== *)
theory Baa_Barrier
  imports Baa_Fiber
begin

text \<open>
  The start barrier of the time-triggered scheduler as a concurrent system: the main thread
  runs \<open>baa_build_scheduler\<close> and \<open>baa_start_scheduler\<close> of \<open>src/src/fiber.c\<close> while every created
  thread runs the prologue of \<open>baa_fiber\<close>. One step is one action of one thread on the shared
  mutex and condition variable; which thread moves is not determined. POSIX allows
  \<open>pthread_cond_wait\<close> to return without a broadcast; whether such spurious wake-ups happen is
  a parameter of the step relation, because the code does not recheck a condition after
  its wait.
\<close>

section \<open>Transition systems with a rank\<close>

text \<open>
  The interface of a finite concurrent phase: an invariant that the start has and every step
  keeps, and a rank that every step from an invariant state lowers. Reachable states then
  satisfy the invariant, runs are bounded by the rank, and every state has a run to a state
  without successors.
\<close>

locale ranked_system =
  fixes step :: "'s \<Rightarrow> 's \<Rightarrow> bool" and init :: 's and inv :: "'s \<Rightarrow> bool" and rank :: "'s \<Rightarrow> nat"
  assumes inv_init: "inv init"
    and inv_step: "inv s \<Longrightarrow> step s t \<Longrightarrow> inv t"
    and rank_step: "inv s \<Longrightarrow> step s t \<Longrightarrow> rank t < rank s"
begin

lemma inv_steps: "step\<^sup>*\<^sup>* s t \<Longrightarrow> inv s \<Longrightarrow> inv t"
  by (induction rule: rtranclp_induct) (auto intro: inv_step)

lemma inv_reachable: "step\<^sup>*\<^sup>* init s \<Longrightarrow> inv s"
  using inv_steps inv_init by blast

lemma run_bound: "(step ^^ k) s t \<Longrightarrow> inv s \<Longrightarrow> rank t + k \<le> rank s"
proof (induction k arbitrary: t)
  case (Suc k)
  then obtain u where u: "(step ^^ k) s u" "step u t" by auto
  then have "inv u" using Suc.prems(2) inv_steps relpowp_imp_rtranclp by metis
  with u Suc show ?case using rank_step[of u t] by force
qed simp

lemma reaches_final: "inv s \<Longrightarrow> \<exists>t. step\<^sup>*\<^sup>* s t \<and> \<not> (\<exists>u. step t u)"
proof (induction "rank s" arbitrary: s rule: less_induct)
  case less
  show ?case
  proof (cases "\<exists>u. step s u")
    case True
    then obtain u where "step s u" by blast
    then show ?thesis
      using less rank_step inv_step by (meson converse_rtranclp_into_rtranclp)
  qed blast
qed

end

section \<open>The barrier\<close>

datatype fiber_pc = Not_created | Prefault | Has_mutex | Waiting | Woken | Reacquired | Running

datatype main_pc = Building nat | Sleeping | Starting | Main_locked | Broadcasted | Joining

datatype owner = Main | Fib nat

record barrier =
  fpc :: "nat \<Rightarrow> fiber_pc"
  mpc :: main_pc
  holder :: "owner option"

definition barrier_init :: barrier where
  "barrier_init = \<lparr>fpc = (\<lambda>_. Not_created), mpc = Building 0, holder = None\<rparr>"

inductive barrier_step :: "bool \<Rightarrow> nat \<Rightarrow> barrier \<Rightarrow> barrier \<Rightarrow> bool" for spurious n where
  create: "mpc s = Building k \<Longrightarrow> k < n \<Longrightarrow>
    barrier_step spurious n s (s\<lparr>fpc := (fpc s)(k := Prefault), mpc := Building (Suc k)\<rparr>)"
| built: "mpc s = Building n \<Longrightarrow> barrier_step spurious n s (s\<lparr>mpc := Sleeping\<rparr>)"
| slept: "mpc s = Sleeping \<Longrightarrow> barrier_step spurious n s (s\<lparr>mpc := Starting\<rparr>)"
| main_lock: "mpc s = Starting \<Longrightarrow> holder s = None \<Longrightarrow>
    barrier_step spurious n s (s\<lparr>mpc := Main_locked, holder := Some Main\<rparr>)"
| broadcast: "mpc s = Main_locked \<Longrightarrow>
    barrier_step spurious n s (s\<lparr>fpc := (\<lambda>i. if fpc s i = Waiting then Woken else fpc s i), mpc := Broadcasted\<rparr>)"
| main_unlock: "mpc s = Broadcasted \<Longrightarrow> barrier_step spurious n s (s\<lparr>mpc := Joining, holder := None\<rparr>)"
| fiber_lock: "i < n \<Longrightarrow> fpc s i = Prefault \<Longrightarrow> holder s = None \<Longrightarrow>
    barrier_step spurious n s (s\<lparr>fpc := (fpc s)(i := Has_mutex), holder := Some (Fib i)\<rparr>)"
| fiber_wait: "i < n \<Longrightarrow> fpc s i = Has_mutex \<Longrightarrow>
    barrier_step spurious n s (s\<lparr>fpc := (fpc s)(i := Waiting), holder := None\<rparr>)"
| fiber_reacquire: "i < n \<Longrightarrow> fpc s i = Woken \<Longrightarrow> holder s = None \<Longrightarrow>
    barrier_step spurious n s (s\<lparr>fpc := (fpc s)(i := Reacquired), holder := Some (Fib i)\<rparr>)"
| fiber_unlock: "i < n \<Longrightarrow> fpc s i = Reacquired \<Longrightarrow>
    barrier_step spurious n s (s\<lparr>fpc := (fpc s)(i := Running), holder := None\<rparr>)"
| wake_up: "spurious \<Longrightarrow> i < n \<Longrightarrow> fpc s i = Waiting \<Longrightarrow>
    barrier_step spurious n s (s\<lparr>fpc := (fpc s)(i := Woken)\<rparr>)"

definition after_broadcast :: "barrier \<Rightarrow> bool" where
  "after_broadcast s \<longleftrightarrow> mpc s = Broadcasted \<or> mpc s = Joining"

text \<open>The invariant: the mutex records who holds it, nobody is past its wait before the broadcast,
  and exactly the fibers created so far exist.\<close>

definition mutex_ok :: "barrier \<Rightarrow> bool" where
  "mutex_ok s \<longleftrightarrow>
    (\<forall>i. holder s = Some (Fib i) \<longleftrightarrow> fpc s i = Has_mutex \<or> fpc s i = Reacquired) \<and>
    (holder s = Some Main \<longleftrightarrow> mpc s = Main_locked \<or> mpc s = Broadcasted)"

definition past_wait :: "fiber_pc \<Rightarrow> bool" where
  "past_wait p \<longleftrightarrow> p = Woken \<or> p = Reacquired \<or> p = Running"

definition order_ok :: "barrier \<Rightarrow> bool" where
  "order_ok s \<longleftrightarrow> (\<forall>i. past_wait (fpc s i) \<longrightarrow> after_broadcast s)"

fun built_upto :: "nat \<Rightarrow> main_pc \<Rightarrow> nat" where
  "built_upto n (Building k) = k"
| "built_upto n p = n"

definition created_ok :: "nat \<Rightarrow> barrier \<Rightarrow> bool" where
  "created_ok n s \<longleftrightarrow> built_upto n (mpc s) \<le> n \<and> (\<forall>i. fpc s i = Not_created \<longleftrightarrow> built_upto n (mpc s) \<le> i)"

definition barrier_inv :: "bool \<Rightarrow> nat \<Rightarrow> barrier \<Rightarrow> bool" where
  "barrier_inv spurious n s \<longleftrightarrow> mutex_ok s \<and> (\<not> spurious \<longrightarrow> order_ok s) \<and> created_ok n s"

fun fiber_rank :: "fiber_pc \<Rightarrow> nat" where
  "fiber_rank Not_created = 6"
| "fiber_rank Prefault = 5"
| "fiber_rank Has_mutex = 4"
| "fiber_rank Waiting = 3"
| "fiber_rank Woken = 2"
| "fiber_rank Reacquired = 1"
| "fiber_rank Running = 0"

fun main_rank :: "nat \<Rightarrow> main_pc \<Rightarrow> nat" where
  "main_rank n (Building k) = (n - k) + 5"
| "main_rank n Sleeping = 4"
| "main_rank n Starting = 3"
| "main_rank n Main_locked = 2"
| "main_rank n Broadcasted = 1"
| "main_rank n Joining = 0"

definition barrier_rank :: "nat \<Rightarrow> barrier \<Rightarrow> nat" where
  "barrier_rank n s = main_rank n (mpc s) + (\<Sum>i<n. fiber_rank (fpc s i))"

lemma sum_update:
  assumes "i < (n::nat)"
  shows "(\<Sum>j<n. f ((g(i := x)) j)) + f (g i) = (\<Sum>j<n. f (g j)) + (f x :: nat)"
proof -
  have "(\<Sum>j<n. f ((g(i := x)) j)) = f x + (\<Sum>j\<in>{..<n} - {i}. f (g j))"
    using assms by (subst sum.remove[of _ i]) auto
  moreover have "(\<Sum>j<n. f (g j)) = f (g i) + (\<Sum>j\<in>{..<n} - {i}. f (g j))"
    using assms by (subst sum.remove[of _ i]) auto
  ultimately show ?thesis by simp
qed

lemma barrier_rank_step:
  "barrier_step spurious n s t \<Longrightarrow> barrier_inv spurious n s \<Longrightarrow> barrier_rank n t < barrier_rank n s"
proof (induction rule: barrier_step.induct)
  case (create s k)
  then have "fpc s k = Not_created" by (simp add: barrier_inv_def created_ok_def)
  then show ?case
    using create sum_update[of k n fiber_rank "fpc s" Prefault] by (simp add: barrier_rank_def)
next
  case (broadcast s)
  have "(\<Sum>i<n. fiber_rank (if fpc s i = Waiting then Woken else fpc s i)) \<le> (\<Sum>i<n. fiber_rank (fpc s i))"
    by (rule sum_mono) simp
  then show ?case using broadcast by (simp add: barrier_rank_def)
next
  case (fiber_lock i s)
  then show ?case using sum_update[of i n fiber_rank "fpc s" Has_mutex] by (simp add: barrier_rank_def)
next
  case (fiber_wait i s)
  then show ?case using sum_update[of i n fiber_rank "fpc s" Waiting] by (simp add: barrier_rank_def)
next
  case (fiber_reacquire i s)
  then show ?case using sum_update[of i n fiber_rank "fpc s" Reacquired] by (simp add: barrier_rank_def)
next
  case (fiber_unlock i s)
  then show ?case using sum_update[of i n fiber_rank "fpc s" Running] by (simp add: barrier_rank_def)
next
  case (wake_up i s)
  then show ?case using sum_update[of i n fiber_rank "fpc s" Woken] by (simp add: barrier_rank_def)
qed (simp_all add: barrier_rank_def)

lemma mutex_ok_release:
  assumes "mutex_ok s" "fpc s i = Has_mutex \<or> fpc s i = Reacquired" "p \<noteq> Has_mutex" "p \<noteq> Reacquired"
  shows "mutex_ok (s\<lparr>fpc := (fpc s)(i := p), holder := None\<rparr>)"
proof -
  have "holder s = Some (Fib i)" using assms(1,2) by (simp add: mutex_ok_def)
  then have "fpc s j \<noteq> Has_mutex \<and> fpc s j \<noteq> Reacquired" if "j \<noteq> i" for j
    using assms(1) that unfolding mutex_ok_def by (metis option.inject owner.inject)
  moreover have "mpc s \<noteq> Main_locked \<and> mpc s \<noteq> Broadcasted"
    using assms(1) \<open>holder s = Some (Fib i)\<close> unfolding mutex_ok_def by force
  ultimately show ?thesis using assms(3,4) by (auto simp: mutex_ok_def)
qed

lemma mutex_ok_acquire:
  assumes "mutex_ok s" "holder s = None" "p = Has_mutex \<or> p = Reacquired"
  shows "mutex_ok (s\<lparr>fpc := (fpc s)(i := p), holder := Some (Fib i)\<rparr>)"
  using assms by (auto simp: mutex_ok_def)

lemma mutex_ok_other:
  assumes "mutex_ok s" "fpc s i \<notin> {Has_mutex, Reacquired}" "p \<notin> {Has_mutex, Reacquired}"
  shows "mutex_ok (s\<lparr>fpc := (fpc s)(i := p)\<rparr>)"
  using assms by (simp add: mutex_ok_def)

lemma mutex_ok_step:
  "barrier_step spurious n s t \<Longrightarrow> mutex_ok s \<Longrightarrow> created_ok n s \<Longrightarrow> mutex_ok t"
proof (induction rule: barrier_step.induct)
  case (create s k)
  then have "fpc s k = Not_created" by (simp add: created_ok_def)
  with create show ?case using mutex_ok_other[of s k Prefault] by (simp add: mutex_ok_def)
next
  case (main_unlock s)
  then have "holder s = Some Main" by (simp add: mutex_ok_def)
  with main_unlock have "fpc s i \<noteq> Has_mutex \<and> fpc s i \<noteq> Reacquired" for i
    unfolding mutex_ok_def by (metis option.inject owner.distinct(1))
  then show ?case by (simp add: mutex_ok_def)
next
  case (main_lock s)
  then show ?case by (simp add: mutex_ok_def)
next
  case (broadcast s)
  then show ?case by (auto simp: mutex_ok_def)
qed (simp_all add: mutex_ok_release mutex_ok_acquire mutex_ok_other, simp_all add: mutex_ok_def)

lemma order_ok_upd:
  assumes "order_ok s" "past_wait p \<Longrightarrow> past_wait (fpc s i) \<or> after_broadcast s"
  shows "order_ok (s\<lparr>fpc := (fpc s)(i := p), holder := h\<rparr>)"
  using assms by (auto simp: order_ok_def after_broadcast_def)

lemma order_ok_step: "barrier_step False n s t \<Longrightarrow> order_ok s \<Longrightarrow> order_ok t"
proof (induction rule: barrier_step.induct)
  case (create s k)
  then show ?case by (simp add: order_ok_def after_broadcast_def past_wait_def)
next
  case (main_unlock s)
  then show ?case by (simp add: order_ok_def after_broadcast_def)
next
  case (broadcast s)
  then show ?case by (simp add: order_ok_def after_broadcast_def)
next
  case (fiber_lock i s)
  then show ?case by (intro order_ok_upd) (simp_all add: past_wait_def)
next
  case (fiber_wait i s)
  then show ?case by (intro order_ok_upd) (simp_all add: past_wait_def)
qed (simp_all add: order_ok_upd past_wait_def, simp_all add: order_ok_def after_broadcast_def)

lemma created_ok_upd:
  assumes "created_ok n s" "fpc s i \<noteq> Not_created" "p \<noteq> Not_created"
  shows "created_ok n (s\<lparr>fpc := (fpc s)(i := p), holder := h\<rparr>)"
  using assms by (simp add: created_ok_def)

lemma created_ok_step: "barrier_step spurious n s t \<Longrightarrow> created_ok n s \<Longrightarrow> created_ok n t"
proof (induction rule: barrier_step.induct)
  case (create s k)
  then have "fpc s i = Not_created \<longleftrightarrow> k \<le> i" for i by (simp add: created_ok_def)
  moreover have "(if i = k then False else k \<le> i) \<longleftrightarrow> Suc k \<le> i" for i by auto
  ultimately show ?case using create(2) by (simp add: created_ok_def) metis
next
  case (wake_up i s)
  then show ?case using created_ok_upd[of n s i Woken "holder s"] by simp
next
  case (broadcast s)
  have "((if fpc s i = Waiting then Woken else fpc s i) = Not_created) = (fpc s i = Not_created)" for i
    by simp
  with broadcast show ?case by (simp add: created_ok_def)
qed (simp_all add: created_ok_upd, simp_all add: created_ok_def)

lemma barrier_inv_step: "barrier_step spurious n s t \<Longrightarrow> barrier_inv spurious n s \<Longrightarrow> barrier_inv spurious n t"
  unfolding barrier_inv_def using mutex_ok_step order_ok_step created_ok_step by metis

interpretation start: ranked_system "barrier_step spurious n" barrier_init "barrier_inv spurious n"
  "barrier_rank n" for spurious n
proof unfold_locales
  show "barrier_inv spurious n barrier_init"
    by (simp add: barrier_inv_def mutex_ok_def order_ok_def created_ok_def past_wait_def barrier_init_def)
next
  fix s t assume "barrier_inv spurious n s" "barrier_step spurious n s t"
  then show "barrier_inv spurious n t" "barrier_rank n t < barrier_rank n s"
    using barrier_inv_step barrier_rank_step by blast+
qed

section \<open>Properties\<close>

text \<open>
  C5. No fiber starts before the broadcast: without spurious wake-ups, in every reachable state, a
  fiber that has passed its wait implies that the main thread has broadcast; and at most one
  thread holds the mutex at a time, the one the mutex records.
\<close>
theorem barrier_safety:
  assumes "(barrier_step False n)\<^sup>*\<^sup>* barrier_init s"
  shows "(past_wait (fpc s i) \<longrightarrow> after_broadcast s) \<and>
    (fpc s i = Has_mutex \<or> fpc s i = Reacquired \<longleftrightarrow> holder s = Some (Fib i)) \<and>
    (mpc s = Main_locked \<or> mpc s = Broadcasted \<longleftrightarrow> holder s = Some Main)"
  using start.inv_reachable[OF assms] unfolding barrier_inv_def mutex_ok_def order_ok_def by blast

text \<open>When all fibers are at the barrier, the broadcast releases all of them and they get through.\<close>

definition released :: "nat \<Rightarrow> barrier \<Rightarrow> bool" where
  "released n s \<longleftrightarrow> (\<forall>i<n. past_wait (fpc s i)) \<and> after_broadcast s"

lemma past_wait_simps [simp]:
  "past_wait Woken" "past_wait Reacquired" "past_wait Running"
  "\<not> past_wait Waiting" "\<not> past_wait Prefault" "\<not> past_wait Has_mutex" "\<not> past_wait Not_created"
  by (simp_all add: past_wait_def)

lemma released_step: "barrier_step spurious n s t \<Longrightarrow> released n s \<Longrightarrow> released n t"
proof (induction rule: barrier_step.induct)
  case (fiber_lock i s)
  then show ?case by (metis released_def past_wait_simps(5))
next
  case (fiber_wait i s)
  then show ?case by (metis released_def past_wait_simps(6))
qed (auto simp: released_def after_broadcast_def)

lemma released_steps: "(barrier_step spurious n)\<^sup>*\<^sup>* s t \<Longrightarrow> released n s \<Longrightarrow> released n t"
  by (induction rule: rtranclp_induct) (auto intro: released_step)

lemma released_final:
  assumes "released n s" "barrier_inv spurious n s" "\<not> (\<exists>t. barrier_step spurious n s t)"
  shows "mpc s = Joining \<and> (\<forall>i<n. fpc s i = Running)"
proof -
  have j: "mpc s = Joining"
    using assms barrier_step.main_unlock[of s spurious n] unfolding released_def after_broadcast_def by blast
  have nr: "fpc s i \<noteq> Reacquired" if "i < n" for i
    using assms(3) that barrier_step.fiber_unlock by blast
  have nh: "fpc s i \<noteq> Has_mutex" if "i < n" for i
    using assms(1) that unfolding released_def by force
  have "fpc s i = Not_created" if "\<not> i < n" for i
    using assms(2) j that by (simp add: barrier_inv_def created_ok_def)
  with nr nh have "holder s \<noteq> Some (Fib i)" for i
    using assms(2) unfolding barrier_inv_def mutex_ok_def by (metis fiber_pc.distinct(3,9))
  moreover have "holder s \<noteq> Some Main" using assms(2) j by (simp add: barrier_inv_def mutex_ok_def)
  ultimately have "holder s = None" by (metis option.exhaust owner.exhaust)
  then have "fpc s i \<noteq> Woken" if "i < n" for i
    using assms(3) that barrier_step.fiber_reacquire by blast
  with nr j assms(1) show ?thesis unfolding released_def past_wait_def by blast
qed

text \<open>
  C6. The start succeeds when every fiber is at the barrier: from a reachable state in which the main
  thread is about to broadcast and all fibers wait, every run is finite, and whenever it
  cannot continue, all fibers are running and the main thread is joining them.
\<close>
theorem barrier_start_succeeds:
  assumes "(barrier_step False n)\<^sup>*\<^sup>* barrier_init s" "mpc s = Main_locked" "\<forall>i<n. fpc s i = Waiting"
  shows "(\<forall>k t. (barrier_step False n ^^ k) s t \<longrightarrow> k \<le> barrier_rank n s) \<and>
    (\<forall>t. (barrier_step False n)\<^sup>*\<^sup>* s t \<and> \<not> (\<exists>u. barrier_step False n t u) \<longrightarrow>
      mpc t = Joining \<and> (\<forall>i<n. fpc t i = Running))"
proof (intro conjI allI impI)
  fix k t assume "(barrier_step False n ^^ k) s t"
  then show "k \<le> barrier_rank n s"
    using start.run_bound start.inv_reachable[OF assms(1)] by fastforce
next
  have inv: "barrier_inv False n s" using start.inv_reachable[OF assms(1)] .
  have first: "released n u" if "barrier_step False n s u" for u
    using that
  proof (cases rule: barrier_step.cases)
    case broadcast
    then show ?thesis using assms(3) by (simp add: released_def after_broadcast_def)
  qed (use assms(2,3) in auto)
  fix t assume t: "(barrier_step False n)\<^sup>*\<^sup>* s t \<and> \<not> (\<exists>u. barrier_step False n t u)"
  have "s \<noteq> t" using t barrier_step.broadcast[OF assms(2)] by blast
  then obtain u where "barrier_step False n s u" "(barrier_step False n)\<^sup>*\<^sup>* u t"
    using t converse_rtranclpE[of "barrier_step False n" s t] by metis
  then have "released n t" using first released_steps by blast
  moreover have "barrier_inv False n t" using t inv start.inv_steps by blast
  ultimately have "mpc t = Joining \<and> (\<forall>i<n. fpc t i = Running)" using t released_final by blast
  then show "mpc t = Joining" "\<And>i. i < n \<Longrightarrow> fpc t i = Running" by blast+
qed

text \<open>Runs with one fiber, as explicit sequences of steps.\<close>

definition one_fiber :: "fiber_pc \<Rightarrow> main_pc \<Rightarrow> owner option \<Rightarrow> barrier" where
  "one_fiber p m h = \<lparr>fpc = (\<lambda>_. Not_created)(0 := p), mpc = m, holder = h\<rparr>"

lemma one_fiber_upd:
  "(one_fiber p m h)\<lparr>holder := h'\<rparr> = one_fiber p m h'"
  "(one_fiber p m h)\<lparr>fpc := (fpc (one_fiber p m h))(0 := p')\<rparr> = one_fiber p' m h"
  "(one_fiber p m h)\<lparr>mpc := m'\<rparr> = one_fiber p m' h"
  "(one_fiber p m h)\<lparr>mpc := m', holder := h'\<rparr> = one_fiber p m' h'"
  "fpc (one_fiber p m h) 0 = p" "mpc (one_fiber p m h) = m" "holder (one_fiber p m h) = h"
  by (simp_all add: one_fiber_def)

lemma one_fiber_main_steps:
  "barrier_step sp 1 barrier_init (one_fiber Prefault (Building 1) None)"
  "barrier_step sp 1 (one_fiber p (Building 1) h) (one_fiber p Sleeping h)"
  "barrier_step sp 1 (one_fiber p Sleeping h) (one_fiber p Starting h)"
  "barrier_step sp 1 (one_fiber p Starting None) (one_fiber p Main_locked (Some Main))"
  "p \<noteq> Waiting \<Longrightarrow> barrier_step sp 1 (one_fiber p Main_locked h) (one_fiber p Broadcasted h)"
  "barrier_step sp 1 (one_fiber p Broadcasted h) (one_fiber p Joining None)"
proof -
  show "barrier_step sp 1 barrier_init (one_fiber Prefault (Building 1) None)"
    using barrier_step.create[of barrier_init 0 1 sp] by (simp add: barrier_init_def one_fiber_def)
  show "p \<noteq> Waiting \<Longrightarrow> barrier_step sp 1 (one_fiber p Main_locked h) (one_fiber p Broadcasted h)"
    using barrier_step.broadcast[of "one_fiber p Main_locked h" sp 1]
    by (simp add: one_fiber_def fun_upd_def if_distrib cong: if_cong)
qed (metis barrier_step.built barrier_step.slept barrier_step.main_lock barrier_step.main_unlock one_fiber_upd)+

lemma one_fiber_steps:
  "barrier_step sp 1 (one_fiber Prefault m None) (one_fiber Has_mutex m (Some (Fib 0)))"
  "barrier_step sp 1 (one_fiber Has_mutex m h) (one_fiber Waiting m None)"
  "barrier_step sp 1 (one_fiber Woken m None) (one_fiber Reacquired m (Some (Fib 0)))"
  "barrier_step sp 1 (one_fiber Reacquired m h) (one_fiber Running m None)"
  "barrier_step True 1 (one_fiber Waiting m h) (one_fiber Woken m h)"
  using barrier_step.fiber_lock[of 0 1 "one_fiber Prefault m None" sp]
    barrier_step.fiber_wait[of 0 1 "one_fiber Has_mutex m h" sp]
    barrier_step.fiber_reacquire[of 0 1 "one_fiber Woken m None" sp]
    barrier_step.fiber_unlock[of 0 1 "one_fiber Reacquired m h" sp]
    barrier_step.wake_up[of True 0 1 "one_fiber Waiting m h"]
  by (simp_all add: one_fiber_upd)

lemma one_fiber_waiting: "(barrier_step sp 1)\<^sup>*\<^sup>* barrier_init (one_fiber Waiting (Building 1) None)"
  by (meson one_fiber_main_steps(1) one_fiber_steps(1,2) rtranclp.intros)

lemma one_fiber_starting:
  "(barrier_step sp 1)\<^sup>*\<^sup>* (one_fiber p (Building 1) None) (one_fiber p Main_locked (Some Main))"
  by (meson one_fiber_main_steps(2-4) rtranclp.intros)

lemma one_fiber_released:
  "(barrier_step sp 1)\<^sup>*\<^sup>* barrier_init (one_fiber Reacquired Joining (Some (Fib 0)))"
  "(barrier_step sp 1)\<^sup>*\<^sup>* (one_fiber Waiting Main_locked (Some Main)) (one_fiber Running Joining None)"
proof -
  have b: "barrier_step sp 1 (one_fiber Waiting Main_locked h) (one_fiber Woken Broadcasted h)" for h
    using barrier_step.broadcast[of "one_fiber Waiting Main_locked h" sp 1]
    by (simp add: one_fiber_def fun_upd_def if_distrib cong: if_cong)
  then have r: "(barrier_step sp 1)\<^sup>*\<^sup>* (one_fiber Waiting Main_locked (Some Main))
      (one_fiber Reacquired Joining (Some (Fib 0)))"
    by (meson one_fiber_main_steps(6) one_fiber_steps(3) rtranclp.intros)
  then show "(barrier_step sp 1)\<^sup>*\<^sup>* (one_fiber Waiting Main_locked (Some Main)) (one_fiber Running Joining None)"
    using one_fiber_steps(4) by (rule rtranclp.rtrancl_into_rtrancl)
  from one_fiber_waiting one_fiber_starting have
    "(barrier_step sp 1)\<^sup>*\<^sup>* barrier_init (one_fiber Waiting Main_locked (Some Main))" by (rule rtranclp_trans)
  then show "(barrier_step sp 1)\<^sup>*\<^sup>* barrier_init (one_fiber Reacquired Joining (Some (Fib 0)))"
    using r by (rule rtranclp_trans)
qed

lemma one_fiber_stuck: "\<not> (\<exists>t. barrier_step sp 1 (one_fiber Running Joining None) t)"
  by (auto elim!: barrier_step.cases simp: one_fiber_def)

theorem barrier_safety_witness:
  "fpc (one_fiber Reacquired Joining (Some (Fib 0))) 0 = Reacquired \<and>
   after_broadcast (one_fiber Reacquired Joining (Some (Fib 0)))"
  using barrier_safety[OF one_fiber_released(1), of 0] by (simp add: one_fiber_upd)

theorem barrier_start_succeeds_witness:
  "(barrier_step False 1)\<^sup>*\<^sup>* (one_fiber Waiting Main_locked (Some Main)) (one_fiber Running Joining None) \<and>
   \<not> (\<exists>t. barrier_step False 1 (one_fiber Running Joining None) t) \<and>
   mpc (one_fiber Running Joining None) = Joining \<and> fpc (one_fiber Running Joining None) 0 = Running"
proof -
  let ?s = "one_fiber Waiting Main_locked (Some Main)" and ?t = "one_fiber Running Joining None"
  have reach: "(barrier_step False 1)\<^sup>*\<^sup>* barrier_init ?s"
    using one_fiber_waiting one_fiber_starting by (rule rtranclp_trans)
  have "mpc ?s = Main_locked" "\<forall>i<1. fpc ?s i = Waiting" by (simp_all add: one_fiber_upd)
  from barrier_start_succeeds[OF reach this]
  have "mpc ?t = Joining \<and> (\<forall>i<1. fpc ?t i = Running)"
    using one_fiber_released(2) one_fiber_stuck by blast
  then show ?thesis using one_fiber_released(2) one_fiber_stuck zero_less_one by blast
qed

text \<open>
  C34. The wake-up can be lost: the code waits without a condition, and only the sleep of one second
  separates the creation of a fiber from the broadcast. There is a run in which the
  broadcast happens before the fiber waits and after which the fiber waits for ever: the
  main thread joins it, and no step is possible.
\<close>
theorem lost_wakeup:
  "\<exists>s. (barrier_step False 1)\<^sup>*\<^sup>* barrier_init s \<and> mpc s = Joining \<and> fpc s 0 = Waiting \<and>
    \<not> (\<exists>t. barrier_step False 1 s t)"
proof (intro exI[of _ "one_fiber Waiting Joining None"] conjI)
  let ?s = "barrier_step False 1"
  have "?s\<^sup>*\<^sup>* barrier_init (one_fiber Prefault Main_locked (Some Main))"
    using one_fiber_main_steps(1) one_fiber_starting by (rule converse_rtranclp_into_rtranclp)
  moreover have "?s\<^sup>*\<^sup>* (one_fiber Prefault Main_locked (Some Main)) (one_fiber Prefault Joining None)"
    using one_fiber_main_steps(5)[of Prefault] one_fiber_main_steps(6) by (meson fiber_pc.distinct rtranclp.intros)
  moreover have "?s\<^sup>*\<^sup>* (one_fiber Prefault Joining None) (one_fiber Waiting Joining None)"
    by (meson one_fiber_steps(1,2) rtranclp.intros)
  ultimately show "?s\<^sup>*\<^sup>* barrier_init (one_fiber Waiting Joining None)" by (meson rtranclp_trans)
  show "\<not> (\<exists>t. ?s (one_fiber Waiting Joining None) t)"
    by (auto elim!: barrier_step.cases simp: one_fiber_def)
qed (simp_all add: one_fiber_upd)

text \<open>
  A spurious wake-up, which POSIX allows, starts a fiber before the broadcast: the order of the
  first barrier property rests on their absence.
\<close>
theorem spurious_start:
  "\<exists>s. (barrier_step True 1)\<^sup>*\<^sup>* barrier_init s \<and> fpc s 0 = Running \<and> \<not> after_broadcast s"
proof (intro exI[of _ "one_fiber Running (Building 1) None"] conjI)
  have "(barrier_step True 1)\<^sup>*\<^sup>* (one_fiber Waiting (Building 1) None) (one_fiber Running (Building 1) None)"
    by (meson one_fiber_steps(3,4,5) rtranclp.intros)
  with one_fiber_waiting show "(barrier_step True 1)\<^sup>*\<^sup>* barrier_init (one_fiber Running (Building 1) None)"
    by (rule rtranclp_trans)
qed (simp_all add: one_fiber_upd after_broadcast_def)

end
