(* ===== verification/Baa_Device_Mgmt.thy ===== *)
theory Baa_Device_Mgmt
  imports Baa_Protocol
begin

text \<open>
  Device management, \<open>src/src/device_mgmt.c\<close>: single byte commands to reboot, halt or ping a
  device, and the server thread that carries them out.
\<close>

section \<open>The client\<close>

definition simple_device_cmd :: "int \<Rightarrow> byte \<Rightarrow> world \<Rightarrow> int \<times> world" where
  "simple_device_cmd sfd cmd w =
    (let (n, w) = sys (Sock (Send sfd [cmd])) w
     in if rv n \<noteq> 1
        then (-1, baa_errno_msg ''num_send != 1 in %s'' [FStr ''simple_device_cmd''] w)
        else
          (let ptype_rcv = 0x00;
               (n, w) = sys (Sock (Recv sfd 1)) w
           in if rv n = -1
              then (-1, baa_errno_msg ''num_read == -1 in %s'' [FStr ''simple_device_cmd''] w)
              else
                (let ptype_rcv = (case rbytes n of [] \<Rightarrow> ptype_rcv | b # _ \<Rightarrow> b)
                 in if ptype_rcv = PTYPE_ERROR \<or> ptype_rcv = PTYPE_RESET
                    then (-1, baa_error_msg ''get PTYPE_ERROR/RESET from server'' [] w)
                    else if ptype_rcv = PTYPE_RCV_ACK then (0, w)
                    else (-1, baa_error_msg ''unknown PTYPE %d, try next one'' [FInt (uint ptype_rcv)] w))))"

definition baa_reboot_device :: "int \<Rightarrow> world \<Rightarrow> int \<times> world" where
  "baa_reboot_device sfd w = simple_device_cmd sfd PTYPE_DEVICE_MGMT_REBOOT w"

definition baa_halt_device :: "int \<Rightarrow> world \<Rightarrow> int \<times> world" where
  "baa_halt_device sfd w = simple_device_cmd sfd PTYPE_DEVICE_MGMT_HALT w"

definition baa_ping_device :: "int \<Rightarrow> world \<Rightarrow> int \<times> world" where
  "baa_ping_device sfd w = simple_device_cmd sfd PTYPE_DEVICE_MGMT_PING w"

section \<open>The server\<close>

definition baa_reboot :: "world \<Rightarrow> world" where
  "baa_reboot w = snd (sys (Proc (System ''init 6'')) w)"

definition baa_halt :: "world \<Rightarrow> world" where
  "baa_halt w = snd (sys (Proc (System ''init 0'')) w)"

definition CLEAN_DEVICE_MGMT_PROPS :: "byte list \<times> sockaddr" where
  [simp]: "CLEAN_DEVICE_MGMT_PROPS = (replicate BAA_MAX_LEN_MSG 0, NoAddr)"

definition device_mgmt_iteration :: "int \<Rightarrow> world \<Rightarrow> world" where
  "device_mgmt_iteration kdo_s w =
    (let (buf, addr) = CLEAN_DEVICE_MGMT_PROPS;
         (r, w) = sys (Sock (Recvfrom kdo_s BAA_MAX_LEN_MSG)) w
     in if rv r = -1 then w
        else
          (let buf = received BAA_MAX_LEN_MSG r buf;
               addr = sender r addr;
               fn = ''baa_device_mgmt_th''
           in if buf ! 0 = PTYPE_DEVICE_MGMT then SEND_RCV_ACK fn kdo_s addr w
              else if buf ! 0 = PTYPE_DEVICE_MGMT_HALT
              then (let w = SEND_RCV_ACK fn kdo_s addr w in baa_halt w)
              else if buf ! 0 = PTYPE_DEVICE_MGMT_REBOOT
              then (let w = SEND_RCV_ACK fn kdo_s addr w in baa_reboot w)
              else if buf ! 0 = PTYPE_DEVICE_MGMT_PING then SEND_RCV_ACK fn kdo_s addr w
              else baa_error_msg ''protocol type %d not supported'' [FInt (uint (buf ! 0))] w))"

fun baa_device_mgmt_th :: "nat \<Rightarrow> int \<Rightarrow> world \<Rightarrow> world" where
  "baa_device_mgmt_th 0 kdo_s w = w"
| "baa_device_mgmt_th (Suc n) kdo_s w = baa_device_mgmt_th n kdo_s (device_mgmt_iteration kdo_s w)"

section \<open>The server as an acknowledging server\<close>

definition device_command :: "byte \<Rightarrow> bool" where
  "device_command b \<longleftrightarrow>
    b \<in> {PTYPE_DEVICE_MGMT, PTYPE_DEVICE_MGMT_HALT, PTYPE_DEVICE_MGMT_REBOOT, PTYPE_DEVICE_MGMT_PING}"

definition device_action :: "byte \<Rightarrow> call list" where
  "device_action b =
    (if b = PTYPE_DEVICE_MGMT_HALT then [Proc (System ''init 0'')]
     else if b = PTYPE_DEVICE_MGMT_REBOOT then [Proc (System ''init 6'')] else [])"

lemma power_simps [simp]:
  "map fst (io (baa_halt w)) = map fst (io w) @ [Proc (System ''init 0'')]"
  "map fst (io (baa_reboot w)) = map fst (io w) @ [Proc (System ''init 6'')]"
  "w_fault (baa_halt w) = w_fault w" "w_fault (baa_reboot w) = w_fault w"
  by (simp_all add: baa_halt_def baa_reboot_def sys_simps)

lemma device_iteration_request:
  fixes w kdo_s
  defines "r \<equiv> answer w (Sock (Recvfrom kdo_s BAA_MAX_LEN_MSG))"
  assumes "rv r \<noteq> -1" "device_command (request_buffer r ! 0)"
  shows "map fst (io (device_mgmt_iteration kdo_s w)) = map fst (io w) @
    [Sock (Recvfrom kdo_s BAA_MAX_LEN_MSG), Sock (Sendto kdo_s [PTYPE_RCV_ACK] (rfrom r))] @
    device_action (request_buffer r ! 0)"
proof -
  let ?b = "received BAA_MAX_LEN_MSG r (replicate BAA_MAX_LEN_MSG 0) ! 0"
  have "?b = PTYPE_DEVICE_MGMT \<or> ?b = PTYPE_DEVICE_MGMT_HALT \<or> ?b = PTYPE_DEVICE_MGMT_REBOOT \<or>
      ?b = PTYPE_DEVICE_MGMT_PING"
    using assms(3) by (simp add: device_command_def request_buffer_def)
  then show ?thesis
    using assms(2)
    by (elim disjE) (simp_all add: device_mgmt_iteration_def split_def Let_def sys_simps r_def[symmetric]
        request_buffer_def device_action_def send_defs ptype_defs)
qed

lemma device_iteration_ignored:
  assumes "rv (answer w (Sock (Recvfrom kdo_s BAA_MAX_LEN_MSG))) = -1 \<or>
    \<not> device_command (request_buffer (answer w (Sock (Recvfrom kdo_s BAA_MAX_LEN_MSG))) ! 0)"
  shows "map fst (io (device_mgmt_iteration kdo_s w)) = map fst (io w) @ [Sock (Recvfrom kdo_s BAA_MAX_LEN_MSG)]"
  using assms
  by (auto simp: device_mgmt_iteration_def device_command_def split_def Let_def sys_simps request_buffer_def)

lemma device_iteration_fault: "w_fault (device_mgmt_iteration kdo_s w) = w_fault w"
  by (simp add: device_mgmt_iteration_def split_def Let_def sys_simps send_defs)

interpretation device: ack_server kdo_s "\<lambda>_ w. ((), device_mgmt_iteration kdo_s w)"
  "\<lambda>n _ w. ((), baa_device_mgmt_th n kdo_s w)" device_command "\<lambda>_ r. device_action (request_buffer r ! 0)" for kdo_s
  by unfold_locales
    (auto simp: device_iteration_request device_iteration_ignored device_iteration_fault device_action_def)

section \<open>Properties\<close>

text \<open>
  C26. The management server answers each datagram by its first byte alone: a known command is
  acknowledged to its sender, and the acknowledgement is sent before the device is halted or
  rebooted; a ping and a management request are only acknowledged; anything else is neither
  acknowledged nor acted on.
\<close>
theorem device_server_answers:
  "map fst (io (device_mgmt_iteration kdo_s w)) = map fst (io w) @ Sock (Recvfrom kdo_s BAA_MAX_LEN_MSG) #
    (let r = answer w (Sock (Recvfrom kdo_s BAA_MAX_LEN_MSG)); b = request_buffer r ! 0;
         ack = Sock (Sendto kdo_s [PTYPE_RCV_ACK] (rfrom r))
     in if rv r = -1 then []
        else if b = 0x02 then [ack, Proc (System ''init 0'')]
        else if b = 0x03 then [ack, Proc (System ''init 6'')]
        else if b = 0x01 \<or> b = 0x04 then [ack]
        else [])"
  using device_iteration_request[of w kdo_s] device_iteration_ignored[of w kdo_s]
  by (auto simp: Let_def device_action_def device_command_def ptype_defs)

text \<open>
  For every number of iterations and whatever arrives, the management thread receives once per
  iteration, sends at most one acknowledgement per datagram, and stays in bounds.
\<close>
theorem device_mgmt_th_safe:
  "count_list (map fst (io (baa_device_mgmt_th n kdo_s w))) (Sock (Recvfrom kdo_s BAA_MAX_LEN_MSG)) =
     count_list (map fst (io w)) (Sock (Recvfrom kdo_s BAA_MAX_LEN_MSG)) + n \<and>
   length (filter (is_ack kdo_s) (map fst (io (baa_device_mgmt_th n kdo_s w)))) \<le>
     length (filter (is_ack kdo_s) (map fst (io w))) + n \<and>
   w_fault (baa_device_mgmt_th n kdo_s w) = w_fault w"
  using device.run_counts[where kdo_s=kdo_s and n=n and w=w] device.run_fault[where kdo_s=kdo_s and n=n and w=w] by simp

text \<open>
  A device command succeeds exactly when its byte was sent and the answer is an acknowledgement
  of reception: every other answer, a failed call and a closed connection (an empty answer)
  give -1, and the answer is only waited for when the command was sent.
\<close>
theorem device_cmd_result:
  "(let s = answer w (Sock (Send sfd [cmd]));
        r = answer (snd (sys (Sock (Send sfd [cmd])) w)) (Sock (Recv sfd 1))
    in fst (simple_device_cmd sfd cmd w) =
         (if rv s = 1 \<and> rv r \<noteq> -1 \<and> (\<exists>bs. rbytes r = PTYPE_RCV_ACK # bs) then 0 else -1) \<and>
       map fst (io (snd (simple_device_cmd sfd cmd w))) =
         map fst (io w) @ Sock (Send sfd [cmd]) # (if rv s = 1 then [Sock (Recv sfd 1)] else []))"
  by (auto simp: simple_device_cmd_def split_def Let_def sys_simps ptype_defs split: list.splits)

text \<open>
  C19. A remote command reaches the device: when the datagram the client sent is what the server receives
  and the acknowledgement the server sent is what the client receives, the client's call
  returns 0, and a reboot (halt, ping) of the device is a reboot (halt, nothing) at the
  server, made after the acknowledgement.
\<close>
theorem device_session:
  assumes "rv (answer wc (Sock (Send sfd [cmd]))) = 1"
    and "rv (answer ws (Sock (Recvfrom kdo_s BAA_MAX_LEN_MSG))) = 1"
    and "rbytes (answer ws (Sock (Recvfrom kdo_s BAA_MAX_LEN_MSG))) = [cmd]"
    and "(cmd, fn, act) \<in> {(PTYPE_DEVICE_MGMT_REBOOT, baa_reboot_device, [Proc (System ''init 6'')]),
      (PTYPE_DEVICE_MGMT_HALT, baa_halt_device, [Proc (System ''init 0'')]), (PTYPE_DEVICE_MGMT_PING, baa_ping_device, [])}"
    and "\<exists>pre a post. map fst (io (device_mgmt_iteration kdo_s ws)) = pre @ Sock (Sendto kdo_s [ack] a) # post \<and>
      length pre = length (io ws) + 1"
    and "rv (answer (snd (sys (Sock (Send sfd [cmd])) wc)) (Sock (Recv sfd 1))) = 1"
    and "rbytes (answer (snd (sys (Sock (Send sfd [cmd])) wc)) (Sock (Recv sfd 1))) = [ack]"
  shows "fst (fn sfd wc) = 0 \<and>
    (\<exists>a. map fst (io (device_mgmt_iteration kdo_s ws)) = map fst (io ws) @
      [Sock (Recvfrom kdo_s BAA_MAX_LEN_MSG), Sock (Sendto kdo_s [PTYPE_RCV_ACK] a)] @ act)"
proof -
  let ?r = "answer ws (Sock (Recvfrom kdo_s BAA_MAX_LEN_MSG))"
  have b: "request_buffer ?r ! 0 = cmd"
    using assms(3) by (simp add: request_buffer_def received_def overwrite_def BAA_MAX_LEN_MSG_def)
  have srv: "map fst (io (device_mgmt_iteration kdo_s ws)) = map fst (io ws) @
      [Sock (Recvfrom kdo_s BAA_MAX_LEN_MSG), Sock (Sendto kdo_s [PTYPE_RCV_ACK] (rfrom ?r))] @ act"
    using device_iteration_request[of ws kdo_s] assms(2,4) b
    by (auto simp: device_command_def device_action_def ptype_defs)
  obtain pre a post where pre: "map fst (io (device_mgmt_iteration kdo_s ws)) = pre @ Sock (Sendto kdo_s [ack] a) # post"
    "length pre = length (io ws) + 1" using assms(5) by blast
  then have "map fst (io (device_mgmt_iteration kdo_s ws)) ! (length (io ws) + 1) = Sock (Sendto kdo_s [ack] a)"
    by (simp add: nth_append)
  moreover have "map fst (io (device_mgmt_iteration kdo_s ws)) ! (length (io ws) + 1) =
      Sock (Sendto kdo_s [PTYPE_RCV_ACK] (rfrom ?r))"
    unfolding srv by (simp add: nth_append)
  ultimately have ack: "ack = PTYPE_RCV_ACK" by simp
  have "fst (fn sfd wc) = fst (simple_device_cmd sfd cmd wc)"
    using assms(4) by (auto simp: baa_reboot_device_def baa_halt_device_def baa_ping_device_def)
  also have "\<dots> = 0"
    using assms(1,6,7) ack by (simp add: simple_device_cmd_def split_def Let_def sys_simps ptype_defs)
  finally show ?thesis using srv by blast
qed

definition ack_client :: "nat \<Rightarrow> call \<Rightarrow> reply" where
  "ack_client n c = (case c of Sock (Recv s k) \<Rightarrow> bytes_reply [PTYPE_RCV_ACK] | _ \<Rightarrow> reply_of 1)"

theorem device_session_witness:
  "fst (baa_reboot_device 3 (init_world ack_client)) = 0 \<and>
   (\<exists>a. map fst (io (device_mgmt_iteration 4 (init_world (\<lambda>_ _. bytes_reply [PTYPE_DEVICE_MGMT_REBOOT])))) =
      [Sock (Recvfrom 4 BAA_MAX_LEN_MSG), Sock (Sendto 4 [PTYPE_RCV_ACK] a), Proc (System ''init 6'')])"
proof -
  let ?wc = "init_world ack_client" and ?ws = "init_world (\<lambda>_ _. bytes_reply [PTYPE_DEVICE_MGMT_REBOOT])"
  let ?ex = "\<exists>pre a post. map fst (io (device_mgmt_iteration 4 ?ws)) = pre @ Sock (Sendto 4 [PTYPE_RCV_ACK] a) # post \<and>
      length pre = length (io ?ws) + 1"
  have "map fst (io (device_mgmt_iteration 4 ?ws)) =
      [Sock (Recvfrom 4 BAA_MAX_LEN_MSG)] @ Sock (Sendto 4 [PTYPE_RCV_ACK] NoAddr) # [Proc (System ''init 6'')]"
    using device_iteration_request[of ?ws 4]
    by (simp add: answer_def request_buffer_def received_def overwrite_def BAA_MAX_LEN_MSG_def
        device_command_def device_action_def ptype_defs)
  then have ex: ?ex by (intro exI conjI) (assumption, simp)
  show ?thesis
    using device_session[of ?wc 3 PTYPE_DEVICE_MGMT_REBOOT ?ws 4 baa_reboot_device
        "[Proc (System ''init 6'')]" PTYPE_RCV_ACK, OF _ _ _ _ ex]
    by (simp add: answer_def ack_client_def sys_simps)
qed

end
