(* ===== verification/Baa_Mgmt_Programs.thy ===== *)
theory Baa_Mgmt_Programs
  imports Baa_Device_Mgmt Baa_Network Baa_Program
begin

text \<open>
  The device management programs: the clients \<open>src/examples/udp_mgmt_ping_client.c\<close> and
  \<open>src/examples/udp_mgmt_reboot_client.c\<close>, which talk to the server of
  \<open>src/examples/udp_mgmt_server.c\<close>. The two clients have the same text up to the point where
  they are connected; it is modelled once, and each client names its own copy of the usage and
  of the signal thread.
\<close>

section \<open>What the clients share\<close>

definition mgmt_port :: string where "mgmt_port = ''8101''"

definition mgmt_usage :: "build \<Rightarrow> string \<Rightarrow> world \<Rightarrow> world" where
  "mgmt_usage b name w =
    (let w = putnl w;
         w = baa_info_msg ''Usage: %s [options]              '' [FStr name] w;
         w = infos
              [''Options:                                       '',
               ''        -h                       show help     '',
               ''        -s [server name]                       ''] w;
         w = putnl w;
         w = infos [''Examples:                                      ''] w;
         w = baa_info_msg ''%s -s baalue_master                            '' [FStr name] w;
         w = putnl w
     in show_some_infos b w)"

text \<open>The signal thread detaches itself first.\<close>

definition detached_handler :: "nat \<Rightarrow> world \<Rightarrow> unit part" where
  "detached_handler n w =
    (let (r, w) = sys (Sched Pthread_detach) w;
         w = (if rv r \<noteq> 0 then baa_error_msg ''could not detach signal handler -> ignore it'' [] w else w)
     in signal_run n (\<lambda>w. Some (cheers w)) w)"

definition mgmt_switch :: "build \<Rightarrow> string \<Rightarrow> char \<Rightarrow> string option \<Rightarrow> string option \<Rightarrow> world \<Rightarrow> string option part" where
  "mgmt_switch b name c optarg server_name w =
    (if c = CHR ''s'' then Some (Inr optarg, w)
     else if c = CHR ''h'' then leave Some EXIT_SUCCESS (mgmt_usage b name w)
     else leave Some EXIT_FAILURE (mgmt_usage b name (baa_error_msg ''ERROR: no valid argument'' [] w)))"

abbreviation bye :: "world \<Rightarrow> world option" where
  "bye \<equiv> \<lambda>w. Some (cheers w)"

text \<open>From the start of \<open>main\<close> to the connected socket: the name of the program, the name of the
  server and the descriptor.\<close>

definition mgmt_start :: "build \<Rightarrow> string list \<Rightarrow> world \<Rightarrow> (string \<times> string \<times> int) part" where
  "mgmt_start b argv w =
    then_do (program_name argv w) (\<lambda>name w.
    then_do (option_loop (argv0 argv) (mgmt_switch b name) (getopt_all ''hs:'' argv) None w) (\<lambda>server_name w.
    case server_name of
      None \<Rightarrow> leave Some EXIT_FAILURE (mgmt_usage b name (baa_error_msg ''not enough arguments -> need server name'' [] w))
    | Some server \<Rightarrow>
        let w = baa_info_msg ''server name: %s'' [FStr server] w
        in then_do (register_cleanup w) (\<lambda>_ w.
           then_do (start_signal_thread bye ''could not create pthread'' w) (\<lambda>_ w.
            let w = baa_info_msg ''try connect to server of %s'' [FStr server] w;
                (fds, w) = baa_inet_dgram_client (Some server) mgmt_port w
            in if fds = -1
               then leave bye EXIT_FAILURE (mgmt_usage b name (baa_error_msg ''could not connect to %s'' [FStr server] w))
               else Some (Inr (name, server, fds), w)))))"

section \<open>The ping client\<close>

definition ping_cleanup :: "world \<Rightarrow> world" where
  "ping_cleanup w = cheers w"

definition ping_signal_handler :: "nat \<Rightarrow> world \<Rightarrow> unit part" where
  "ping_signal_handler n w = detached_handler n w"

text \<open>The loop over the pings that are left.\<close>

fun ping_loop :: "nat \<Rightarrow> string \<Rightarrow> int \<Rightarrow> world \<Rightarrow> unit part" where
  "ping_loop 0 server fds w = leave bye EXIT_SUCCESS w"
| "ping_loop (Suc n) server fds w =
    (let (err, w) = baa_ping_device fds w
     in if err = -1 then leave bye EXIT_FAILURE (baa_error_msg ''could not ping device %s'' [FStr server] w)
        else (let (_, w) = sys (Proc (Sleep 5)) w in ping_loop n server fds w))"

definition ping_main :: "build \<Rightarrow> string list \<Rightarrow> world \<Rightarrow> unit part" where
  "ping_main b argv w =
    then_do (mgmt_start b argv w) (\<lambda>(name, server, fds) w.
     let max_num_ping = 10;
         w = baa_info_msg ''Will ping %s %d times'' [FStr server, FInt (int max_num_ping)] w
     in ping_loop max_num_ping server fds w)"

section \<open>The reboot client\<close>

definition reboot_usage :: "build \<Rightarrow> string \<Rightarrow> world \<Rightarrow> world" where
  "reboot_usage b name w = mgmt_usage b name w"

definition reboot_cleanup :: "world \<Rightarrow> world" where
  "reboot_cleanup w = cheers w"

definition reboot_signal_handler :: "nat \<Rightarrow> world \<Rightarrow> unit part" where
  "reboot_signal_handler n w = detached_handler n w"

text \<open>The loop that connects again; it does not end with a connection.\<close>

fun reconnect :: "nat \<Rightarrow> string \<Rightarrow> int \<Rightarrow> world \<Rightarrow> int \<times> world" where
  "reconnect 0 server fds w = (fds, w)"
| "reconnect (Suc n) server fds w =
    (let (fds, w) = baa_inet_dgram_client (Some server) mgmt_port w;
         w = (if fds = -1 then baa_info_msg ''could not connect to %s, try again'' [FStr server] w else w);
         (_, w) = sys (Proc (Sleep 1)) w
     in reconnect n server fds w)"

text \<open>After the reboot was acknowledged and the old socket closed.\<close>

definition reboot_wait :: "build \<Rightarrow> string \<Rightarrow> string \<Rightarrow> int \<Rightarrow> world \<Rightarrow> unit part" where
  "reboot_wait b name server fds w =
    (let w = baa_info_msg ''will sleep some time -> until node back again'' [] w;
         (_, w) = sys (Proc (Sleep 20)) w;
         (fds, w) = reconnect 10 server fds w
     in if fds = -1
        then leave bye EXIT_FAILURE (reboot_usage b name (baa_error_msg ''could not (re)-connect to device %s'' [FStr server] w))
        else
          (let (err, w) = baa_ping_device fds w
           in if err = -1 then leave bye EXIT_FAILURE (baa_error_msg ''could not ping device %s'' [FStr server] w)
              else leave bye EXIT_SUCCESS w))"

definition reboot_main :: "build \<Rightarrow> string list \<Rightarrow> world \<Rightarrow> unit part" where
  "reboot_main b argv w =
    then_do (mgmt_start b argv w) (\<lambda>(name, server, fds) w.
     let w = baa_info_msg ''try to reboot %s'' [FStr server] w;
         (err, w) = baa_reboot_device fds w
     in if err = -1 then leave bye EXIT_FAILURE (baa_error_msg ''could not reboot device %s'' [FStr server] w)
        else (case baa_wrap_close fds w of None \<Rightarrow> None | Some w \<Rightarrow> reboot_wait b name server fds w))"

section \<open>The server\<close>

definition mgmt_server_cleanup :: "world \<Rightarrow> world" where
  "mgmt_server_cleanup w = cheers w"

definition mgmt_server_signal_handler :: "nat \<Rightarrow> world \<Rightarrow> unit part" where
  "mgmt_server_signal_handler n w = signal_run n (\<lambda>w. Some (mgmt_server_cleanup w)) w"

definition mgmt_server_main :: "build \<Rightarrow> string list \<Rightarrow> world \<Rightarrow> unit part" where
  "mgmt_server_main b argv w =
    then_do (program_name argv w) (\<lambda>name w.
    then_do (register_cleanup w) (\<lambda>_ w.
     let w = show_some_infos b w
     in then_do (start_signal_thread bye ''could not create pthread'' w) (\<lambda>_ w.
        let (fds, w) = baa_inet_dgram_server mgmt_port w
        in if fds = -1 then leave_with bye (baa_error_exit ''could not setup server'' [] w)
           else
             then_do (start_thread bye ''baa_device_mgmt_th'' ''could not create pthread'' w) (\<lambda>_ w.
              let (_, w) = sys (Sched (Thread_join ''baa_device_mgmt_th'')) w;
                  (_, w) = sys (Sched (Thread_join ''signal_handler'')) w
              in leave bye EXIT_SUCCESS w))))"

section \<open>Commands and their answers\<close>

text \<open>A command that was sent and acknowledged, and one that was not.\<close>

definition acknowledged :: "reply \<Rightarrow> reply \<Rightarrow> bool" where
  "acknowledged s r \<longleftrightarrow> rv s = 1 \<and> rv r \<noteq> -1 \<and> (\<exists>bs. rbytes r = PTYPE_RCV_ACK # bs)"

inductive exchange :: "int \<Rightarrow> byte \<Rightarrow> int \<Rightarrow> event list \<Rightarrow> bool" where
  acked: "acknowledged s r \<Longrightarrow> exchange fds cmd 0 [(Sock (Send fds [cmd]), s), (Sock (Recv fds 1), r)]"
| refused: "rv s = 1 \<Longrightarrow> \<not> acknowledged s r \<Longrightarrow> exchange fds cmd (-1) [(Sock (Send fds [cmd]), s), (Sock (Recv fds 1), r)]"
| not_sent: "rv s \<noteq> 1 \<Longrightarrow> exchange fds cmd (-1) [(Sock (Send fds [cmd]), s)]"

inductive_cases exchange_failedE: "exchange fds cmd (-1) es"
inductive_cases exchange_okE: "exchange fds cmd 0 es"

lemma device_cmd_exchange:
  "\<exists>es. io (snd (simple_device_cmd fds cmd w)) = io w @ es \<and> exchange fds cmd (fst (simple_device_cmd fds cmd w)) es \<and>
    (fst (simple_device_cmd fds cmd w) = -1 \<or> fst (simple_device_cmd fds cmd w) = 0) \<and>
    w_os (snd (simple_device_cmd fds cmd w)) = w_os w \<and> w_fault (snd (simple_device_cmd fds cmd w)) = w_fault w"
proof -
  let ?s = "answer w (Sock (Send fds [cmd]))" let ?w = "snd (sys (Sock (Send fds [cmd])) w)"
  let ?r = "answer ?w (Sock (Recv fds 1))"
  consider "rv ?s \<noteq> 1" | "rv ?s = 1" "acknowledged ?s ?r" | "rv ?s = 1" "\<not> acknowledged ?s ?r" by blast
  then show ?thesis
  proof cases
    case 1
    then show ?thesis
      by (auto simp: simple_device_cmd_def split_def Let_def sys_simps intro: exchange.intros)
  next
    case 2
    then show ?thesis
      by (auto simp: simple_device_cmd_def split_def Let_def sys_simps ptype_defs acknowledged_def
          intro!: exchange.acked[unfolded One_nat_def])
  next
    case 3
    then show ?thesis
      by (auto simp: simple_device_cmd_def split_def Let_def sys_simps ptype_defs acknowledged_def
          split: list.splits intro!: exchange.refused[unfolded One_nat_def])
  qed
qed

section \<open>What connecting adds to the trace\<close>

fun connect_call :: "call \<Rightarrow> bool" where
  "connect_call (Sock (Getaddrinfo h sv t f)) = True"
| "connect_call (Sock (Socket d t p)) = True"
| "connect_call (Sock (Setsockopt s v)) = True"
| "connect_call (Sock (Connect s a)) = True"
| "connect_call (Sock Freeaddrinfo) = True"
| "connect_call (File (Close s)) = True"
| "connect_call (Proc (Sigaction s h f)) = True"
| "connect_call (Proc (Alarm n)) = True"
| "connect_call c = False"

lemma only_connect [only_intros]:
  assumes P: "\<And>c. connect_call c \<Longrightarrow> P c" and w: "only P w v"
  shows "only P w (snd (connect_inet_socket h sv t v))"
proof -
  have sg: "only P w (snd (baa_signal s f u))" if "only P w u" for s f u
    unfolding baa_signal_def Let_def using that by (auto simp: split_def intro!: only_intros P)
  have to: "only P w (snd (set_snd_timeout s u))" "only P w (snd (set_rcv_timeout s u))" if "only P w u" for s u
    unfolding set_snd_timeout_def set_rcv_timeout_def set_timeout_def
    using that by (auto simp: split_def Let_def intro!: only_intros P)
  have lp: "only P w (snd (connect_loop r as u))" if "only P w u" for r "as" u
    using that
  proof (induction "as" arbitrary: u)
    case (Cons a "as")
    show ?case unfolding connect_loop.simps by (auto intro!: only_struct only_intros Cons P to)
  qed simp
  show ?thesis
    unfolding connect_inet_socket_def using w
    by (auto simp del: baa_signal_simps timeout_simps intro!: only_struct only_intros sg lp P)
qed

section \<open>A session of pings\<close>

text \<open>The events of a session with at most n pings, and the status it ends with.\<close>

inductive ping_session :: "int \<Rightarrow> nat \<Rightarrow> int \<Rightarrow> event list \<Rightarrow> bool" for fds where
  finished: "ping_session fds 0 EXIT_SUCCESS []"
| pinged: "exchange fds PTYPE_DEVICE_MGMT_PING 0 es \<Longrightarrow> ping_session fds n e ls \<Longrightarrow>
    ping_session fds (Suc n) e (es @ (Proc (Sleep 5), q) # ls)"
| lost: "exchange fds PTYPE_DEVICE_MGMT_PING (-1) es \<Longrightarrow> ping_session fds (Suc n) EXIT_FAILURE es"

text \<open>The pings of a session that were acknowledged: the client sleeps after each of them.\<close>

definition answered :: "event list \<Rightarrow> nat" where
  "answered es = length (filter (\<lambda>e. fst e = Proc (Sleep 5)) es)"

lemma ping_session_status:
  "ping_session fds n e es \<Longrightarrow> (e = EXIT_SUCCESS \<and> answered es = n) \<or> (e = EXIT_FAILURE \<and> answered es < n)"
  by (induction rule: ping_session.induct) (auto simp: answered_def elim!: exchange_failedE exchange_okE)

lemma ping_loop_session:
  "\<exists>e es q w'. ping_loop n server fds w = Some (Inl (Exited e), w') \<and> ping_session fds n e es \<and>
    io w' = io w @ es @ [(Proc (Getenv ''USER''), q)] \<and> w_fault w' = w_fault w"
proof (induction n arbitrary: w)
  case 0
  have "ping_session fds 0 EXIT_SUCCESS []" by (rule ping_session.finished)
  then show ?case
    by (simp add: leave_def cheers_def getenv_def split_def Let_def sys_simps)
next
  case (Suc n)
  let ?p = "baa_ping_device fds w"
  obtain es where es: "io (snd ?p) = io w @ es" "exchange fds PTYPE_DEVICE_MGMT_PING (fst ?p) es" "fst ?p = -1 \<or> fst ?p = 0"
    "w_fault (snd ?p) = w_fault w"
    using device_cmd_exchange[of fds PTYPE_DEVICE_MGMT_PING w] unfolding baa_ping_device_def by blast
  from es(3) show ?case
  proof
    assume f: "fst ?p = -1"
    then have "ping_session fds (Suc n) EXIT_FAILURE es" using es(2) by (auto intro: ping_session.lost)
    with es(1,4) f show ?thesis
      by (intro exI[of _ EXIT_FAILURE] exI[of _ es])
        (simp add: leave_def cheers_def getenv_def split_def Let_def sys_simps)
  next
    assume ok: "fst ?p = 0"
    let ?v = "snd (sys (Proc (Sleep 5)) (snd ?p))"
    obtain e ls q w' where ls: "ping_loop n server fds ?v = Some (Inl (Exited e), w')" "ping_session fds n e ls"
      "io w' = io ?v @ ls @ [(Proc (Getenv ''USER''), q)]" "w_fault w' = w_fault ?v"
      using Suc.IH[of ?v] by blast
    have "ping_session fds (Suc n) e (es @ (Proc (Sleep 5), answer (snd ?p) (Proc (Sleep 5))) # ls)"
      using es(2) ok ls(2) by (auto intro: ping_session.pinged)
    with es(1,4) ok ls(1,3,4) show ?thesis
      by (intro exI[of _ e] exI[of _ "es @ (Proc (Sleep 5), answer (snd ?p) (Proc (Sleep 5))) # ls"] exI[of _ q] exI[of _ w'])
        (simp add: split_def Let_def sys_simps)
  qed
qed

text \<open>The state in which a client connects, when its start succeeded.\<close>

definition connecting :: "string \<Rightarrow> string \<Rightarrow> world \<Rightarrow> world" where
  "connecting name server w =
    baa_info_msg ''try connect to server of %s'' [FStr server]
      (signal_thread_started (snd (sys (Proc Atexit)
        (baa_info_msg ''server name: %s'' [FStr server] (snd (sys (name_call name) w))))))"

lemma connecting_simps [simp]:
  "w_os (connecting name server w) = w_os w" "w_fault (connecting name server w) = w_fault w"
  "map fst (io (connecting name server w)) = map fst (io w) @
    [name_call name, Proc Atexit, Proc Sigmask_block_all, Sched (Thread_create ''signal_handler'')]"
  by (simp_all add: connecting_def sys_simps)

lemma mgmt_start_connects:
  assumes "start_env (w_os w)"
  shows "mgmt_start b [name, ''-s'', server] w =
    (case baa_inet_dgram_client (Some server) mgmt_port (connecting name server w) of (fds, v) \<Rightarrow>
       if fds = -1
       then leave bye EXIT_FAILURE (mgmt_usage b (c_str (after_last_slash name)) (baa_error_msg ''could not connect to %s'' [FStr server] v))
       else Some (Inr (c_str (after_last_slash name), server, fds), v))"
proof -
  have opts: "getopt_all ''hs:'' [name, ''-s'', server] = [Got (CHR ''s'') (Some server)]"
    using getopt_all_render[of "''hs:''" "[(CHR ''s'', Some server)]" name] by (simp add: expects_def)
  show ?thesis
    using assms by (simp add: mgmt_start_def opts mgmt_switch_def start_env_ok sys_simps connecting_def Let_def)
qed


text \<open>A device that acknowledges everything.\<close>

definition device_env :: "nat \<Rightarrow> call \<Rightarrow> reply" where
  "device_env n c =
    (case c of
       Mem m \<Rightarrow> reply_of 1
     | Sock (Getaddrinfo h sv t f) \<Rightarrow>
         (reply_of 0)\<lparr>raddrs := [\<lparr>ai_family = 2, ai_socktype = 2, ai_protocol = 17, ai_addr = InetAddr ''baalue_master''\<rparr>]\<rparr>
     | Sock (Socket d t p) \<Rightarrow> reply_of 3
     | Sock (Send fd bs) \<Rightarrow> reply_of 1
     | Sock (Recv fd k) \<Rightarrow> bytes_reply [PTYPE_RCV_ACK]
     | _ \<Rightarrow> reply_of 0)"

lemma device_env_start: "start_env device_env"
  by (simp add: start_env_def device_env_def)

lemma device_env_connects: "w_os w = device_env \<Longrightarrow> fst (connect_inet_socket h sv t w) = 3"
  by (simp add: connect_inet_socket_def split_def Let_def sys_simps answer_def device_env_def)

lemma device_env_answers: "w_os w = device_env \<Longrightarrow> fst (simple_device_cmd fds cmd w) = 0"
  by (simp add: simple_device_cmd_def split_def Let_def sys_simps answer_def device_env_def ptype_defs)

lemma device_env_pings: "w_os w = device_env \<Longrightarrow> \<exists>w'. ping_loop n server fds w = Some (Inl (Exited EXIT_SUCCESS), w')"
proof (induction n arbitrary: w)
  case (Suc n)
  have "w_os (snd (simple_device_cmd fds PTYPE_DEVICE_MGMT_PING w)) = device_env"
    using device_cmd_exchange[of fds PTYPE_DEVICE_MGMT_PING w] Suc.prems by auto
  with Suc show ?case
    by (simp add: baa_ping_device_def split_def Let_def sys_simps device_env_answers)
qed (simp add: leave_def)


section \<open>Connecting again\<close>

text \<open>
  The loop that connects again keeps every connection. It makes all its attempts, whether or not one
  of them succeeded before, and its result is the one of the last attempt. Every other
  descriptor it got stays open: what it opened is what it closed and the descriptors of all
  the attempts that succeeded.
\<close>
theorem reconnect_keeps_sockets:
  "\<exists>new fs. io (snd (reconnect n server fds w)) = io w @ new \<and> length fs = n \<and>
    fst (reconnect n server fds w) = (if n = 0 then fds else last fs) \<and>
    opened new = closed new + mset (filter (\<lambda>f. f \<noteq> -1) fs)"
proof (induction n arbitrary: fds w)
  case (Suc n)
  let ?c = "connect_inet_socket (Some server) mgmt_port SOCK_DGRAM w"
  define v where "v = snd (sys (Proc (Sleep 1)) (if fst ?c = -1
    then baa_info_msg ''could not connect to %s, try again'' [FStr server] (snd ?c) else snd ?c))"
  have r: "reconnect (Suc n) server fds w = reconnect n server (fst ?c) v"
    by (simp add: v_def baa_inet_dgram_client_def split_def Let_def)
  obtain l where l: "io (snd ?c) = io w @ l" "hands_out (fst ?c) l" using connect_inet_accounted by blast
  then obtain q where v: "io v = io w @ l @ [(Proc (Sleep 1), q)]" by (auto simp: v_def sys_simps)
  obtain new fs where "io (snd (reconnect n server (fst ?c) v)) = io v @ new" "length fs = n"
    "fst (reconnect n server (fst ?c) v) = (if n = 0 then fst ?c else last fs)"
    "opened new = closed new + mset (filter (\<lambda>f. f \<noteq> -1) fs)"
    using Suc.IH[of "fst ?c" v] by blast
  with v l(2) show ?case
    unfolding r by (intro exI[of _ "l @ (Proc (Sleep 1), q) # new"] exI[of _ "fst ?c # fs"]) (auto simp: hands_out_def)
qed simp

section \<open>The order of a reboot\<close>

fun device_step :: "call \<Rightarrow> bool" where
  "device_step (Sock (Send fd bs)) = True"
| "device_step (Sock (Recv fd k)) = True"
| "device_step c = False"

abbreviation device_events :: "world \<Rightarrow> event list" where
  "device_events w \<equiv> filter (\<lambda>e. device_step (fst e)) (io w)"

lemma device_events_eqI: "only (\<lambda>c. \<not> device_step c) w w' \<Longrightarrow> device_events w' = device_events w"
  by (auto simp: only_def filter_empty_conv)

lemma only_wrap_close:
  assumes "baa_wrap_close fd w = Some w'" "P (File (Close fd))"
  shows "only P w w'"
  using only_mono[OF wrap_close_only[OF assms(1)]] assms(2) by auto

lemma only_reconnect [only_intros]:
  assumes "\<And>c. connect_call c \<Longrightarrow> P c" "P (Proc (Sleep 1))" "only P w v"
  shows "only P w (snd (reconnect n server fds v))"
  using assms(3)
proof (induction n arbitrary: fds v)
  case (Suc n)
  show ?case unfolding reconnect.simps baa_inet_dgram_client_def
    using Suc.prems by (auto simp: split_def Let_def intro!: Suc.IH only_intros assms(1,2)[unfolded One_nat_def])
qed simp

lemma only_mgmt_usage [only_intros]:
  "P (Proc Uname) \<Longrightarrow> P (File (Printf [newline])) \<Longrightarrow> only P w v \<Longrightarrow> only P w (mgmt_usage b nm v)"
  unfolding mgmt_usage_def by (intro only_struct only_intros)

lemma mgmt_start_only:
  fixes argv defines "h \<equiv> CHR ''h'' \<in> opt_char ` set (getopt_all ''hs:'' argv)"
  shows "part_only (\<lambda>c. \<not> device_step c) (\<lambda>e. e = Exited EXIT_FAILURE \<or> h \<and> e = Exited EXIT_SUCCESS) (\<lambda>_. True) w (mgmt_start b argv w)"
proof -
  let ?P = "\<lambda>c. \<not> device_step c" let ?R = "\<lambda>e. e = Exited EXIT_FAILURE \<or> h \<and> e = Exited EXIT_SUCCESS"
  have sw: "part_only ?P ?R (\<lambda>_. True) w (mgmt_switch b nm (opt_char x) a s v)"
    if "x \<in> set (getopt_all ''hs:'' argv)" "only ?P w v" for nm x a s v
    unfolding mgmt_switch_def h_def using that by (auto intro!: part_intros only_intros intro: rev_image_eqI)
  have cc: "\<not> device_step c" if "connect_call c" for c using that by (auto elim: connect_call.elims)
  show ?thesis
    unfolding mgmt_start_def baa_inet_dgram_client_def
    by (intro part_intros sw; (assumption | rule only_refl)?)
      (auto intro!: part_intros only_intros dest: cc)
qed

text \<open>The device events of a reboot that succeeded: two acknowledged commands.\<close>

definition rebooted :: "world \<Rightarrow> ending + unit \<Rightarrow> world \<Rightarrow> bool" where
  "rebooted w r w' \<longleftrightarrow> r = Inl (Exited EXIT_SUCCESS) \<longrightarrow>
    (\<exists>fds fds' s r s' r'. device_events w' = device_events w @
        [(Sock (Send fds [PTYPE_DEVICE_MGMT_REBOOT]), s), (Sock (Recv fds 1), r),
         (Sock (Send fds' [PTYPE_DEVICE_MGMT_PING]), s'), (Sock (Recv fds' 1), r')] \<and>
      acknowledged s r \<and> acknowledged s' r')"

lemma exchange_events:
  assumes "fst (simple_device_cmd fds cmd w) \<noteq> -1"
  shows "\<exists>s r. acknowledged s r \<and> device_events (snd (simple_device_cmd fds cmd w)) = device_events w @ [(Sock (Send fds [cmd]), s), (Sock (Recv fds 1), r)]"
  using device_cmd_exchange[of fds cmd w] assms by (auto elim!: exchange_okE)

lemma reboot_wait_result:
  assumes "reboot_wait b nm server fds w = Some (Inl (Exited EXIT_SUCCESS), w')"
  shows "\<exists>fds' s r. acknowledged s r \<and> device_events w' = device_events w @ [(Sock (Send fds' [PTYPE_DEVICE_MGMT_PING]), s), (Sock (Recv fds' 1), r)]"
proof -
  define v where "v = snd (sys (Proc (Sleep 20)) (baa_info_msg ''will sleep some time -> until node back again'' [] w))"
  obtain f u where u: "reconnect 10 server fds v = (f, u)" by fastforce
  let ?p = "simple_device_cmd f PTYPE_DEVICE_MGMT_PING u"
  have "f \<noteq> -1" "fst ?p \<noteq> -1" "leave bye EXIT_SUCCESS (snd ?p) = (Some (Inl (Exited EXIT_SUCCESS), w') :: unit part)"
    using assms u by (auto simp: reboot_wait_def baa_ping_device_def split_def Let_def leave_def v_def split: if_splits)
  moreover from this(3) have "only (\<lambda>c. \<not> device_step c) (snd ?p) w'" by (auto simp: leave_def intro!: only_intros)
  moreover have "only (\<lambda>c. \<not> device_step c) w (snd (reconnect 10 server fds v))"
    unfolding v_def by (auto intro!: only_intros elim: connect_call.elims)
  ultimately show ?thesis
    using exchange_events[of f PTYPE_DEVICE_MGMT_PING u] device_events_eqI u by (metis snd_conv)
qed


lemma device_env_reconnects:
  "w_os w = device_env \<Longrightarrow> 0 < n \<Longrightarrow> fst (reconnect n server fds w) = 3"
proof (induction n arbitrary: fds w)
  case (Suc n)
  have "w_os (snd (connect_inet_socket (Some server) mgmt_port SOCK_DGRAM w)) = w_os w"
    by (rule only_os[where P = "\<lambda>_. True"]) (auto intro!: only_intros)
  with Suc show ?case
    by (cases n) (simp_all add: baa_inet_dgram_client_def split_def Let_def device_env_connects sys_simps)
qed simp

lemma device_env_reboots:
  "\<exists>w'. reboot_main b [name, ''-s'', server] (init_world device_env) = Some (Inl (Exited EXIT_SUCCESS), w')"
proof -
  let ?v = "connecting name server (init_world device_env)"
  let ?u = "snd (connect_inet_socket (Some server) mgmt_port SOCK_DGRAM ?v)"
  let ?p = "simple_device_cmd 3 PTYPE_DEVICE_MGMT_REBOOT (baa_info_msg ''try to reboot %s'' [FStr server] ?u)"
  have st: "start_env (w_os (init_world device_env))" by (simp add: device_env_start)
  have "w_os ?u = w_os ?v" by (rule only_os[where P = "\<lambda>_. True"]) (auto intro!: only_intros)
  then have u: "w_os ?u = device_env" "fst (connect_inet_socket (Some server) mgmt_port SOCK_DGRAM ?v) = 3"
    by (simp_all add: device_env_connects)
  have p: "fst ?p = 0" "w_os (snd ?p) = device_env"
    using u(1) device_cmd_exchange[of 3 PTYPE_DEVICE_MGMT_REBOOT "baa_info_msg ''try to reboot %s'' [FStr server] ?u"]
    by (auto simp: device_env_answers)
  let ?c = "snd (sys (File (Close 3)) (snd ?p))"
  have c: "baa_wrap_close 3 (snd ?p) = Some ?c"
    using p(2) by (intro wrap_close_ok) (simp add: answer_def device_env_def)
  let ?r = "reconnect 10 server 3 (snd (sys (Proc (Sleep 20)) (baa_info_msg ''will sleep some time -> until node back again'' [] ?c)))"
  have "w_os (snd ?r) = w_os ?c" by (rule only_os[where P = "\<lambda>_. True"]) (auto intro!: only_intros)
  then have r: "fst ?r = 3" "fst (simple_device_cmd 3 PTYPE_DEVICE_MGMT_PING (snd ?r)) = 0"
    using p(2) by (simp_all add: device_env_reconnects device_env_answers sys_simps)
  show ?thesis
    using u(2) p(1) c r
    by (simp add: reboot_main_def mgmt_start_connects[OF st] baa_inet_dgram_client_def baa_reboot_device_def baa_ping_device_def
        reboot_wait_def split_def Let_def leave_def del: reconnect.simps)
qed


end
