(* ===== verification/Baa_Daytime_Programs.thy ===== *)
theory Baa_Daytime_Programs
  imports Baa_Network Baa_Program
begin

text \<open>
  The programs of the daytime service: \<open>src/examples/inet_daytime_client.c\<close>, which asks a server
  for its time again and again, and \<open>src/examples/inet_daytime_server.c\<close>, which runs the
  thread \<open>baa_daytime_server_th\<close> of the library. The endless loop of the client is any number
  of rounds.
\<close>

section \<open>The client\<close>

definition daytime_usage :: "build \<Rightarrow> string \<Rightarrow> world \<Rightarrow> world" where
  "daytime_usage b name w =
    (let w = putnl w;
         w = baa_info_msg ''Usage: %s [options]              '' [FStr name] w;
         w = infos
              [''Options:                                       '',
               ''        -h                       show help     '',
               ''        -f [server name]                       ''] w;
         w = putnl w;
         w = infos [''Examples:                                      ''] w;
         w = baa_info_msg ''%s -f baalue_master                            '' [FStr name] w;
         w = putnl w
     in show_some_infos b w)"

definition daytime_cleanup :: "world \<Rightarrow> world option" where
  "daytime_cleanup w = Some (cheers w)"

definition daytime_signal_handler :: "nat \<Rightarrow> world \<Rightarrow> unit part" where
  "daytime_signal_handler n w = signal_run n daytime_cleanup w"

definition daytime_switch :: "build \<Rightarrow> string \<Rightarrow> char \<Rightarrow> string option \<Rightarrow> string option \<Rightarrow> world \<Rightarrow> string option part" where
  "daytime_switch b name c optarg server_name w =
    (if c = CHR ''f'' then Some (Inr optarg, w)
     else if c = CHR ''h'' then leave Some EXIT_SUCCESS (daytime_usage b name w)
     else leave Some EXIT_FAILURE (daytime_usage b name (baa_error_msg ''ERROR: no valid argument'' [] w)))"

text \<open>An assignment to an array element with a signed index.\<close>

definition store_at :: "int \<Rightarrow> 'a \<Rightarrow> 'a list \<Rightarrow> world \<Rightarrow> 'a list \<times> world" where
  "store_at i x buf w = (if i < 0 then (buf, fault OutOfBounds w) else poke (nat i) [x] buf w)"

text \<open>The report of a failed connection is given the address of the pointer to the name, so it
  prints the bytes of that pointer: unspecified characters here.\<close>

definition daytime_round :: "build \<Rightarrow> string \<Rightarrow> string \<Rightarrow> world \<Rightarrow> unit part" where
  "daytime_round b name server w =
    (let recvline = replicate (BAA_MAXLINE + 1) NUL;
         w = baa_info_msg ''try to connect to daytime server of %s'' [FStr server] w;
         (fds, w) = baa_inet_stream_client (Some server) ''daytime'' w
     in if fds = -1
        then leave daytime_cleanup EXIT_FAILURE
               (daytime_usage b name (baa_error_msg ''could not connect to %s'' [FStr (c_str (uninit_chars 8 w))] w))
        else
          (case baa_read_line fds recvline BAA_MAXLINE w of
             None \<Rightarrow> None
           | Some ((num_read, recvline), w) \<Rightarrow>
               if num_read = -1 then leave_with daytime_cleanup (baa_error_exit ''could not read from socket'' [] w)
               else
                 (let (recvline, w) = store_at (num_read - 1) NUL recvline w;
                      w = baa_info_msg ''read %d bytes from %s: %s'' [FInt num_read, FStr server, FStr (c_str recvline)] w;
                      (_, w) = sys (File (Close fds)) w;
                      (_, w) = sys (Proc (Sleep 2)) w
                  in Some (Inr (), w))))"

fun daytime_rounds :: "nat \<Rightarrow> build \<Rightarrow> string \<Rightarrow> string \<Rightarrow> world \<Rightarrow> unit part" where
  "daytime_rounds 0 b name server w = Some (Inr (), w)"
| "daytime_rounds (Suc n) b name server w = then_do (daytime_round b name server w) (\<lambda>_. daytime_rounds n b name server)"

definition daytime_client_main :: "nat \<Rightarrow> build \<Rightarrow> string list \<Rightarrow> world \<Rightarrow> unit part" where
  "daytime_client_main n b argv w =
    then_do (program_name argv w) (\<lambda>name w.
    then_do (option_loop (argv0 argv) (daytime_switch b name) (getopt_all ''hf:'' argv) None w) (\<lambda>server_name w.
    case server_name of
      None \<Rightarrow> leave Some EXIT_FAILURE (daytime_usage b name (baa_error_msg ''not enough arguments -> need server name'' [] w))
    | Some server \<Rightarrow>
        let w = baa_info_msg ''try to connect to %s'' [FStr server] w
        in then_do (register_cleanup w) (\<lambda>_ w.
           then_do (start_signal_thread daytime_cleanup ''could not create pthread'' w) (\<lambda>_ w.
            daytime_rounds n b name server w))))"

section \<open>The server\<close>

definition daytime_server_usage :: "build \<Rightarrow> string \<Rightarrow> world \<Rightarrow> world" where
  "daytime_server_usage b name w =
    (let w = putnl w;
         w = baa_info_msg ''Usage: %s [options]              '' [FStr name] w;
         w = infos
              [''Options:                                       '',
               ''        -h                       show help     ''] w;
         w = putnl w
     in show_some_infos b w)"

definition daytime_server_cleanup :: "world \<Rightarrow> world option" where
  "daytime_server_cleanup w = Some (cheers w)"

definition daytime_server_signal_handler :: "nat \<Rightarrow> world \<Rightarrow> unit part" where
  "daytime_server_signal_handler n w = signal_run n daytime_server_cleanup w"

definition daytime_server_switch :: "build \<Rightarrow> string \<Rightarrow> char \<Rightarrow> string option \<Rightarrow> unit \<Rightarrow> world \<Rightarrow> unit part" where
  "daytime_server_switch b name c optarg s w =
    (if c = CHR ''h'' then leave Some EXIT_SUCCESS (daytime_server_usage b name w)
     else leave Some EXIT_FAILURE (daytime_server_usage b name (baa_error_msg ''ERROR: no valid argument'' [] w)))"

definition daytime_server_main :: "build \<Rightarrow> string list \<Rightarrow> world \<Rightarrow> unit part" where
  "daytime_server_main b argv w =
    then_do (program_name argv w) (\<lambda>name w.
    then_do (option_loop (argv0 argv) (daytime_server_switch b name) (getopt_all ''h'' argv) () w) (\<lambda>_ w.
    then_do (register_cleanup w) (\<lambda>_ w.
    then_do (start_signal_thread daytime_server_cleanup ''could not create pthread'' w) (\<lambda>_ w.
     let (fds, w) = baa_inet_stream_server ''daytime'' w
     in if fds = -1
        then leave daytime_server_cleanup EXIT_FAILURE (daytime_server_usage b name (baa_error_msg ''could not setup server'' [] w))
        else
          then_do (start_thread daytime_server_cleanup ''baa_daytime_server_th'' ''could not create pthread'' w) (\<lambda>_ w.
           let (_, w) = sys (Sched (Thread_join ''baa_daytime_server_th'')) w;
               (_, w) = sys (Sched (Thread_join ''signal_handler'')) w
           in case baa_wrap_close fds w of None \<Rightarrow> None | Some w \<Rightarrow> leave daytime_server_cleanup EXIT_SUCCESS w)))))"

interpretation daytime_exit: returning_handler daytime_cleanup "\<lambda>c. c = Proc (Getenv ''USER'')"
  by unfold_locales (auto simp: daytime_cleanup_def intro: only_cheers only_refl)

interpretation daytime_server_exit: returning_handler daytime_server_cleanup "\<lambda>c. c = Proc (Getenv ''USER'')"
  by unfold_locales (auto simp: daytime_server_cleanup_def intro: only_cheers only_refl)

section \<open>A round of the client\<close>

lemma read_line_of_daytime:
  assumes "file_reads fds (pre @ newline # rest) u" "newline \<notin> set pre"
  shows "\<exists>w'. baa_read_line fds (replicate (BAA_MAXLINE + 1) NUL) BAA_MAXLINE u =
      Some ((int (min (length pre + 1) (BAA_MAXLINE - 1)), line_buffer BAA_MAXLINE (pre @ [newline]) (replicate (BAA_MAXLINE + 1) NUL)), w') \<and>
    w_fault w' = w_fault u \<and> map fst (io w') = map fst (io u) @ replicate (length pre + 1) (File (Read fds 1))"
  using read_cmd_line[OF assms, of BAA_MAXLINE "replicate (BAA_MAXLINE + 1) NUL" "[]" NUL]
  by (simp add: baa_read_line_def BAA_MAXLINE_def)

text \<open>Overwriting the last character that was stored leaves the line without its newline.\<close>

lemma newline_eliminated:
  fixes pre defines "n \<equiv> min (length pre + 1) (BAA_MAXLINE - 1)"
  assumes "no_nul pre"
  shows "\<exists>buf. store_at (int n - 1) NUL (line_buffer BAA_MAXLINE (pre @ [newline]) (replicate (BAA_MAXLINE + 1) NUL)) w = (buf, w) \<and>
    c_str buf = take (BAA_MAXLINE - 2) pre"
proof -
  let ?b = "line_buffer BAA_MAXLINE (pre @ [newline]) (replicate (BAA_MAXLINE + 1) NUL)"
  let ?t = "take (BAA_MAXLINE - 2) pre"
  have n: "0 < n" "n - 1 = length ?t" "n - 1 + 1 \<le> length ?b" "nat (int n - 1) = n - 1"
    by (auto simp: n_def BAA_MAXLINE_def line_buffer_def)
  have "take (n - 1) ?b = ?t"
    by (auto simp: n_def line_buffer_def overwrite_def BAA_MAXLINE_def min_def)
  then have "overwrite (n - 1) [NUL] ?b = ?t @ NUL # drop (n - 1 + 1) ?b" by (simp add: overwrite_def)
  moreover have "no_nul ?t" using assms(2) by (auto simp: no_nul_def dest: in_set_takeD)
  ultimately have "c_str (overwrite (n - 1) [NUL] ?b) = ?t" by simp
  moreover have "store_at (int n - 1) NUL ?b w = (overwrite (n - 1) [NUL] ?b, w)"
    using n by (simp add: store_at_def poke_def)
  ultimately show ?thesis by blast
qed

lemma read_line_calls:
  "baa_read_line fd buf n w = Some y \<Longrightarrow> \<exists>l. io (snd y) = io w @ l \<and> (\<forall>e \<in> set l. fst e = File (Read fd 1))"
  unfolding baa_read_line_def
proof (rule read_cmd.raw_induct[where P = "\<lambda>fd n buf count ch w y. \<exists>l. io (snd y) = io w @ l \<and> (\<forall>e \<in> set l. fst e = File (Read fd 1))"])
  fix f :: "int \<Rightarrow> nat \<Rightarrow> char list \<Rightarrow> nat \<Rightarrow> char \<Rightarrow> world \<Rightarrow> ((int \<times> char list) \<times> world) option"
    and fd n buf count ch w y
  let ?r = "answer w (File (Read fd 1))" let ?w = "snd (sys (File (Read fd 1)) w)"
  let ?ch = "case take (nat (rv ?r)) (rbytes ?r) of [] \<Rightarrow> ch | b # _ \<Rightarrow> byte_char b"
  assume IH: "\<And>fd n buf count ch w y. f fd n buf count ch w = Some y \<Longrightarrow>
      \<exists>l. io (snd y) = io w @ l \<and> (\<forall>e \<in> set l. fst e = File (Read fd 1))"
    and eq: "(let r = answer w (File (Read fd 1)); w = snd (sys (File (Read fd 1)) w); m = rv r
      in if m = -1 then (if w_errno w = EINTR then f fd n buf count ch w
           else Some ((-1, buf), baa_errno_msg ''read_line() -> read'' [] w))
         else (let ch = (case take (nat m) (rbytes r) of [] \<Rightarrow> ch | b # _ \<Rightarrow> byte_char b)
           in if m = 0 \<and> count = 0 then Some ((BAA_FILE_EMPTY, buf), w)
              else (let stored = count < size_sub n 1;
                     (buf, w) = (if stored then poke count [ch] buf w else (buf, w));
                     count = (if stored then count + 1 else count)
                 in if ch \<noteq> newline \<and> m \<noteq> 0 then f fd n buf count ch w
                    else (let (buf, w) = poke count [NUL] buf w in Some ((int count, buf), w))))) = Some y"
  have step: "\<exists>l. io (snd y) = io w @ l \<and> (\<forall>e \<in> set l. fst e = File (Read fd 1))"
    if "\<exists>l. io (snd y) = io v @ l \<and> (\<forall>e \<in> set l. fst e = File (Read fd 1))" "io v = io ?w" for v
    using that by (auto simp: sys_simps)
  show "\<exists>l. io (snd y) = io w @ l \<and> (\<forall>e \<in> set l. fst e = File (Read fd 1))"
    using eq
    by (auto simp: Let_def split_def split: if_splits dest!: IH intro: step)
      (auto simp: sys_simps)
qed

lemma reads_account:
  "\<forall>e \<in> set l. fst e = File (Read fd 1) \<Longrightarrow> opened l = {#} \<and> closed l = {#}"
proof (induction l)
  case (Cons e l)
  then show ?case by (cases e) simp
qed simp

text \<open>The state in which a round has its connection, and the descriptor.\<close>

definition daytime_connect :: "string \<Rightarrow> world \<Rightarrow> int \<times> world" where
  "daytime_connect server w =
    baa_inet_stream_client (Some server) ''daytime'' (baa_info_msg ''try to connect to daytime server of %s'' [FStr server] w)"

lemma daytime_connect_accounted:
  "daytime_connect server w = (fds, u) \<Longrightarrow> \<exists>l. io u = io w @ l \<and> hands_out fds l"
  using connect_inet_accounted[of "Some server" "''daytime''" SOCK_STREAM "baa_info_msg ''try to connect to daytime server of %s'' [FStr server] w"]
  by (auto simp: daytime_connect_def baa_inet_stream_client_def)

lemma daytime_round_line:
  assumes "daytime_connect server w = (fds, u)" "fds \<noteq> -1"
    and "file_reads fds (line @ newline # rest) u" "newline \<notin> set line" "no_nul line"
  shows "\<exists>v w' new. daytime_round b name server w = Some (Inr (), w') \<and>
    map fst (io v) = map fst (io u) @ replicate (length line + 1) (File (Read fds 1)) \<and>
    w' = snd (sys (Proc (Sleep 2)) (snd (sys (File (Close fds))
      (baa_info_msg ''read %d bytes from %s: %s'' [FInt (int (min (length line + 1) 253)), FStr server, FStr (take 252 line)] v)))) \<and>
    w_fault w' = w_fault u \<and> io w' = io w @ new \<and> opened new = closed new"
proof -
  let ?n = "int (min (length line + 1) (BAA_MAXLINE - 1))"
  let ?b = "line_buffer BAA_MAXLINE (line @ [newline]) (replicate (BAA_MAXLINE + 1) NUL)"
  obtain v where v: "baa_read_line fds (replicate (BAA_MAXLINE + 1) NUL) BAA_MAXLINE u = Some ((?n, ?b), v)"
    "w_fault v = w_fault u" "map fst (io v) = map fst (io u) @ replicate (length line + 1) (File (Read fds 1))"
    using read_line_of_daytime[OF assms(3,4)] by blast
  obtain buf where buf: "store_at (?n - 1) NUL ?b v = (buf, v)" "c_str buf = take (BAA_MAXLINE - 2) line"
    using newline_eliminated[OF assms(5)] by blast
  let ?w = "snd (sys (Proc (Sleep 2)) (snd (sys (File (Close fds))
      (baa_info_msg ''read %d bytes from %s: %s'' [FInt ?n, FStr server, FStr (take (BAA_MAXLINE - 2) line)] v))))"
  have "?n \<noteq> -1" by simp
  then have r: "daytime_round b name server w = Some (Inr (), ?w)"
    using assms(1,2) v(1) buf
    by (simp add: daytime_round_def daytime_connect_def split_def Let_def del: replicate_Suc of_nat_min)
  obtain l where l: "io u = io w @ l" "hands_out fds l" using daytime_connect_accounted[OF assms(1)] by blast
  obtain k where k: "io v = io u @ k" "\<forall>e \<in> set k. fst e = File (Read fds 1)"
    using read_line_calls[OF v(1)] by auto
  have "\<exists>new. io ?w = io w @ new \<and> opened new = closed new"
    using l k(1) reads_account[OF k(2)] assms(2) by (simp add: sys_simps hands_out_def)
  then show ?thesis
    using r v(2,3) by (auto simp: sys_simps BAA_MAXLINE_def)
qed

text \<open>
  A round of the daytime client shows the line the server sent. When the client is connected and the
  server sends a line, the client reads it character by character up to its newline, reports the
  number of characters it kept (at most 253) and the line without the newline (cut to 252
  characters), closes the connection and sleeps: no memory outside its buffer is written, and
  the round closes every descriptor it opened.
\<close>
theorem daytime_client_round:
  assumes "daytime_connect server w = (fds, u)" "fds \<noteq> -1"
    and "file_reads fds (line @ newline # rest) u" "newline \<notin> set line" "no_nul line"
  shows "\<exists>v w' new. daytime_round b name server w = Some (Inr (), w') \<and>
    map fst (io v) = map fst (io u) @ replicate (length line + 1) (File (Read fds 1)) \<and>
    w' = snd (sys (Proc (Sleep 2)) (snd (sys (File (Close fds))
      (baa_info_msg ''read %d bytes from %s: %s'' [FInt (int (min (length line + 1) 253)), FStr server, FStr (take 252 line)] v)))) \<and>
    w_fault w' = w_fault u \<and> io w' = io w @ new \<and> opened new = closed new"
  using daytime_round_line[OF assms] by blast

text \<open>
  A server that closes the connection without sending anything makes the client write outside
  its buffer: the reader reports an empty file with -2, which is not the error value the
  client tests for, and the client stores a NUL at index -3.
\<close>
theorem daytime_client_empty_answer:
  assumes "daytime_connect server w = (fds, u)" "fds \<noteq> -1" "rv (answer u (File (Read fds 1))) = 0"
  shows "\<exists>w'. daytime_round b name server w = Some (Inr (), w') \<and> w_fault w' \<noteq> None"
proof -
  have "baa_read_line fds buf n u = Some ((BAA_FILE_EMPTY, buf), snd (sys (File (Read fds 1)) u))" for buf n
    unfolding baa_read_line_def using assms(3) by (subst read_cmd.simps) (simp add: Let_def)
  then show ?thesis
    using assms(1,2)
    by (simp add: daytime_round_def daytime_connect_def split_def Let_def store_at_def sys_simps fault_simps del: replicate_Suc not_None_eq)
qed

text \<open>What the server writes for one connection.\<close>

lemma daytime_server_line:
  assumes "rv (answer w (Sock (Accept sfd))) \<noteq> -1" "t = rstr (answer (snd (sys (Sock (Accept sfd)) w)) (Sock Time))" "no_nul (take 24 t)"
  shows "map fst (io (baa_daytime_server_th 1 sfd w)) = map fst (io w) @
    [Sock (Accept sfd), Sock Time, File (Write (rv (answer w (Sock (Accept sfd)))) (take 24 t @ [CHR 0x0D, newline]))]"
proof -
  define d where "d = take 24 t @ [CHR 0x0D, newline]"
  have d: "no_nul d" "length d < BAA_MAXLINE" using assms(3) by (auto simp: d_def no_nul_def NUL_def newline_def BAA_MAXLINE_def)
  have t: "take (length d) (overwrite 0 (d @ [NUL]) (replicate BAA_MAXLINE NUL)) = d"
    "NUL \<in> set (overwrite 0 (d @ [NUL]) (replicate BAA_MAXLINE NUL))" by (simp_all add: overwrite_def)
  have f: "take 24 (rstr (answer (snd (sys (Sock (Accept sfd)) w)) (Sock Time))) @ [CHR 0x0D, CHR 0x0A] = d"
    by (simp add: d_def newline_def assms(2))
  show ?thesis
    using assms(1) unfolding baa_daytime_server_th_def daytime_iteration_def One_nat_def daytime_run.simps d_def[symmetric]
    by (simp add: split_def Let_def sys_simps f snprintf_path[OF d] c_strlen_def t)
qed

text \<open>
  C20. The two daytime programs together: when the characters the server thread wrote for a connection are
  what the client's descriptor delivers, the client reports the time of the server. It shows
  the first 24 characters of the time and the carriage return that the server puts before the
  newline.
\<close>
theorem daytime_session:
  assumes "rv (answer ws (Sock (Accept sfd))) \<noteq> -1" "t = rstr (answer (snd (sys (Sock (Accept sfd)) ws)) (Sock Time))"
    and "no_nul (take 24 t)" "newline \<notin> set (take 24 t)"
    and "daytime_connect server w = (fds, u)" "fds \<noteq> -1"
    and "map fst (io (baa_daytime_server_th 1 sfd ws)) = map fst (io ws) @ [Sock (Accept sfd), Sock Time, File (Write confd data)]"
    and "file_reads fds data u"
  shows "\<exists>v w'. daytime_round b name server w = Some (Inr (), w') \<and> w_fault w' = w_fault u \<and>
    w' = snd (sys (Proc (Sleep 2)) (snd (sys (File (Close fds))
      (baa_info_msg ''read %d bytes from %s: %s'' [FInt (int (length (take 24 t)) + 2), FStr server, FStr (take 24 t @ [CHR 0x0D])] v))))"
proof -
  define tm where "tm = take 24 t @ [CHR 0x0D]"
  have "data = tm @ newline # []"
    using daytime_server_line[OF assms(1-3)] assms(7) by (simp add: tm_def)
  with assms(8) have r: "file_reads fds (tm @ newline # []) u" by simp
  have "newline \<notin> set tm" "no_nul tm"
    using assms(3,4) by (auto simp: tm_def newline_def no_nul_def NUL_def)
  note round = daytime_round_line[OF assms(5,6) r this, of b name]
  have "int (min (length tm + 1) 253) = int (length (take 24 t)) + 2" "take 252 tm = take 24 t @ [CHR 0x0D]"
    by (simp_all add: tm_def)
  with round show ?thesis unfolding tm_def[symmetric] by (simp only:) blast
qed

section \<open>A daytime service\<close>

text \<open>An environment for the client in which the connection is made and the given text is delivered;
  the first read comes after 13 calls.\<close>

definition daytime_env :: "string \<Rightarrow> nat \<Rightarrow> call \<Rightarrow> reply" where
  "daytime_env data n c =
    (case c of
       Sock (Getaddrinfo h sv t f) \<Rightarrow>
         (reply_of 0)\<lparr>raddrs := [\<lparr>ai_family = 2, ai_socktype = 1, ai_protocol = 6, ai_addr = InetAddr ''baalue_master''\<rparr>]\<rparr>
     | Sock (Socket d t p) \<Rightarrow> reply_of 3
     | File (Read fd k) \<Rightarrow> if n - 13 < length data then bytes_reply [char_byte (data ! (n - 13))] else reply_of 0
     | _ \<Rightarrow> reply_of 0)"

lemma msg_length: "\<not> w_use_syslog w \<Longrightarrow> length (w_trace (baa_info_msg fmt va w)) = length (w_trace w) + 3"
  unfolding baa_info_msg_def error_common_eq Let_def by (simp add: world_simps)

lemma daytime_env_connects:
  "\<exists>u. daytime_connect server (init_world (daytime_env data)) = (3, u) \<and> w_os u = daytime_env data \<and> length (w_trace u) = 13 \<and> w_fault u = None"
proof -
  let ?w = "baa_info_msg ''try to connect to daytime server of %s'' [FStr server] (init_world (daytime_env data))"
  have w: "w_os ?w = daytime_env data" "length (w_trace ?w) = 3" "w_fault ?w = None" by (simp_all add: msg_length)
  have sg: "w_os v = daytime_env data \<Longrightarrow> baa_signal s h v = (SIG_DFL, snd (sys (signal_call s h) v))" for s h v
    by (simp add: baa_signal_def signal_call_def split_def Let_def sys_simps answer_def daytime_env_def reply_of_def)
  have to: "w_os v = daytime_env data \<Longrightarrow> set_rcv_timeout s v = (0, snd (sys (Sock (Setsockopt s (Timeval SO_RCVTIMEO RECV_TIMEOUT 0))) v))"
    "w_os v = daytime_env data \<Longrightarrow> set_snd_timeout s v = (0, snd (sys (Sock (Setsockopt s (Timeval SO_SNDTIMEO SEND_TIMEOUT 0))) v))" for s v
    by (simp_all add: set_rcv_timeout_def set_snd_timeout_def set_timeout_def split_def Let_def sys_simps answer_def daytime_env_def)
  show ?thesis
    unfolding daytime_connect_def baa_inet_stream_client_def connect_inet_socket_def using w
    by (simp add: split_def Let_def sys_simps sg to answer_def[of _ "Sock _"] answer_def[of _ "Proc _"] daytime_env_def del: baa_signal_simps timeout_simps)
qed

lemma daytime_env_reads:
  "w_os u = daytime_env data \<Longrightarrow> length (w_trace u) = 13 \<Longrightarrow> file_reads 3 data u"
  by (simp add: file_reads_def daytime_env_def)

theorem daytime_client_round_witness:
  "\<exists>v w' new. daytime_round \<lparr>PACKAGE_STRING = ''libbaalue'', PACKAGE_VERSION = ''1''\<rparr> ''client'' ''baalue_master''
       (init_world (daytime_env (''noon'' @ newline # []))) = Some (Inr (), w') \<and>
     w' = snd (sys (Proc (Sleep 2)) (snd (sys (File (Close 3))
       (baa_info_msg ''read %d bytes from %s: %s'' [FInt 5, FStr ''baalue_master'', FStr ''noon''] v)))) \<and>
     w_fault w' = None \<and> io w' = new \<and> opened new = closed new"
proof -
  let ?w = "init_world (daytime_env (''noon'' @ newline # []))"
  obtain u where u: "daytime_connect ''baalue_master'' ?w = (3, u)" "w_os u = daytime_env (''noon'' @ newline # [])"
    "length (w_trace u) = 13" "w_fault u = None" using daytime_env_connects by blast
  have "newline \<notin> set ''noon''" "no_nul ''noon''" by (simp_all add: newline_def NUL_def)
  from daytime_client_round[OF u(1) _ daytime_env_reads[OF u(2,3)] this] u(4) show ?thesis by auto
qed

theorem daytime_client_empty_answer_witness:
  "\<exists>w'. daytime_round \<lparr>PACKAGE_STRING = ''libbaalue'', PACKAGE_VERSION = ''1''\<rparr> ''client'' ''baalue_master''
     (init_world (daytime_env [])) = Some (Inr (), w') \<and> w_fault w' \<noteq> None"
proof -
  obtain u where u: "daytime_connect ''baalue_master'' (init_world (daytime_env [])) = (3, u)" "w_os u = daytime_env []"
    using daytime_env_connects by blast
  have "rv (answer u (File (Read 3 1))) = 0" by (simp add: answer_def u(2) daytime_env_def)
  from daytime_client_empty_answer[OF u(1) _ this] show ?thesis by simp
qed

definition noon_server :: "nat \<Rightarrow> call \<Rightarrow> reply" where
  "noon_server n c = (case c of Sock Time \<Rightarrow> (reply_of 0)\<lparr>rstr := ''Sat Jan  1 12:00:00 2000\<newline>''\<rparr> | _ \<Rightarrow> reply_of 5)"

theorem daytime_session_witness:
  "\<exists>v w'. daytime_round \<lparr>PACKAGE_STRING = ''libbaalue'', PACKAGE_VERSION = ''1''\<rparr> ''client'' ''baalue_master''
       (init_world (daytime_env (''Sat Jan  1 12:00:00 2000'' @ [CHR 0x0D, newline]))) = Some (Inr (), w') \<and> w_fault w' = None \<and>
     w' = snd (sys (Proc (Sleep 2)) (snd (sys (File (Close 3))
       (baa_info_msg ''read %d bytes from %s: %s'' [FInt 26, FStr ''baalue_master'', FStr (''Sat Jan  1 12:00:00 2000'' @ [CHR 0x0D])] v))))"
proof -
  let ?d = "''Sat Jan  1 12:00:00 2000'' @ [CHR 0x0D, newline]" let ?t = "''Sat Jan  1 12:00:00 2000\<newline>''"
  let ?ws = "init_world noon_server"
  obtain u where u: "daytime_connect ''baalue_master'' (init_world (daytime_env ?d)) = (3, u)" "w_os u = daytime_env ?d"
    "length (w_trace u) = 13" "w_fault u = None" using daytime_env_connects by blast
  have a: "rv (answer ?ws (Sock (Accept 4))) \<noteq> -1" "?t = rstr (answer (snd (sys (Sock (Accept 4)) ?ws)) (Sock Time))"
    by (simp_all add: answer_def noon_server_def sys_simps)
  have t: "take 24 ?t = ''Sat Jan  1 12:00:00 2000''" by simp
  have n: "no_nul (take 24 ?t)" "newline \<notin> set (take 24 ?t)" unfolding t by (simp_all add: newline_def NUL_def)
  have "map fst (io (baa_daytime_server_th 1 4 ?ws)) = map fst (io ?ws) @ [Sock (Accept 4), Sock Time, File (Write 5 ?d)]"
    using daytime_server_line[OF a n(1)] unfolding t by (simp add: answer_def noon_server_def)
  from daytime_session[OF a n u(1) _ this daytime_env_reads[OF u(2,3)], of "\<lparr>PACKAGE_STRING = ''libbaalue'', PACKAGE_VERSION = ''1''\<rparr>" "''client''"] u(4)
  show ?thesis unfolding t by simp
qed

end
