(* ===== verification/Baa_Net_Servers.thy ===== *)
theory Baa_Net_Servers
  imports Baa_Mgmt_Programs Baa_Daytime_Programs
begin

text \<open>
  The programs around the threads of the network servers (\<open>udp_mgmt_server.c\<close> and
  \<open>inet_daytime_server.c\<close>): when the thread that serves is started, and how the program ends.
\<close>

section \<open>A bound socket\<close>

text \<open>What the address loop may call, and the state in which its last call, a \<open>bind\<close>, succeeded.\<close>

fun bind_call :: "call \<Rightarrow> bool" where
  "bind_call (Sock (Getaddrinfo h sv t f)) = True"
| "bind_call (Sock (Socket d t p)) = True"
| "bind_call (Sock (Setsockopt s v)) = True"
| "bind_call (Sock (Bind s a)) = True"
| "bind_call (Sock (Listen s n)) = True"
| "bind_call (Sock Freeaddrinfo) = True"
| "bind_call (File (Close s)) = True"
| "bind_call c = False"

definition binds_in :: "int \<Rightarrow> sockaddr \<Rightarrow> world \<Rightarrow> world \<Rightarrow> bool" where
  "binds_in fd a u v \<longleftrightarrow> fd \<noteq> -1 \<and> v = snd (sys (Sock (Bind fd a)) u) \<and> rv (answer u (Sock (Bind fd a))) = 0"

definition bound_after :: "(call \<Rightarrow> bool) \<Rightarrow> world \<Rightarrow> int \<Rightarrow> world \<Rightarrow> bool" where
  "bound_after P w fd v \<longleftrightarrow> (if fd = -1 then only P w v else \<exists>u a. only P w u \<and> binds_in fd a u v)"

lemma bind_loop_bound:
  assumes P: "\<And>c. bind_call c \<Longrightarrow> P c" and "only P w v"
  shows "bound_after P w (fst (fst (bind_loop flags res as v))) (snd (bind_loop flags res as v))"
  using assms(2)
proof (induction "as" arbitrary: v)
  case (Cons rp rps)
  let ?c = "Sock (Socket (ai_family res) (ai_socktype res) (ai_protocol res))"
  let ?fd = "rv (answer v ?c)" let ?v1 = "snd (sys ?c v)" let ?v2 = "snd (reuse_step flags ?fd ?v1)"
  let ?ve = "baa_errno_msg ''setsockopt in %s'' [FStr ''bind_inet_socket''] ?v2"
  let ?vf = "snd (sys (File (Close ?fd)) (snd (sys (Sock Freeaddrinfo) ?ve)))"
  let ?v3 = "snd (set_rcv_timeout ?fd (snd (set_snd_timeout ?fd ?v2)))"
  let ?k = "Sock (Bind ?fd (ai_addr res))" let ?v4 = "snd (sys ?k ?v3)" let ?v5 = "snd (sys (File (Close ?fd)) ?v4)"
  have step: "bind_loop flags res (rp # rps) v =
    (if ?fd = -1 then bind_loop flags res rps ?v1
     else if \<not> fst (reuse_step flags ?fd ?v1) then ((-1, True), ?vf)
     else if rv (answer ?v3 ?k) = 0 then ((?fd, False), ?v4) else bind_loop flags res rps ?v5)"
    by (simp add: split_def Let_def sys_simps reuse_step_def)
  have o1: "only P w ?v1" using Cons.prems P by (auto intro!: only_intros)
  then have o2: "only P w ?v2" unfolding reuse_step_def using P by (auto intro!: only_intros)
  then have o3: "only P w ?v3" unfolding set_rcv_timeout_def set_snd_timeout_def set_timeout_def using P by (auto simp: split_def Let_def intro!: only_intros)
  have o5: "only P w ?v5" "only P w ?vf" using o2 o3 P by (auto intro!: only_intros)
  show ?case
    unfolding step using Cons.IH[OF o1] Cons.IH[OF o5(1)] o3 o5(2) by (auto simp: bound_after_def binds_in_def)
qed (simp add: bound_after_def)

text \<open>Ready to serve: the calls end with the bind of the socket, and for a stream with a \<open>listen\<close> on it.\<close>

definition ready :: "bool \<Rightarrow> int \<Rightarrow> event list \<Rightarrow> bool" where
  "ready listens fd es \<longleftrightarrow> (\<exists>pre a b f l. es = pre @ [(Sock (Bind fd a), b), (Sock Freeaddrinfo, f)] @ l \<and> rv b = 0 \<and>
    (if listens then \<exists>q. l = [(Sock (Listen fd BACKLOG), q)] \<and> rv q \<noteq> -1 else l = []))"

definition ready_after :: "(call \<Rightarrow> bool) \<Rightarrow> bool \<Rightarrow> world \<Rightarrow> int \<Rightarrow> world \<Rightarrow> bool" where
  "ready_after P listens w fd v \<longleftrightarrow> only P w v \<and> (fd \<noteq> -1 \<longrightarrow> (\<exists>new. io v = io w @ new \<and> ready listens fd new))"

lemma bind_inet_ready:
  assumes P: "\<And>c. bind_call c \<Longrightarrow> P c" and "only P w v"
  shows "ready_after P False w (fst (bind_inet_socket service type flags v)) (snd (bind_inet_socket service type flags v))"
proof -
  let ?g = "Sock (Getaddrinfo None service type AI_PASSIVE)" let ?q = "answer v ?g" let ?v = "snd (sys ?g v)"
  define bl where "bl = bind_loop flags (hd (raddrs ?q)) (raddrs ?q) ?v"
  have bi: "bind_inet_socket service type flags v =
    (if rv ?q \<noteq> 0 then (-1, baa_info_msg ''getaddrinfo in %s with %s'' [FStr ''bind_inet_socket'', FStr (rstr ?q)] ?v)
     else if snd (fst bl) then (-1, snd bl) else (fst (fst bl), snd (sys (Sock Freeaddrinfo) (snd bl))))"
    by (simp add: bind_inet_socket_def split_def Let_def sys_simps bl_def)
  have o: "only P w ?v" using assms by (auto intro!: only_intros)
  have b: "bound_after P w (fst (fst bl)) (snd bl)" unfolding bl_def using P o by (rule bind_loop_bound)
  have os: "only P w (snd bl)" using b P by (auto simp: bound_after_def binds_in_def split: if_splits intro!: only_intros)
  have "ready_after P False w (fst (fst bl)) (snd (sys (Sock Freeaddrinfo) (snd bl)))" if fd: "fst (fst bl) \<noteq> -1"
  proof -
    obtain u a where u: "only P w u" "binds_in (fst (fst bl)) a u (snd bl)" using b fd by (auto simp: bound_after_def)
    then obtain new where "io u = io w @ new" by (auto elim: only_new)
    with u(2) have "io (snd (sys (Sock Freeaddrinfo) (snd bl))) = io w @ new @
        [(Sock (Bind (fst (fst bl)) a), answer u (Sock (Bind (fst (fst bl)) a))), (Sock Freeaddrinfo, answer (snd bl) (Sock Freeaddrinfo))]"
      by (simp add: binds_in_def sys_simps)
    moreover have "ready False (fst (fst bl)) (new @ [(Sock (Bind (fst (fst bl)) a), answer u (Sock (Bind (fst (fst bl)) a))),
        (Sock Freeaddrinfo, answer (snd bl) (Sock Freeaddrinfo))])"
      using u(2) by (auto simp: ready_def binds_in_def)
    ultimately show ?thesis using os P by (auto simp: ready_after_def intro!: only_intros)
  qed
  then show ?thesis
    unfolding bi using o os P by (auto simp: ready_after_def intro!: only_intros)
qed

lemma stream_server_ready:
  assumes P: "\<And>c. bind_call c \<Longrightarrow> P c" and "only P w v"
  shows "ready_after P True w (fst (baa_inet_stream_server service v)) (snd (baa_inet_stream_server service v))"
proof -
  let ?b = "bind_inet_socket service SOCK_STREAM USE_LISTEN v"
  have b: "ready_after P False w (fst ?b) (snd ?b)" using assms by (rule bind_inet_ready)
  let ?l = "Sock (Listen (fst ?b) BACKLOG)"
  have eq: "baa_inet_stream_server service v =
    (if fst ?b = -1 then (-1, snd ?b)
     else if rv (answer (snd ?b) ?l) = -1 then (-1, baa_errno_msg ''listen in %s'' [FStr ''baa_inet_stream_server''] (snd (sys ?l (snd ?b))))
     else (fst ?b, snd (sys ?l (snd ?b))))"
    by (simp add: baa_inet_stream_server_def listen_on_def split_def Let_def sys_simps)
  have "ready_after P True w (fst ?b) (snd (sys ?l (snd ?b)))" if n: "fst ?b \<noteq> -1" "rv (answer (snd ?b) ?l) \<noteq> -1"
  proof -
    obtain new where new: "io (snd ?b) = io w @ new" "ready False (fst ?b) new" using b n(1) by (auto simp: ready_after_def)
    have "ready True (fst ?b) (new @ [(?l, answer (snd ?b) ?l)])" using new(2) n(2) by (fastforce simp: ready_def)
    then show ?thesis using b new(1) P by (auto simp: ready_after_def sys_simps intro!: only_intros)
  qed
  then show ?thesis unfolding eq using b P by (auto simp: ready_after_def intro!: only_intros)
qed

section \<open>The run of a server program\<close>

text \<open>
  What a run of a program with the serving thread \<open>th\<close> may have done. Without the thread it
  failed, or it only showed its help, where it has one. With the thread the socket was ready just before;
  the program ends with success after it waited for its two threads, or fails because the thread could not be
  created.
\<close>

definition served_run :: "string \<Rightarrow> bool \<Rightarrow> ending + unit \<Rightarrow> event list \<Rightarrow> bool" where
  "served_run th listens r new \<longleftrightarrow>
    (\<exists>pre q post fd. new = pre @ (Sched (Thread_create th), q) # post \<and> ready listens fd pre \<and> fd \<noteq> -1 \<and>
       Sched (Thread_create th) \<notin> fst ` set pre \<and>
       (if rv q = 0
        then r = Inl (Exited EXIT_SUCCESS) \<and> (\<exists>l. map fst post = [Sched (Thread_join th), Sched (Thread_join ''signal_handler'')] @ l \<and>
          set l \<subseteq> {File (Close fd), Proc (Getenv ''USER'')})
        else r = Inl (Exited EXIT_FAILURE) \<and> set (map fst post) \<subseteq> {Proc (Getenv ''USER'')}))"

definition unserved_run :: "bool \<Rightarrow> ending + unit \<Rightarrow> event list \<Rightarrow> bool" where
  "unserved_run helps r new \<longleftrightarrow> r = Inl (Exited EXIT_FAILURE) \<or>
     helps \<and> r = Inl (Exited EXIT_SUCCESS) \<and> (\<forall>e \<in> set new. \<not> bind_call (fst e))"

definition net_outcome :: "string \<Rightarrow> bool \<Rightarrow> bool \<Rightarrow> world \<Rightarrow> ending + unit \<Rightarrow> world \<Rightarrow> bool" where
  "net_outcome th helps listens w r w' \<longleftrightarrow> (\<exists>new. io w' = io w @ new \<and>
    (if Sched (Thread_create th) \<in> fst ` set new then served_run th listens r new else unserved_run helps r new))"

abbreviation not_started :: "string \<Rightarrow> call \<Rightarrow> bool" where
  "not_started th \<equiv> \<lambda>c. c \<noteq> Sched (Thread_create th)"

lemma net_failure: "only (not_started th) w v \<Longrightarrow> net_outcome th helps listens w (Inl (Exited EXIT_FAILURE)) v"
  by (fastforce simp: net_outcome_def unserved_run_def only_def)

lemma net_help:
  "only (\<lambda>c. not_started th c \<and> \<not> bind_call c) w v \<Longrightarrow> e = Exited EXIT_FAILURE \<or> helps \<and> e = Exited EXIT_SUCCESS \<Longrightarrow>
   net_outcome th helps listens w (Inl e) v"
  by (fastforce simp: net_outcome_def unserved_run_def only_def)

lemma net_servedI:
  assumes "io w' = io w @ pre @ (Sched (Thread_create th), q) # post" "ready listens fd pre" "fd \<noteq> -1"
    "Sched (Thread_create th) \<notin> fst ` set pre"
    and "if rv q = 0
      then r = Inl (Exited EXIT_SUCCESS) \<and> (\<exists>l. map fst post = [Sched (Thread_join th), Sched (Thread_join ''signal_handler'')] @ l \<and>
        set l \<subseteq> {File (Close fd), Proc (Getenv ''USER'')})
      else r = Inl (Exited EXIT_FAILURE) \<and> set (map fst post) \<subseteq> {Proc (Getenv ''USER'')}"
  shows "net_outcome th helps listens w r w'"
proof -
  have "served_run th listens r (pre @ (Sched (Thread_create th), q) # post)"
    unfolding served_run_def using assms(2-) by blast
  with assms(1) show ?thesis
    unfolding net_outcome_def by (intro exI[of _ "pre @ (Sched (Thread_create th), q) # post"]) simp
qed

lemma net_out:
  "part_only (not_started th) (\<lambda>e. e = Exited EXIT_FAILURE) (\<lambda>_. False) w m \<Longrightarrow> part_post (net_outcome th helps listens w) m"
  by (erule part_post_only) (auto intro: net_failure)

lemma net_served:
  assumes "ready_after (not_started th) listens w fd v" "fd \<noteq> -1"
    and rest: "\<And>u. part_only (\<lambda>c. c \<in> {File (Close fd), Proc (Getenv ''USER'')}) (\<lambda>e. e = Exited EXIT_SUCCESS) (\<lambda>_. False) u (f u)"
  shows "part_post (net_outcome th helps listens w) (then_do (start_thread bye th msg v)
    (\<lambda>_ u. f (snd (sys (Sched (Thread_join ''signal_handler'')) (snd (sys (Sched (Thread_join th)) u))))))"
proof -
  let ?c = "Sched (Thread_create th)" let ?q = "answer v ?c" let ?v = "snd (sys ?c v)"
  let ?j = "snd (sys (Sched (Thread_join ''signal_handler'')) (snd (sys (Sched (Thread_join th)) ?v)))"
  obtain pre where pre: "io v = io w @ pre" "ready listens fd pre" "?c \<notin> fst ` set pre"
    using assms(1,2) by (fastforce simp: ready_after_def only_def)
  have eq: "then_do (start_thread bye th msg v) (\<lambda>_ u. f (snd (sys (Sched (Thread_join ''signal_handler'')) (snd (sys (Sched (Thread_join th)) u))))) =
    (if rv ?q \<noteq> 0 then then_do (leave_with bye (baa_th_error_exit (rv ?q) msg [] ?v)) (\<lambda>(_ :: unit) u.
        f (snd (sys (Sched (Thread_join ''signal_handler'')) (snd (sys (Sched (Thread_join th)) u))))) else f ?j)"
    by (simp add: start_thread_def split_def Let_def sys_simps)
  show ?thesis
  proof (cases "rv ?q = 0")
    case True
    have "net_outcome th helps listens w (Inl (Exited EXIT_SUCCESS)) u" if u: "only (\<lambda>c. c \<in> {File (Close fd), Proc (Getenv ''USER'')}) ?j u" for u
    proof -
      obtain l where l: "io u = io ?j @ l" "\<forall>e \<in> set l. fst e \<in> {File (Close fd), Proc (Getenv ''USER'')}" using u by (rule only_new)
      let ?post = "[(Sched (Thread_join th), answer ?v (Sched (Thread_join th))),
        (Sched (Thread_join ''signal_handler''), answer (snd (sys (Sched (Thread_join th)) ?v)) (Sched (Thread_join ''signal_handler'')))] @ l"
      have "io u = io w @ pre @ (?c, ?q) # ?post" using l(1) pre(1) by (simp add: sys_simps)
      then show ?thesis using pre(2,3) l(2) True assms(2)
        by (rule_tac net_servedI) auto
    qed
    then show ?thesis unfolding eq using True rest[of ?j] by (auto intro: part_post_only)
  next
    case False
    have "net_outcome th helps listens w (Inl (Exited EXIT_FAILURE)) u" if u: "only (\<lambda>c. c = Proc (Getenv ''USER'')) ?v u" for u
    proof -
      obtain l where l: "io u = io ?v @ l" "\<forall>e \<in> set l. fst e = Proc (Getenv ''USER'')" using u by (rule only_new)
      have "io u = io w @ pre @ (?c, ?q) # l" using l(1) pre(1) by (simp add: sys_simps)
      then show ?thesis using pre(2,3) l(2) False assms(2)
        by (rule_tac net_servedI) auto
    qed
    moreover have "part_only (\<lambda>c. c = Proc (Getenv ''USER'')) (\<lambda>e. e = Exited EXIT_FAILURE) (\<lambda>_. False) ?v
      (leave_with bye (baa_th_error_exit (rv ?q) msg [] ?v) :: unit part)"
      by (auto intro!: part_intros only_intros)
    ultimately show ?thesis unfolding eq using False
      by (auto simp: part_post_def part_only_def then_do_Some_iff split: sum.splits)
  qed
qed


lemmas net_struct =
  part_post_then[where P = "not_started th" and R = "\<lambda>e. e = Exited EXIT_FAILURE" and S = "\<lambda>_. True" and
    Q = "net_outcome th helps listens w" and w = w for th helps listens w]

lemma mgmt_server_outcome: "part_post (net_outcome ''baa_device_mgmt_th'' False False w) (mgmt_server_main b argv w)"
proof -
  let ?P = "not_started ''baa_device_mgmt_th''"
  have fin: "only ?P u (cheers u)" for u by (auto intro!: only_intros)
  have serve: "part_post (net_outcome ''baa_device_mgmt_th'' False False w)
    (let (fds, w) = baa_inet_dgram_server mgmt_port v
     in if fds = -1 then leave_with bye (baa_error_exit ''could not setup server'' [] w)
        else then_do (start_thread bye ''baa_device_mgmt_th'' ''could not create pthread'' w) (\<lambda>_ w.
          let (_, w) = sys (Sched (Thread_join ''baa_device_mgmt_th'')) w; (_, w) = sys (Sched (Thread_join ''signal_handler'')) w
          in leave bye EXIT_SUCCESS w))" if v: "only ?P w v" for v
  proof -
    have r: "ready_after ?P False w (fst (baa_inet_dgram_server mgmt_port v)) (snd (baa_inet_dgram_server mgmt_port v))"
      unfolding baa_inet_dgram_server_def using v by (intro bind_inet_ready) auto
    then have o: "only ?P w (snd (baa_inet_dgram_server mgmt_port v))" by (simp add: ready_after_def)
    show ?thesis
      unfolding Let_def split_def using fin o
      by (intro part_post_if net_served[OF r, where f = "leave bye EXIT_SUCCESS"]) (auto intro!: net_out part_intros only_intros)
  qed
  show ?thesis
    unfolding mgmt_server_main_def Let_def
    by (intro net_struct serve[unfolded Let_def] part_intros) (auto intro!: only_intros fin net_failure)
qed

lemma only_daytime_server_usage:
  "P (Proc Uname) \<Longrightarrow> P (File (Printf [newline])) \<Longrightarrow> only P w v \<Longrightarrow> only P w (daytime_server_usage b nm v)"
  unfolding daytime_server_usage_def by (intro only_struct only_intros)

lemma daytime_server_outcome:
  "part_post (net_outcome ''baa_daytime_server_th'' True True w) (daytime_server_main b argv w)"
proof -
  let ?P = "not_started ''baa_daytime_server_th''" let ?H = "\<lambda>c. ?P c \<and> \<not> bind_call c"
  let ?opts = "option_loop (argv0 argv) (daytime_server_switch b name) (getopt_all ''h'' argv) ()"
  have fin: "only ?P u (cheers u)" for u by (auto intro!: only_intros)
  have clean: "daytime_server_cleanup = bye" by (simp add: daytime_server_cleanup_def fun_eq_iff)
  have serve: "part_post (net_outcome ''baa_daytime_server_th'' True True w)
    (let (fds, w) = baa_inet_stream_server ''daytime'' v
     in if fds = -1 then leave bye EXIT_FAILURE (daytime_server_usage b name (baa_error_msg ''could not setup server'' [] w))
        else then_do (start_thread bye ''baa_daytime_server_th'' ''could not create pthread'' w) (\<lambda>_ w.
          let (_, w) = sys (Sched (Thread_join ''baa_daytime_server_th'')) w; (_, w) = sys (Sched (Thread_join ''signal_handler'')) w
          in case baa_wrap_close fds w of None \<Rightarrow> None | Some w \<Rightarrow> leave bye EXIT_SUCCESS w))" if v: "only ?P w v" for v name
  proof -
    have r: "ready_after ?P True w (fst (baa_inet_stream_server ''daytime'' v)) (snd (baa_inet_stream_server ''daytime'' v))"
      using v by (intro stream_server_ready) auto
    then have o: "only ?P w (snd (baa_inet_stream_server ''daytime'' v))" by (simp add: ready_after_def)
    have c: "part_only (\<lambda>c. c \<in> {File (Close fd), Proc (Getenv ''USER'')}) (\<lambda>e. e = Exited EXIT_SUCCESS) (\<lambda>_. False) u
        (case baa_wrap_close fd u of None \<Rightarrow> None | Some w \<Rightarrow> leave bye EXIT_SUCCESS w)" for fd u
    proof (cases "baa_wrap_close fd u")
      case (Some v)
      have "only (\<lambda>c. c \<in> {File (Close fd), Proc (Getenv ''USER'')}) u v" by (rule only_wrap_close[OF Some]) simp
      then show ?thesis unfolding Some option.case by (intro part_only_leave) (auto intro!: only_intros)
    qed (simp add: part_intros)
    show ?thesis
      unfolding Let_def split_def using fin o
      by (intro part_post_if net_served[where f = "\<lambda>u. case baa_wrap_close (fst (baa_inet_stream_server ''daytime'' v)) u of None \<Rightarrow> None | Some w \<Rightarrow> leave bye EXIT_SUCCESS w", OF r _ c]) (auto intro!: net_out part_intros only_intros only_daytime_server_usage)
  qed
  show ?thesis
    unfolding daytime_server_main_def clean Let_def
    apply (rule part_post_then[where P = ?H and R = "\<lambda>e. e = Exited EXIT_FAILURE \<or> e = Exited EXIT_SUCCESS" and S = "\<lambda>_. True" and w = w])
      apply (intro part_only_program_name; auto intro!: only_intros)
     apply (rule part_post_then[where P = ?H and R = "\<lambda>e. e = Exited EXIT_FAILURE \<or> e = Exited EXIT_SUCCESS" and S = "\<lambda>_. True" and w = w])
       apply (intro part_only_options; auto simp: daytime_server_switch_def intro!: part_intros only_intros only_daytime_server_usage)
      apply (drule only_mono[where P = ?H and Q = ?P], simp)+
      apply (intro net_struct serve[unfolded Let_def] part_intros; auto intro!: only_intros fin net_failure)
     apply (auto intro!: net_help)
    done
qed



end
