(* ===== verification/Baa_Pid_File.thy ===== *)
theory Baa_Pid_File
  imports Baa_Helper
begin

text \<open>
  The content of a pid file (\<open>baa_create_file_with_pid\<close> of \<open>src/src/helper.c\<close>) and what the line
  reader of the same file (\<open>baa_read_line\<close>) makes of it: writing and reading are inverse.
\<close>

definition pid_line :: "int \<Rightarrow> string" where
  "pid_line pid = show_int pid @ [newline]"

lemma length_show_nat: "n < 10 ^ k \<Longrightarrow> 0 < k \<Longrightarrow> length (show_nat n) \<le> k"
proof (induction k arbitrary: n)
  case (Suc k)
  show ?case
  proof (cases "n < 10")
    case True
    then show ?thesis by (subst show_nat.simps) simp
  next
    case False
    then have "n div 10 < 10 ^ k" "0 < k" using Suc.prems(1) by (auto simp: less_mult_imp_div_less mult.commute intro: Nat.gr0I)
    then have "length (show_nat (n div 10)) \<le> k" by (rule Suc.IH)
    with False show ?thesis by (subst show_nat.simps) simp
  qed
qed simp

lemma newline_not_digit: "newline \<notin> set (show_nat n)"
proof -
  have "of_char (digit_char d) \<noteq> (of_char newline :: nat)" if "d < 10" for d :: nat
    using that by (simp add: digit_char_def newline_def)
  then have "newline \<notin> digit_char ` {..<10}" by (metis imageE lessThan_iff)
  then show ?thesis using set_show_nat[of n] by blast
qed

lemma pid_line_short:
  assumes "0 \<le> pid" "pid < 2 ^ 31"
  shows "length (pid_line pid) < BAA_MAXLINE"
proof -
  have "nat pid < 10 ^ 10" using assms by simp
  then have "length (show_nat (nat pid)) \<le> 10" by (rule length_show_nat) simp
  with assms(1) show ?thesis by (simp add: pid_line_def show_int_def BAA_MAXLINE_def)
qed

lemma pid_format: "fmt_text ''%ld\<newline>'' [FInt pid] = pid_line pid"
  by (simp add: pid_line_def newline_def)

text \<open>The events that show that the pid was written as a line.\<close>

definition wrote_pid :: "int \<Rightarrow> event list \<Rightarrow> bool" where
  "wrote_pid fd new \<longleftrightarrow> (\<exists>p r s. (Proc Getpid, p) \<in> set new \<and> (File (Write fd s), r) \<in> set new \<and>
    rv r = int (length (pid_line (rv p))) \<and> (0 \<le> rv p \<and> rv p < 2 ^ 31 \<longrightarrow> s = pid_line (rv p)))"

definition then_wrote :: "int \<Rightarrow> world \<Rightarrow> world \<Rightarrow> bool" where
  "then_wrote fd w w' \<longleftrightarrow> (\<exists>new. io w' = io w @ new \<and> wrote_pid fd new)"

lemma then_wrote_after: "adds (\<lambda>_. True) u v \<Longrightarrow> then_wrote fd v w \<Longrightarrow> then_wrote fd u w"
  unfolding adds_def then_wrote_def wrote_pid_def by (elim exE conjE) (rule_tac x="new @ newa" in exI, auto)

lemma then_wrote_before: "then_wrote fd u v \<Longrightarrow> adds (released_by f p b) v w \<Longrightarrow> then_wrote fd u w"
  unfolding adds_def then_wrote_def wrote_pid_def by (elim exE conjE) (rule_tac x="new @ newa" in exI, auto)

lemma pid_write_writes:
  assumes "pid_write pid_file ptr fd w = Some (Some path, w')"
  shows "then_wrote fd w w'"
proof -
  let ?p = "answer w (Proc Getpid)" let ?w1 = "snd (sys (Proc Getpid) w)"
  let ?line = "pid_line (rv ?p)"
  let ?s = "c_snprintf 0 BAA_MAXLINE ?line (replicate BAA_MAXLINE NUL) ?w1"
  let ?c = "File (Write fd (take (length ?line) (fst ?s)))" let ?w3 = "snd (sys ?c (snd ?s))"
  have ok: "rv (answer (snd ?s) ?c) = int (length ?line)" "baa_wrap_close fd ?w3 = Some w'"
    using assms by (auto simp: pid_write_def pid_format split_def Let_def sys_simps pid_error_def split: option.splits if_splits simp del: fmt_text.simps)
  have "take (length ?line) (fst ?s) = ?line" if "0 \<le> rv ?p \<and> rv ?p < 2 ^ 31"
    using pid_line_short[of "rv ?p"] that by (simp add: c_snprintf_def poke_def overwrite_def)
  moreover have "io ?w3 = io w @ [(Proc Getpid, ?p), (?c, answer (snd ?s) ?c)]" by (simp add: sys_simps)
  ultimately have "then_wrote fd w ?w3"
    using ok(1) unfolding then_wrote_def wrote_pid_def by (intro exI[of _ "[(Proc Getpid, ?p), (?c, answer (snd ?s) ?c)]"]) auto
  then show ?thesis using then_wrote_before wrap_close_adds[OF ok(2)] by blast
qed

lemma pid_fill_writes:
  assumes "pid_fill str n fd w = Some (Some path, w')"
  shows "\<exists>new. io w' = io w @ new \<and> wrote_pid fd new"
proof -
  let ?m = "Mem (Malloc (n + 1))" let ?w1 = "snd (sys ?m w)"
  let ?p = "c_strncpy str n (replicate (n + 1) NUL) ?w1" let ?w3 = "snd (sys (File (Fcntl_setlk fd)) (snd ?p))"
  obtain v where v: "pid_ftruncate_cmd fd str ?w3 = Some (True, v)"
    "pid_write (c_str (fst ?p)) (rv (answer w ?m)) fd v = Some (Some path, w')"
    using assms by (auto simp: pid_fill_def lock_region_eq split_def Let_def sys_simps pid_error_def split: option.splits if_splits)
  have "io ?w3 = io w @ [(?m, answer w ?m), (File (Fcntl_setlk fd), answer (snd ?p) (File (Fcntl_setlk fd)))]"
    by (simp add: sys_simps)
  moreover have "then_wrote fd ?w3 w'"
    using then_wrote_after ftruncate_adds[OF v(1)] pid_write_writes[OF v(2)] by simp
  ultimately show ?thesis unfolding then_wrote_def wrote_pid_def
    by (elim exE conjE) (rule_tac x="[(?m, answer w ?m), (File (Fcntl_setlk fd), answer (snd ?p) (File (Fcntl_setlk fd)))] @ new" in exI, auto)
qed

lemma create_writes:
  assumes "baa_create_file_with_pid name dir w = Some (Some path, w')"
  shows "\<exists>fd new. io w' = io w @ new \<and> wrote_pid fd new"
proof -
  obtain nm d where nd: "name = Some nm" "dir = Some d"
    using assms by (auto simp: baa_create_file_with_pid_def split: option.splits)
  let ?path = "fmt_text ''%s/%s.pid'' [FStr d, FStr nm]"
  let ?s = "c_snprintf 0 BAA_MAXLINE ?path (replicate BAA_MAXLINE NUL) w" let ?str = "c_str (fst ?s)"
  let ?u = "File (Unlink ?str)" let ?w1 = "snd (sys ?u (snd ?s))"
  let ?o = "File (Open ?str (O_RDWR OR O_CREAT OR O_TRUNC OR O_EXCL OR O_CLOEXEC) (S_IWUSR OR S_IRUSR))"
  let ?w2 = "snd (sys ?o ?w1)" and ?fd = "rv (answer ?w1 ?o)"
  have "pid_fill ?str (length ?path) ?fd ?w2 = Some (Some path, w')"
    using assms unfolding nd baa_create_file_with_pid_def
    by (auto simp: split_def Let_def sys_simps pid_open_cases split: if_splits)
  from pid_fill_writes[OF this] obtain new where new: "io w' = io ?w2 @ new" "wrote_pid ?fd new" by blast
  have "wrote_pid ?fd ([(?u, answer (snd ?s) ?u), (?o, answer ?w1 ?o)] @ new)"
    using new(2) by (auto simp: wrote_pid_def)
  with new(1) show ?thesis
    by (intro exI[of _ ?fd] exI[of _ "[(?u, answer (snd ?s) ?u), (?o, answer ?w1 ?o)] @ new"]) (simp add: sys_simps)
qed

lemma read_pid_line:
  assumes "file_reads fd (pid_line pid) w" "0 \<le> pid" "length (pid_line pid) < n" "n \<le> length buf" "n < 2 ^ 64"
  shows "\<exists>b w'. baa_read_line fd buf n w = Some ((int (length (pid_line pid)), b), w') \<and> c_str b = pid_line pid"
proof -
  let ?d = "show_nat (nat pid)"
  have l: "pid_line pid = ?d @ newline # []" using assms(2) by (simp add: pid_line_def show_int_def)
  have n: "0 < n" using assms(3) by simp
  have len: "length ?d + 1 < n" using assms(3) l by simp
  obtain w' where w': "read_cmd fd n (overwrite 0 (take (n - 1) []) buf) (min (length ([] :: string)) (n - 1)) NUL w =
      Some ((int (min (length ([] :: string) + length ?d + 1) (n - 1)), line_buffer n ([] @ ?d @ [newline]) buf), w')"
    using read_cmd_line[OF assms(1)[unfolded l] newline_not_digit n assms(4,5), of "[]" NUL] by blast
  have t: "no_nul (?d @ [newline])" "take (n - 1) (?d @ [newline]) = ?d @ [newline]"
    using len by (simp_all add: NUL_def newline_def)
  have "c_str (line_buffer n (?d @ [newline]) buf) = ?d @ [newline]"
    using c_str_overwrite_text[OF t(1), of 0 buf] unfolding line_buffer_def t(2) by simp
  with w' len show ?thesis by (simp add: baa_read_line_def l)
qed

text \<open>
  C17. A pid file can be read back. Whenever creating a pid file succeeds, the process has asked for
  its pid and written all of one line to the file, and the line reader, given a file with that
  line and a buffer it fits into, returns the whole line with its newline; its digits are
  the pid.
\<close>
theorem pid_file_roundtrip:
  assumes "baa_create_file_with_pid name dir w = Some (Some path, w')"
  shows "\<exists>new fd p r s. io w' = io w @ new \<and> (Proc Getpid, p) \<in> set new \<and> (File (Write fd s), r) \<in> set new \<and>
    (0 \<le> rv p \<and> rv p < 2 ^ 31 \<longrightarrow> rv r = int (length s) \<and>
      (\<forall>fdr u buf n. file_reads fdr s u \<and> length s < n \<and> n \<le> length buf \<and> n < 2 ^ 64 \<longrightarrow>
        (\<exists>b u'. baa_read_line fdr buf n u = Some ((int (length s), b), u') \<and> c_str b = s \<and>
          int (read_nat 0 (butlast s)) = rv p)))"
proof -
  obtain fd new p r s where new: "io w' = io w @ new" "(Proc Getpid, p) \<in> set new" "(File (Write fd s), r) \<in> set new"
    "rv r = int (length (pid_line (rv p)))" "0 \<le> rv p \<and> rv p < 2 ^ 31 \<longrightarrow> s = pid_line (rv p)"
    using create_writes[OF assms] unfolding wrote_pid_def by blast
  have "int (read_nat 0 (butlast (pid_line (rv p)))) = rv p" if "0 \<le> rv p"
    using that by (simp add: pid_line_def show_int_def read_show_nat)
  with new read_pid_line[of _ "rv p"] show ?thesis
    by (intro exI[of _ new] exI[of _ fd] exI[of _ p] exI[of _ r] exI[of _ s]) auto
qed

definition pid_ok_env :: "nat \<Rightarrow> call \<Rightarrow> reply" where
  "pid_ok_env n c =
    (case c of File (Open p f m) \<Rightarrow> reply_of 7 | Mem (Malloc k) \<Rightarrow> reply_of 4096 | Proc Getpid \<Rightarrow> reply_of 42
     | File (Write fd s) \<Rightarrow> reply_of (int (length s)) | _ \<Rightarrow> reply_of 0)"

theorem pid_file_roundtrip_witness:
  "\<exists>path w'. baa_create_file_with_pid (Some ''d'') (Some ''/run'') (init_world pid_ok_env) = Some (Some path, w') \<and>
    (\<exists>fd p r s. (Proc Getpid, p) \<in> set (io w') \<and> (File (Write fd s), r) \<in> set (io w'))"
proof -
  have close: "baa_wrap_close 7 u = Some (snd (sys (File (Close 7)) u))" if "w_os u = pid_ok_env" for u
    using that by (subst baa_wrap_close.simps) (simp add: Let_def answer_def pid_ok_env_def)
  have trunc: "pid_ftruncate_cmd 7 str u = Some (True, snd (sys (File (Ftruncate 7 0)) u))" if "w_os u = pid_ok_env" for str u
    using that by (subst pid_ftruncate_cmd.simps) (simp add: Let_def answer_def pid_ok_env_def)
  have s: "length (pid_line 42) < BAA_MAXLINE" by (rule pid_line_short) simp_all
  have wr: "\<exists>w'. pid_write f ptr 7 u = Some (Some f, w')" if "w_os u = pid_ok_env" for f ptr u
    using s by (simp add: pid_write_def pid_format split_def Let_def sys_simps answer_def that c_snprintf_def poke_def
        close pid_ok_env_def overwrite_def del: fmt_text.simps)
  have fill: "\<exists>f w'. pid_fill str n 7 u = Some (Some f, w')" if "w_os u = pid_ok_env" for str n u
    using that by (simp add: pid_fill_def split_def Let_def lock_region_eq sys_simps answer_def pid_ok_env_def trunc
        c_strncpy_def poke_def del: replicate_Suc) (rule exI, rule wr, simp add: sys_simps)
  have env: "rv (pid_ok_env k (File (Open p fl md))) = 7" "rv (pid_ok_env k (File (Unlink p))) = 0" for k p fl md
    by (simp_all add: pid_ok_env_def)
  have "\<exists>f w'. baa_create_file_with_pid (Some ''d'') (Some ''/run'') (init_world pid_ok_env) = Some (Some f, w')"
    by (simp add: baa_create_file_with_pid_def split_def Let_def sys_simps answer_def pid_open_cases c_snprintf_def poke_def
        BAA_MAXLINE_def env fill)
  then obtain path w' where w': "baa_create_file_with_pid (Some ''d'') (Some ''/run'') (init_world pid_ok_env) = Some (Some path, w')" by blast
  then show ?thesis using pid_file_roundtrip[OF w'] by auto
qed

end
