(* ===== verification/Baa_User_Group.thy ===== *)
theory Baa_User_Group
  imports Baa_Error
begin

text \<open>
  The user and group queries, \<open>src/src/user.c\<close> and \<open>src/src/group.c\<close>: names and ids from the
  password and group databases. A caller's buffer is a character list or \<open>None\<close> for
  \<open>NULL\<close>; a user or group id is a 32 bit word, so the error result \<open>-1\<close> is its largest value.
\<close>

section \<open>Copying a name\<close>

text \<open>
  The copy that all four name queries do. Its error message has two conversions and no
  argument, so the formatting routine reads variable arguments that were not passed.
\<close>

definition copy_checked :: "string \<Rightarrow> nat \<Rightarrow> char list \<Rightarrow> world \<Rightarrow> int \<times> char list \<times> world" where
  "copy_checked src sz buf w =
    (let sz = size_sub sz 1
     in if length src > sz
        then (-1, buf, fault MissingVarArg (baa_error_msg ''len(%d) > size(%d)'' [] w))
        else (let (buf, w) = c_strncpy src sz buf w in (0, buf, w)))"

section \<open>Users\<close>

definition GET_USERNAME :: byte where "GET_USERNAME = 0x01"
definition GET_USERDIR :: byte where "GET_USERDIR = 0x02"
definition GET_USERINFO :: byte where "GET_USERINFO = 0x03"

lemmas what_defs = GET_USERNAME_def GET_USERDIR_def GET_USERINFO_def

definition CHECK_BUF :: "char list option \<Rightarrow> (char list \<Rightarrow> world \<Rightarrow> int \<times> char list \<times> world) \<Rightarrow> world \<Rightarrow>
  int \<times> char list option \<times> world" where
  "CHECK_BUF buf k w =
    (case buf of
       None \<Rightarrow> (-1, None, baa_error_msg ''buffer for user-name == NULL'' [] w)
     | Some b \<Rightarrow> (let (r, b, w) = k b w in (r, Some b, w)))"

definition get_user_infos :: "c_uint \<Rightarrow> char list option \<Rightarrow> nat \<Rightarrow> byte \<Rightarrow> world \<Rightarrow>
  int \<times> char list option \<times> world" where
  "get_user_infos uid buf sz what w =
    (let (r, w) = sys (Db (Getpwuid uid)) w
     in case rpasswd r of
          None \<Rightarrow> (-1, buf, baa_error_msg ''struct passwd == NULL'' [] w)
        | Some pwd \<Rightarrow>
            if what = GET_USERNAME then CHECK_BUF buf (copy_checked (pw_name pwd) sz) w
            else if what = GET_USERDIR then CHECK_BUF buf (copy_checked (pw_dir pwd) sz) w
            else if what = GET_USERINFO then CHECK_BUF buf (copy_checked (pw_gecos pwd) sz) w
            else (0, buf, baa_error_msg ''unknown type: %d'' [FInt (uint what)] w))"

definition baa_get_username :: "c_uint \<Rightarrow> char list option \<Rightarrow> nat \<Rightarrow> world \<Rightarrow> int \<times> char list option \<times> world" where
  "baa_get_username uid buf sz w = get_user_infos uid buf sz GET_USERNAME w"

definition baa_get_homedir :: "c_uint \<Rightarrow> char list option \<Rightarrow> nat \<Rightarrow> world \<Rightarrow> int \<times> char list option \<times> world" where
  "baa_get_homedir uid buf sz w = get_user_infos uid buf sz GET_USERDIR w"

definition baa_get_userinfo :: "c_uint \<Rightarrow> char list option \<Rightarrow> nat \<Rightarrow> world \<Rightarrow> int \<times> char list option \<times> world" where
  "baa_get_userinfo uid buf sz w = get_user_infos uid buf sz GET_USERINFO w"

definition baa_get_userid :: "string option \<Rightarrow> world \<Rightarrow> c_uint \<times> world" where
  "baa_get_userid name w =
    (case name of
       None \<Rightarrow> (-1, baa_error_msg ''user-name == NULL'' [] w)
     | Some nm \<Rightarrow>
         (let (r, w) = sys (Db (Getpwnam nm)) w
          in case rpasswd r of
               None \<Rightarrow> (-1, baa_error_msg ''struct passwd == NULL'' [] w)
             | Some pwd \<Rightarrow> (pw_uid pwd, w)))"

definition baa_get_groupid_of_user :: "string option \<Rightarrow> world \<Rightarrow> c_uint \<times> world" where
  "baa_get_groupid_of_user name w =
    (case name of
       None \<Rightarrow> (-1, baa_error_msg ''user-name == NULL'' [] w)
     | Some nm \<Rightarrow>
         (let (r, w) = sys (Db (Getpwnam nm)) w
          in case rpasswd r of
               None \<Rightarrow> (-1, baa_error_msg ''struct passwd == NULL'' [] w)
             | Some pwd \<Rightarrow> (pw_gid pwd, w)))"

section \<open>Groups\<close>

definition baa_get_groupname :: "c_uint \<Rightarrow> char list option \<Rightarrow> nat \<Rightarrow> world \<Rightarrow> int \<times> char list option \<times> world" where
  "baa_get_groupname gid buf sz w =
    (case buf of
       None \<Rightarrow> (-1, None, baa_error_msg ''buffer for group name == NULL'' [] w)
     | Some b \<Rightarrow>
         (let (r, w) = sys (Db (Getgrgid gid)) w
          in case rgroup r of
               None \<Rightarrow> (-1, buf, baa_error_msg ''struct group == NULL'' [] w)
             | Some grp \<Rightarrow> (let (r, b, w) = copy_checked (gr_name grp) sz b w in (r, Some b, w))))"

definition baa_get_groupid :: "string option \<Rightarrow> world \<Rightarrow> c_uint \<times> world" where
  "baa_get_groupid name w =
    (case name of
       None \<Rightarrow> (-1, baa_error_msg ''name == NULL'' [] w)
     | Some nm \<Rightarrow>
         (let (r, w) = sys (Db (Getgrnam nm)) w
          in case rgroup r of
               None \<Rightarrow> (-1, baa_error_msg ''struct group == NULL'' [] w)
             | Some grp \<Rightarrow> (gr_gid grp, w)))"

section \<open>The interface of a name query\<close>

text \<open>
  What the four name queries have in common: one database call, whose answer holds a name or
  none; a name is copied by the checked copy, and without one the buffer is left alone. The
  contract of a caller's buffer follows here once.
\<close>

locale name_query =
  fixes query :: "char list option \<Rightarrow> nat \<Rightarrow> world \<Rightarrow> int \<times> char list option \<times> world"
    and c :: call and entry :: "reply \<Rightarrow> string option"
  assumes found: "entry (answer w c) = Some s \<Longrightarrow>
      query (Some buf) sz w =
        (fst (copy_checked s sz buf (snd (sys c w))), Some (fst (snd (copy_checked s sz buf (snd (sys c w))))),
         snd (snd (copy_checked s sz buf (snd (sys c w)))))"
    and missing: "entry (answer w c) = None \<Longrightarrow> \<exists>w'. query (Some buf) sz w = (-1, Some buf, w') \<and> w_fault w' = w_fault w \<and>
      io w' = io w @ [(c, answer w c)] \<and> w_os w' = w_os w"
    and null: "\<exists>w'. query None sz w = (-1, None, w') \<and> w_fault w' = w_fault w"
    and not_log: "\<not> is_log c"
begin

lemma query_effect:
  "io (snd (snd (query (Some buf) sz w))) = io w @ [(c, answer w c)]" "w_os (snd (snd (query (Some buf) sz w))) = w_os w"
  "\<exists>b. fst (snd (query (Some buf) sz w)) = Some b \<and> length b = length buf"
proof -
  have "io (snd (snd (query (Some buf) sz w))) = io w @ [(c, answer w c)] \<and> w_os (snd (snd (query (Some buf) sz w))) = w_os w \<and>
    (\<exists>b. fst (snd (query (Some buf) sz w)) = Some b \<and> length b = length buf)"
  proof (cases "entry (answer w c)")
    case None
    from missing[OF this] show ?thesis by (metis fst_conv snd_conv)
  next
    case (Some s)
    show ?thesis
      by (simp add: found[OF Some] copy_checked_def Let_def split_def c_strncpy_def poke_def sys_simps not_log fault_simps)
  qed
  then show "io (snd (snd (query (Some buf) sz w))) = io w @ [(c, answer w c)]" "w_os (snd (snd (query (Some buf) sz w))) = w_os w"
    "\<exists>b. fst (snd (query (Some buf) sz w)) = Some b \<and> length b = length buf" by blast+
qed

lemma query_copies:
  assumes "entry (answer w c) = Some s" "0 < sz" "sz \<le> length buf" "sz < 2 ^ 64" "length s < sz"
  shows "\<exists>w'. query (Some buf) sz w = (0, Some (overwrite 0 (strncpy_chars (sz - 1) s) buf), w') \<and> w_fault w' = w_fault w"
proof -
  have sz: "size_sub sz 1 = sz - 1" using assms by (simp add: size_sub_le)
  have "\<not> length s > sz - 1" "sz - 1 \<le> length buf" using assms by auto
  then show ?thesis
    unfolding found[OF assms(1)] copy_checked_def Let_def sz
    by (simp add: c_strncpy_def poke_def sys_simps)
qed

lemma query_too_long:
  assumes "entry (answer w c) = Some s" "0 < sz" "sz < 2 ^ 64" "sz \<le> length s"
  shows "\<exists>w'. query (Some buf) sz w = (-1, Some buf, w')"
proof -
  have "size_sub sz 1 = sz - 1" using assms by (simp add: size_sub_le)
  then show ?thesis using assms by (simp add: found copy_checked_def Let_def)
qed

lemma query_zero:
  assumes "entry (answer w c) = Some s" "length s < 2 ^ 64" "length buf < 2 ^ 64 - 1"
  shows "w_fault (snd (snd (query (Some buf) 0 w))) \<noteq> None"
proof -
  have "size_sub 0 1 = 2 ^ 64 - 1" by (rule size_sub_wrap)
  moreover have "\<not> length s > 2 ^ 64 - 1" using assms(2) by simp
  ultimately show ?thesis
    using assms(3) by (simp add: found[OF assms(1)] copy_checked_def Let_def c_strncpy_def poke_def fault_simps)
qed

lemma query_null: "fst (query None sz w) = -1"
  using null by (metis fst_conv)

lemma query_missing: "entry (answer w c) = None \<Longrightarrow> fst (query (Some buf) sz w) = -1 \<and> fst (snd (query (Some buf) sz w)) = Some buf"
  using missing by (metis fst_conv snd_conv)

end

interpretation username: name_query "baa_get_username uid" "Db (Getpwuid uid)"
  "\<lambda>r. map_option pw_name (rpasswd r)" for uid
  by unfold_locales
    (auto simp: baa_get_username_def get_user_infos_def CHECK_BUF_def what_defs split_def Let_def sys_simps split: option.splits)

interpretation homedir: name_query "baa_get_homedir uid" "Db (Getpwuid uid)"
  "\<lambda>r. map_option pw_dir (rpasswd r)" for uid
  by unfold_locales
    (auto simp: baa_get_homedir_def get_user_infos_def CHECK_BUF_def what_defs split_def Let_def sys_simps split: option.splits)

interpretation userinfo: name_query "baa_get_userinfo uid" "Db (Getpwuid uid)"
  "\<lambda>r. map_option pw_gecos (rpasswd r)" for uid
  by unfold_locales
    (auto simp: baa_get_userinfo_def get_user_infos_def CHECK_BUF_def what_defs split_def Let_def sys_simps split: option.splits)

interpretation groupname: name_query "baa_get_groupname gid" "Db (Getgrgid gid)"
  "\<lambda>r. map_option gr_name (rgroup r)" for gid
  by unfold_locales (auto simp: baa_get_groupname_def split_def Let_def sys_simps split: option.splits)

section \<open>Properties\<close>

text \<open>The four name queries for an id, each with the name the database has for it.\<close>

definition name_queries :: "c_uint \<Rightarrow> world \<Rightarrow>
  ((char list option \<Rightarrow> nat \<Rightarrow> world \<Rightarrow> int \<times> char list option \<times> world) \<times> string option) list" where
  "name_queries i w =
    [(baa_get_username i, map_option pw_name (rpasswd (answer w (Db (Getpwuid i))))),
     (baa_get_homedir i, map_option pw_dir (rpasswd (answer w (Db (Getpwuid i))))),
     (baa_get_userinfo i, map_option pw_gecos (rpasswd (answer w (Db (Getpwuid i))))),
     (baa_get_groupname i, map_option gr_name (rgroup (answer w (Db (Getgrgid i)))))]"

lemma name_query_cases:
  assumes "(query, Some s) \<in> set (name_queries i w)"
  obtains "query = baa_get_username i" "map_option pw_name (rpasswd (answer w (Db (Getpwuid i)))) = Some s"
    | "query = baa_get_homedir i" "map_option pw_dir (rpasswd (answer w (Db (Getpwuid i)))) = Some s"
    | "query = baa_get_userinfo i" "map_option pw_gecos (rpasswd (answer w (Db (Getpwuid i)))) = Some s"
    | "query = baa_get_groupname i" "map_option gr_name (rgroup (answer w (Db (Getgrgid i)))) = Some s"
  using assms unfolding name_queries_def by (simp only: list.set insert_iff empty_iff prod.inject) metis

lemma name_queries_copies:
  assumes "(query, Some s) \<in> set (name_queries i w)" "0 < sz" "sz \<le> length buf" "sz < 2 ^ 64" "length s < sz"
  shows "\<exists>w'. query (Some buf) sz w = (0, Some (overwrite 0 (strncpy_chars (sz - 1) s) buf), w') \<and> w_fault w' = w_fault w"
  using assms(1) username.query_copies[OF _ assms(2-5)] homedir.query_copies[OF _ assms(2-5)]
    userinfo.query_copies[OF _ assms(2-5)] groupname.query_copies[OF _ assms(2-5)]
  by (cases rule: name_query_cases) (simp_all only:)

lemma name_queries_too_long:
  assumes "(query, Some s) \<in> set (name_queries i w)" "0 < sz" "sz < 2 ^ 64" "sz \<le> length s"
  shows "\<exists>w'. query (Some buf) sz w = (-1, Some buf, w')"
  using assms(1) username.query_too_long[OF _ assms(2-4)] homedir.query_too_long[OF _ assms(2-4)]
    userinfo.query_too_long[OF _ assms(2-4)] groupname.query_too_long[OF _ assms(2-4)]
  by (cases rule: name_query_cases) (simp_all only:)

text \<open>
  C27. The name queries respect the caller's buffer: for each of the four, a buffer of the given size
  and a name in the database, a name shorter than the size is copied and the result is 0, a
  longer one is refused with -1 and leaves the buffer alone, and nothing outside the buffer
  or at its last byte is written. If two more bytes than the name are available, the buffer
  holds exactly the name as a C string; if the name fills the buffer up to its last byte,
  that byte keeps its old value, so the result is terminated only if the caller had cleared it.
\<close>
theorem name_queries_respect_buffer:
  assumes "(query, Some s) \<in> set (name_queries i w)" "no_nul s" "0 < sz" "sz \<le> length buf" "sz < 2 ^ 64"
  shows "\<exists>buf' w'. query (Some buf) sz w = (if length s < sz then 0 else -1, Some buf', w') \<and>
    length buf' = length buf \<and> drop (sz - 1) buf' = drop (sz - 1) buf \<and>
    (sz \<le> length s \<longrightarrow> buf' = buf) \<and>
    (length s < sz \<longrightarrow> take (length s) buf' = s \<and> w_fault w' = w_fault w) \<and>
    (length s + 1 < sz \<longrightarrow> c_str buf' = s) \<and>
    (length s + 1 = sz \<and> buf ! (sz - 1) \<noteq> NUL \<longrightarrow> NUL \<notin> set (take sz buf'))"
proof (cases "length s < sz")
  case True
  let ?b = "s @ replicate (sz - 1 - length s) NUL @ drop (sz - 1) buf"
  obtain w' where w': "query (Some buf) sz w = (0, Some (overwrite 0 (strncpy_chars (sz - 1) s) buf), w')"
    "w_fault w' = w_fault w" using name_queries_copies[OF assms(1,3-5) True] by blast
  have b: "overwrite 0 (strncpy_chars (sz - 1) s) buf = ?b"
    using True by (simp add: overwrite_def strncpy_chars_fits)
  have closed: "c_str ?b = s" if "length s + 1 < sz"
  proof -
    have "sz - 1 - length s = Suc (sz - 2 - length s)" using that by simp
    then show ?thesis using assms(2) by simp
  qed
  have open': "NUL \<notin> set (take sz ?b)" if "length s + 1 = sz" "buf ! (sz - 1) \<noteq> NUL"
  proof -
    have "take sz ?b = s @ take 1 (drop (sz - 1) buf)" using that(1) by auto
    also have "take 1 (drop (sz - 1) buf) = [buf ! (sz - 1)]"
      using assms(3,4) by (intro drop_take_nth1) simp
    finally show ?thesis using that(2) assms(2) by (simp add: no_nul_def)
  qed
  show ?thesis
    using True w' b closed open' assms(3,4) by (intro exI[of _ ?b] exI[of _ w']) auto
next
  case False
  then obtain w' where "query (Some buf) sz w = (-1, Some buf, w')"
    using name_queries_too_long[OF assms(1,3,5), of buf] by auto
  then show ?thesis using False by auto
qed

definition user_db :: "nat \<Rightarrow> call \<Rightarrow> reply" where
  "user_db n c = (reply_of 1)\<lparr>rpasswd := Some \<lparr>pw_name = ''baalue'', pw_uid = 1000, pw_gid = 100,
     pw_gecos = ''A User'', pw_dir = ''/home/baalue''\<rparr>, rgroup := Some \<lparr>gr_name = ''users'', gr_gid = 100\<rparr>\<rparr>"

theorem name_queries_respect_buffer_witness:
  "\<exists>buf' w'. baa_get_username 1000 (Some (replicate 8 (CHR ''x''))) 8 (init_world user_db) = (0, Some buf', w') \<and>
    c_str buf' = ''baalue''"
proof -
  have "(baa_get_username 1000, Some ''baalue'') \<in> set (name_queries 1000 (init_world user_db))"
    by (simp add: name_queries_def answer_def user_db_def)
  from name_queries_respect_buffer[OF this, of 8 "replicate 8 (CHR ''x'')"] show ?thesis
    by (auto simp: NUL_def)
qed

text \<open>
  A size of 0 is not refused. The size is decremented before it is compared, and wraps around to
  the largest \<open>size_t\<close>: every name passes the check and the copy, which pads with NUL
  characters up to that size, runs out of the caller's buffer.
\<close>
theorem name_queries_size_zero:
  assumes "(query, Some s) \<in> set (name_queries i w)" "length s < 2 ^ 64" "length buf < 2 ^ 64 - 1"
  shows "w_fault (snd (snd (query (Some buf) 0 w))) \<noteq> None"
  using assms(1) username.query_zero[OF _ assms(2,3)] homedir.query_zero[OF _ assms(2,3)]
    userinfo.query_zero[OF _ assms(2,3)] groupname.query_zero[OF _ assms(2,3)]
  by (cases rule: name_query_cases) (simp_all only: not_False_eq_True)

theorem name_queries_size_zero_witness:
  "w_fault (snd (snd (baa_get_groupname 100 (Some [CHR ''x'']) 0 (init_world user_db)))) \<noteq> None"
proof -
  have "(baa_get_groupname 100, Some ''users'') \<in> set (name_queries 100 (init_world user_db))"
    by (simp add: name_queries_def answer_def user_db_def)
  from name_queries_size_zero[OF this, of "[CHR ''x'']"] show ?thesis by simp
qed

text \<open>The id queries: the id of the entry, and the largest id when there is no name or no
  entry.\<close>

lemma id_queries:
  "fst (baa_get_userid name w) =
    (case name of None \<Rightarrow> -1 | Some nm \<Rightarrow> (case rpasswd (answer w (Db (Getpwnam nm))) of None \<Rightarrow> -1 | Some p \<Rightarrow> pw_uid p))"
  "fst (baa_get_groupid_of_user name w) =
    (case name of None \<Rightarrow> -1 | Some nm \<Rightarrow> (case rpasswd (answer w (Db (Getpwnam nm))) of None \<Rightarrow> -1 | Some p \<Rightarrow> pw_gid p))"
  "fst (baa_get_groupid name w) =
    (case name of None \<Rightarrow> -1 | Some nm \<Rightarrow> (case rgroup (answer w (Db (Getgrnam nm))) of None \<Rightarrow> -1 | Some g \<Rightarrow> gr_gid g))"
  by (simp_all add: baa_get_userid_def baa_get_groupid_of_user_def baa_get_groupid_def split_def Let_def
      sys_simps split: option.splits)

end
