(* ===== verification/Baa_Info_Programs.thy ===== *)
theory Baa_Info_Programs
  imports Baa_User_Group Baa_Program
begin

text \<open>
  Two programs without threads: \<open>src/examples/user_group_info.c\<close>, which reports what the system
  knows of the user, and \<open>src/examples/lcd1602.c\<close>, which only prints a greeting.
\<close>

section \<open>The user and group program\<close>

text \<open>Printing an array as a C string reads up to its first NUL.\<close>

definition info_buf :: "string \<Rightarrow> char list \<Rightarrow> world \<Rightarrow> world" where
  "info_buf fmt buf w =
    (let w = (if NUL \<in> set buf then w else fault OutOfBounds w) in baa_info_msg fmt [FStr (c_str buf)] w)"

text \<open>A query that fills the buffer, and the report of its result.\<close>

definition info_query :: "(char list option \<Rightarrow> nat \<Rightarrow> world \<Rightarrow> int \<times> char list option \<times> world) \<Rightarrow> string \<Rightarrow> string \<Rightarrow>
  char list \<Rightarrow> world \<Rightarrow> char list \<times> world" where
  "info_query query failed fmt buf w =
    (let (err, b, w) = query (Some buf) BAA_MAXLINE w;
         buf = the b
     in if err = -1 then (buf, baa_error_msg failed [] w) else (buf, info_buf fmt buf w))"

text \<open>A user or group id is printed with \<open>%d\<close>, as a signed number.\<close>

definition info_id :: "c_uint \<times> world \<Rightarrow> string \<Rightarrow> string \<Rightarrow> world" where
  "info_id q failed fmt =
    (case q of (i, w) \<Rightarrow> if i = -1 then baa_error_msg failed [] w else baa_info_msg fmt [FInt (sint i)] w)"

definition user_report :: "string \<Rightarrow> world \<Rightarrow> world" where
  "user_report user w =
    (let w = putnl w;
         w = baa_info_msg ''-------------------------------------------'' [] w;
         w = baa_info_msg ''hello user %s '' [FStr user] w;
         w = baa_info_msg ''-------------------------------------------'' [] w;
         (uid, w) = baa_get_userid (Some user) w;
         w = info_id (uid, w) ''could not get user id -> ignore it'' ''- your user id is: %d'';
         (gid, w) = baa_get_groupid_of_user (Some user) w;
         w = info_id (gid, w) ''could not get group id -> ignore it'' ''- your group id is: %d'';
         buf = uninit_chars BAA_MAXLINE w;
         (buf, w) = info_query (baa_get_homedir uid) ''could not net home dir -> ignore it'' ''- your home dir: %s'' buf w;
         (buf, w) = info_query (baa_get_userinfo uid) ''could not net user infos -> ignore it''
                      ''- your additional user entrys: %s'' buf w;
         (buf, w) = info_query (baa_get_groupname gid) ''could not get name of main group -> ignore it''
                      ''- your main group is named: %s'' buf w;
         w = baa_info_msg ''-------------------------------------------'' [] w;
         w = putnl w
     in baa_info_msg ''cheers %s'' [FStr user] w)"

definition user_group_main :: "build \<Rightarrow> string list \<Rightarrow> world \<Rightarrow> unit part" where
  "user_group_main b argv w =
    then_do (program_name argv w) (\<lambda>name w.
     let (user, w) = getenv ''USER'' (show_some_infos b w)
     in case user of
          None \<Rightarrow> leave_with Some (baa_error_exit ''could not get user name from environment'' [] w)
        | Some user \<Rightarrow> leave Some EXIT_SUCCESS (user_report user w))"

section \<open>The display program\<close>

definition lcd1602_main :: "world \<Rightarrow> unit part" where
  "lcd1602_main w = leave Some EXIT_SUCCESS (snd (sys (File (Printf (''hello world'' @ [newline]))) w))"

section \<open>What the report reads\<close>

text \<open>Every entry of the databases fits into the buffer with a terminating NUL and a byte to spare.\<close>

definition short_entries :: "(nat \<Rightarrow> call \<Rightarrow> reply) \<Rightarrow> bool" where
  "short_entries os \<longleftrightarrow>
    (\<forall>n i p. rpasswd (os n (Db (Getpwuid i))) = Some p \<longrightarrow> length (pw_dir p) + 1 < BAA_MAXLINE \<and> length (pw_gecos p) + 1 < BAA_MAXLINE) \<and>
    (\<forall>n i g. rgroup (os n (Db (Getgrgid i))) = Some g \<longrightarrow> length (gr_name g) + 1 < BAA_MAXLINE)"

context name_query
begin

lemma info_query_effect:
  "io (snd (info_query query failed fmt buf w)) = io w @ [(c, answer w c)]" "w_os (snd (info_query query failed fmt buf w)) = w_os w"
  "length (fst (info_query query failed fmt buf w)) = length buf"
  using query_effect[of buf BAA_MAXLINE w]
  by (auto simp: info_query_def info_buf_def split_def Let_def fault_simps)

lemma info_query_fault:
  assumes "length buf = BAA_MAXLINE" "entry (answer w c) = None \<or> (\<exists>s. entry (answer w c) = Some s \<and> length s + 1 < BAA_MAXLINE)"
  shows "w_fault (snd (info_query query failed fmt buf w)) = w_fault w"
  using assms(2)
proof (elim disjE exE conjE)
  assume "entry (answer w c) = None"
  from missing[OF this, of buf BAA_MAXLINE] show ?thesis by (auto simp: info_query_def)
next
  fix s assume s: "entry (answer w c) = Some s" "length s + 1 < BAA_MAXLINE"
  then obtain w' where q: "query (Some buf) BAA_MAXLINE w = (0, Some (overwrite 0 (strncpy_chars (BAA_MAXLINE - 1) s) buf), w')"
    "w_fault w' = w_fault w"
    using query_copies[OF s(1), of BAA_MAXLINE buf] assms(1) by (auto simp: BAA_MAXLINE_def)
  have "NUL \<in> set (strncpy_chars (BAA_MAXLINE - 1) s)" using s(2) by (simp add: strncpy_chars_fits)
  then have "NUL \<in> set (overwrite 0 (strncpy_chars (BAA_MAXLINE - 1) s) buf)" by (simp add: overwrite_def)
  then show ?thesis using q by (simp add: info_query_def info_buf_def Let_def)
qed

end

fun is_db :: "call \<Rightarrow> bool" where
  "is_db (Db d) = True"
| "is_db c = False"

abbreviation db_events :: "world \<Rightarrow> event list" where
  "db_events w \<equiv> filter (\<lambda>e. is_db (fst e)) (io w)"

lemma putnl_io [simp]:
  "w_os (putnl w) = w_os w" "w_fault (putnl w) = w_fault w" "db_events (putnl w) = db_events w"
  by (simp_all add: putnl_def sys_simps)

lemma info_id_io [simp]:
  "io (info_id (i, w) failed fmt) = io w" "w_os (info_id (i, w) failed fmt) = w_os w" "w_fault (info_id (i, w) failed fmt) = w_fault w"
  by (simp_all add: info_id_def)

lemma info_id_queries:
  fixes user w defines "q \<equiv> answer w (Db (Getpwnam user))"
  shows "fst (baa_get_userid (Some user) w) = (case rpasswd q of None \<Rightarrow> -1 | Some p \<Rightarrow> pw_uid p)"
    "fst (baa_get_groupid_of_user (Some user) w) = (case rpasswd q of None \<Rightarrow> -1 | Some p \<Rightarrow> pw_gid p)"
    "io (snd (baa_get_userid (Some user) w)) = io w @ [(Db (Getpwnam user), q)]"
    "io (snd (baa_get_groupid_of_user (Some user) w)) = io w @ [(Db (Getpwnam user), q)]"
    "w_os (snd (baa_get_userid (Some user) w)) = w_os w" "w_os (snd (baa_get_groupid_of_user (Some user) w)) = w_os w"
    "w_fault (snd (baa_get_userid (Some user) w)) = w_fault w" "w_fault (snd (baa_get_groupid_of_user (Some user) w)) = w_fault w"
  by (simp_all add: baa_get_userid_def baa_get_groupid_of_user_def q_def split_def Let_def sys_simps split: option.splits)

lemma short_entry:
  assumes "short_entries (w_os w)"
  shows "map_option pw_dir (rpasswd (answer w (Db (Getpwuid i)))) = None \<or>
      (\<exists>s. map_option pw_dir (rpasswd (answer w (Db (Getpwuid i)))) = Some s \<and> length s + 1 < BAA_MAXLINE)"
    "map_option pw_gecos (rpasswd (answer w (Db (Getpwuid i)))) = None \<or>
      (\<exists>s. map_option pw_gecos (rpasswd (answer w (Db (Getpwuid i)))) = Some s \<and> length s + 1 < BAA_MAXLINE)"
    "map_option gr_name (rgroup (answer w (Db (Getgrgid i)))) = None \<or>
      (\<exists>s. map_option gr_name (rgroup (answer w (Db (Getgrgid i)))) = Some s \<and> length s + 1 < BAA_MAXLINE)"
proof -
  have p: "length (pw_dir p) + 1 < BAA_MAXLINE" "length (pw_gecos p) + 1 < BAA_MAXLINE" if "rpasswd (answer w (Db (Getpwuid i))) = Some p" for p
    using that assms unfolding short_entries_def answer_def by blast+
  have g: "length (gr_name g) + 1 < BAA_MAXLINE" if "rgroup (answer w (Db (Getgrgid i))) = Some g" for g
    using that assms unfolding short_entries_def answer_def by blast
  show "map_option pw_dir (rpasswd (answer w (Db (Getpwuid i)))) = None \<or>
      (\<exists>s. map_option pw_dir (rpasswd (answer w (Db (Getpwuid i)))) = Some s \<and> length s + 1 < BAA_MAXLINE)"
    "map_option pw_gecos (rpasswd (answer w (Db (Getpwuid i)))) = None \<or>
      (\<exists>s. map_option pw_gecos (rpasswd (answer w (Db (Getpwuid i)))) = Some s \<and> length s + 1 < BAA_MAXLINE)"
    using p by (cases "rpasswd (answer w (Db (Getpwuid i)))"; simp)+
  show "map_option gr_name (rgroup (answer w (Db (Getgrgid i)))) = None \<or>
      (\<exists>s. map_option gr_name (rgroup (answer w (Db (Getgrgid i)))) = Some s \<and> length s + 1 < BAA_MAXLINE)"
    using g by (cases "rgroup (answer w (Db (Getgrgid i)))") simp_all
qed

text \<open>The queries of a report: the ids that are asked for are the ones of the first two answers.\<close>

definition report_queries :: "string \<Rightarrow> event list \<Rightarrow> bool" where
  "report_queries user es \<longleftrightarrow>
    (\<exists>q1 q2 q3 q4 q5. let uid = (case rpasswd q1 of None \<Rightarrow> -1 | Some p \<Rightarrow> pw_uid p);
        gid = (case rpasswd q2 of None \<Rightarrow> -1 | Some p \<Rightarrow> pw_gid p)
      in es = [(Db (Getpwnam user), q1), (Db (Getpwnam user), q2), (Db (Getpwuid uid), q3), (Db (Getpwuid uid), q4), (Db (Getgrgid gid), q5)])"

lemma user_report_effect:
  "\<exists>es. db_events (user_report user w) = db_events w @ es \<and> report_queries user es"
  "short_entries (w_os w) \<Longrightarrow> w_fault (user_report user w) = w_fault w"
proof -
  define v0 where "v0 = baa_info_msg ''-------------------------------------------'' []
    (baa_info_msg ''hello user %s '' [FStr user] (baa_info_msg ''-------------------------------------------'' [] (putnl w)))"
  define uid v1 where "uid = fst (baa_get_userid (Some user) v0)" and
    "v1 = info_id (uid, snd (baa_get_userid (Some user) v0)) ''could not get user id -> ignore it'' ''- your user id is: %d''"
  define gid v2 where "gid = fst (baa_get_groupid_of_user (Some user) v1)" and
    "v2 = info_id (gid, snd (baa_get_groupid_of_user (Some user) v1)) ''could not get group id -> ignore it'' ''- your group id is: %d''"
  define b3 v3 where "b3 = fst (info_query (baa_get_homedir uid) ''could not net home dir -> ignore it'' ''- your home dir: %s'' (uninit_chars BAA_MAXLINE v2) v2)"
    and "v3 = snd (info_query (baa_get_homedir uid) ''could not net home dir -> ignore it'' ''- your home dir: %s'' (uninit_chars BAA_MAXLINE v2) v2)"
  define b4 v4 where "b4 = fst (info_query (baa_get_userinfo uid) ''could not net user infos -> ignore it'' ''- your additional user entrys: %s'' b3 v3)"
    and "v4 = snd (info_query (baa_get_userinfo uid) ''could not net user infos -> ignore it'' ''- your additional user entrys: %s'' b3 v3)"
  define v5 where "v5 = snd (info_query (baa_get_groupname gid) ''could not get name of main group -> ignore it'' ''- your main group is named: %s'' b4 v4)"
  have r: "user_report user w = baa_info_msg ''cheers %s'' [FStr user] (putnl (baa_info_msg ''-------------------------------------------'' [] v5))"
    unfolding user_report_def Let_def split_def v5_def v4_def b4_def v3_def b3_def v2_def gid_def v1_def uid_def v0_def by simp
  note eff = homedir.info_query_effect userinfo.info_query_effect groupname.info_query_effect
  have len: "length b3 = BAA_MAXLINE" "length b4 = BAA_MAXLINE" by (simp_all add: b3_def b4_def eff)
  have "db_events (user_report user w) = db_events w @
    [(Db (Getpwnam user), answer v0 (Db (Getpwnam user))), (Db (Getpwnam user), answer v1 (Db (Getpwnam user))),
     (Db (Getpwuid uid), answer v2 (Db (Getpwuid uid))), (Db (Getpwuid uid), answer v3 (Db (Getpwuid uid))),
     (Db (Getgrgid gid), answer v4 (Db (Getgrgid gid)))]"
    by (simp add: r v5_def v4_def v3_def v2_def v1_def eff info_id_queries) (simp add: v0_def)
  moreover have "report_queries user
    [(Db (Getpwnam user), answer v0 (Db (Getpwnam user))), (Db (Getpwnam user), answer v1 (Db (Getpwnam user))),
     (Db (Getpwuid uid), answer v2 (Db (Getpwuid uid))), (Db (Getpwuid uid), answer v3 (Db (Getpwuid uid))),
     (Db (Getgrgid gid), answer v4 (Db (Getgrgid gid)))]"
    unfolding report_queries_def Let_def by (simp add: uid_def gid_def info_id_queries)
  ultimately show "\<exists>es. db_events (user_report user w) = db_events w @ es \<and> report_queries user es" by blast
  assume "short_entries (w_os w)"
  then have sh: "short_entries (w_os v2)" "short_entries (w_os v3)" "short_entries (w_os v4)"
    by (simp_all add: v4_def v3_def v2_def v1_def v0_def eff info_id_queries)
  have "w_fault v5 = w_fault v4" unfolding v5_def by (rule groupname.info_query_fault[OF len(2) short_entry(3)[OF sh(3)]])
  also have "\<dots> = w_fault v3" unfolding v4_def by (rule userinfo.info_query_fault[OF len(1) short_entry(2)[OF sh(2)]])
  also have "\<dots> = w_fault v2" unfolding v3_def by (rule homedir.info_query_fault[OF _ short_entry(1)[OF sh(1)]]) simp
  also have "\<dots> = w_fault w" by (simp add: v2_def v1_def v0_def info_id_queries)
  finally show "w_fault (user_report user w) = w_fault w" by (simp add: r)
qed

text \<open>
  C39. The user and group program reports the user of its environment. With memory for its name it ends
  with status 1 if the environment names no user, and otherwise with status 0, whatever the
  databases answer: it asks for the user's ids and then for home directory, additional entries
  and group name of exactly those ids, also when an id was not found and is the error value. If
  every entry leaves room for a NUL in the buffer of 254 characters, which the program does not
  clear, it reads no memory outside that buffer.
\<close>
theorem user_group_program:
  assumes "rv (answer w (name_call a)) \<noteq> 0"
  shows "\<exists>u w'. user_group_main b (a # as) w = Some (Inl (Exited (if rv (answer u (Proc (Getenv ''USER''))) = 0 then EXIT_FAILURE else EXIT_SUCCESS)), w') \<and>
    w_os u = w_os w \<and>
    (if rv (answer u (Proc (Getenv ''USER''))) = 0 then db_events w' = db_events w
     else (\<exists>es. db_events w' = db_events w @ es \<and> report_queries (rstr (answer u (Proc (Getenv ''USER'')))) es)) \<and>
    (short_entries (w_os w) \<longrightarrow> w_fault w' = w_fault w)"
proof -
  let ?v = "snd (sys (name_call a) w)" let ?u = "show_some_infos b ?v" let ?g = "snd (sys (Proc (Getenv ''USER'')) ?u)"
  have nm: "program_name (a # as) w = Some (Inr (c_str (after_last_slash a)), ?v)"
    using program_name_ok[of "a # as" a w] assms by (simp add: name_call_def arg0_def)
  have u: "only (\<lambda>c. \<not> is_db c) ?v ?u" by (auto intro!: only_intros)
  have ev: "db_events ?g = db_events w"
  proof -
    have "db_events ?u = db_events ?v" using u by (auto simp: only_def filter_empty_conv)
    then show ?thesis by (simp add: sys_simps) (simp add: name_call_def sys_simps)
  qed
  have os: "w_os ?u = w_os w" "w_os ?g = w_os w" "w_fault ?g = w_fault w"
    using u by (simp_all add: only_def sys_simps)
  show ?thesis
  proof (cases "rv (answer ?u (Proc (Getenv ''USER''))) = 0")
    case True
    then show ?thesis
      using os ev by (intro exI[of _ ?u] exI[of _ "error_common True 0 LOG_ERR ''could not get user name from environment'' [] ?g"]) (simp add: user_group_main_def nm getenv_def split_def Let_def sys_simps leave_with_def baa_error_exit_def leave_def
          quiet_io[OF error_common_quiet] quiet_fields(2)[OF error_common_quiet])
  next
    case False
    let ?r = "rstr (answer ?u (Proc (Getenv ''USER'')))"
    have "user_group_main b (a # as) w = Some (Inl (Exited EXIT_SUCCESS), user_report ?r ?g)"
      using False by (simp add: user_group_main_def nm getenv_def split_def Let_def sys_simps leave_def)
    with False show ?thesis
      using os user_report_effect(1)[of ?r ?g] user_report_effect(2)[of ?g ?r] unfolding ev by (intro exI[of _ ?u] exI[of _ "user_report ?r ?g"]) simp
  qed
qed

theorem user_group_program_witness:
  "\<exists>w'. user_group_main \<lparr>PACKAGE_STRING = ''libbaalue'', PACKAGE_VERSION = ''1''\<rparr> [''./user_group_info''] (init_world (\<lambda>n c. (user_db n c)\<lparr>rstr := ''baalue''\<rparr>)) =
      Some (Inl (Exited EXIT_SUCCESS), w') \<and> w_fault w' = None \<and> (\<exists>es. db_events w' = es \<and> report_queries ''baalue'' es)"
proof -
  let ?w = "init_world (\<lambda>n c. (user_db n c)\<lparr>rstr := ''baalue''\<rparr>)"
  have "rv (answer ?w (name_call ''./user_group_info'')) \<noteq> 0" by (simp add: answer_def user_db_def)
  moreover have "short_entries (w_os ?w)" by (simp add: short_entries_def user_db_def BAA_MAXLINE_def)
  ultimately show ?thesis
    using user_group_program[of ?w "''./user_group_info''" "\<lparr>PACKAGE_STRING = ''libbaalue'', PACKAGE_VERSION = ''1''\<rparr>" "[]"]
    by (auto simp: answer_def user_db_def)
qed

end
