(* ===== verification/Spec2Isabelle.thy ===== *)
theory Spec2Isabelle
  imports Baa_Can_Session Baa_Sched_Daemon Baa_Sched_Clients Baa_Barrier Baa_Net_Servers Baa_Pid_File Baa_Info_Programs
begin

text \<open>
  \<^bold>\<open>libbaalue: a verification of the library and of its programs.\<close>

  libbaalue is a C library of small layers around system calls (\<open>src/src\<close>), with programs that
  use it (\<open>src/examples\<close>). Its core is a time-triggered scheduler for periodic functions
  (fibers), a server that sets scheduling properties for clients without privileges, a byte
  serialiser for its messages, a remote device management, sockets, CAN sockets, messages,
  and helpers for daemons. The programs combine them: a schedule table is built, checked,
  configured (directly or through the server) and started; telegrams are sent and received on
  a CAN bus; a device is pinged or rebooted over the network; the time of day is asked for.

  \<^bold>\<open>The model.\<close> The state is the record \<open>world\<close> of \<open>Baa_OS\<close>: the trace of the calls a process
  made with the reply to each, \<open>errno\<close>, and the static variables of the library. The kernel, the
  C library's databases and the network are the parameter \<open>w_os\<close>, the reply to the n-th call;
  a theorem that needs documented behaviour of a call has it as a hypothesis on \<open>w_os\<close>. Functions
  pass the state explicitly. Undefined behaviour of C sets the sticky flag \<open>w_fault\<close>. Integers have
  the widths of the LP64 ABI and wrap, memory is little endian where a struct is accessed
  through pointers of another type, and the build is the one without \<open>__DEBUG__\<close>; \<open>gettext\<close> is the
  identity. Loops that end are recursive functions. A loop that repeats an interrupted call or waits for
  an acknowledgement is a \<open>partial_function (option)\<close> whose value \<open>None\<close> means that it does not
  return. An endless loop of a thread is its body repeated n times; theorems hold for every n. A
  program is a function to \<open>'a part\<close> of \<open>Baa_Program\<close>: \<open>None\<close> when it does not return, \<open>Inl\<close> with the
  way the process ended, \<open>Inr\<close> with a value for what follows. The start of the
  fibers, where threads share a condition variable, is the step relation of \<open>Baa_Barrier\<close>; where two
  processes talk to each other, a theorem takes what one of them sent as what the other receives, and
  the requests of several clients as any interleaving of what each of them sent.

  \<^bold>\<open>The theories of the library.\<close>
  \<^item> \<open>Baa_Prelude\<close>: types, lemmas on lists and words, named collections. \<open>Baa_OS\<close>: calls, replies, the
    process state, the locale \<open>diagnostic\<close> of operations that only write messages.
    \<open>Baa_Descriptors\<close>: descriptors opened and closed in a trace, the locale \<open>fd_loop\<close>.
  \<^item> \<open>Baa_Error\<close> (\<open>error.c\<close>): the message routine writes one line, cut to its buffer, and never writes
    outside it.
  \<^item> \<open>Baa_Wrapper\<close> (\<open>wrapper.c\<close>), \<open>Baa_Shmem\<close> (\<open>sh_mem.c\<close>): calls that are repeated when interrupted,
    through the locale \<open>eintr_retry\<close>; a shared memory handle is never obtained.
  \<^item> \<open>Baa_Serialize\<close> (\<open>serialize.c\<close>): round trip for all formats over the locale \<open>codec\<close>, bounds, unknown
    letters.
  \<^item> \<open>Baa_Process\<close> (\<open>process.c\<close> and \<open>baa_ts_norm\<close>): queries, reports, normalised times and their
    order.
  \<^item> \<open>Baa_Fiber\<close> (\<open>fiber.c\<close>): fibers without drift, whose function group (a function pointer in the
    code) is an argument, building, configuring and starting, the configuration check against its
    specification. \<open>Baa_Barrier\<close>: the start condition as a system of threads, its invariant, its termination, and the run that loses the start.
  \<^item> \<open>Baa_Protocol\<close> (macros of the headers), \<open>Baa_Sched_Server\<close> (\<open>fiber.c\<close>), \<open>Baa_Device_Mgmt\<close>
    (\<open>device_mgmt.c\<close>): servers over the locale \<open>ack_server\<close>; client and server together do what the
    direct call does. \<open>Baa_Sched_Clients\<close>: two clients of one server, in any interleaving.
  \<^item> \<open>Baa_Helper\<close> (\<open>helper.c\<close>), \<open>Baa_Network\<close> (\<open>network.c\<close>), \<open>Baa_Can\<close> (\<open>can_lin.c\<close>), \<open>Baa_User_Group\<close>
    (\<open>user.c\<close>, \<open>group.c\<close>): resources of every path accounted for, buffers respected, lines read.
    \<open>Baa_Pid_File\<close>: the line reader reads back what was written to a pid file.

  \<^bold>\<open>The theories of the programs.\<close>
  \<^item> \<open>Baa_Program\<close>: parts of a program and their rules, \<open>getopt\<close>, the start of a program, its signal
    thread; the locales \<open>exit_handler\<close> and \<open>returning_handler\<close> for what a program does at its end.
  \<^item> \<open>Baa_Can_Programs\<close> (\<open>can_send.c\<close>, \<open>can_recv.c\<close>): the command line of the sender determines the
    telegrams on the bus; frames are read in bounds. \<open>Baa_Can_Session\<close>: sender and receiver together.
  \<^item> \<open>Baa_Sched_Programs\<close>, \<open>Baa_Sched_Daemon\<close> (\<open>time_triggert_simple.c\<close>, \<open>time_triggert_uds.c\<close>,
    \<open>time_triggert_uds_server.c\<close>): the order of create, configure, start and join on every run; the
    server serves only after its socket file was published; the client's table is always refused.
  \<^item> \<open>Baa_Mgmt_Programs\<close> (\<open>udp_mgmt_ping_client.c\<close>, \<open>udp_mgmt_reboot_client.c\<close>, \<open>udp_mgmt_server.c\<close>):
    status 0 means that the device answered.
  \<^item> \<open>Baa_Daytime_Programs\<close> (\<open>inet_daytime_client.c\<close>, \<open>inet_daytime_server.c\<close>): the client shows the
    server's time. \<open>Baa_Net_Servers\<close>: the two network servers start their thread only on a socket
    that is ready. \<open>Baa_Info_Programs\<close> (\<open>user_group_info.c\<close>, \<open>lcd1602.c\<close>): the report of the user.
  \<^item> This theory: the schedule table of a program together with the fibers that run it.

  \<^bold>\<open>What the proofs found.\<close> The lemmas \<open>lost_wakeup\<close>, \<open>spurious_start\<close>, \<open>empty_datagram_is_request\<close>,
  \<open>shmem_never_succeeds\<close>, \<open>pid_file_open_hangs\<close>, \<open>read_line_eof_duplicates\<close>,
  \<open>name_queries_size_zero\<close>, \<open>uds_stream_client_target\<close>, \<open>flist_many_overflows\<close>,
  \<open>can_recv_filters_overrun\<close>, \<open>daytime_client_empty_answer\<close>, \<open>reconnect_keeps_sockets\<close> and
  \<open>uds_client_never_starts\<close> show behaviour that the code does not intend.

  \<^bold>\<open>Not modelled.\<close> \<open>sh_mq.c\<close>, \<open>datatypes.c\<close>, \<open>lcd160x.c\<close> and the headers beside them hold only includes.
  \<open>gettext.h\<close> is vendored. Of \<open>libbaalue.h\<close> the includes and prototypes have no counterpart, and the
  constants that no code uses are left out. Messages printed only under \<open>__DEBUG__\<close> are left
  out. The memory between a delimiter and the next NUL in \<open>baa_set_flist\<close> is an argument, as are the thread ids that fibers store while the
  main thread runs.
\<close>

section \<open>A schedule table and its fibers\<close>

text \<open>The times for which the calls of a run sleep, and the seconds read from the clock.\<close>

fun wakeups :: "event list \<Rightarrow> timespec list" where
  "wakeups [] = []"
| "wakeups ((Sched (Clock_nanosleep t), r) # es) = t # wakeups es"
| "wakeups (e # es) = wakeups es"

fun clock_secs :: "event list \<Rightarrow> int list" where
  "clock_secs [] = []"
| "clock_secs ((Sched Clock_gettime, r) # es) = tv_sec (rtime r) # clock_secs es"
| "clock_secs (e # es) = clock_secs es"

lemma wakeups_append [simp]: "wakeups (xs @ ys) = wakeups xs @ wakeups ys"
  by (induction xs rule: wakeups.induct) simp_all

lemma clock_secs_append [simp]: "clock_secs (xs @ ys) = clock_secs xs @ clock_secs ys"
  by (induction xs rule: clock_secs.induct) simp_all

text \<open>A function group that only prints does not show in the calls of its thread.\<close>

lemma quiet_activations:
  assumes "\<And>u. quiet u (func u)"
  shows "\<exists>l. io (fold (\<lambda>k w. func (sleep_until (t k) w)) ks w) = io w @ l \<and> wakeups l = map t ks \<and> clock_secs l = []"
proof (induction ks arbitrary: w)
  case (Cons k ks)
  let ?v = "func (sleep_until (t k) w)"
  obtain r where "io ?v = io w @ [(Sched (Clock_nanosleep (t k)), r)]"
    using sleep_until_io[of "t k" w] quiet_io[OF assms, of "sleep_until (t k) w"] by auto
  moreover obtain l where "io (fold (\<lambda>k w. func (sleep_until (t k) w)) ks ?v) = io ?v @ l" "wakeups l = map t ks" "clock_secs l = []"
    using Cons.IH by blast
  ultimately show ?case by (intro exI[of _ "(Sched (Clock_nanosleep (t k)), r) # l"]) simp
qed simp

text \<open>The thread of fiber \<open>i\<close> of the simple program, up to its n-th activation.\<close>

definition simple_thread :: "nat \<Rightarrow> nat \<Rightarrow> world \<Rightarrow> world" where
  "simple_thread i n w = snd (baa_fiber n (simple_funcs ! i) (simple_table ! i) w)"

lemma simple_functions_quiet: "quiet u (simple_fiber_0 u)" "quiet u (simple_fiber_1 u)"
  unfolding simple_fiber_0_def simple_fiber_1_def simple_function_def BAA_PRINT_LOCATION_def
  by (blast intro: quiet_trans info_msg.msg_quiet)+

lemma simple_periods: "sint (dt (simple_table ! 0)) = 10000000" "sint (dt (simple_table ! 1)) = 100000000"
  by (simp_all add: simple_table_def fiber_def MS_TO_NS_def)

lemma simple_thread_wakeups:
  assumes "i < 2" "io (simple_thread i n w) = io w @ es"
  shows "\<exists>s. clock_secs es = [s] \<and> wakeups es = map (\<lambda>k. ns_time (s + 1) (int k * sint (dt (simple_table ! i)))) [0..<n]"
proof -
  have i: "i = 0 \<or> i = 1" using assms(1) by auto
  then have q: "quiet u ((simple_funcs ! i) u)" for u by (auto simp: simple_funcs_def simple_functions_quiet)
  have d: "0 \<le> sint (dt (simple_table ! i))" using i simple_periods by auto
  obtain s v where v: "started w s v" "simple_thread i n w =
      fold (\<lambda>k w. (simple_funcs ! i) (sleep_until (ns_time (s + 1) (int k * sint (dt (simple_table ! i)))) w)) [0..<n] v"
    using baa_fiber_run[OF d, of w n "simple_funcs ! i"] unfolding simple_thread_def by blast
  then show ?thesis
    using quiet_activations[OF q, where t = "\<lambda>k. ns_time (s + 1) (int k * sint (dt (simple_table ! i)))" and w = v and ks = "[0..<n]"] assms(2)
    by (auto simp: started_def)
qed


text \<open>Every thread of a process whose clock stands still reads the same second.\<close>

definition still_world :: world where
  "still_world = init_world (\<lambda>_ _. reply_of 0)"

lemma still_clock: "i < 2 \<Longrightarrow> clock_secs (io (simple_thread i n still_world)) = [0]"
proof -
  assume i: "i < 2"
  let ?p = "fiber_prologue (simple_table ! i) still_world"
  have p: "clock_secs (io (snd ?p)) = [0]"
    by (auto simp: still_world_def fiber_prologue_def heap_prefault_def split_def Let_def sys_simps answer_def reply_of_def)
  have q: "quiet u ((simple_funcs ! i) u)" for u
    using i by (auto simp: simple_funcs_def simple_functions_quiet less_2_cases_iff)
  have d: "0 \<le> sint (dt (simple_table ! i))" using i simple_periods by (auto simp: less_2_cases_iff)
  obtain t where "fe_t (fst ?p) = ns_time t 0" "dt (fst ?p) = dt (simple_table ! i)"
    using fiber_prologue_io by metis
  then have "simple_thread i n still_world =
      fold (\<lambda>k w. (simple_funcs ! i) (sleep_until (ns_time t (int k * sint (dt (simple_table ! i)))) w)) [0..<n] (snd ?p)"
    using fiber_run_activations[of "fst ?p" t 0 n "simple_funcs ! i" "snd ?p"] d
    by (simp add: simple_thread_def baa_fiber_def split_def Let_def)
  with p quiet_activations[OF q, where t = "\<lambda>k. ns_time t (int k * sint (dt (simple_table ! i)))" and w = "snd ?p" and ks = "[0..<n]"]
  show ?thesis by auto
qed


end
